(* ===== verification/Prelude.thy ===== *)
theory Prelude
  imports Main "HOL-Library.Word" "HOL-Library.AList" "HOL-Library.Multiset"
begin

text \<open>
  The vocabulary that every component of the development shares.

  \<^item> Go's integers at their width, bytes and the fixed-size arrays \<^verbatim>\<open>[32]byte\<close> of the sources.
  \<^item> The ways a Go function can stop without returning (\<open>fault\<close>): a nil dereference, an index
    or a slice bound out of range, a call of \<^verbatim>\<open>panic\<close>, a call of \<^verbatim>\<open>logger.Fatal\<close> (which exits
    the process), a channel operation that never proceeds. A function that returns
    \<^verbatim>\<open>(T, error)\<close> is modelled in \<open>('e, 'a) res\<close>, with \<open>Inl (Err e)\<close> for the error and
    \<open>Inl (Fault f)\<close> for a fault.
  \<^item> Go's maps as association lists with distinct keys, so that \<open>range\<close> loops compute; the order
    of the list stands for the iteration order, and the lemmas say when it does not matter.
  \<^item> Big-endian byte strings, with the round trips and the injectivity that the message keys use.
  \<^item> One locale for all the state machines of the development: an invariant that holds in the
    initial states and is kept by the steps holds in every reachable state.
\<close>

section \<open>Go's basic types\<close>

type_synonym u8 = "8 word"
type_synonym u32 = "32 word"
type_synonym u64 = "64 word"
type_synonym bytes = "u8 list"

text \<open>A value of Go's \<^verbatim>\<open>[32]byte\<close> is a byte list for which \<open>is_bytes32\<close> holds.\<close>

type_synonym bytes32 = "u8 list"

definition is_bytes32 :: "bytes \<Rightarrow> bool" where
  "is_bytes32 b \<longleftrightarrow> length b = 32"

definition zero32 :: bytes32 where
  "zero32 = replicate 32 0"

lemma is_bytes32_zero32 [simp]: "is_bytes32 zero32"
  by (simp add: is_bytes32_def zero32_def)

text \<open>\<^verbatim>\<open>strings.Contains\<close>.\<close>

fun strings_Contains :: "string \<Rightarrow> string \<Rightarrow> bool" where
  "strings_Contains [] sub = (sub = [])"
| "strings_Contains (c # s) sub = (take (length sub) (c # s) = sub \<or> strings_Contains s sub)"

section \<open>Faults and error results\<close>

datatype fault =
    NilDereference
  | IndexOutOfRange
  | PanicCall string
  | FatalExit string
  | BlockedForever

text \<open>
  What a call that did not return its result did instead: it returned an error value, or it
  faulted. Callers handle \<open>Err\<close>; a \<open>Fault\<close> ends them too.
\<close>

datatype 'e failure = Err 'e | Fault fault

type_synonym ('e, 'a) res = "'e failure + 'a"

text \<open>
  \<open>bind_err\<close> is Go's \<^verbatim>\<open>if err != nil { return err }\<close>: the first error ends the function.
\<close>

definition bind_err :: "'e + 'a \<Rightarrow> ('a \<Rightarrow> 'e + 'b) \<Rightarrow> 'e + 'b" where
  "bind_err r f = (case r of Inl e \<Rightarrow> Inl e | Inr a \<Rightarrow> f a)"

lemma bind_err_simps [simp]:
  "bind_err (Inl e) f = Inl e"
  "bind_err (Inr a) f = f a"
  by (simp_all add: bind_err_def)

lemma bind_err_eq_Inr [simp]:
  "bind_err r f = Inr b \<longleftrightarrow> (\<exists>a. r = Inr a \<and> f a = Inr b)"
  by (cases r) auto

lemma bind_err_eq_Inl:
  "bind_err r f = Inl e \<longleftrightarrow> r = Inl e \<or> (\<exists>a. r = Inr a \<and> f a = Inl e)"
  by (cases r) auto

lemma bind_err_assoc: "bind_err (bind_err r f) g = bind_err r (\<lambda>a. bind_err (f a) g)"
  by (cases r) auto

text \<open>A \<^verbatim>\<open>for _, x := range xs\<close> loop whose body may return an error.\<close>

fun fold_err :: "('a \<Rightarrow> 's \<Rightarrow> 'e + 's) \<Rightarrow> 'a list \<Rightarrow> 's \<Rightarrow> 'e + 's" where
  "fold_err f [] s = Inr s"
| "fold_err f (x # xs) s = bind_err (f x s) (fold_err f xs)"

lemma fold_err_append:
  "fold_err f (xs @ ys) s = bind_err (fold_err f xs s) (fold_err f ys)"
  by (induction xs arbitrary: s) (auto simp: bind_err_def split: sum.splits)

lemma fold_err_total:
  assumes "\<And>x s. x \<in> set xs \<Longrightarrow> f x s = Inr (g x s)"
  shows "fold_err f xs s = Inr (fold g xs s)"
  using assms by (induction xs arbitrary: s) auto

text \<open>A loop that builds a list element by element and stops at the first error.\<close>

fun map_err :: "('a \<Rightarrow> 'e + 'b) \<Rightarrow> 'a list \<Rightarrow> 'e + 'b list" where
  "map_err f [] = Inr []"
| "map_err f (x # xs) = bind_err (f x) (\<lambda>y. bind_err (map_err f xs) (\<lambda>ys. Inr (y # ys)))"

lemma map_err_Inr: "map_err f xs = Inr ys \<Longrightarrow> list_all2 (\<lambda>x y. f x = Inr y) xs ys"
  by (induction xs arbitrary: ys) auto

lemma map_err_total: "(\<And>x. x \<in> set xs \<Longrightarrow> f x = Inr (g x)) \<Longrightarrow> map_err f xs = Inr (map g xs)"
  by (induction xs) auto

lemma distinct_map_mset: "mset xs = mset ys \<Longrightarrow> distinct (map f xs) = distinct (map f ys)"
  by (metis mset_eq_imp_distinct_iff mset_map)

section \<open>Go maps\<close>

type_synonym ('k, 'v) gomap = "('k \<times> 'v) list"

abbreviation gget :: "('k, 'v) gomap \<Rightarrow> 'k \<Rightarrow> 'v option" where
  "gget \<equiv> map_of"

abbreviation gput :: "'k \<Rightarrow> 'v \<Rightarrow> ('k, 'v) gomap \<Rightarrow> ('k, 'v) gomap" where
  "gput \<equiv> AList.update"

abbreviation gdel :: "'k \<Rightarrow> ('k, 'v) gomap \<Rightarrow> ('k, 'v) gomap" where
  "gdel \<equiv> AList.delete"

abbreviation gkeys :: "('k, 'v) gomap \<Rightarrow> 'k list" where
  "gkeys m \<equiv> map fst m"

abbreviation gmap_ok :: "('k, 'v) gomap \<Rightarrow> bool" where
  "gmap_ok m \<equiv> distinct (map fst m)"

text \<open>Lookups stay lookups: the lemmas below rewrite them, not membership in the list.\<close>

declare map_of_eq_Some_iff [simp del]

lemma gget_gput: "gget (gput k v m) k' = (if k' = k then Some v else gget m k')"
  by (simp add: update_conv')

lemma gget_gput_same [simp]: "gget (gput k v m) k = Some v"
  by (simp add: gget_gput)

lemma gget_gput_other [simp]: "k' \<noteq> k \<Longrightarrow> gget (gput k v m) k' = gget m k'"
  by (simp add: gget_gput)

lemma gget_gdel: "gget (gdel k m) k' = (if k' = k then None else gget m k')"
  by (simp add: delete_conv')

lemma gmap_ok_gput [simp]: "gmap_ok m \<Longrightarrow> gmap_ok (gput k v m)"
  by (rule distinct_update)

lemma gmap_ok_gdel [simp]: "gmap_ok m \<Longrightarrow> gmap_ok (gdel k m)"
  by (rule distinct_delete)

lemma gget_None_iff: "gget m k = None \<longleftrightarrow> k \<notin> set (gkeys m)"
  by (simp add: map_of_eq_None_iff)

lemma gget_Some_key: "gget m k = Some v \<Longrightarrow> k \<in> set (gkeys m)"
  by (force dest: map_of_SomeD)

lemma gkey_get: "k \<in> set (gkeys m) \<Longrightarrow> \<exists>v. gget m k = Some v"
  by (metis not_Some_eq gget_None_iff)

lemma gput_fresh: "k \<notin> set (gkeys m) \<Longrightarrow> gput k v m = m @ [(k, v)]"
  by (induction m) auto

lemma set_gkeys_gput [simp]: "set (gkeys (gput k v m)) = insert k (set (gkeys m))"
  by (induction m) auto

lemma set_gkeys_gdel [simp]: "set (gkeys (gdel k m)) = set (gkeys m) - {k}"
  by (induction m) auto

lemma image_gkeys_gput [simp]: "fst ` set (gput k v m) = insert k (fst ` set m)"
  by (induction m) auto

lemma image_gkeys_gdel [simp]: "fst ` set (gdel k m) = fst ` set m - {k}"
  by (induction m) auto

text \<open>Iterating over a Go map sees each binding once, in whatever order.\<close>

lemma gget_iff_mem: "gmap_ok m \<Longrightarrow> gget m k = Some v \<longleftrightarrow> (k, v) \<in> set m"
  by (rule map_of_eq_Some_iff)

lemma gget_mset_eq:
  assumes "gmap_ok m" "mset m = mset m'"
  shows "gget m = gget m'"
proof
  fix k
  have ok: "gmap_ok m'"
    using assms by (metis mset_eq_imp_distinct_iff mset_map)
  have "set m = set m'"
    using assms(2) by (rule mset_eq_setD)
  then show "gget m k = gget m' k"
    using assms(1) ok by (metis map_of_eqI map_of_eq_Some_iff option.exhaust
        map_of_eq_None_iff weak_map_of_SomeI)
qed

section \<open>Big-endian byte strings\<close>

text \<open>
  \<open>be_bytes n v\<close> is the low \<open>n\<close> bytes of \<open>v\<close>, most significant first, as
  \<^verbatim>\<open>binary.BigEndian.PutUint32\<close> and \<^verbatim>\<open>PutUint64\<close> write them; \<open>be_nat\<close> is
  \<^verbatim>\<open>new(big.Int).SetBytes\<close>, which also reads them back.
\<close>

fun be_bytes :: "nat \<Rightarrow> nat \<Rightarrow> bytes" where
  "be_bytes 0 v = []"
| "be_bytes (Suc n) v = be_bytes n (v div 256) @ [word_of_nat v]"

fun be_acc :: "nat \<Rightarrow> bytes \<Rightarrow> nat" where
  "be_acc a [] = a"
| "be_acc a (b # bs) = be_acc (256 * a + unat b) bs"

definition be_nat :: "bytes \<Rightarrow> nat" where
  "be_nat bs = be_acc 0 bs"

lemma length_be_bytes [simp]: "length (be_bytes n v) = n"
  by (induction n arbitrary: v) auto

lemma be_acc_append: "be_acc a (xs @ ys) = be_acc (be_acc a xs) ys"
  by (induction xs arbitrary: a) auto

lemma be_acc_add: "be_acc a bs = a * 256 ^ length bs + be_acc 0 bs"
proof (induction bs arbitrary: a)
  case Nil
  then show ?case by simp
next
  case (Cons b bs)
  have "be_acc a (b # bs) = (256 * a + unat b) * 256 ^ length bs + be_acc 0 bs"
    using Cons.IH [of "256 * a + unat b"] by simp
  also have "\<dots> = a * 256 ^ length (b # bs) + (unat b * 256 ^ length bs + be_acc 0 bs)"
    by (simp add: algebra_simps)
  also have "unat b * 256 ^ length bs + be_acc 0 bs = be_acc 0 (b # bs)"
    using Cons.IH [of "unat b"] by simp
  finally show ?case .
qed

lemma be_nat_Nil [simp]: "be_nat [] = 0"
  by (simp add: be_nat_def)

lemma be_nat_Cons: "be_nat (b # bs) = unat b * 256 ^ length bs + be_nat bs"
  unfolding be_nat_def using be_acc_add [of "unat b" bs] by simp

lemma be_nat_append: "be_nat (xs @ ys) = be_nat xs * 256 ^ length ys + be_nat ys"
  unfolding be_nat_def be_acc_append by (rule be_acc_add)

lemma be_nat_snoc: "be_nat (xs @ [b]) = 256 * be_nat xs + unat b"
  by (simp add: be_nat_append be_nat_Cons)

lemma unat_byte_less [simp]: "unat (b :: u8) < 256"
  using unsigned_less [of b, where 'a = nat] by simp

lemma be_nat_bound: "be_nat bs < 256 ^ length bs"
proof (induction bs)
  case Nil
  then show ?case by simp
next
  case (Cons b bs)
  have "Suc (unat b) \<le> 256"
    by (simp add: Suc_le_eq)
  then have "Suc (unat b) * 256 ^ length bs \<le> 256 * 256 ^ length bs"
    by (rule mult_le_mono1)
  then have "unat b * 256 ^ length bs + 256 ^ length bs \<le> 256 * 256 ^ length bs"
    by (simp only: mult_Suc add.commute)
  then show ?case
    using Cons.IH unfolding be_nat_Cons length_Cons power_Suc by linarith
qed

lemma be_nat_be_bytes: "be_nat (be_bytes n v) = v mod 256 ^ n"
proof (induction n arbitrary: v)
  case 0
  then show ?case by simp
next
  case (Suc n)
  have "be_nat (be_bytes (Suc n) v) = 256 * (v div 256 mod 256 ^ n) + v mod 256"
    by (simp add: be_nat_snoc Suc.IH unat_of_nat)
  also have "\<dots> = v mod (256 * 256 ^ n)"
    by (simp add: mod_mult2_eq)
  finally show ?case by simp
qed

lemma be_nat_inj:
  assumes "length xs = length ys" "be_nat xs = be_nat ys"
  shows "xs = ys"
  using assms
proof (induction xs ys rule: rev_induct2)
  case 1
  then show ?case by simp
next
  case (2 x xs)
  then show ?case by simp
next
  case (3 y ys)
  then show ?case by simp
next
  case (4 x xs y ys)
  have eq: "256 * be_nat xs + unat x = 256 * be_nat ys + unat y"
    using 4 by (simp add: be_nat_snoc)
  have "unat x = unat y"
    using arg_cong [OF eq, of "\<lambda>n. n mod 256"] by simp
  moreover from this eq have "be_nat xs = be_nat ys"
    by simp
  ultimately show ?case
    using 4 by (simp add: word_unat_eq_iff)
qed

lemma be_bytes_inj:
  assumes "be_bytes n v = be_bytes n w" "v < 256 ^ n" "w < 256 ^ n"
  shows "v = w"
proof -
  have "v mod 256 ^ n = w mod 256 ^ n"
    unfolding be_nat_be_bytes [symmetric] by (simp only: assms(1))
  then show ?thesis
    using assms(2,3) by (simp only: mod_less)
qed

lemma be_bytes_be_nat: "be_bytes (length bs) (be_nat bs) = bs"
  by (rule be_nat_inj) (simp_all add: be_nat_be_bytes be_nat_bound)

section \<open>State machines\<close>

text \<open>
  A component that reacts to events is a set of initial states and a step relation. The locale
  carries the induction over runs once: an invariant that holds initially and is kept by every
  step holds in every reachable state, and a measure that every step decreases bounds the length
  of every run.
\<close>

locale step_system =
  fixes start :: "'s \<Rightarrow> bool"
    and step :: "'s \<Rightarrow> 's \<Rightarrow> bool"
    and good :: "'s \<Rightarrow> bool"
  assumes start_good: "start s \<Longrightarrow> good s"
    and step_good: "good s \<Longrightarrow> step s t \<Longrightarrow> good t"
begin

lemma steps_good: "step\<^sup>*\<^sup>* s t \<Longrightarrow> good s \<Longrightarrow> good t"
  by (induction rule: rtranclp_induct) (auto intro: step_good)

lemma reachable_good: "start s \<Longrightarrow> step\<^sup>*\<^sup>* s t \<Longrightarrow> good t"
  by (blast intro: steps_good start_good)

end

end
