(* ===== verification/Messages.thy ===== *)
theory Messages
  imports Prelude
begin

text \<open>
  The messages that operators sign and the aggregator aggregates: \<^verbatim>\<open>core/types/fields.go\<close>,
  \<^verbatim>\<open>core/utils.go\<close> and \<^verbatim>\<open>core/types/messages/\<close>. For each of the three message types the theory
  has its record, validity check, conversion to and from the contract binding, ABI encoding, digest
  and 32-byte key.

  Third-party code is a parameter. \<open>abiPack\<close> is go-ethereum's \<^verbatim>\<open>abi.Arguments.Pack\<close>, and
  \<open>legacyKeccak256\<close> is the hash of \<^verbatim>\<open>golang.org/x/crypto/sha3\<close>; both are fields of the record
  \<open>codec\<close>. The BLS library of eigensdk is the record \<open>bls_lib\<close>. A pointer that the code may find
  nil is an \<open>option\<close>.
\<close>

section \<open>Curve points and the third-party parameters\<close>

text \<open>
  A \<^verbatim>\<open>bls.G1Point\<close> is read through \<^verbatim>\<open>X.BigInt\<close> and \<^verbatim>\<open>Y.BigInt\<close>, a \<^verbatim>\<open>bls.G2Point\<close> through its four
  coordinates; a \<^verbatim>\<open>bls.Signature\<close> is a struct that embeds a pointer to a G1 point.
\<close>

record G1Point =
  g1_X :: int
  g1_Y :: int

record G2Point =
  g2_X_A0 :: int
  g2_X_A1 :: int
  g2_Y_A0 :: int
  g2_Y_A1 :: int

type_synonym Signature = "G1Point option"
type_synonym OperatorId = bytes32
type_synonym MessageDigest = bytes32
type_synonym MessageKey = bytes32

record bls_lib =
  NewG1Point :: "int \<Rightarrow> int \<Rightarrow> G1Point"
  NewG2Point :: "int \<times> int \<Rightarrow> int \<times> int \<Rightarrow> G2Point"
  ZeroG2Point :: G2Point
  G2Add :: "G2Point \<Rightarrow> G2Point \<Rightarrow> G2Point"
  SigAdd :: "Signature \<Rightarrow> Signature \<Rightarrow> Signature"
  SigVerify :: "Signature \<Rightarrow> G2Point \<Rightarrow> MessageDigest \<Rightarrow> string + bool"
  OperatorIdFromG1Pubkey :: "G1Point \<Rightarrow> OperatorId"

text \<open>The arguments of \<^verbatim>\<open>Pack\<close>: a \<^verbatim>\<open>*big.Int\<close> argument may be nil.\<close>

datatype abi_value =
    AbiUint nat "int option"
  | AbiBytes32 bytes32
  | AbiTuple "abi_value list"
  | AbiArray "abi_value list"

record codec =
  abiPack :: "abi_value list \<Rightarrow> (string, bytes) res"
  legacyKeccak256 :: "bytes \<Rightarrow> bytes"

section \<open>core/utils.go\<close>

definition Keccak256 :: "codec \<Rightarrow> bytes \<Rightarrow> (string, bytes32) res" where
  "Keccak256 cd dat =
     (let s = legacyKeccak256 cd dat
      in if length s < 32 then Inl (Fault IndexOutOfRange) else Inr (take 32 s))"

definition HashMessageWithPrefix :: "codec \<Rightarrow> bytes \<Rightarrow> bytes \<Rightarrow> (string, bytes32) res" where
  "HashMessageWithPrefix cd pre dat =
     bind_err (Keccak256 cd pre) (\<lambda>prefixHash.
     bind_err (Keccak256 cd dat) (\<lambda>dataHash.
     bind_err (abiPack cd [AbiBytes32 prefixHash, AbiBytes32 dataHash]) (\<lambda>bs.
     Keccak256 cd bs)))"

record BN254G1Point =
  bn_X :: int
  bn_Y :: int

record BN254G2Point =
  bn2_X :: "int \<times> int"
  bn2_Y :: "int \<times> int"

fun ConvertToBN254G1Point :: "G1Point option \<Rightarrow> (string, BN254G1Point) res" where
  "ConvertToBN254G1Point None = Inl (Fault NilDereference)"
| "ConvertToBN254G1Point (Some p) = Inr \<lparr>bn_X = g1_X p, bn_Y = g1_Y p\<rparr>"

fun ConvertToBN254G2Point :: "G2Point option \<Rightarrow> (string, BN254G2Point) res" where
  "ConvertToBN254G2Point None = Inl (Fault NilDereference)"
| "ConvertToBN254G2Point (Some p) =
     Inr \<lparr>bn2_X = (g2_X_A1 p, g2_X_A0 p), bn2_Y = (g2_Y_A1 p, g2_Y_A0 p)\<rparr>"

definition HashBNG1Point :: "codec \<Rightarrow> BN254G1Point \<Rightarrow> (string, bytes32) res" where
  "HashBNG1Point cd p =
     bind_err (abiPack cd [AbiTuple [AbiUint 256 (Some (bn_X p)), AbiUint 256 (Some (bn_Y p))]])
       (Keccak256 cd)"

definition ConvertBytesToQuorumNumbers :: "bytes \<Rightarrow> u8 list" where
  "ConvertBytesToQuorumNumbers inp = map (\<lambda>b. b) inp"

text \<open>\<^verbatim>\<open>binary.BigEndian.PutUint32(key[off:off+4], v)\<close> and \<^verbatim>\<open>PutUint64\<close>.\<close>

definition put_at :: "nat \<Rightarrow> bytes \<Rightarrow> bytes \<Rightarrow> bytes" where
  "put_at off src dst = take off dst @ src @ drop (off + length src) dst"

definition PutUint32 :: "nat \<Rightarrow> u32 \<Rightarrow> bytes \<Rightarrow> bytes" where
  "PutUint32 off v = put_at off (be_bytes 4 (unat v))"

definition PutUint64 :: "nat \<Rightarrow> u64 \<Rightarrow> bytes \<Rightarrow> bytes" where
  "PutUint64 off v = put_at off (be_bytes 8 (unat v))"

text \<open>Go's \<^verbatim>\<open>[]byte("...")\<close>.\<close>

definition go_bytes :: "string \<Rightarrow> bytes" where
  "go_bytes s = map of_char s"

section \<open>Checkpoint task responses\<close>

record CheckpointTaskResponse =
  ReferenceTaskIndex :: u32
  StateRootUpdatesRoot :: bytes32
  OperatorSetUpdatesRoot :: bytes32

record SignedCheckpointTaskResponse =
  sctr_TaskResponse :: CheckpointTaskResponse
  sctr_BlsSignature :: Signature
  sctr_OperatorId :: OperatorId

fun SignedCheckpointTaskResponse_IsValid ::
  "SignedCheckpointTaskResponse option \<Rightarrow> (string, unit) res" where
  "SignedCheckpointTaskResponse_IsValid None =
     Inl (Err ''SignedCheckpointTaskResponse is nil'')"
| "SignedCheckpointTaskResponse_IsValid (Some s) =
     (if sctr_BlsSignature s = None then Inl (Err ''BlsSignature.G1Point is nil'') else Inr ())"

record CheckpointTaskResponseBinding =
  ctrb_ReferenceTaskIndex :: u32
  ctrb_StateRootUpdatesRoot :: bytes32
  ctrb_OperatorSetUpdatesRoot :: bytes32

definition CheckpointTaskResponse_ToBinding ::
  "CheckpointTaskResponse \<Rightarrow> CheckpointTaskResponseBinding" where
  "CheckpointTaskResponse_ToBinding m =
     \<lparr>ctrb_ReferenceTaskIndex = ReferenceTaskIndex m,
      ctrb_StateRootUpdatesRoot = StateRootUpdatesRoot m,
      ctrb_OperatorSetUpdatesRoot = OperatorSetUpdatesRoot m\<rparr>"

definition NewCheckpointTaskResponseFromBinding ::
  "CheckpointTaskResponseBinding \<Rightarrow> CheckpointTaskResponse" where
  "NewCheckpointTaskResponseFromBinding b =
     \<lparr>ReferenceTaskIndex = ctrb_ReferenceTaskIndex b,
      StateRootUpdatesRoot = ctrb_StateRootUpdatesRoot b,
      OperatorSetUpdatesRoot = ctrb_OperatorSetUpdatesRoot b\<rparr>"

definition abi_u32 :: "u32 \<Rightarrow> abi_value" where
  "abi_u32 v = AbiUint 32 (Some (uint v))"

definition abi_u64 :: "u64 \<Rightarrow> abi_value" where
  "abi_u64 v = AbiUint 64 (Some (uint v))"

definition abi_ctr :: "CheckpointTaskResponseBinding \<Rightarrow> abi_value" where
  "abi_ctr b =
     AbiTuple [abi_u32 (ctrb_ReferenceTaskIndex b), AbiBytes32 (ctrb_StateRootUpdatesRoot b),
       AbiBytes32 (ctrb_OperatorSetUpdatesRoot b)]"

definition CheckpointTaskResponse_AbiEncode ::
  "codec \<Rightarrow> CheckpointTaskResponse \<Rightarrow> (string, bytes) res" where
  "CheckpointTaskResponse_AbiEncode cd m =
     abiPack cd [abi_ctr (CheckpointTaskResponse_ToBinding m)]"

definition CheckpointTaskResponse_Digest ::
  "codec \<Rightarrow> CheckpointTaskResponse \<Rightarrow> (string, MessageDigest) res" where
  "CheckpointTaskResponse_Digest cd m =
     bind_err (CheckpointTaskResponse_AbiEncode cd m)
       (HashMessageWithPrefix cd (go_bytes ''SFFL::CheckpointTaskResponse''))"

definition CheckpointTaskResponse_Key :: "CheckpointTaskResponse \<Rightarrow> MessageKey" where
  "CheckpointTaskResponse_Key m = PutUint32 28 (ReferenceTaskIndex m) zero32"

definition CheckpointTaskResponseKeyToTaskIndex :: "MessageKey \<Rightarrow> u32" where
  "CheckpointTaskResponseKeyToTaskIndex key = word_of_nat (be_nat (take 4 (drop 28 key)))"

section \<open>State root updates\<close>

record StateRootUpdateMessage =
  sru_RollupId :: u32
  sru_BlockHeight :: u64
  sru_Timestamp :: u64
  sru_NearDaTransactionId :: bytes32
  sru_NearDaCommitment :: bytes32
  sru_StateRoot :: bytes32

record SignedStateRootUpdateMessage =
  ssru_Message :: StateRootUpdateMessage
  ssru_BlsSignature :: Signature
  ssru_OperatorId :: OperatorId

fun SignedStateRootUpdateMessage_IsValid ::
  "SignedStateRootUpdateMessage option \<Rightarrow> (string, unit) res" where
  "SignedStateRootUpdateMessage_IsValid None =
     Inl (Err ''SignedStateRootUpdateMessage is nil'')"
| "SignedStateRootUpdateMessage_IsValid (Some s) =
     (if ssru_BlsSignature s = None then Inl (Err ''BlsSignature.G1Point is nil'') else Inr ())"

record StateRootUpdateMessageBinding =
  srub_RollupId :: u32
  srub_BlockHeight :: u64
  srub_Timestamp :: u64
  srub_NearDaTransactionId :: bytes32
  srub_NearDaCommitment :: bytes32
  srub_StateRoot :: bytes32

definition StateRootUpdateMessage_ToBinding ::
  "StateRootUpdateMessage \<Rightarrow> StateRootUpdateMessageBinding" where
  "StateRootUpdateMessage_ToBinding m =
     \<lparr>srub_RollupId = sru_RollupId m, srub_BlockHeight = sru_BlockHeight m,
      srub_Timestamp = sru_Timestamp m, srub_NearDaTransactionId = sru_NearDaTransactionId m,
      srub_NearDaCommitment = sru_NearDaCommitment m, srub_StateRoot = sru_StateRoot m\<rparr>"

definition NewStateRootUpdateMessageFromBinding ::
  "StateRootUpdateMessageBinding \<Rightarrow> StateRootUpdateMessage" where
  "NewStateRootUpdateMessageFromBinding b =
     \<lparr>sru_RollupId = srub_RollupId b, sru_BlockHeight = srub_BlockHeight b,
      sru_Timestamp = srub_Timestamp b, sru_NearDaTransactionId = srub_NearDaTransactionId b,
      sru_NearDaCommitment = srub_NearDaCommitment b, sru_StateRoot = srub_StateRoot b\<rparr>"

definition abi_sru :: "StateRootUpdateMessageBinding \<Rightarrow> abi_value" where
  "abi_sru b =
     AbiTuple [abi_u32 (srub_RollupId b), abi_u64 (srub_BlockHeight b), abi_u64 (srub_Timestamp b),
       AbiBytes32 (srub_NearDaTransactionId b), AbiBytes32 (srub_NearDaCommitment b),
       AbiBytes32 (srub_StateRoot b)]"

definition StateRootUpdateMessage_AbiEncode ::
  "codec \<Rightarrow> StateRootUpdateMessage \<Rightarrow> (string, bytes) res" where
  "StateRootUpdateMessage_AbiEncode cd m =
     abiPack cd [abi_sru (StateRootUpdateMessage_ToBinding m)]"

definition StateRootUpdateMessage_Digest ::
  "codec \<Rightarrow> StateRootUpdateMessage \<Rightarrow> (string, MessageDigest) res" where
  "StateRootUpdateMessage_Digest cd m =
     bind_err (StateRootUpdateMessage_AbiEncode cd m)
       (HashMessageWithPrefix cd (go_bytes ''SFFL::StateRootUpdateMessage''))"

definition StateRootUpdateMessage_Key :: "StateRootUpdateMessage \<Rightarrow> MessageKey" where
  "StateRootUpdateMessage_Key m =
     PutUint64 24 (sru_BlockHeight m) (PutUint32 20 (sru_RollupId m) zero32)"

definition HasNearDaCommitment :: "StateRootUpdateMessage \<Rightarrow> bool" where
  "HasNearDaCommitment m \<longleftrightarrow>
     sru_NearDaCommitment m \<noteq> zero32 \<and> sru_NearDaTransactionId m \<noteq> zero32"

section \<open>Operator set updates\<close>

record RollupOperator =
  ro_Pubkey :: "G1Point option"
  ro_Weight :: "int option"

record OperatorSetUpdateMessage =
  osu_Id :: u64
  osu_Timestamp :: u64
  osu_Operators :: "RollupOperator list"

record SignedOperatorSetUpdateMessage =
  sosu_Message :: OperatorSetUpdateMessage
  sosu_BlsSignature :: Signature
  sosu_OperatorId :: OperatorId

fun check_operators :: "RollupOperator list \<Rightarrow> (string, unit) res" where
  "check_operators [] = Inr ()"
| "check_operators (op # ops) =
     (if ro_Pubkey op = None then Inl (Err ''Operator.Pubkey is nil'')
      else if ro_Weight op = None then Inl (Err ''Operator.Weight is nil'')
      else check_operators ops)"

fun SignedOperatorSetUpdateMessage_IsValid ::
  "SignedOperatorSetUpdateMessage option \<Rightarrow> (string, unit) res" where
  "SignedOperatorSetUpdateMessage_IsValid None =
     Inl (Err ''SignedOperatorSetUpdateMessage is nil'')"
| "SignedOperatorSetUpdateMessage_IsValid (Some s) =
     (if sosu_BlsSignature s = None then Inl (Err ''BlsSignature.G1Point is nil'')
      else check_operators (osu_Operators (sosu_Message s)))"

record RollupOperatorsOperator =
  roo_Pubkey :: BN254G1Point
  roo_Weight :: "int option"

record OperatorSetUpdateMessageBinding =
  osub_Id :: u64
  osub_Timestamp :: u64
  osub_Operators :: "RollupOperatorsOperator list"

definition operator_from_binding :: "bls_lib \<Rightarrow> RollupOperatorsOperator \<Rightarrow> RollupOperator" where
  "operator_from_binding bl op =
     \<lparr>ro_Pubkey = Some (NewG1Point bl (bn_X (roo_Pubkey op)) (bn_Y (roo_Pubkey op))),
      ro_Weight = roo_Weight op\<rparr>"

definition NewOperatorSetUpdateMessageFromBinding ::
  "bls_lib \<Rightarrow> OperatorSetUpdateMessageBinding \<Rightarrow> OperatorSetUpdateMessage" where
  "NewOperatorSetUpdateMessageFromBinding bl b =
     \<lparr>osu_Id = osub_Id b, osu_Timestamp = osub_Timestamp b,
      osu_Operators = map (operator_from_binding bl) (osub_Operators b)\<rparr>"

definition operator_to_binding :: "RollupOperator \<Rightarrow> (string, RollupOperatorsOperator) res" where
  "operator_to_binding op =
     (case ro_Pubkey op of
        None \<Rightarrow> Inl (Fault NilDereference)
      | Some p \<Rightarrow> Inr \<lparr>roo_Pubkey = \<lparr>bn_X = g1_X p, bn_Y = g1_Y p\<rparr>, roo_Weight = ro_Weight op\<rparr>)"

definition OperatorSetUpdateMessage_ToBinding ::
  "OperatorSetUpdateMessage \<Rightarrow> (string, OperatorSetUpdateMessageBinding) res" where
  "OperatorSetUpdateMessage_ToBinding m =
     bind_err (map_err operator_to_binding (osu_Operators m)) (\<lambda>ops.
       Inr \<lparr>osub_Id = osu_Id m, osub_Timestamp = osu_Timestamp m, osub_Operators = ops\<rparr>)"

definition abi_operator :: "RollupOperatorsOperator \<Rightarrow> abi_value" where
  "abi_operator op =
     AbiTuple [AbiTuple [AbiUint 256 (Some (bn_X (roo_Pubkey op))),
         AbiUint 256 (Some (bn_Y (roo_Pubkey op)))],
       AbiUint 128 (roo_Weight op)]"

definition abi_osu :: "OperatorSetUpdateMessageBinding \<Rightarrow> abi_value" where
  "abi_osu b =
     AbiTuple [abi_u64 (osub_Id b), abi_u64 (osub_Timestamp b),
       AbiArray (map abi_operator (osub_Operators b))]"

definition OperatorSetUpdateMessage_AbiEncode ::
  "codec \<Rightarrow> OperatorSetUpdateMessage \<Rightarrow> (string, bytes) res" where
  "OperatorSetUpdateMessage_AbiEncode cd m =
     bind_err (OperatorSetUpdateMessage_ToBinding m) (\<lambda>b. abiPack cd [abi_osu b])"

definition OperatorSetUpdateMessage_Digest ::
  "codec \<Rightarrow> OperatorSetUpdateMessage \<Rightarrow> (string, MessageDigest) res" where
  "OperatorSetUpdateMessage_Digest cd m =
     bind_err (OperatorSetUpdateMessage_AbiEncode cd m)
       (HashMessageWithPrefix cd (go_bytes ''SFFL::OperatorSetUpdateMessage''))"

definition OperatorSetUpdateMessage_Key :: "OperatorSetUpdateMessage \<Rightarrow> MessageKey" where
  "OperatorSetUpdateMessage_Key m = PutUint64 24 (osu_Id m) zero32"

section \<open>The message interface\<close>

text \<open>
  The aggregation service and the sparse Merkle tree take any value with a \<^verbatim>\<open>Digest\<close> and a
  \<^verbatim>\<open>Key\<close> method; the program's three implementations are the constructors.
\<close>

datatype ServiceMessage =
    CheckpointMsg CheckpointTaskResponse
  | StateRootMsg StateRootUpdateMessage
  | OperatorSetMsg OperatorSetUpdateMessage

fun Digest :: "codec \<Rightarrow> ServiceMessage \<Rightarrow> (string, MessageDigest) res" where
  "Digest cd (CheckpointMsg m) = CheckpointTaskResponse_Digest cd m"
| "Digest cd (StateRootMsg m) = StateRootUpdateMessage_Digest cd m"
| "Digest cd (OperatorSetMsg m) = OperatorSetUpdateMessage_Digest cd m"

fun Key :: "ServiceMessage \<Rightarrow> MessageKey" where
  "Key (CheckpointMsg m) = CheckpointTaskResponse_Key m"
| "Key (StateRootMsg m) = StateRootUpdateMessage_Key m"
| "Key (OperatorSetMsg m) = OperatorSetUpdateMessage_Key m"

section \<open>Aggregations\<close>

text \<open>
  The two pointers that the aggregation service goes on mutating, \<^verbatim>\<open>SignersApkG2\<close> and
  \<^verbatim>\<open>SignersAggSigG1\<close>, are the record's type parameters: they are heap references inside the
  service and values once read.
\<close>

record ('g2, 'sig) MessageBlsAggregation =
  mba_EthBlockNumber :: u64
  mba_MessageDigest :: MessageDigest
  mba_NonSignersPubkeysG1 :: "G1Point option list"
  mba_QuorumApksG1 :: "G1Point option list"
  mba_SignersApkG2 :: "'g2 option"
  mba_SignersAggSigG1 :: "'sig option"
  mba_NonSignerQuorumBitmapIndices :: "u32 list"
  mba_QuorumApkIndices :: "u32 list"
  mba_TotalStakeIndices :: "u32 list"
  mba_NonSignerStakeIndices :: "u32 list list"

type_synonym Aggregation = "(G2Point, Signature) MessageBlsAggregation"

record NonSignerStakesAndSignature =
  nss_NonSignerQuorumBitmapIndices :: "u32 list"
  nss_NonSignerPubkeys :: "BN254G1Point list"
  nss_QuorumApks :: "BN254G1Point list"
  nss_ApkG2 :: BN254G2Point
  nss_Sigma :: BN254G1Point
  nss_QuorumApkIndices :: "u32 list"
  nss_TotalStakeIndices :: "u32 list"
  nss_NonSignerStakeIndices :: "u32 list list"

definition signature_point :: "Signature option \<Rightarrow> (string, BN254G1Point) res" where
  "signature_point s =
     (case s of None \<Rightarrow> Inl (Fault NilDereference) | Some p \<Rightarrow> ConvertToBN254G1Point p)"

definition ExtractBindingMainnet :: "Aggregation \<Rightarrow> (string, NonSignerStakesAndSignature) res" where
  "ExtractBindingMainnet msg =
     bind_err (map_err ConvertToBN254G1Point (mba_NonSignersPubkeysG1 msg)) (\<lambda>nonSignersPubkeys.
     bind_err (map_err ConvertToBN254G1Point (mba_QuorumApksG1 msg)) (\<lambda>quorumApks.
     bind_err (ConvertToBN254G2Point (mba_SignersApkG2 msg)) (\<lambda>apk.
     bind_err (signature_point (mba_SignersAggSigG1 msg)) (\<lambda>sigma.
     Inr \<lparr>nss_NonSignerQuorumBitmapIndices = mba_NonSignerQuorumBitmapIndices msg,
          nss_NonSignerPubkeys = nonSignersPubkeys,
          nss_QuorumApks = quorumApks,
          nss_ApkG2 = apk,
          nss_Sigma = sigma,
          nss_QuorumApkIndices = mba_QuorumApkIndices msg,
          nss_TotalStakeIndices = mba_TotalStakeIndices msg,
          nss_NonSignerStakeIndices = mba_NonSignerStakeIndices msg\<rparr>))))"

record RollupOperatorsSignatureInfo =
  rsi_NonSignerPubkeys :: "BN254G1Point list"
  rsi_ApkG2 :: BN254G2Point
  rsi_Sigma :: BN254G1Point

definition ExtractBindingRollup :: "Aggregation \<Rightarrow> (string, RollupOperatorsSignatureInfo) res" where
  "ExtractBindingRollup msg =
     bind_err (map_err ConvertToBN254G1Point (mba_NonSignersPubkeysG1 msg)) (\<lambda>nonSignersPubkeys.
     bind_err (ConvertToBN254G2Point (mba_SignersApkG2 msg)) (\<lambda>apk.
     bind_err (signature_point (mba_SignersAggSigG1 msg)) (\<lambda>sigma.
     Inr \<lparr>rsi_NonSignerPubkeys = nonSignersPubkeys, rsi_ApkG2 = apk, rsi_Sigma = sigma\<rparr>)))"

section \<open>What the lemmas need of ABI values\<close>

text \<open>
  Two argument lists have the same ABI types; a value is representable in its type; a value has no
  nil \<^verbatim>\<open>*big.Int\<close>.
\<close>
fun abi_same_type :: "abi_value \<Rightarrow> abi_value \<Rightarrow> bool"
and abi_same_types :: "abi_value list \<Rightarrow> abi_value list \<Rightarrow> bool" where
  "abi_same_type (AbiUint n _) (AbiUint m _) = (n = m)"
| "abi_same_type (AbiBytes32 _) (AbiBytes32 _) = True"
| "abi_same_type (AbiTuple xs) (AbiTuple ys) = abi_same_types xs ys"
| "abi_same_type (AbiArray xs) (AbiArray ys) = (\<forall>x \<in> set xs. \<forall>y \<in> set ys. abi_same_type x y)"
| "abi_same_type _ _ = False"
| "abi_same_types [] [] = True"
| "abi_same_types (x # xs) (y # ys) = (abi_same_type x y \<and> abi_same_types xs ys)"
| "abi_same_types _ _ = False"

fun abi_ok :: "abi_value \<Rightarrow> bool" where
  "abi_ok (AbiUint n v) = (case v of None \<Rightarrow> False | Some i \<Rightarrow> n \<le> 256 \<and> 0 \<le> i \<and> i < 2 ^ n)"
| "abi_ok (AbiBytes32 b) = is_bytes32 b"
| "abi_ok (AbiTuple xs) = (\<forall>x \<in> set xs. abi_ok x)"
| "abi_ok (AbiArray xs) = (length xs < 2 ^ 256 \<and> (\<forall>x \<in> set xs. abi_ok x))"

fun abi_no_nil :: "abi_value \<Rightarrow> bool" where
  "abi_no_nil (AbiUint n v) = (v \<noteq> None)"
| "abi_no_nil (AbiBytes32 b) = True"
| "abi_no_nil (AbiTuple xs) = list_all abi_no_nil xs"
| "abi_no_nil (AbiArray xs) = list_all abi_no_nil xs"

definition operator_ok :: "RollupOperator \<Rightarrow> bool" where
  "operator_ok op \<longleftrightarrow>
     (case (ro_Pubkey op, ro_Weight op) of
        (Some p, Some w) \<Rightarrow>
          0 \<le> g1_X p \<and> g1_X p < 2 ^ 256 \<and> 0 \<le> g1_Y p \<and> g1_Y p < 2 ^ 256 \<and> 0 \<le> w \<and> w < 2 ^ 128
      | _ \<Rightarrow> False)"

fun message_ok :: "ServiceMessage \<Rightarrow> bool" where
  "message_ok (CheckpointMsg m) \<longleftrightarrow>
     is_bytes32 (StateRootUpdatesRoot m) \<and> is_bytes32 (OperatorSetUpdatesRoot m)"
| "message_ok (StateRootMsg m) \<longleftrightarrow>
     is_bytes32 (sru_NearDaTransactionId m) \<and> is_bytes32 (sru_NearDaCommitment m) \<and>
     is_bytes32 (sru_StateRoot m)"
| "message_ok (OperatorSetMsg m) \<longleftrightarrow>
     length (osu_Operators m) < 2 ^ 256 \<and> list_all operator_ok (osu_Operators m)"

fun digest_prefix :: "ServiceMessage \<Rightarrow> bytes" where
  "digest_prefix (CheckpointMsg m) = go_bytes ''SFFL::CheckpointTaskResponse''"
| "digest_prefix (StateRootMsg m) = go_bytes ''SFFL::StateRootUpdateMessage''"
| "digest_prefix (OperatorSetMsg m) = go_bytes ''SFFL::OperatorSetUpdateMessage''"

fun AbiEncode :: "codec \<Rightarrow> ServiceMessage \<Rightarrow> (string, bytes) res" where
  "AbiEncode cd (CheckpointMsg m) = CheckpointTaskResponse_AbiEncode cd m"
| "AbiEncode cd (StateRootMsg m) = StateRootUpdateMessage_AbiEncode cd m"
| "AbiEncode cd (OperatorSetMsg m) = OperatorSetUpdateMessage_AbiEncode cd m"

text \<open>The byte strings that computing a digest hashes.\<close>

definition hash_inputs :: "codec \<Rightarrow> ServiceMessage \<Rightarrow> bytes set" where
  "hash_inputs cd m =
     {digest_prefix m} \<union> {bs. AbiEncode cd m = Inr bs} \<union>
     {bs. \<exists>enc p d. AbiEncode cd m = Inr enc \<and> Keccak256 cd (digest_prefix m) = Inr p \<and>
        Keccak256 cd enc = Inr d \<and> abiPack cd [AbiBytes32 p, AbiBytes32 d] = Inr bs}"

text \<open>
  What the digests rely on of the third-party code: an ABI encoding determines the values it
  encodes, packing non-nil arguments does not panic, and the hash has 32 bytes.
\<close>

definition pack_law :: "codec \<Rightarrow> bool" where
  "pack_law cd \<longleftrightarrow>
     (\<forall>vs ws bs. abi_same_types vs ws \<longrightarrow> list_all abi_ok vs \<longrightarrow> list_all abi_ok ws \<longrightarrow>
        abiPack cd vs = Inr bs \<longrightarrow> abiPack cd ws = Inr bs \<longrightarrow> vs = ws)"

definition codec_no_fault :: "codec \<Rightarrow> bool" where
  "codec_no_fault cd \<longleftrightarrow>
     (\<forall>vs f. list_all abi_no_nil vs \<longrightarrow> abiPack cd vs \<noteq> Inl (Fault f)) \<and>
     (\<forall>bs. length (legacyKeccak256 cd bs) = 32)"

text \<open>
  The contract's points are in the base field of BN254, and the library reduces the coordinates it
  is given modulo that field.
\<close>

definition bn254_field :: int where
  "bn254_field = 21888242871839275222246405745257275088696311157297823662689037894645226208583"

definition binding_in_field :: "OperatorSetUpdateMessageBinding \<Rightarrow> bool" where
  "binding_in_field b \<longleftrightarrow> list_all (\<lambda>op.
     0 \<le> bn_X (roo_Pubkey op) \<and> bn_X (roo_Pubkey op) < bn254_field \<and>
     0 \<le> bn_Y (roo_Pubkey op) \<and> bn_Y (roo_Pubkey op) < bn254_field) (osub_Operators b)"

definition new_point_law :: "bls_lib \<Rightarrow> bool" where
  "new_point_law bl \<longleftrightarrow>
     (\<forall>x y. g1_X (NewG1Point bl x y) = x mod bn254_field \<and> g1_Y (NewG1Point bl x y) = y mod bn254_field)"

text \<open>The binding of an operator set whose pointers are all set.\<close>

definition binding_of :: "OperatorSetUpdateMessage \<Rightarrow> OperatorSetUpdateMessageBinding" where
  "binding_of m = \<lparr>osub_Id = osu_Id m, osub_Timestamp = osu_Timestamp m,
     osub_Operators = map (\<lambda>op. \<lparr>roo_Pubkey = \<lparr>bn_X = g1_X (the (ro_Pubkey op)),
       bn_Y = g1_Y (the (ro_Pubkey op))\<rparr>, roo_Weight = ro_Weight op\<rparr>) (osu_Operators m)\<rparr>"

section \<open>Keys\<close>

lemma u32_less: "unat (x :: u32) < 256 ^ 4"
  using unsigned_less [of x, where 'a = nat] by simp
lemma u64_less: "unat (x :: u64) < 256 ^ 8"
  using unsigned_less [of x, where 'a = nat] by simp

lemma be_bytes_u32_eq [simp]: "be_bytes 4 (unat (x :: u32)) = be_bytes 4 (unat y) \<longleftrightarrow> x = y"
  using be_bytes_inj [OF _ u32_less u32_less] by (auto simp: word_unat_eq_iff)

lemma be_bytes_u64_eq [simp]: "be_bytes 8 (unat (x :: u64)) = be_bytes 8 (unat y) \<longleftrightarrow> x = y"
  using be_bytes_inj [OF _ u64_less u64_less] by (auto simp: word_unat_eq_iff)

lemma PutUint32_zeros:
  "n + 4 \<le> m \<Longrightarrow> PutUint32 n v (replicate m 0) = replicate n 0 @ be_bytes 4 (unat v) @ replicate (m - n - 4) 0"
  by (simp add: PutUint32_def put_at_def min_def)

lemma CheckpointTaskResponse_Key_eq:
  "CheckpointTaskResponse_Key m = replicate 28 0 @ be_bytes 4 (unat (ReferenceTaskIndex m))"
  by (simp add: CheckpointTaskResponse_Key_def PutUint32_def put_at_def zero32_def min_def)

lemma OperatorSetUpdateMessage_Key_eq:
  "OperatorSetUpdateMessage_Key m = replicate 24 0 @ be_bytes 8 (unat (osu_Id m))"
  by (simp add: OperatorSetUpdateMessage_Key_def PutUint64_def put_at_def zero32_def min_def)

lemma StateRootUpdateMessage_Key_eq:
  "StateRootUpdateMessage_Key m =
     replicate 20 0 @ be_bytes 4 (unat (sru_RollupId m)) @ be_bytes 8 (unat (sru_BlockHeight m))"
  by (simp add: StateRootUpdateMessage_Key_def PutUint64_def PutUint32_def put_at_def zero32_def min_def)

text \<open>
  The service and the tree rely on a message's key only through what it identifies: a task index,
  a rollup block or an operator set. The laws hold for the three message types.
\<close>

locale keyed_message =
  fixes key :: "'m \<Rightarrow> MessageKey"
    and ident :: "'m \<Rightarrow> 'i"
  assumes key_is_bytes32: "is_bytes32 (key m)"
    and key_eq_iff: "key m = key m' \<longleftrightarrow> ident m = ident m'"
begin

lemma distinct_keys: "distinct (map key ms) \<longleftrightarrow> distinct (map ident ms)"
  by (auto simp: distinct_map inj_on_def key_eq_iff)

lemma key_nat_eq_iff: "be_nat (key m) = be_nat (key m') \<longleftrightarrow> ident m = ident m'"
  using be_nat_inj [of "key m" "key m'"] key_is_bytes32 key_eq_iff
  by (metis is_bytes32_def)

lemma key_filter: "filter (\<lambda>m'. key m' = key m) ms = filter (\<lambda>m'. ident m' = ident m) ms"
  by (simp add: key_eq_iff)

end

interpretation ckpt: keyed_message CheckpointTaskResponse_Key ReferenceTaskIndex
  by unfold_locales (auto simp: CheckpointTaskResponse_Key_eq is_bytes32_def)

interpretation sru: keyed_message StateRootUpdateMessage_Key "\<lambda>m. (sru_RollupId m, sru_BlockHeight m)"
  by unfold_locales (auto simp: StateRootUpdateMessage_Key_eq is_bytes32_def)

interpretation osu: keyed_message OperatorSetUpdateMessage_Key osu_Id
  by unfold_locales (auto simp: OperatorSetUpdateMessage_Key_eq is_bytes32_def)

text \<open>
  Reading the task index back from a checkpoint response's key gives the index that the key was
  built from, for every 32-bit index.
\<close>

theorem key_to_task_index:
  "CheckpointTaskResponseKeyToTaskIndex (CheckpointTaskResponse_Key m) = ReferenceTaskIndex m"
  using u32_less [of "ReferenceTaskIndex m"]
  by (simp add: CheckpointTaskResponseKeyToTaskIndex_def CheckpointTaskResponse_Key_eq be_nat_be_bytes)

text \<open>
  Two messages of one type have the same key exactly when they speak of the same thing: the same
  task, the same rollup and block height, the same operator set id. The other fields do not matter.
\<close>

theorem message_keys_identify:
  "(Key (CheckpointMsg a) = Key (CheckpointMsg a') \<longleftrightarrow> ReferenceTaskIndex a = ReferenceTaskIndex a') \<and>
   (Key (StateRootMsg b) = Key (StateRootMsg b') \<longleftrightarrow>
      sru_RollupId b = sru_RollupId b' \<and> sru_BlockHeight b = sru_BlockHeight b') \<and>
   (Key (OperatorSetMsg c) = Key (OperatorSetMsg c') \<longleftrightarrow> osu_Id c = osu_Id c')"
  by (simp add: ckpt.key_eq_iff sru.key_eq_iff osu.key_eq_iff)

section \<open>Bindings and validity\<close>

lemma operators_to_binding:
  assumes "list_all operator_ok ops"
  shows "map_err operator_to_binding ops =
    Inr (map (\<lambda>op. \<lparr>roo_Pubkey = \<lparr>bn_X = g1_X (the (ro_Pubkey op)), bn_Y = g1_Y (the (ro_Pubkey op))\<rparr>,
      roo_Weight = ro_Weight op\<rparr>) ops)"
  using assms
  by (intro map_err_total)
    (auto simp: operator_to_binding_def operator_ok_def list_all_iff split: option.splits)

lemma ToBinding_total:
  "message_ok (OperatorSetMsg m) \<Longrightarrow> OperatorSetUpdateMessage_ToBinding m = Inr (binding_of m)"
  by (simp add: OperatorSetUpdateMessage_ToBinding_def binding_of_def operators_to_binding)

lemma check_operators_ok:
  "check_operators ops = Inr () \<longleftrightarrow> (\<forall>op \<in> set ops. ro_Pubkey op \<noteq> None \<and> ro_Weight op \<noteq> None)"
  by (induction ops) auto

lemma HashMessageWithPrefix_no_fault:
  "codec_no_fault cd \<Longrightarrow> HashMessageWithPrefix cd p bs \<noteq> Inl (Fault f)"
  by (auto simp: HashMessageWithPrefix_def Keccak256_def codec_no_fault_def bind_err_eq_Inl)

text \<open>
  Once a signed operator set update has passed \<^verbatim>\<open>IsValid\<close>, computing its digest never
  panics: the validity check covers every pointer that the conversion to the binding and the ABI
  encoding dereference.
\<close>

theorem valid_operator_set_digest:
  assumes "SignedOperatorSetUpdateMessage_IsValid (Some s) = Inr ()" "codec_no_fault cd"
  shows "OperatorSetUpdateMessage_Digest cd (sosu_Message s) \<noteq> Inl (Fault f)"
proof -
  let ?ops = "osu_Operators (sosu_Message s)"
  have nn: "\<forall>op \<in> set ?ops. ro_Pubkey op \<noteq> None \<and> ro_Weight op \<noteq> None"
    using assms(1) by (simp add: check_operators_ok split: if_splits)
  have "map_err operator_to_binding ?ops =
      Inr (map (\<lambda>op. \<lparr>roo_Pubkey = \<lparr>bn_X = g1_X (the (ro_Pubkey op)), bn_Y = g1_Y (the (ro_Pubkey op))\<rparr>,
        roo_Weight = ro_Weight op\<rparr>) ?ops)"
    using nn by (intro map_err_total) (auto simp: operator_to_binding_def)
  then have b: "OperatorSetUpdateMessage_ToBinding (sosu_Message s) = Inr (binding_of (sosu_Message s))"
    by (simp add: OperatorSetUpdateMessage_ToBinding_def binding_of_def)
  have "list_all abi_no_nil [abi_osu (binding_of (sosu_Message s))]"
    using nn by (auto simp: abi_osu_def binding_of_def abi_operator_def abi_u64_def list_all_iff)
  then show ?thesis
    using assms(2) HashMessageWithPrefix_no_fault [OF assms(2)] b
    by (auto simp: OperatorSetUpdateMessage_Digest_def OperatorSetUpdateMessage_AbiEncode_def
        bind_err_eq_Inl codec_no_fault_def)
qed

lemma map_err_map: "map_err f (map g xs) = map_err (f \<circ> g) xs"
  by (induction xs) auto

text \<open>
  An operator set update read from a contract binding and converted back gives the same binding,
  when its points are in the base field.
\<close>

theorem operator_set_binding_roundtrip:
  assumes "new_point_law bl" "binding_in_field b"
  shows "OperatorSetUpdateMessage_ToBinding (NewOperatorSetUpdateMessageFromBinding bl b) = Inr b"
proof -
  have "map_err (operator_to_binding \<circ> operator_from_binding bl) (osub_Operators b) =
      Inr (map id (osub_Operators b))"
    using assms by (intro map_err_total) (auto simp: operator_to_binding_def operator_from_binding_def
        new_point_law_def binding_in_field_def list_all_iff)
  then show ?thesis
    by (simp add: OperatorSetUpdateMessage_ToBinding_def NewOperatorSetUpdateMessageFromBinding_def map_err_map)
qed

section \<open>Digests\<close>

lemma pack_lawD:
  "\<lbrakk>pack_law cd; abiPack cd vs = Inr bs; abiPack cd ws = Inr bs; abi_same_types vs ws;
    list_all abi_ok vs; list_all abi_ok ws\<rbrakk> \<Longrightarrow> vs = ws"
  unfolding pack_law_def by blast

lemma Digest_eq:
  "Digest cd m = bind_err (AbiEncode cd m) (HashMessageWithPrefix cd (digest_prefix m))"
  by (cases m) (simp_all add: CheckpointTaskResponse_Digest_def StateRootUpdateMessage_Digest_def
      OperatorSetUpdateMessage_Digest_def)

lemma Keccak256_bytes32: "Keccak256 cd x = Inr d \<Longrightarrow> is_bytes32 d"
  by (auto simp: Keccak256_def Let_def is_bytes32_def split: if_splits)

lemma abi_ok_words [simp]: "abi_ok (abi_u32 v)" "abi_ok (abi_u64 w)"
  using uint_lt2p [of v] uint_lt2p [of w] by (simp_all add: abi_u32_def abi_u64_def)

lemma abi_words_eq [simp]:
  "abi_u32 v = abi_u32 v' \<longleftrightarrow> v = v'" "abi_u64 w = abi_u64 w' \<longleftrightarrow> w = w'"
  by (simp_all add: abi_u32_def abi_u64_def word_uint_eq_iff)

lemma abi_words_type [simp]:
  "abi_same_type (abi_u32 v) (abi_u32 v')" "abi_same_type (abi_u64 w) (abi_u64 w')"
  by (simp_all add: abi_u32_def abi_u64_def)

lemma prefix_eqD:
  assumes "digest_prefix m = digest_prefix m'"
  obtains (ckpt) a b where "m = CheckpointMsg a" "m' = CheckpointMsg b"
  | (root) a b where "m = StateRootMsg a" "m' = StateRootMsg b"
  | (opset) a b where "m = OperatorSetMsg a" "m' = OperatorSetMsg b"
proof (cases m; cases m')
qed (use assms that in \<open>auto simp: go_bytes_def\<close>)

lemma abi_operator_type [simp]: "abi_same_type (abi_operator a) (abi_operator b)"
  by (simp add: abi_operator_def)

lemma ctr_encode_inj:
  assumes "pack_law cd" "message_ok (CheckpointMsg a)" "message_ok (CheckpointMsg b)"
    and "CheckpointTaskResponse_AbiEncode cd a = Inr bs" "CheckpointTaskResponse_AbiEncode cd b = Inr bs"
  shows "a = b"
proof -
  have "[abi_ctr (CheckpointTaskResponse_ToBinding a)] = [abi_ctr (CheckpointTaskResponse_ToBinding b)]"
    using assms by (intro pack_lawD [OF assms(1)])
      (auto simp: CheckpointTaskResponse_AbiEncode_def abi_ctr_def CheckpointTaskResponse_ToBinding_def)
  then show ?thesis
    by (auto simp: abi_ctr_def CheckpointTaskResponse_ToBinding_def intro: CheckpointTaskResponse.equality)
qed

lemma sru_encode_inj:
  assumes "pack_law cd" "message_ok (StateRootMsg a)" "message_ok (StateRootMsg b)"
    and "StateRootUpdateMessage_AbiEncode cd a = Inr bs" "StateRootUpdateMessage_AbiEncode cd b = Inr bs"
  shows "a = b"
proof -
  have "[abi_sru (StateRootUpdateMessage_ToBinding a)] = [abi_sru (StateRootUpdateMessage_ToBinding b)]"
    using assms by (intro pack_lawD [OF assms(1)])
      (auto simp: StateRootUpdateMessage_AbiEncode_def abi_sru_def StateRootUpdateMessage_ToBinding_def)
  then show ?thesis
    by (auto simp: abi_sru_def StateRootUpdateMessage_ToBinding_def intro: StateRootUpdateMessage.equality)
qed

lemma operators_inj:
  assumes "list_all operator_ok xs" "list_all operator_ok ys"
    and "map (\<lambda>op. abi_operator \<lparr>roo_Pubkey = \<lparr>bn_X = g1_X (the (ro_Pubkey op)),
       bn_Y = g1_Y (the (ro_Pubkey op))\<rparr>, roo_Weight = ro_Weight op\<rparr>) xs =
      map (\<lambda>op. abi_operator \<lparr>roo_Pubkey = \<lparr>bn_X = g1_X (the (ro_Pubkey op)),
       bn_Y = g1_Y (the (ro_Pubkey op))\<rparr>, roo_Weight = ro_Weight op\<rparr>) ys"
  shows "xs = ys"
  using assms
proof (induction xs arbitrary: ys)
  case Nil
  then show ?case by simp
next
  case (Cons x xs)
  then obtain y ys' where ys: "ys = y # ys'"
    by (cases ys) auto
  have "x = y"
    using Cons.prems ys
    by (auto simp: abi_operator_def operator_ok_def split: option.splits
        intro!: RollupOperator.equality G1Point.equality)
  then show ?case
    using Cons ys by auto
qed

lemma abi_ok_operator:
  "operator_ok op \<Longrightarrow> abi_ok (abi_operator \<lparr>roo_Pubkey = \<lparr>bn_X = g1_X (the (ro_Pubkey op)),
       bn_Y = g1_Y (the (ro_Pubkey op))\<rparr>, roo_Weight = ro_Weight op\<rparr>)"
  by (auto simp: abi_operator_def operator_ok_def split: option.splits)

lemma osu_encode_inj:
  assumes "pack_law cd" "message_ok (OperatorSetMsg a)" "message_ok (OperatorSetMsg b)"
    and "OperatorSetUpdateMessage_AbiEncode cd a = Inr bs" "OperatorSetUpdateMessage_AbiEncode cd b = Inr bs"
  shows "a = b"
proof -
  have "[abi_osu (binding_of a)] = [abi_osu (binding_of b)]"
  proof (rule pack_lawD [OF assms(1)])
    show "abiPack cd [abi_osu (binding_of a)] = Inr bs" "abiPack cd [abi_osu (binding_of b)] = Inr bs"
      using assms(2-) by (auto simp: OperatorSetUpdateMessage_AbiEncode_def ToBinding_total)
    show "abi_same_types [abi_osu (binding_of a)] [abi_osu (binding_of b)]"
      by (simp add: abi_osu_def)
    show "list_all abi_ok [abi_osu (binding_of a)]" "list_all abi_ok [abi_osu (binding_of b)]"
      using assms(2,3) by (auto simp: abi_osu_def binding_of_def list_all_iff abi_ok_operator)
  qed
  then show ?thesis
    using assms(2,3) operators_inj [of "osu_Operators a" "osu_Operators b"]
    by (auto simp: abi_osu_def binding_of_def comp_def intro!: OperatorSetUpdateMessage.equality)
qed

lemma AbiEncode_inj:
  assumes "pack_law cd" "message_ok m" "message_ok m'" "digest_prefix m = digest_prefix m'"
    and "AbiEncode cd m = Inr bs" "AbiEncode cd m' = Inr bs"
  shows "m = m'"
  using assms(4)
  by (cases rule: prefix_eqD)
    (use assms(1-3,5-) in \<open>auto dest: ctr_encode_inj sru_encode_inj osu_encode_inj\<close>)

text \<open>
  C4. Signing separates messages: if two different well-formed messages, of one type or of two, have
  the same digest, then two of the strings that the digests hash are a Keccak collision. Digests of
  different message types are kept apart by their prefixes.
\<close>

theorem digest_collision_is_hash_collision:
  assumes law: "pack_law cd" and ok: "message_ok m" "message_ok m'"
    and dig: "Digest cd m = Inr d" "Digest cd m' = Inr d" and ne: "m \<noteq> m'"
  shows "\<exists>x \<in> hash_inputs cd m. \<exists>y \<in> hash_inputs cd m'. x \<noteq> y \<and> Keccak256 cd x = Keccak256 cd y"
proof -
  obtain enc p h out where m: "AbiEncode cd m = Inr enc" "Keccak256 cd (digest_prefix m) = Inr p"
      "Keccak256 cd enc = Inr h" "abiPack cd [AbiBytes32 p, AbiBytes32 h] = Inr out"
      "Keccak256 cd out = Inr d"
    using dig(1) by (auto simp: Digest_eq HashMessageWithPrefix_def)
  obtain enc' p' h' out' where m': "AbiEncode cd m' = Inr enc'"
      "Keccak256 cd (digest_prefix m') = Inr p'" "Keccak256 cd enc' = Inr h'"
      "abiPack cd [AbiBytes32 p', AbiBytes32 h'] = Inr out'" "Keccak256 cd out' = Inr d"
    using dig(2) by (auto simp: Digest_eq HashMessageWithPrefix_def)
  have ins: "out \<in> hash_inputs cd m" "out' \<in> hash_inputs cd m'" "enc \<in> hash_inputs cd m"
      "enc' \<in> hash_inputs cd m'" "digest_prefix m \<in> hash_inputs cd m"
      "digest_prefix m' \<in> hash_inputs cd m'"
    using m m' by (auto simp: hash_inputs_def)
  consider "out \<noteq> out'" | "out = out'" "digest_prefix m \<noteq> digest_prefix m'"
    | "out = out'" "digest_prefix m = digest_prefix m'" "enc \<noteq> enc'"
    | "digest_prefix m = digest_prefix m'" "enc = enc'"
    by blast
  then show ?thesis
  proof cases
    case 4
    then show ?thesis
      using AbiEncode_inj [OF law ok] m(1) m'(1) ne by blast
  qed (use pack_lawD [OF law m(4), of "[AbiBytes32 p', AbiBytes32 h']"] m m' ins
      Keccak256_bytes32 in \<open>auto; metis\<close>)+
qed

section \<open>Concrete parameters for the witnesses\<close>

text \<open>
  A packer that writes every word on 32 bytes and the length of an array before its elements, with
  the constant hash; and curve operations on coordinates.
\<close>

fun ser :: "abi_value \<Rightarrow> bytes" where
  "ser (AbiUint n v) = be_bytes 32 (case v of None \<Rightarrow> 0 | Some i \<Rightarrow> nat i)"
| "ser (AbiBytes32 b) = b"
| "ser (AbiTuple xs) = concat (map ser xs)"
| "ser (AbiArray xs) = be_bytes 32 (length xs) @ concat (map ser xs)"


lemma ser_array:
  assumes "\<And>x y r s. x \<in> set xs \<Longrightarrow> y \<in> set ys \<Longrightarrow> ser x @ r = ser y @ s \<Longrightarrow> x = y \<and> r = s"
    and "length xs = length ys"
    and "concat (map ser xs) @ r = concat (map ser ys) @ s"
  shows "xs = ys \<and> r = s"
  using assms(2,1,3)
proof (induction xs ys arbitrary: r s rule: list_induct2)
  case Nil
  then show ?case by simp
next
  case (Cons x xs y ys)
  have "x = y \<and> concat (map ser xs) @ r = concat (map ser ys) @ s"
    using Cons.prems(2) by (intro Cons.prems(1)) auto
  then show ?case
    using Cons.IH Cons.prems(1) by (metis list.set_intros(2))
qed

lemma be32_inj:
  assumes "be_bytes 32 v = be_bytes 32 w" "v < 2 ^ 256" "w < 2 ^ 256"
  shows "v = w"
proof (rule be_bytes_inj [OF assms(1)])
  have e: "(2::nat) ^ 256 = 256 ^ 32" by simp
  show "v < 256 ^ 32"
    using assms(2) unfolding e .
  show "w < 256 ^ 32"
    using assms(3) unfolding e .
qed

lemma nat_less_256:
  assumes "i < 2 ^ n" "n \<le> 256"
  shows "nat i < 2 ^ 256"
proof -
  have "i < 2 ^ 256"
    using assms(1) power_increasing [OF assms(2), of "2::int"] by linarith
  then show ?thesis
    by (simp add: nat_less_iff)
qed

lemma ser_prefix_free:
  "abi_same_type x y \<Longrightarrow> abi_ok x \<Longrightarrow> abi_ok y \<Longrightarrow> ser x @ r = ser y @ s \<Longrightarrow> x = y \<and> r = s"
  "abi_same_types xs ys \<Longrightarrow> \<forall>x \<in> set xs. abi_ok x \<Longrightarrow> \<forall>y \<in> set ys. abi_ok y \<Longrightarrow>
     concat (map ser xs) @ r = concat (map ser ys) @ s \<Longrightarrow> xs = ys \<and> r = s"
proof (induction x y and xs ys arbitrary: r s and r s rule: abi_same_type_abi_same_types.induct)
  case (1 n v m w)
  then obtain i j where v: "v = Some i" and w: "w = Some j"
    by (auto split: option.splits)
  have "be_bytes 32 (nat i) = be_bytes 32 (nat j)"
    using 1 v w by (auto dest: append_eq_append_conv [THEN iffD1, rotated])
  then have "nat i = nat j"
    using 1 v w by (intro be32_inj nat_less_256) auto
  then show ?case
    using 1 v w by auto
next
  case (4 xs ys)
  have len: "be_bytes 32 (length xs) = be_bytes 32 (length ys)"
    and rest: "concat (map ser xs) @ r = concat (map ser ys) @ s"
    using "4.prems"(4) by auto
  have "length xs = length ys"
    using len "4.prems" by (intro be32_inj) auto
  then show ?case
    using ser_array [OF _ _ rest] "4.IH" "4.prems" by force
next
  case (7 x xs y ys)
  have "x = y \<and> concat (map ser xs) @ r = concat (map ser ys) @ s"
    using "7.prems" by (intro "7.IH"(1)) auto
  then show ?case
    using "7.IH"(2) [of r s] "7.prems" by auto
qed (simp_all add: is_bytes32_def)

definition toy_codec :: codec where
  "toy_codec = \<lparr>abiPack = \<lambda>vs. Inr (concat (map ser vs)), legacyKeccak256 = \<lambda>_. zero32\<rparr>"

lemma toy_codec_pack_law: "pack_law toy_codec"
  using ser_prefix_free(2) [where r = "[]" and s = "[]"]
  by (auto simp: pack_law_def toy_codec_def list_all_iff)

theorem digest_collision_witness:
  "\<exists>x \<in> hash_inputs toy_codec (CheckpointMsg \<lparr>ReferenceTaskIndex = 1, StateRootUpdatesRoot = zero32, OperatorSetUpdatesRoot = zero32\<rparr>).
   \<exists>y \<in> hash_inputs toy_codec (CheckpointMsg \<lparr>ReferenceTaskIndex = 2, StateRootUpdatesRoot = zero32, OperatorSetUpdatesRoot = zero32\<rparr>).
     x \<noteq> y \<and> Keccak256 toy_codec x = Keccak256 toy_codec y"
  by (rule digest_collision_is_hash_collision [OF toy_codec_pack_law, of _ _ zero32])
   (simp_all add: toy_codec_def CheckpointTaskResponse_Digest_def CheckpointTaskResponse_AbiEncode_def
    HashMessageWithPrefix_def Keccak256_def zero32_def is_bytes32_def)

definition sample_operator :: RollupOperator where
  "sample_operator = \<lparr>ro_Pubkey = Some \<lparr>g1_X = 1, g1_Y = 2\<rparr>, ro_Weight = Some 1000\<rparr>"

definition sample_operator_set :: OperatorSetUpdateMessage where
  "sample_operator_set = \<lparr>osu_Id = 7, osu_Timestamp = 1000, osu_Operators = [sample_operator]\<rparr>"

definition toy_bls :: bls_lib where
  "toy_bls =
     \<lparr>NewG1Point = \<lambda>x y. \<lparr>g1_X = x mod bn254_field, g1_Y = y mod bn254_field\<rparr>,
      NewG2Point = \<lambda>x y. \<lparr>g2_X_A0 = snd x, g2_X_A1 = fst x, g2_Y_A0 = snd y, g2_Y_A1 = fst y\<rparr>,
      ZeroG2Point = \<lparr>g2_X_A0 = 0, g2_X_A1 = 0, g2_Y_A0 = 0, g2_Y_A1 = 0\<rparr>,
      G2Add = \<lambda>p q. \<lparr>g2_X_A0 = g2_X_A0 p + g2_X_A0 q, g2_X_A1 = g2_X_A1 p + g2_X_A1 q,
        g2_Y_A0 = g2_Y_A0 p + g2_Y_A0 q, g2_Y_A1 = g2_Y_A1 p + g2_Y_A1 q\<rparr>,
      SigAdd = \<lambda>s t. map_option (\<lambda>p. \<lparr>g1_X = g1_X p + (case t of None \<Rightarrow> 0 | Some q \<Rightarrow> g1_X q),
        g1_Y = g1_Y p + (case t of None \<Rightarrow> 0 | Some q \<Rightarrow> g1_Y q)\<rparr>) s,
      SigVerify = \<lambda>s p d. case s of None \<Rightarrow> Inl ''nil signature'' | Some q \<Rightarrow> Inr (g1_X q = g2_X_A0 p),
      OperatorIdFromG1Pubkey = \<lambda>p. be_bytes 32 (nat (g1_X p))\<rparr>"

theorem operator_set_binding_roundtrip_witness:
  "OperatorSetUpdateMessage_ToBinding (NewOperatorSetUpdateMessageFromBinding toy_bls
       \<lparr>osub_Id = 3, osub_Timestamp = 9,
        osub_Operators = [\<lparr>roo_Pubkey = \<lparr>bn_X = 1, bn_Y = 2\<rparr>, roo_Weight = Some 5\<rparr>]\<rparr>) =
     Inr \<lparr>osub_Id = 3, osub_Timestamp = 9,
        osub_Operators = [\<lparr>roo_Pubkey = \<lparr>bn_X = 1, bn_Y = 2\<rparr>, roo_Weight = Some 5\<rparr>]\<rparr>"
  by (rule operator_set_binding_roundtrip)
    (simp_all add: new_point_law_def toy_bls_def binding_in_field_def bn254_field_def)

end
