(* ===== verification/Smt.thy ===== *)
theory Smt
  imports Messages
begin

text \<open>
  The sparse Merkle tree of a checkpoint: \<^verbatim>\<open>core/smt/smt.go\<close> and the construction of a checkpoint
  task response from its messages, \<^verbatim>\<open>NewCheckpointTaskResponseFromMessages\<close> of
  \<^verbatim>\<open>core/types/messages/checkpoint_task.go\<close>.

  The trie itself is pokt-network's library, a parameter (\<open>smt_lib\<close>). Its operations mutate the
  trie they are called on, so they return the new trie next to their error. The lemmas show that the
  roots of a checkpoint do not depend on the order in which the messages are read, and that the bit
  mask of a compact proof reaches the verifier contract in the order that the contract reads it.
\<close>

section \<open>The library\<close>

record SparseCompactMerkleProof =
  scp_SideNodes :: "bytes list"
  scp_NonMembershipLeafData :: "bytes option"
  scp_BitMask :: bytes
  scp_NumSideNodes :: int

record ('t, 'p) smt_lib =
  NewSparseMerkleTrie :: 't
  trieUpdate :: "'t \<Rightarrow> bytes \<Rightarrow> bytes \<Rightarrow> string option \<times> 't"
  trieCommit :: "'t \<Rightarrow> string option \<times> 't"
  trieRoot :: "'t \<Rightarrow> bytes"
  trieProve :: "'t \<Rightarrow> bytes \<Rightarrow> string + 'p"
  trieCompactProof :: "'p \<Rightarrow> string + SparseCompactMerkleProof"

section \<open>core/smt/smt.go\<close>

text \<open>Go's conversion of a slice to \<^verbatim>\<open>[32]byte\<close>, which panics on a slice that is too short.\<close>

definition to_array32 :: "bytes \<Rightarrow> (string, bytes32) res" where
  "to_array32 b = (if length b < 32 then Inl (Fault IndexOutOfRange) else Inr (take 32 b))"

record SMTVerifierCompactProof =
  vp_Key :: bytes32
  vp_Value :: bytes32
  vp_BitMask :: nat
  vp_SideNodes :: "bytes32 list"
  vp_NumSideNodes :: int
  vp_NonMembershipLeafPath :: bytes32
  vp_NonMembershipLeafValue :: bytes32

definition NewSMT :: "('t, 'p) smt_lib \<Rightarrow> 't" where
  "NewSMT lib = NewSparseMerkleTrie lib"

definition AddMessage ::
  "codec \<Rightarrow> ('t, 'p) smt_lib \<Rightarrow> ServiceMessage \<Rightarrow> 't \<Rightarrow> string failure option \<times> 't" where
  "AddMessage cd lib msg s =
     (case Digest cd msg of
        Inl e \<Rightarrow> (Some e, s)
      | Inr digest \<Rightarrow>
          (let key = Key msg; (err, s') = trieUpdate lib s key digest
           in (map_option Err err, s')))"

definition ProveCompact ::
  "('t, 'p) smt_lib \<Rightarrow> 't \<Rightarrow> bytes \<Rightarrow> (string, SparseCompactMerkleProof) res" where
  "ProveCompact lib s key =
     (case trieProve lib s key of
        Inl e \<Rightarrow> Inl (Err e)
      | Inr prf \<Rightarrow>
          (case trieCompactProof lib prf of Inl e \<Rightarrow> Inl (Err e) | Inr compactProof \<Rightarrow> Inr compactProof))"

text \<open>\<^verbatim>\<open>math/bits.Reverse8\<close>: bit \<open>i\<close> of the result is bit \<open>7 - i\<close> of the argument.\<close>

definition Reverse8 :: "u8 \<Rightarrow> u8" where
  "Reverse8 b = horner_sum of_bool 2 (map (\<lambda>i. bit b (7 - i)) [0..<8])"

fun formatBitMask_loop :: "bytes \<Rightarrow> nat \<Rightarrow> bytes \<Rightarrow> bytes" where
  "formatBitMask_loop bitMask i [] = []"
| "formatBitMask_loop bitMask i (_ # rest) =
     Reverse8 (bitMask ! (length bitMask - 1 - i)) # formatBitMask_loop bitMask (i + 1) rest"

definition formatBitMask :: "bytes \<Rightarrow> bytes" where
  "formatBitMask bitMask = formatBitMask_loop bitMask 0 bitMask"

definition slice :: "nat \<Rightarrow> nat \<Rightarrow> bytes \<Rightarrow> (string, bytes) res" where
  "slice lo hi b =
     (if lo \<le> hi \<and> hi \<le> length b then Inr (take (hi - lo) (drop lo b))
      else Inl (Fault IndexOutOfRange))"

fun NewSMTVerifierProof ::
  "bytes32 \<Rightarrow> bytes32 \<Rightarrow> SparseCompactMerkleProof option \<Rightarrow> (string, SMTVerifierCompactProof) res" where
  "NewSMTVerifierProof key val None = Inl (Fault NilDereference)"
| "NewSMTVerifierProof key val (Some prf) =
     bind_err (map_err to_array32 (scp_SideNodes prf)) (\<lambda>sideNodes.
     bind_err
       (case scp_NonMembershipLeafData prf of
          None \<Rightarrow> Inr (zero32, zero32)
        | Some dat \<Rightarrow>
            bind_err (slice 1 (1 + 32) dat) (\<lambda>p. bind_err (to_array32 p) (\<lambda>path.
            bind_err (slice (1 + 32) (1 + 32 + 32) dat) (\<lambda>v. bind_err (to_array32 v) (\<lambda>leaf.
            Inr (path, leaf)))))) (\<lambda>(path, leaf).
     Inr \<lparr>vp_Key = key, vp_Value = val, vp_BitMask = be_nat (formatBitMask (scp_BitMask prf)),
          vp_SideNodes = sideNodes, vp_NumSideNodes = scp_NumSideNodes prf,
          vp_NonMembershipLeafPath = path, vp_NonMembershipLeafValue = leaf\<rparr>))"

section \<open>Checkpoint responses\<close>

record CheckpointMessages =
  cm_StateRootUpdateMessages :: "StateRootUpdateMessage list"
  cm_StateRootUpdateMessageAggregations :: "Aggregation list"
  cm_OperatorSetUpdateMessages :: "OperatorSetUpdateMessage list"
  cm_OperatorSetUpdateMessageAggregations :: "Aggregation list"

text \<open>The loop over one list of messages, which the first error ends.\<close>

fun add_messages ::
  "codec \<Rightarrow> ('t, 'p) smt_lib \<Rightarrow> ServiceMessage list \<Rightarrow> 't \<Rightarrow> (string, 't) res" where
  "add_messages cd lib [] s = Inr s"
| "add_messages cd lib (msg # msgs) s =
     (case AddMessage cd lib msg s of
        (Some e, _) \<Rightarrow> Inl e
      | (None, s') \<Rightarrow> add_messages cd lib msgs s')"

definition commit_tree :: "('t, 'p) smt_lib \<Rightarrow> 't \<Rightarrow> (string, 't) res" where
  "commit_tree lib s = (case trieCommit lib s of (Some e, _) \<Rightarrow> Inl (Err e) | (None, s') \<Rightarrow> Inr s')"

definition NewCheckpointTaskResponseFromMessages ::
  "codec \<Rightarrow> ('t, 'p) smt_lib \<Rightarrow> u32 \<Rightarrow> CheckpointMessages option \<Rightarrow> (string, CheckpointTaskResponse) res"
where
  "NewCheckpointTaskResponseFromMessages cd lib taskIndex checkpointMessages =
     (case checkpointMessages of
        None \<Rightarrow> Inl (Fault NilDereference)
      | Some cm \<Rightarrow>
          bind_err (add_messages cd lib (map StateRootMsg (cm_StateRootUpdateMessages cm)) (NewSMT lib))
            (\<lambda>s1. bind_err (commit_tree lib s1) (\<lambda>stateRootUpdatesSmt.
          bind_err (add_messages cd lib (map OperatorSetMsg (cm_OperatorSetUpdateMessages cm)) (NewSMT lib))
            (\<lambda>s2. bind_err (commit_tree lib s2) (\<lambda>operatorSetUpdatesSmt.
          bind_err (to_array32 (trieRoot lib stateRootUpdatesSmt)) (\<lambda>r1.
          bind_err (to_array32 (trieRoot lib operatorSetUpdatesSmt)) (\<lambda>r2.
          Inr \<lparr>ReferenceTaskIndex = taskIndex, StateRootUpdatesRoot = r1,
               OperatorSetUpdatesRoot = r2\<rparr>)))))))"

section \<open>The bit mask\<close>

lemma bit_Reverse8: "bit (Reverse8 b) i \<longleftrightarrow> i < 8 \<and> bit b (7 - i)"
  by (auto simp: Reverse8_def bit_horner_sum_bit_iff)

lemma formatBitMask_loop_eq:
  "formatBitMask_loop bm i rest = map (\<lambda>j. Reverse8 (bm ! (length bm - 1 - j))) [i..<i + length rest]"
proof (induction rest arbitrary: i)
  case Nil
  then show ?case by simp
next
  case (Cons a rest)
  have "[i..<i + length (a # rest)] = i # [Suc i..<Suc i + length rest]"
    by (simp add: upt_conv_Cons del: upt_Suc)
  then show ?case
    using Cons by simp
qed

lemma formatBitMask_eq: "formatBitMask bm = map Reverse8 (rev bm)"
  by (rule nth_equalityI) (simp_all add: formatBitMask_def formatBitMask_loop_eq rev_nth)

lemma bit_add_byte:
  fixes a c :: nat
  assumes "c < 256"
  shows "bit (256 * a + c) i \<longleftrightarrow> (if i < 8 then bit c i else bit a (i - 8))"
proof (cases "i < 8")
  case True
  then have "(256::nat) = 2 ^ i * 2 ^ (8 - i)"
    by (simp flip: power_add)
  then have e: "256 * a = 2 ^ i * (2 ^ (8 - i) * a)"
    by simp
  show ?thesis
    unfolding bit_iff_odd e using True by simp
next
  case False
  then have "(256 * a + c) div 2 ^ i = (256 * a + c) div 2 ^ 8 div 2 ^ (i - 8)"
    by (simp only: div_mult2_eq [symmetric] power_add [symmetric]) simp
  also have "(256 * a + c) div 2 ^ 8 = a"
    using assms by simp
  finally show ?thesis
    using False by (simp add: bit_iff_odd)
qed

lemma bit_be_nat:
  "bit (be_nat bs) i \<longleftrightarrow> i < 8 * length bs \<and> bit (rev bs ! (i div 8)) (i mod 8)"
proof (induction bs arbitrary: i rule: rev_induct)
  case Nil
  then show ?case by (simp add: be_nat_def)
next
  case (snoc b bs)
  have "i div 8 = Suc ((i - 8) div 8)" "i mod 8 = (i - 8) mod 8" if "\<not> i < 8"
    using that by (simp_all add: le_div_geq le_mod_geq)
  then show ?case
    using snoc.IH [of "i - 8"] by (auto simp: be_nat_snoc bit_add_byte bit_unsigned_iff)
qed

text \<open>
  C39. A verifier that reads the mask as \<^verbatim>\<open>bitMask & (1 << idx)\<close> sees bit \<open>idx mod 8\<close>, counted from the
  most significant bit, of byte \<open>idx div 8\<close> of the library's mask, for every index, and zero
  beyond the mask.
\<close>

theorem bit_mask_order:
  "bit (be_nat (formatBitMask bm)) idx \<longleftrightarrow>
     idx < 8 * length bm \<and> bit (bm ! (idx div 8)) (7 - idx mod 8)"
proof (cases "idx < 8 * length bm")
  case True
  then have "idx div 8 < length bm"
    by (simp add: div_less_iff_less_mult mult.commute)
  then show ?thesis
    using True by (simp add: formatBitMask_eq bit_be_nat rev_map bit_Reverse8)
next
  case False
  then show ?thesis
    by (simp add: formatBitMask_eq bit_be_nat)
qed

section \<open>Order independence of the roots\<close>

text \<open>
  What the library promises, through the key-value content of a trie: a new trie is empty, an
  update with a 32-byte key and value succeeds and sets that key, a commit succeeds, and the root of
  a committed trie is a 32-byte hash of its content.
\<close>

definition smt_laws :: "('t, 'p) smt_lib \<Rightarrow> ('t \<Rightarrow> bytes \<Rightarrow> bytes option) \<Rightarrow> bool" where
  "smt_laws lib content \<longleftrightarrow>
     content (NewSparseMerkleTrie lib) = Map.empty \<and>
     (\<forall>t k v. is_bytes32 k \<longrightarrow> is_bytes32 v \<longrightarrow>
        (\<exists>t'. trieUpdate lib t k v = (None, t') \<and> content t' = (content t)(k \<mapsto> v))) \<and>
     (\<forall>t. \<exists>t'. trieCommit lib t = (None, t')) \<and>
     (\<forall>t t' u u'. content t = content t' \<longrightarrow> trieCommit lib t = (None, u) \<longrightarrow>
        trieCommit lib t' = (None, u') \<longrightarrow> trieRoot lib u = trieRoot lib u' \<and> is_bytes32 (trieRoot lib u))"

lemma Key_bytes32: "is_bytes32 (Key m)"
  by (cases m) (simp_all add: ckpt.key_is_bytes32 sru.key_is_bytes32 osu.key_is_bytes32)

lemma Digest_bytes32: "Digest cd m = Inr d \<Longrightarrow> is_bytes32 d"
  by (auto simp: Digest_eq HashMessageWithPrefix_def intro: Keccak256_bytes32)

text \<open>The digests of a message list by key, the later message winning.\<close>

definition digest_entries :: "codec \<Rightarrow> ServiceMessage list \<Rightarrow> (bytes \<times> bytes) list" where
  "digest_entries cd ms = map (\<lambda>m. (Key m, projr (Digest cd m))) ms"

lemma AddMessage_content:
  assumes "smt_laws lib content" "Digest cd m = Inr d"
  obtains t' where "AddMessage cd lib m t = (None, t')" "content t' = (content t)(Key m \<mapsto> d)"
proof -
  obtain t' where "trieUpdate lib t (Key m) d = (None, t')" "content t' = (content t)(Key m \<mapsto> d)"
    using assms Key_bytes32 Digest_bytes32 unfolding smt_laws_def by meson
  then show ?thesis
    using that assms(2) by (simp add: AddMessage_def)
qed

lemma add_messages_content:
  assumes laws: "smt_laws lib content" and "\<forall>m \<in> set ms. \<exists>d. Digest cd m = Inr d"
  shows "\<exists>t'. add_messages cd lib ms t = Inr t' \<and>
    content t' = content t ++ map_of (rev (digest_entries cd ms))"
  using assms(2)
proof (induction ms arbitrary: t)
  case Nil
  then show ?case by (simp add: digest_entries_def)
next
  case (Cons m ms)
  then obtain d where d: "Digest cd m = Inr d" by auto
  obtain t1 where t1: "AddMessage cd lib m t = (None, t1)" "content t1 = (content t)(Key m \<mapsto> d)"
    using AddMessage_content [OF laws d] .
  obtain t' where t': "add_messages cd lib ms t1 = Inr t'"
      "content t' = content t1 ++ map_of (rev (digest_entries cd ms))"
    using Cons.IH [of t1] Cons.prems by auto
  have "content t ++ map_of (rev (digest_entries cd (m # ms))) =
      (content t)(Key m \<mapsto> d) ++ map_of (rev (digest_entries cd ms))"
    using d by (simp add: digest_entries_def)
  then have "content t' = content t ++ map_of (rev (digest_entries cd (m # ms)))"
    by (simp only: t1(2) t'(2))
  then show ?case
    using t1(1) t'(1) by simp
qed

lemma digest_entries_order:
  assumes "mset ms = mset ms'" "distinct (map Key ms)"
  shows "map_of (rev (digest_entries cd ms)) = map_of (rev (digest_entries cd ms'))"
proof (rule gget_mset_eq)
  show "gmap_ok (rev (digest_entries cd ms))"
    using assms(2) by (simp add: digest_entries_def comp_def rev_map [symmetric] flip: rev_map)
  show "mset (rev (digest_entries cd ms)) = mset (rev (digest_entries cd ms'))"
    using assms(1) by (simp add: digest_entries_def)
qed

lemma tree_root:
  assumes laws: "smt_laws lib content" and dig: "\<forall>m \<in> set ms. \<exists>d. Digest cd m = Inr d"
    and perm: "mset ms = mset ms'" and keys: "distinct (map Key ms)"
  shows "\<exists>t u t' u' r. add_messages cd lib ms (NewSMT lib) = Inr t \<and> commit_tree lib t = Inr u \<and>
    add_messages cd lib ms' (NewSMT lib) = Inr t' \<and> commit_tree lib t' = Inr u' \<and>
    to_array32 (trieRoot lib u) = Inr r \<and> to_array32 (trieRoot lib u') = Inr r"
proof -
  have dig': "\<forall>m \<in> set ms'. \<exists>d. Digest cd m = Inr d"
    using dig mset_eq_setD [OF perm] by simp
  obtain t where t: "add_messages cd lib ms (NewSMT lib) = Inr t"
      "content t = content (NewSMT lib) ++ map_of (rev (digest_entries cd ms))"
    using add_messages_content [OF laws dig, of "NewSMT lib"] by blast
  obtain t' where t': "add_messages cd lib ms' (NewSMT lib) = Inr t'"
      "content t' = content (NewSMT lib) ++ map_of (rev (digest_entries cd ms'))"
    using add_messages_content [OF laws dig', of "NewSMT lib"] by blast
  have same: "content t = content t'"
    using t(2) t'(2) digest_entries_order [OF perm keys, of cd] by simp
  obtain u u' where u: "trieCommit lib t = (None, u)" "trieCommit lib t' = (None, u')"
    using laws unfolding smt_laws_def by meson
  then have "trieRoot lib u = trieRoot lib u'" "is_bytes32 (trieRoot lib u)"
    using laws same unfolding smt_laws_def by meson+
  then show ?thesis
    using t t' u by (auto simp: commit_tree_def to_array32_def is_bytes32_def)
qed

text \<open>
  C16. The response to a checkpoint task does not depend on the order in which its messages are read:
  two message lists that are permutations of each other, with one message per rollup block and one
  per operator set id, give the same response, and both calls succeed. So operators that query the
  aggregator and rebuild the trees sign the same digest.
\<close>

theorem checkpoint_response_order:
  assumes "smt_laws lib content"
    and "mset (cm_StateRootUpdateMessages c) = mset (cm_StateRootUpdateMessages c')"
    and "mset (cm_OperatorSetUpdateMessages c) = mset (cm_OperatorSetUpdateMessages c')"
    and "distinct (map (\<lambda>m. (sru_RollupId m, sru_BlockHeight m)) (cm_StateRootUpdateMessages c))"
    and "distinct (map osu_Id (cm_OperatorSetUpdateMessages c))"
    and "\<forall>m \<in> set (cm_StateRootUpdateMessages c). \<exists>d. StateRootUpdateMessage_Digest cd m = Inr d"
    and "\<forall>m \<in> set (cm_OperatorSetUpdateMessages c). \<exists>d. OperatorSetUpdateMessage_Digest cd m = Inr d"
  shows "\<exists>r. NewCheckpointTaskResponseFromMessages cd lib idx (Some c) = Inr r \<and>
    NewCheckpointTaskResponseFromMessages cd lib idx (Some c') = Inr r"
proof -
  have "distinct (map Key (map StateRootMsg (cm_StateRootUpdateMessages c)))"
      "distinct (map Key (map OperatorSetMsg (cm_OperatorSetUpdateMessages c)))"
    using assms(4,5) sru.distinct_keys osu.distinct_keys by (simp_all add: comp_def)
  moreover have "mset (map StateRootMsg (cm_StateRootUpdateMessages c)) =
      mset (map StateRootMsg (cm_StateRootUpdateMessages c'))"
      "mset (map OperatorSetMsg (cm_OperatorSetUpdateMessages c)) =
      mset (map OperatorSetMsg (cm_OperatorSetUpdateMessages c'))"
    using assms(2,3) by simp_all
  moreover have "\<forall>m \<in> set (map StateRootMsg (cm_StateRootUpdateMessages c)). \<exists>d. Digest cd m = Inr d"
      "\<forall>m \<in> set (map OperatorSetMsg (cm_OperatorSetUpdateMessages c)). \<exists>d. Digest cd m = Inr d"
    using assms(6,7) by simp_all
  ultimately show ?thesis
    using tree_root [OF assms(1), of "map StateRootMsg (cm_StateRootUpdateMessages c)" cd]
      tree_root [OF assms(1), of "map OperatorSetMsg (cm_OperatorSetUpdateMessages c)" cd]
    by (fastforce simp: NewCheckpointTaskResponseFromMessages_def)
qed

text \<open>A concrete library: a trie is its content, and the root is what it holds at one key.\<close>

definition map_trie :: "(bytes \<Rightarrow> bytes option, unit) smt_lib" where
  "map_trie =
     \<lparr>NewSparseMerkleTrie = Map.empty, trieUpdate = \<lambda>t k v. (None, t(k \<mapsto> v)),
      trieCommit = \<lambda>t. (None, t),
      trieRoot = \<lambda>t. (case t zero32 of None \<Rightarrow> zero32 | Some v \<Rightarrow> take 32 (v @ zero32)),
      trieProve = \<lambda>t k. Inr (),
      trieCompactProof = \<lambda>p. Inr \<lparr>scp_SideNodes = [], scp_NonMembershipLeafData = None,
        scp_BitMask = [], scp_NumSideNodes = 0\<rparr>\<rparr>"

lemma map_trie_laws: "smt_laws map_trie id"
  by (auto simp: smt_laws_def map_trie_def is_bytes32_def zero32_def split: option.splits)

definition sample_state_root :: "u64 \<Rightarrow> StateRootUpdateMessage" where
  "sample_state_root h =
     \<lparr>sru_RollupId = 1, sru_BlockHeight = h, sru_Timestamp = 10, sru_NearDaTransactionId = zero32,
      sru_NearDaCommitment = zero32, sru_StateRoot = zero32\<rparr>"

definition sample_checkpoint :: "StateRootUpdateMessage list \<Rightarrow> CheckpointMessages" where
  "sample_checkpoint ms =
     \<lparr>cm_StateRootUpdateMessages = ms, cm_StateRootUpdateMessageAggregations = [],
      cm_OperatorSetUpdateMessages = [sample_operator_set],
      cm_OperatorSetUpdateMessageAggregations = []\<rparr>"

lemma toy_codec_digests:
  "\<exists>d. StateRootUpdateMessage_Digest toy_codec m = Inr d"
  "\<exists>d. OperatorSetUpdateMessage_Digest toy_codec sample_operator_set = Inr d"
  by (simp_all add: toy_codec_def StateRootUpdateMessage_Digest_def StateRootUpdateMessage_AbiEncode_def
      OperatorSetUpdateMessage_Digest_def OperatorSetUpdateMessage_AbiEncode_def
      OperatorSetUpdateMessage_ToBinding_def sample_operator_set_def sample_operator_def
      operator_to_binding_def HashMessageWithPrefix_def Keccak256_def zero32_def)

theorem checkpoint_response_order_witness:
  "\<exists>r. NewCheckpointTaskResponseFromMessages toy_codec map_trie 4
        (Some (sample_checkpoint [sample_state_root 5, sample_state_root 6])) = Inr r \<and>
     NewCheckpointTaskResponseFromMessages toy_codec map_trie 4
        (Some (sample_checkpoint [sample_state_root 6, sample_state_root 5])) = Inr r"
  by (rule checkpoint_response_order [OF map_trie_laws])
    (simp_all add: sample_checkpoint_def toy_codec_digests sample_state_root_def)

end
