(* ===== verification/BlsAgg.thy ===== *)
theory BlsAgg
  imports Smt
begin

text \<open>
  The aggregation of BLS signatures over messages, \<^verbatim>\<open>aggregator/blsagg/message_blsagg.go\<close>.

  A message that is being aggregated has a channel, registered under its key, and a goroutine that
  receives signed messages from the channel and counts the stake behind every digest. The counting
  is done in place: the first signer's \<^verbatim>\<open>StakePerQuorum\<close> map becomes the map of the totals, its big
  integers are added to, and the first signature and a new G2 point become the aggregates. So the
  model keeps the objects that are mutated in an explicit store (\<open>objects\<close>), and the maps, big
  integers, points and signatures are references into it. Every message has its own store: the
  registry service allocates the maps and integers of each call anew, and each signature is decoded
  from its own request.

  The handlers are functions; the service is a step relation in which calls, deliveries, timers and
  the two halves of an initialization interleave. The registry service, the Ethereum client and the
  curve are parameters.
\<close>

section \<open>Objects and state\<close>

datatype agg_error =
    MessageExpiredError
  | MessageNotFoundError MessageDigest
  | OperatorNotPartOfMessageQuorumError OperatorId MessageDigest
  | SignatureVerificationError string
  | IncorrectSignatureError
  | MessageDigestNotFoundError
  | QuorumThresholdPercentageOutOfBoundsError
  | QuorumThresholdPercentageLessThan51Error
  | DigestError string
  | RegistryError string
  | ContextError

datatype MessageBlsAggregationStatus =
    StatusNone
  | StatusFullStakeThresholdMet
  | StatusThresholdNotReached
  | StatusThresholdReached

record objects =
  o_next :: nat
  o_int :: "nat \<Rightarrow> int"
  o_map :: "nat \<Rightarrow> (u8, nat) gomap"
  o_g2 :: "nat \<Rightarrow> G2Point"
  o_sig :: "nat \<Rightarrow> Signature"

record OperatorAvsState =
  oas_G1Pubkey :: "G1Point option"
  oas_G2Pubkey :: "G2Point option"
  oas_StakePerQuorum :: nat

record QuorumAvsState =
  qas_AggPubkeyG1 :: "G1Point option"
  qas_TotalStake :: int

record AggregatedOperators =
  signersApkG2 :: nat
  signersAggSigG1 :: nat
  signersTotalStakePerQuorum :: nat
  signersOperatorIdsSet :: "(OperatorId, bool) gomap"

record SignedMessage =
  sm_Message :: ServiceMessage
  sm_MessageDigest :: MessageDigest
  sm_BlsSignature :: Signature
  sm_OperatorId :: OperatorId

record signedMessageDigestValidationInfo =
  operatorsAvsStateDict :: "(OperatorId, OperatorAvsState) gomap"
  quorumsAvsStakeDict :: "(u8, QuorumAvsState) gomap"
  totalStakePerQuorum :: "(u8, int) gomap"
  quorumApksG1 :: "G1Point option list"
  aggregatedOperatorsDict :: "(MessageDigest, AggregatedOperators) gomap"
  quorumThresholdPercentagesMap :: "(u8, u8) gomap"
  quorumNumbers :: "u8 list"
  ethBlockNumber :: u64
  objs :: objects

record MessageBlsAggregationServiceResponse =
  r_MessageBlsAggregation :: "(nat, nat) MessageBlsAggregation"
  r_MessageKey :: MessageKey
  r_Message :: "ServiceMessage option"
  r_Status :: MessageBlsAggregationStatus
  r_Finished :: bool
  r_Err :: "agg_error option"

text \<open>
  What the registry service and the Ethereum client answer. The registry's operator states hold
  stakes by value here; \<open>fetchValidationInfo\<close> allocates them.
\<close>

record CheckSignaturesIndices =
  csi_NonSignerQuorumBitmapIndices :: "u32 list"
  csi_QuorumApkIndices :: "u32 list"
  csi_TotalStakeIndices :: "u32 list"
  csi_NonSignerStakeIndices :: "u32 list list"

record RegistryOperator =
  reg_G1Pubkey :: "G1Point option"
  reg_G2Pubkey :: "G2Point option"
  reg_StakePerQuorum :: "(u8, int) gomap"

record AvsRegistry =
  BlockNumber :: "string + u64"
  GetOperatorsAvsStateAtBlock :: "u8 list \<Rightarrow> u32 \<Rightarrow> string + (OperatorId, RegistryOperator) gomap"
  GetQuorumsAvsStateAtBlock :: "u8 list \<Rightarrow> u32 \<Rightarrow> string + (u8, QuorumAvsState) gomap"

type_synonym get_indices = "u32 \<Rightarrow> u8 list \<Rightarrow> OperatorId list \<Rightarrow> string + CheckSignaturesIndices"

section \<open>Thresholds\<close>

fun validateQuorumThresholdPercentages :: "u8 list \<Rightarrow> (agg_error, unit) res" where
  "validateQuorumThresholdPercentages [] = Inr ()"
| "validateQuorumThresholdPercentages (percentage # rest) =
     (if percentage > 100 then Inl (Err QuorumThresholdPercentageOutOfBoundsError)
      else if percentage < 51 then Inl (Err QuorumThresholdPercentageLessThan51Error)
      else validateQuorumThresholdPercentages rest)"

text \<open>A missing map entry is a nil \<^verbatim>\<open>*big.Int\<close>, which the arithmetic dereferences.\<close>

fun checkIfStakeThresholdsMet ::
  "(u8, int) gomap \<Rightarrow> (u8, int) gomap \<Rightarrow> (u8, u8) gomap \<Rightarrow> (agg_error, bool) res" where
  "checkIfStakeThresholdsMet signedStakes totalStakes [] = Inr True"
| "checkIfStakeThresholdsMet signedStakes totalStakes ((quorumNum, percentage) # rest) =
     (case gget signedStakes quorumNum of
        None \<Rightarrow> Inl (Fault NilDereference)
      | Some s \<Rightarrow>
          (case gget totalStakes quorumNum of
             None \<Rightarrow> Inl (Fault NilDereference)
           | Some t \<Rightarrow>
               (let signedStake = s * 100; thresholdStake = t * uint percentage
                in if signedStake < thresholdStake then Inr False
                   else checkIfStakeThresholdsMet signedStakes totalStakes rest)))"

fun checkIfFullStakeThresholdMet ::
  "(u8, int) gomap \<Rightarrow> (u8, int) gomap \<Rightarrow> (agg_error, bool) res" where
  "checkIfFullStakeThresholdMet [] totalStakes = Inr True"
| "checkIfFullStakeThresholdMet ((quorumNum, signedStake) # rest) totalStakes =
     (case gget totalStakes quorumNum of
        None \<Rightarrow> Inl (Fault NilDereference)
      | Some t \<Rightarrow>
          if signedStake \<noteq> t then Inr False else checkIfFullStakeThresholdMet rest totalStakes)"

section \<open>One signed message\<close>

definition verifySignature ::
  "bls_lib \<Rightarrow> SignedMessage \<Rightarrow> (OperatorId, OperatorAvsState) gomap \<Rightarrow> (agg_error, unit) res" where
  "verifySignature bl sm dict =
     (case gget dict (sm_OperatorId sm) of
        None \<Rightarrow> Inl (Err (OperatorNotPartOfMessageQuorumError (sm_OperatorId sm) (sm_MessageDigest sm)))
      | Some st \<Rightarrow>
          (case oas_G2Pubkey st of
             None \<Rightarrow> Inl (Fault (FatalExit ''Operator G2 pubkey not found''))
           | Some operatorG2Pubkey \<Rightarrow>
               (case SigVerify bl (sm_BlsSignature sm) operatorG2Pubkey (sm_MessageDigest sm) of
                  Inl e \<Rightarrow> Inl (Err (SignatureVerificationError e))
                | Inr signatureVerified \<Rightarrow>
                    if \<not> signatureVerified then Inl (Err IncorrectSignatureError) else Inr ())))"

text \<open>The values of a map of big integers.\<close>

definition stakes_of :: "objects \<Rightarrow> nat \<Rightarrow> (u8, int) gomap" where
  "stakes_of ob m = map (\<lambda>(q, r). (q, o_int ob r)) (o_map ob m)"

text \<open>
  The loop that adds a signer's stakes to the totals, in place. A quorum that the totals lack gets a
  new zero first.
\<close>

definition total_entry :: "nat \<Rightarrow> u8 \<Rightarrow> objects \<Rightarrow> objects \<times> nat" where
  "total_entry tot q ob =
     (case gget (o_map ob tot) q of
        Some r \<Rightarrow> (ob, r)
      | None \<Rightarrow>
          (let r = o_next ob
           in (ob\<lparr>o_next := r + 1, o_int := (o_int ob)(r := 0),
                  o_map := (o_map ob)(tot := gput q r (o_map ob tot))\<rparr>, r)))"

fun add_stakes :: "nat \<Rightarrow> (u8 \<times> nat) list \<Rightarrow> objects \<Rightarrow> objects" where
  "add_stakes tot [] ob = ob"
| "add_stakes tot ((quorumNum, stake) # rest) ob =
     (let (ob1, t) = total_entry tot quorumNum ob
      in add_stakes tot rest (ob1\<lparr>o_int := (o_int ob1)(t := o_int ob1 t + o_int ob1 stake)\<rparr>))"

text \<open>The first signature over a digest, and every later one.\<close>

definition first_signer ::
  "bls_lib \<Rightarrow> OperatorAvsState \<Rightarrow> G2Point \<Rightarrow> SignedMessage \<Rightarrow> objects \<Rightarrow> AggregatedOperators \<times> objects"
where
  "first_signer bl st pk sm ob =
     (let apk = o_next ob; sig = o_next ob + 1
      in (\<lparr>signersApkG2 = apk, signersAggSigG1 = sig,
           signersTotalStakePerQuorum = oas_StakePerQuorum st,
           signersOperatorIdsSet = [(sm_OperatorId sm, True)]\<rparr>,
          ob\<lparr>o_next := o_next ob + 2,
             o_g2 := (o_g2 ob)(apk := G2Add bl (ZeroG2Point bl) pk),
             o_sig := (o_sig ob)(sig := sm_BlsSignature sm)\<rparr>))"

definition later_signer ::
  "bls_lib \<Rightarrow> OperatorAvsState \<Rightarrow> G2Point \<Rightarrow> SignedMessage \<Rightarrow> AggregatedOperators \<Rightarrow> objects \<Rightarrow>
   AggregatedOperators \<times> objects" where
  "later_signer bl st pk sm ao ob =
     (let sig = signersAggSigG1 ao; apk = signersApkG2 ao; tot = signersTotalStakePerQuorum ao;
          ob1 = ob\<lparr>o_sig := (o_sig ob)(sig := SigAdd bl (o_sig ob sig) (sm_BlsSignature sm)),
                   o_g2 := (o_g2 ob)(apk := G2Add bl (o_g2 ob apk) pk)\<rparr>
      in (ao\<lparr>signersOperatorIdsSet := gput (sm_OperatorId sm) True (signersOperatorIdsSet ao)\<rparr>,
          add_stakes tot (o_map ob1 (oas_StakePerQuorum st)) ob1))"

definition handleSignedMessageDigest ::
  "codec \<Rightarrow> bls_lib \<Rightarrow> SignedMessage \<Rightarrow> signedMessageDigestValidationInfo \<Rightarrow>
   (agg_error, signedMessageDigestValidationInfo) res" where
  "handleSignedMessageDigest cd bl sm vi =
     bind_err (verifySignature bl sm (operatorsAvsStateDict vi)) (\<lambda>_.
     (case Digest cd (sm_Message sm) of
        Inl (Err e) \<Rightarrow> Inl (Err (DigestError e))
      | Inl (Fault f) \<Rightarrow> Inl (Fault f)
      | Inr digest \<Rightarrow>
          (case gget (operatorsAvsStateDict vi) (sm_OperatorId sm) of
             None \<Rightarrow> Inl (Fault NilDereference)
           | Some st \<Rightarrow>
               (case oas_G2Pubkey st of
                  None \<Rightarrow> Inl (Fault NilDereference)
                | Some pk \<Rightarrow>
                    (let (ao, ob) =
                       (case gget (aggregatedOperatorsDict vi) digest of
                          None \<Rightarrow> first_signer bl st pk sm (objs vi)
                        | Some ao \<Rightarrow> later_signer bl st pk sm ao (objs vi))
                     in Inr (vi\<lparr>aggregatedOperatorsDict := gput digest ao (aggregatedOperatorsDict vi),
                               objs := ob\<rparr>))))))"

section \<open>Responses\<close>

definition getMessageBlsAggregationStatus ::
  "MessageDigest \<Rightarrow> signedMessageDigestValidationInfo \<Rightarrow> (agg_error, MessageBlsAggregationStatus) res"
where
  "getMessageBlsAggregationStatus digest vi =
     (case gget (aggregatedOperatorsDict vi) digest of
        None \<Rightarrow> Inl (Err (MessageNotFoundError digest))
      | Some ao \<Rightarrow>
          (let signedStakes = stakes_of (objs vi) (signersTotalStakePerQuorum ao)
           in bind_err (checkIfFullStakeThresholdMet signedStakes (totalStakePerQuorum vi))
                (\<lambda>fullStakeThresholdMet.
              if fullStakeThresholdMet then Inr StatusFullStakeThresholdMet
              else bind_err (checkIfStakeThresholdsMet signedStakes (totalStakePerQuorum vi)
                     (quorumThresholdPercentagesMap vi)) (\<lambda>met.
                   if met then Inr StatusThresholdReached else Inr StatusThresholdNotReached))))"

definition emptyAggregation :: "MessageDigest \<Rightarrow> u64 \<Rightarrow> (nat, nat) MessageBlsAggregation" where
  "emptyAggregation digest block =
     \<lparr>mba_EthBlockNumber = block, mba_MessageDigest = digest, mba_NonSignersPubkeysG1 = [],
      mba_QuorumApksG1 = [], mba_SignersApkG2 = None, mba_SignersAggSigG1 = None,
      mba_NonSignerQuorumBitmapIndices = [], mba_QuorumApkIndices = [], mba_TotalStakeIndices = [],
      mba_NonSignerStakeIndices = []\<rparr>"

definition errorResponse ::
  "ServiceMessage \<Rightarrow> MessageDigest \<Rightarrow> signedMessageDigestValidationInfo \<Rightarrow> bool \<Rightarrow> agg_error \<Rightarrow>
   MessageBlsAggregationServiceResponse" where
  "errorResponse msg digest vi forceFinished e =
     \<lparr>r_MessageBlsAggregation = emptyAggregation digest (ethBlockNumber vi), r_MessageKey = Key msg,
      r_Message = Some msg, r_Status = StatusNone, r_Finished = forceFinished, r_Err = Some e\<rparr>"

text \<open>\<^verbatim>\<open>sort.SliceStable\<close> by the numbers that the operator ids encode.\<close>

definition nonSignersOperatorIds ::
  "AggregatedOperators \<Rightarrow> signedMessageDigestValidationInfo \<Rightarrow> OperatorId list" where
  "nonSignersOperatorIds ao vi =
     sort_key be_nat
       (filter (\<lambda>op. gget (signersOperatorIdsSet ao) op = None) (gkeys (operatorsAvsStateDict vi)))"

definition nonSignersG1Pubkeys ::
  "OperatorId list \<Rightarrow> signedMessageDigestValidationInfo \<Rightarrow> G1Point option list" where
  "nonSignersG1Pubkeys ops vi =
     map (\<lambda>op. case gget (operatorsAvsStateDict vi) op of None \<Rightarrow> None | Some st \<Rightarrow> oas_G1Pubkey st) ops"

definition getMessageBlsAggregationResponse ::
  "get_indices \<Rightarrow> ServiceMessage \<Rightarrow> MessageDigest \<Rightarrow> signedMessageDigestValidationInfo \<Rightarrow> bool \<Rightarrow>
   (agg_error, MessageBlsAggregationServiceResponse) res" where
  "getMessageBlsAggregationResponse getIndices msg digest vi forceFinished =
     (case gget (aggregatedOperatorsDict vi) digest of
        None \<Rightarrow> Inr (errorResponse msg digest vi forceFinished (MessageNotFoundError digest))
      | Some ao \<Rightarrow>
          (case getMessageBlsAggregationStatus digest vi of
             Inl (Fault f) \<Rightarrow> Inl (Fault f)
           | Inl (Err e) \<Rightarrow> Inr (errorResponse msg digest vi forceFinished e)
           | Inr status \<Rightarrow>
               (let ops = nonSignersOperatorIds ao vi; pubkeys = nonSignersG1Pubkeys ops vi
                in case getIndices (ucast (ethBlockNumber vi)) (quorumNumbers vi) ops of
                     Inl e \<Rightarrow> Inr (errorResponse msg digest vi forceFinished (RegistryError e))
                   | Inr indices \<Rightarrow>
                       Inr \<lparr>r_MessageBlsAggregation =
                              \<lparr>mba_EthBlockNumber = ethBlockNumber vi,
                               mba_MessageDigest = digest,
                               mba_NonSignersPubkeysG1 = pubkeys,
                               mba_QuorumApksG1 = quorumApksG1 vi,
                               mba_SignersApkG2 = Some (signersApkG2 ao),
                               mba_SignersAggSigG1 = Some (signersAggSigG1 ao),
                               mba_NonSignerQuorumBitmapIndices =
                                 csi_NonSignerQuorumBitmapIndices indices,
                               mba_QuorumApkIndices = csi_QuorumApkIndices indices,
                               mba_TotalStakeIndices = csi_TotalStakeIndices indices,
                               mba_NonSignerStakeIndices = csi_NonSignerStakeIndices indices\<rparr>,
                            r_MessageKey = Key msg, r_Message = Some msg, r_Status = status,
                            r_Finished = (status = StatusFullStakeThresholdMet \<or> forceFinished),
                            r_Err = None\<rparr>)))"

section \<open>The goroutine of a message\<close>

text \<open>
  One iteration of a \<^verbatim>\<open>select\<close> loop: the new validation info, the error sent back to the caller of
  \<^verbatim>\<open>ProcessNewSignature\<close>, the responses sent to the aggregator, and how the loop goes on.
\<close>

datatype loop_exit = Continue | Return "ServiceMessage option" bool

record iteration =
  it_info :: signedMessageDigestValidationInfo
  it_reply :: "agg_error option"
  it_responses :: "MessageBlsAggregationServiceResponse list"
  it_exit :: loop_exit

definition handleSignedMessagePreThreshold ::
  "codec \<Rightarrow> bls_lib \<Rightarrow> get_indices \<Rightarrow> SignedMessage \<Rightarrow> signedMessageDigestValidationInfo \<Rightarrow>
   (agg_error, iteration) res" where
  "handleSignedMessagePreThreshold cd bl getIndices sm vi =
     (case handleSignedMessageDigest cd bl sm vi of
        Inl (Fault f) \<Rightarrow> Inl (Fault f)
      | Inl (Err e) \<Rightarrow>
          Inr \<lparr>it_info = vi, it_reply = Some e, it_responses = [], it_exit = Continue\<rparr>
      | Inr vi' \<Rightarrow>
          bind_err (getMessageBlsAggregationResponse getIndices (sm_Message sm) (sm_MessageDigest sm) vi' False)
            (\<lambda>aggregation.
          Inr \<lparr>it_info = vi', it_reply = None,
               it_responses = (if r_Status aggregation = StatusThresholdNotReached then [] else [aggregation]),
               it_exit =
                 (if r_Status aggregation = StatusThresholdReached then Return (Some (sm_Message sm)) True
                  else if r_Status aggregation = StatusFullStakeThresholdMet
                    then Return (Some (sm_Message sm)) False
                  else Continue)\<rparr>))"

definition messageExpired ::
  "MessageKey \<Rightarrow> signedMessageDigestValidationInfo \<Rightarrow> iteration" where
  "messageExpired key vi =
     \<lparr>it_info = vi, it_reply = None,
      it_responses = [\<lparr>r_MessageBlsAggregation = emptyAggregation zero32 (ethBlockNumber vi),
        r_MessageKey = key, r_Message = None, r_Status = StatusNone, r_Finished = True,
        r_Err = Some MessageExpiredError\<rparr>],
      it_exit = Return None False\<rparr>"

definition handleSignedMessageThresholdReached ::
  "codec \<Rightarrow> bls_lib \<Rightarrow> get_indices \<Rightarrow> MessageDigest \<Rightarrow> SignedMessage \<Rightarrow>
   signedMessageDigestValidationInfo \<Rightarrow> (agg_error, iteration) res" where
  "handleSignedMessageThresholdReached cd bl getIndices messageDigest sm vi =
     (if sm_MessageDigest sm \<noteq> messageDigest
      then Inr \<lparr>it_info = vi, it_reply = None, it_responses = [], it_exit = Continue\<rparr>
      else
        (case handleSignedMessageDigest cd bl sm vi of
           Inl (Fault f) \<Rightarrow> Inl (Fault f)
         | Inl (Err e) \<Rightarrow>
             Inr \<lparr>it_info = vi, it_reply = Some e, it_responses = [], it_exit = Continue\<rparr>
         | Inr vi' \<Rightarrow>
             bind_err (getMessageBlsAggregationResponse getIndices (sm_Message sm) (sm_MessageDigest sm) vi' False)
               (\<lambda>aggregation.
             Inr \<lparr>it_info = vi', it_reply = None, it_responses = [aggregation],
                  it_exit = (if r_Status aggregation = StatusFullStakeThresholdMet
                             then Return None False else Continue)\<rparr>)))"

definition thresholdReachedTimer ::
  "get_indices \<Rightarrow> ServiceMessage \<Rightarrow> MessageDigest \<Rightarrow> signedMessageDigestValidationInfo \<Rightarrow>
   (agg_error, iteration) res" where
  "thresholdReachedTimer getIndices msg messageDigest vi =
     bind_err (getMessageBlsAggregationResponse getIndices msg messageDigest vi True) (\<lambda>aggregation.
       Inr \<lparr>it_info = vi, it_reply = None, it_responses = [aggregation],
            it_exit = Return None False\<rparr>)"

text \<open>
  \<^verbatim>\<open>singleMessageAggregatorGoroutineFunc\<close> runs the first loop and, if that returns true, the
  second one, which takes the digest of the message first. \<open>None\<close> is the deferred
  \<^verbatim>\<open>closeMessageGoroutine\<close>.
\<close>

datatype phase =
    PreThreshold
  | ThresholdReached ServiceMessage MessageDigest

fun next_phase :: "codec \<Rightarrow> phase \<Rightarrow> loop_exit \<Rightarrow> (agg_error, phase option) res" where
  "next_phase cd ph Continue = Inr (Some ph)"
| "next_phase cd PreThreshold (Return (Some msg) True) =
     (case Digest cd msg of
        Inl (Err e) \<Rightarrow> Inl (Fault (FatalExit ''Failed to get message digest, should be unreachable''))
      | Inl (Fault f) \<Rightarrow> Inl (Fault f)
      | Inr messageDigest \<Rightarrow> Inr (Some (ThresholdReached msg messageDigest)))"
| "next_phase cd PreThreshold (Return None True) = Inl (Fault NilDereference)"
| "next_phase cd _ (Return _ _) = Inr None"

datatype goroutine_event =
    Received SignedMessage get_indices
  | Timer get_indices

definition goroutine_iteration ::
  "codec \<Rightarrow> bls_lib \<Rightarrow> MessageKey \<Rightarrow> phase \<Rightarrow> goroutine_event \<Rightarrow> signedMessageDigestValidationInfo \<Rightarrow>
   (agg_error, iteration) res" where
  "goroutine_iteration cd bl key ph ev vi =
     (case (ph, ev) of
        (PreThreshold, Received sm idx) \<Rightarrow> handleSignedMessagePreThreshold cd bl idx sm vi
      | (PreThreshold, Timer idx) \<Rightarrow> Inr (messageExpired key vi)
      | (ThresholdReached msg d, Received sm idx) \<Rightarrow> handleSignedMessageThresholdReached cd bl idx d sm vi
      | (ThresholdReached msg d, Timer idx) \<Rightarrow> thresholdReachedTimer idx msg d vi)"

definition singleMessageAggregatorGoroutineFunc ::
  "codec \<Rightarrow> bls_lib \<Rightarrow> MessageKey \<Rightarrow> phase \<Rightarrow> goroutine_event \<Rightarrow> signedMessageDigestValidationInfo \<Rightarrow>
   (agg_error, iteration \<times> phase option) res" where
  "singleMessageAggregatorGoroutineFunc cd bl key ph ev vi =
     bind_err (goroutine_iteration cd bl key ph ev vi) (\<lambda>it.
     bind_err (next_phase cd ph (it_exit it)) (\<lambda>ph'. Inr (it, ph')))"

section \<open>Validation info\<close>

fun alloc_stakes :: "(u8, int) gomap \<Rightarrow> objects \<Rightarrow> (u8, nat) gomap \<times> objects" where
  "alloc_stakes [] ob = ([], ob)"
| "alloc_stakes ((q, v) # rest) ob =
     (let r = o_next ob;
          (entries, ob') = alloc_stakes rest (ob\<lparr>o_next := r + 1, o_int := (o_int ob)(r := v)\<rparr>)
      in ((q, r) # entries, ob'))"

fun alloc_operators ::
  "(OperatorId, RegistryOperator) gomap \<Rightarrow> objects \<Rightarrow> (OperatorId, OperatorAvsState) gomap \<times> objects"
where
  "alloc_operators [] ob = ([], ob)"
| "alloc_operators ((op, st) # rest) ob =
     (let (entries, ob1) = alloc_stakes (reg_StakePerQuorum st) ob;
          m = o_next ob1;
          (ops, ob2) = alloc_operators rest (ob1\<lparr>o_next := m + 1, o_map := (o_map ob1)(m := entries)\<rparr>)
      in ((op, \<lparr>oas_G1Pubkey = reg_G1Pubkey st, oas_G2Pubkey = reg_G2Pubkey st,
                oas_StakePerQuorum = m\<rparr>) # ops, ob2))"

definition no_objects :: "bls_lib \<Rightarrow> objects" where
  "no_objects bl =
     \<lparr>o_next = 0, o_int = (\<lambda>_. 0), o_map = (\<lambda>_. []), o_g2 = (\<lambda>_. ZeroG2Point bl), o_sig = (\<lambda>_. None)\<rparr>"

fun threshold_map :: "u8 list \<Rightarrow> u8 list \<Rightarrow> (u8, u8) gomap \<Rightarrow> (agg_error, (u8, u8) gomap) res" where
  "threshold_map [] ps m = Inr m"
| "threshold_map (q # qs) [] m = Inl (Fault IndexOutOfRange)"
| "threshold_map (q # qs) (p # ps) m = threshold_map qs ps (gput q p m)"

definition fetchValidationInfo ::
  "bls_lib \<Rightarrow> AvsRegistry \<Rightarrow> u8 list \<Rightarrow> u8 list \<Rightarrow> u64 \<Rightarrow>
   (agg_error, signedMessageDigestValidationInfo) res" where
  "fetchValidationInfo bl avs quorumNums percentages block =
     bind_err (if block = 0
               then (case BlockNumber avs of
                       Inl e \<Rightarrow> Inl (Fault (FatalExit ''Aggregator failed to get current block number''))
                     | Inr curEthBlockNumber \<Rightarrow> Inr curEthBlockNumber)
               else Inr block) (\<lambda>ethBlock.
     (case GetOperatorsAvsStateAtBlock avs quorumNums (ucast ethBlock) of
        Inl e \<Rightarrow> Inl (Err (RegistryError e))
      | Inr operators \<Rightarrow>
          (case GetQuorumsAvsStateAtBlock avs quorumNums (ucast ethBlock) of
             Inl e \<Rightarrow> Inl (Err (RegistryError e))
           | Inr quorums \<Rightarrow>
               bind_err (threshold_map quorumNums percentages []) (\<lambda>thresholds.
               (let (dict, ob) = alloc_operators operators (no_objects bl)
                in Inr \<lparr>operatorsAvsStateDict = dict,
                        quorumsAvsStakeDict = quorums,
                        totalStakePerQuorum = map (\<lambda>(q, st). (q, qas_TotalStake st)) quorums,
                        quorumApksG1 =
                          map (\<lambda>q. case gget quorums q of None \<Rightarrow> None | Some st \<Rightarrow> qas_AggPubkeyG1 st) quorumNums,
                        aggregatedOperatorsDict = [],
                        quorumThresholdPercentagesMap = thresholds,
                        quorumNumbers = quorumNums,
                        ethBlockNumber = ethBlock,
                        objs = ob\<rparr>)))))"

section \<open>The service\<close>

text \<open>
  \<open>signedMessageCs\<close> maps the keys to channels. The other fields are what the running process has
  besides the struct: the goroutines by their channel, the initializations between the
  registration of the channel and the start of the goroutine, the callers that are sending on a
  channel, and the responses that went out on \<^verbatim>\<open>aggregatedResponsesC\<close>, with the channel of the
  goroutine that sent them.
\<close>

record init_args =
  ia_key :: MessageKey
  ia_quorumNumbers :: "u8 list"
  ia_percentages :: "u8 list"
  ia_block :: u64

record routine =
  g_key :: MessageKey
  g_phase :: phase
  g_info :: signedMessageDigestValidationInfo

record MessageBlsAggregatorService =
  signedMessageCs :: "(MessageKey, nat) gomap"
  routines :: "(nat, routine) gomap"
  pendingInits :: "(nat, init_args) gomap"
  senders :: "(nat \<times> SignedMessage) list"
  nextChan :: nat
  aggregatedResponsesC :: "(nat \<times> MessageBlsAggregationServiceResponse) list"

definition NewMessageBlsAggregatorService :: MessageBlsAggregatorService where
  "NewMessageBlsAggregatorService =
     \<lparr>signedMessageCs = [], routines = [], pendingInits = [], senders = [], nextChan = 0,
      aggregatedResponsesC = []\<rparr>"

definition GetResponseChannel ::
  "MessageBlsAggregatorService \<Rightarrow> MessageBlsAggregationServiceResponse list" where
  "GetResponseChannel s = map snd (aggregatedResponsesC s)"

definition initializeMessageChan ::
  "MessageKey \<Rightarrow> MessageBlsAggregatorService \<Rightarrow> nat option \<times> MessageBlsAggregatorService" where
  "initializeMessageChan key s =
     (case gget (signedMessageCs s) key of
        Some c \<Rightarrow> (None, s)
      | None \<Rightarrow>
          (let c = nextChan s
           in (Some c, s\<lparr>signedMessageCs := gput key c (signedMessageCs s), nextChan := c + 1\<rparr>)))"

definition start_routine ::
  "MessageKey \<Rightarrow> nat \<Rightarrow> signedMessageDigestValidationInfo \<Rightarrow> MessageBlsAggregatorService \<Rightarrow>
   MessageBlsAggregatorService" where
  "start_routine key c vi s =
     s\<lparr>routines := gput c \<lparr>g_key = key, g_phase = PreThreshold, g_info = vi\<rparr> (routines s)\<rparr>"

text \<open>A whole call, when no other call runs in between.\<close>

definition InitializeMessageIfNotExists ::
  "bls_lib \<Rightarrow> AvsRegistry \<Rightarrow> init_args \<Rightarrow> MessageBlsAggregatorService \<Rightarrow>
   agg_error failure option \<times> MessageBlsAggregatorService" where
  "InitializeMessageIfNotExists bl avs a s =
     (case validateQuorumThresholdPercentages (ia_percentages a) of
        Inl e \<Rightarrow> (Some e, s)
      | Inr _ \<Rightarrow>
          (case initializeMessageChan (ia_key a) s of
             (None, s') \<Rightarrow> (None, s')
           | (Some c, s') \<Rightarrow>
               (case fetchValidationInfo bl avs (ia_quorumNumbers a) (ia_percentages a) (ia_block a) of
                  Inl e \<Rightarrow> (Some e, s')
                | Inr vi \<Rightarrow> (None, start_routine (ia_key a) c vi s'))))"

definition closeMessageGoroutine ::
  "MessageKey \<Rightarrow> MessageBlsAggregatorService \<Rightarrow> MessageBlsAggregatorService" where
  "closeMessageGoroutine key s = s\<lparr>signedMessageCs := gdel key (signedMessageCs s)\<rparr>"

text \<open>What the goroutine of channel \<open>c\<close> does with one event, and the reply that it gives.\<close>

definition react ::
  "codec \<Rightarrow> bls_lib \<Rightarrow> nat \<Rightarrow> goroutine_event \<Rightarrow> MessageBlsAggregatorService \<Rightarrow>
   (agg_error, agg_error option \<times> MessageBlsAggregatorService) res" where
  "react cd bl c ev s =
     (case gget (routines s) c of
        None \<Rightarrow> Inl (Fault BlockedForever)
      | Some g \<Rightarrow>
          bind_err (singleMessageAggregatorGoroutineFunc cd bl (g_key g) (g_phase g) ev (g_info g))
            (\<lambda>(it, ph').
          (let s1 = s\<lparr>aggregatedResponsesC :=
                 aggregatedResponsesC s @ map (Pair c) (it_responses it)\<rparr>
           in Inr (it_reply it,
                (case ph' of
                   Some p \<Rightarrow> s1\<lparr>routines := gput c (g\<lparr>g_phase := p, g_info := it_info it\<rparr>) (routines s)\<rparr>
                 | None \<Rightarrow> closeMessageGoroutine (g_key g) (s1\<lparr>routines := gdel c (routines s)\<rparr>))))))"

text \<open>
  \<^verbatim>\<open>ProcessNewSignature\<close> up to its \<^verbatim>\<open>select\<close>: the channel and the message to send on it.
\<close>

definition find_channel ::
  "codec \<Rightarrow> ServiceMessage \<Rightarrow> Signature \<Rightarrow> OperatorId \<Rightarrow> MessageBlsAggregatorService \<Rightarrow>
   (agg_error, nat \<times> SignedMessage) res" where
  "find_channel cd msg sig op s =
     (case gget (signedMessageCs s) (Key msg) of
        None \<Rightarrow> Inl (Err (MessageNotFoundError (Key msg)))
      | Some c \<Rightarrow>
          (case Digest cd msg of
             Inl (Fault f) \<Rightarrow> Inl (Fault f)
           | Inl (Err e) \<Rightarrow> Inl (Err MessageDigestNotFoundError)
           | Inr d \<Rightarrow> Inr (c, \<lparr>sm_Message = msg, sm_MessageDigest = d, sm_BlsSignature = sig,
                               sm_OperatorId = op\<rparr>)))"

text \<open>
  A whole call, when no other call runs in between: the goroutine receives the message, or nobody
  does and the call lasts until its context is done, if that ever happens.
\<close>

definition ProcessNewSignature ::
  "codec \<Rightarrow> bls_lib \<Rightarrow> get_indices \<Rightarrow> bool \<Rightarrow> ServiceMessage \<Rightarrow> Signature \<Rightarrow> OperatorId \<Rightarrow>
   MessageBlsAggregatorService \<Rightarrow> agg_error failure option \<times> MessageBlsAggregatorService" where
  "ProcessNewSignature cd bl idx ctxDone msg sig op s =
     (case find_channel cd msg sig op s of
        Inl e \<Rightarrow> (Some e, s)
      | Inr (c, sm) \<Rightarrow>
          (case gget (routines s) c of
             None \<Rightarrow> (if ctxDone then (Some (Err ContextError), s) else (Some (Fault BlockedForever), s))
           | Some g \<Rightarrow>
               (case react cd bl c (Received sm idx) s of
                  Inl e \<Rightarrow> (Some e, s)
                | Inr (reply, s') \<Rightarrow> (map_option Err reply, s'))))"

text \<open>All interleavings. A fault ends the process, so it is not a step.\<close>

inductive mbas_step ::
  "codec \<Rightarrow> bls_lib \<Rightarrow> MessageBlsAggregatorService \<Rightarrow> MessageBlsAggregatorService \<Rightarrow> bool"
  for cd :: codec and bl :: bls_lib where
  init_call:
    "validateQuorumThresholdPercentages (ia_percentages a) = Inr () \<Longrightarrow>
     initializeMessageChan (ia_key a) s = (Some c, s') \<Longrightarrow>
     mbas_step cd bl s (s'\<lparr>pendingInits := gput c a (pendingInits s')\<rparr>)"
| init_done:
    "gget (pendingInits s) c = Some a \<Longrightarrow>
     fetchValidationInfo bl avs (ia_quorumNumbers a) (ia_percentages a) (ia_block a) = Inr vi \<Longrightarrow>
     mbas_step cd bl s (start_routine (ia_key a) c vi (s\<lparr>pendingInits := gdel c (pendingInits s)\<rparr>))"
| init_failed:
    "gget (pendingInits s) c = Some a \<Longrightarrow>
     fetchValidationInfo bl avs (ia_quorumNumbers a) (ia_percentages a) (ia_block a) = Inl (Err e) \<Longrightarrow>
     mbas_step cd bl s (s\<lparr>pendingInits := gdel c (pendingInits s)\<rparr>)"
| signature_call:
    "find_channel cd msg sig op s = Inr (c, sm) \<Longrightarrow>
     mbas_step cd bl s (s\<lparr>senders := senders s @ [(c, sm)]\<rparr>)"
| delivery:
    "(c, sm) \<in> set (senders s) \<Longrightarrow> react cd bl c (Received sm idx) s = Inr (reply, s') \<Longrightarrow>
     mbas_step cd bl s (s'\<lparr>senders := remove1 (c, sm) (senders s)\<rparr>)"
| call_cancelled:
    "(c, sm) \<in> set (senders s) \<Longrightarrow>
     mbas_step cd bl s (s\<lparr>senders := remove1 (c, sm) (senders s)\<rparr>)"
| timer:
    "react cd bl c (Timer idx) s = Inr (reply, s') \<Longrightarrow> mbas_step cd bl s s'"

inductive_cases mbas_stepE: "mbas_step cd bl s t"

section \<open>Threshold checks\<close>

text \<open>
  The percentages of a message are accepted exactly when each of them is between 51 and 100.
\<close>

theorem threshold_percentages_valid:
  "validateQuorumThresholdPercentages ps = Inr () \<longleftrightarrow> (\<forall>p \<in> set ps. 51 \<le> p \<and> p \<le> 100)"
  by (induction ps) auto

theorem threshold_percentages_valid_witness:
  "validateQuorumThresholdPercentages [66, 100] = Inr () \<and> validateQuorumThresholdPercentages [50] \<noteq> Inr ()"
  using threshold_percentages_valid [of "[66, 100]"] threshold_percentages_valid [of "[50]"] by simp

lemma checkIfStakeThresholdsMet_True:
  "checkIfStakeThresholdsMet signedStakes totalStakes ps = Inr True \<longleftrightarrow>
     (\<forall>(q, p) \<in> set ps. \<exists>s t. gget signedStakes q = Some s \<and> gget totalStakes q = Some t \<and> t * uint p \<le> s * 100)"
  by (induction ps) (auto simp: Let_def split: option.splits if_splits)

lemma checkIfFullStakeThresholdMet_True:
  "checkIfFullStakeThresholdMet signedStakes totalStakes = Inr True \<longleftrightarrow>
     (\<forall>(q, s) \<in> set signedStakes. gget totalStakes q = Some s)"
  by (induction signedStakes) (auto split: option.splits if_splits)

end
