(* ===== verification/BlsAggService.thy ===== *)
theory BlsAggService
  imports BlsAgg
begin

text \<open>
  The aggregation service over time: which channels and goroutines exist, and what each goroutine
  sends to the aggregator, in every interleaving of calls, deliveries, timers and initializations.
\<close>

section \<open>What one goroutine sends\<close>

text \<open>A goroutine that goes on has sent nothing final; one that ends has sent one final response, last.\<close>

definition closes_with_final :: "phase option \<Rightarrow> MessageBlsAggregationServiceResponse list \<Rightarrow> bool" where
  "closes_with_final ph rs \<longleftrightarrow>
     (case ph of
        Some _ \<Rightarrow> \<forall>r \<in> set rs. \<not> r_Finished r
      | None \<Rightarrow> \<exists>r. rs = [r] \<and> r_Finished r)"

lemma response_finished:
  assumes "getMessageBlsAggregationResponse idx msg d vi force = Inr r"
  shows "r_Finished r \<longleftrightarrow> r_Status r = StatusFullStakeThresholdMet \<or> force"
    and "r_MessageKey r = Key msg"
  using assms
  by (auto simp: getMessageBlsAggregationResponse_def errorResponse_def Let_def
      split: option.splits sum.splits failure.splits)

lemma next_phase_Inr:
  assumes "next_phase cd ph ex = Inr ph'"
  shows "(ph' = None) = (\<exists>m b. ex = Return m b \<and> (ph = PreThreshold \<longrightarrow> \<not> b))"
  using assms by (cases "(cd, ph, ex)" rule: next_phase.cases)
    (auto split: sum.splits failure.splits)

lemma goroutine_final:
  assumes "singleMessageAggregatorGoroutineFunc cd bl key ph ev vi = Inr (it, ph')"
  shows "closes_with_final ph' (it_responses it)"
proof -
  have it: "goroutine_iteration cd bl key ph ev vi = Inr it" and nx: "next_phase cd ph (it_exit it) = Inr ph'"
    using assms by (auto simp: singleMessageAggregatorGoroutineFunc_def)
  show ?thesis
    using it next_phase_Inr [OF nx]
    by (auto simp: goroutine_iteration_def handleSignedMessagePreThreshold_def messageExpired_def
        handleSignedMessageThresholdReached_def thresholdReachedTimer_def closes_with_final_def
        response_finished
        split: phase.splits goroutine_event.splits sum.splits failure.splits if_splits option.splits)
qed

section \<open>The invariant of the service\<close>

definition chan_log :: "MessageBlsAggregatorService \<Rightarrow> nat \<Rightarrow> MessageBlsAggregationServiceResponse list" where
  "chan_log s c = map snd (filter (\<lambda>e. fst e = c) (aggregatedResponsesC s))"

definition log_ok :: "MessageBlsAggregatorService \<Rightarrow> nat \<Rightarrow> bool" where
  "log_ok s c \<longleftrightarrow>
     (if gget (routines s) c \<noteq> None then \<forall>r \<in> set (chan_log s c). \<not> r_Finished r
      else chan_log s c = [] \<or>
        (\<exists>rs r. chan_log s c = rs @ [r] \<and> r_Finished r \<and> (\<forall>r' \<in> set rs. \<not> r_Finished r')))"

definition maps_ok :: "MessageBlsAggregatorService \<Rightarrow> bool" where
  "maps_ok s \<longleftrightarrow> gmap_ok (signedMessageCs s) \<and> gmap_ok (routines s) \<and> gmap_ok (pendingInits s)"

definition chans_ok :: "MessageBlsAggregatorService \<Rightarrow> bool" where
  "chans_ok s \<longleftrightarrow>
     (\<forall>k k' c. gget (signedMessageCs s) k = Some c \<longrightarrow> gget (signedMessageCs s) k' = Some c \<longrightarrow> k = k') \<and>
     (\<forall>k c. gget (signedMessageCs s) k = Some c \<longrightarrow> c < nextChan s) \<and>
     (\<forall>c g. gget (routines s) c = Some g \<longrightarrow> gget (signedMessageCs s) (g_key g) = Some c) \<and>
     (\<forall>c a. gget (pendingInits s) c = Some a \<longrightarrow>
        gget (signedMessageCs s) (ia_key a) = Some c \<and> gget (routines s) c = None)"

definition logs_ok :: "MessageBlsAggregatorService \<Rightarrow> bool" where
  "logs_ok s \<longleftrightarrow>
     (\<forall>c. log_ok s c \<and> (chan_log s c \<noteq> [] \<longrightarrow> c < nextChan s \<and> gget (pendingInits s) c = None))"

definition service_ok :: "MessageBlsAggregatorService \<Rightarrow> bool" where
  "service_ok s \<longleftrightarrow> maps_ok s \<and> chans_ok s \<and> logs_ok s"

lemma service_ok_new: "service_ok NewMessageBlsAggregatorService"
  by (simp add: service_ok_def maps_ok_def chans_ok_def logs_ok_def NewMessageBlsAggregatorService_def
      log_ok_def chan_log_def)

lemma chan_log_simps [simp]:
  "chan_log (s\<lparr>signedMessageCs := x\<rparr>) c = chan_log s c"
  "chan_log (s\<lparr>routines := y\<rparr>) c = chan_log s c"
  "chan_log (s\<lparr>pendingInits := z\<rparr>) c = chan_log s c"
  "chan_log (s\<lparr>senders := w\<rparr>) c = chan_log s c"
  "chan_log (s\<lparr>nextChan := n\<rparr>) c = chan_log s c"
  by (simp_all add: chan_log_def)

lemma chan_log_append:
  "chan_log (s\<lparr>aggregatedResponsesC := aggregatedResponsesC s @ map (Pair c) rs\<rparr>) c' =
     chan_log s c' @ (if c' = c then rs else [])"
  by (induction rs) (auto simp: chan_log_def comp_def)

lemma chans_ok_fresh:
  assumes "chans_ok s" "nextChan s \<le> c"
  shows "gget (routines s) c = None" "gget (pendingInits s) c = None"
    and "gget (signedMessageCs s) k \<noteq> Some c"
  using assms unfolding chans_ok_def by (metis linorder_not_le option.exhaust)+

lemma chans_ok_key:
  assumes "chans_ok s" "gget (signedMessageCs s) k = None"
  shows "gget (routines s) c = Some g \<Longrightarrow> g_key g \<noteq> k"
    and "gget (pendingInits s) c = Some a \<Longrightarrow> ia_key a \<noteq> k"
  using assms unfolding chans_ok_def by force+

lemma init_call_ok:
  assumes ok: "service_ok s" and i: "initializeMessageChan (ia_key a) s = (Some c, s')"
  shows "service_ok (s'\<lparr>pendingInits := gput c a (pendingInits s')\<rparr>)"
proof -
  have n: "gget (signedMessageCs s) (ia_key a) = None" and c: "c = nextChan s"
    and s': "s' = s\<lparr>signedMessageCs := gput (ia_key a) c (signedMessageCs s), nextChan := c + 1\<rparr>"
    using i by (auto simp: initializeMessageChan_def Let_def split: option.splits)
  have ch: "chans_ok s" and lg: "logs_ok s"
    using ok by (auto simp: service_ok_def)
  have log: "chan_log s c = []"
    using lg c by (auto simp: logs_ok_def)
  have "chans_ok (s'\<lparr>pendingInits := gput c a (pendingInits s')\<rparr>)"
    unfolding chans_ok_def s'
    using ch n c chans_ok_fresh [OF ch, of c] chans_ok_key [OF ch n]
    by (simp add: gget_gput chans_ok_def) (metis less_SucI option.inject)
  moreover have "logs_ok (s'\<lparr>pendingInits := gput c a (pendingInits s')\<rparr>)"
    using lg log unfolding logs_ok_def log_ok_def s' by (simp add: gget_gput c less_SucI)
  ultimately show ?thesis
    using ok unfolding service_ok_def maps_ok_def s' by simp
qed

lemma init_done_ok:
  assumes ok: "service_ok s" and p: "gget (pendingInits s) c = Some a"
  shows "service_ok (start_routine (ia_key a) c vi (s\<lparr>pendingInits := gdel c (pendingInits s)\<rparr>))"
    (is "service_ok ?t")
proof -
  have ch: "chans_ok s" and lg: "logs_ok s"
    using ok by (auto simp: service_ok_def)
  have log: "chan_log s c = []"
    using lg p by (auto simp: logs_ok_def)
  have "chans_ok ?t"
    using ch p unfolding chans_ok_def start_routine_def by (simp add: gget_gput gget_gdel)
  moreover have "logs_ok ?t"
    using lg log unfolding logs_ok_def log_ok_def start_routine_def by (simp add: gget_gput gget_gdel)
  ultimately show ?thesis
    using ok unfolding service_ok_def maps_ok_def start_routine_def by simp
qed

lemma init_failed_ok:
  assumes ok: "service_ok s"
  shows "service_ok (s\<lparr>pendingInits := gdel c (pendingInits s)\<rparr>)"
  using ok unfolding service_ok_def maps_ok_def chans_ok_def logs_ok_def log_ok_def
  by (simp add: gget_gdel)

lemma senders_ok: "service_ok (s\<lparr>senders := w\<rparr>) = service_ok s"
  by (simp add: service_ok_def maps_ok_def chans_ok_def logs_ok_def log_ok_def)

lemma react_cases:
  assumes "react cd bl c ev s = Inr (reply, s')"
  obtains g it ph' s1 where "gget (routines s) c = Some g"
    "singleMessageAggregatorGoroutineFunc cd bl (g_key g) (g_phase g) ev (g_info g) = Inr (it, ph')"
    "s1 = s\<lparr>aggregatedResponsesC := aggregatedResponsesC s @ map (Pair c) (it_responses it)\<rparr>"
    "reply = it_reply it"
    "s' = (case ph' of
       Some p \<Rightarrow> s1\<lparr>routines := gput c (g\<lparr>g_phase := p, g_info := it_info it\<rparr>) (routines s)\<rparr>
     | None \<Rightarrow> closeMessageGoroutine (g_key g) (s1\<lparr>routines := gdel c (routines s)\<rparr>))"
  using assms by (auto simp: react_def Let_def split: option.splits)

lemma logs_ok_extend:
  assumes lg: "logs_ok s" and g: "gget (routines s) c = Some g"
    and pend: "gget (pendingInits s) c = None" and bound: "c < nextChan s"
    and fin: "closes_with_final ph' rs"
    and log: "\<And>c'. chan_log s' c' = chan_log s c' @ (if c' = c then rs else [])"
    and rts: "\<And>c'. (gget (routines s') c' = None) = (if c' = c then ph' = None else gget (routines s) c' = None)"
    and same: "nextChan s' = nextChan s" "pendingInits s' = pendingInits s"
  shows "logs_ok s'"
  unfolding logs_ok_def
proof
  fix c'
  have old: "log_ok s c' \<and> (chan_log s c' \<noteq> [] \<longrightarrow> c' < nextChan s \<and> gget (pendingInits s) c' = None)"
    using lg by (simp add: logs_ok_def)
  show "log_ok s' c' \<and> (chan_log s' c' \<noteq> [] \<longrightarrow> c' < nextChan s' \<and> gget (pendingInits s') c' = None)"
  proof (cases "c' = c")
    case True
    then have "\<forall>r \<in> set (chan_log s c). \<not> r_Finished r"
      using old g by (simp add: log_ok_def)
    then show ?thesis
      using True log rts pend bound same fin by (auto simp: log_ok_def closes_with_final_def split: option.splits)
  next
    case False
    then show ?thesis
      using log rts old same by (simp add: log_ok_def)
  qed
qed

lemma react_ok:
  assumes ok: "service_ok s" and r: "react cd bl c ev s = Inr (reply, s')"
  shows "service_ok s'"
  using r
proof (cases rule: react_cases)
  case (1 g it ph' s1)
  have ch: "chans_ok s" and lg: "logs_ok s" and mp: "maps_ok s"
    using ok by (auto simp: service_ok_def)
  have fin: "closes_with_final ph' (it_responses it)"
    using 1(2) by (rule goroutine_final)
  have key: "gget (signedMessageCs s) (g_key g) = Some c"
    using ch 1(1) unfolding chans_ok_def by blast
  have pend: "gget (pendingInits s) c = None" and bound: "c < nextChan s"
    using ch 1(1) key unfolding chans_ok_def by (metis option.distinct(1) option.exhaust)+
  have "logs_ok s'"
    by (rule logs_ok_extend [OF lg 1(1) pend bound fin])
      (auto simp: 1(3,5) closeMessageGoroutine_def chan_log_append gget_gput gget_gdel split: option.splits)
  moreover have "maps_ok s'"
    using mp unfolding maps_ok_def 1(3,5) closeMessageGoroutine_def by (simp split: option.split)
  moreover have "chans_ok s'"
  proof (cases ph')
    case (Some p)
    then show ?thesis
      using ch 1(1) pend unfolding chans_ok_def 1(3,5) by (simp add: gget_gput) blast
  next
    case None
    have rt: "gget (routines s) c' = Some g' \<Longrightarrow> c' \<noteq> c \<Longrightarrow> g_key g' \<noteq> g_key g"
      and pn: "gget (pendingInits s) c' = Some a \<Longrightarrow> ia_key a \<noteq> g_key g" for c' g' a
      using ch key pend unfolding chans_ok_def by force+
    show ?thesis
      using ch rt pn None unfolding chans_ok_def 1(3,5) closeMessageGoroutine_def
      by (simp add: gget_gdel) blast
  qed
  ultimately show ?thesis
    by (simp add: service_ok_def)
qed

lemma mbas_step_ok: "mbas_step cd bl s t \<Longrightarrow> service_ok s \<Longrightarrow> service_ok t"
  by (cases rule: mbas_step.cases)
    (auto intro: init_call_ok init_done_ok init_failed_ok react_ok simp: senders_ok dest: react_ok)

text \<open>The service is a state machine with this invariant, for every codec and curve.\<close>

interpretation agg: step_system "\<lambda>s. s = NewMessageBlsAggregatorService"
  "mbas_step cd bl" service_ok for cd bl
  by unfold_locales (auto simp: service_ok_new intro: mbas_step_ok)

section \<open>Properties of the service\<close>


text \<open>
  C6. In every reachable state a message key has at most one goroutine, and the channel registered
  under the key is that goroutine's: signatures for the key reach it, and closing it unregisters its
  own channel only.
\<close>

theorem one_goroutine_per_key:
  assumes "(mbas_step cd bl)\<^sup>*\<^sup>* NewMessageBlsAggregatorService s"
    and "gget (routines s) c = Some g" "gget (routines s) c' = Some g'" "g_key g = g_key g'"
  shows "c = c' \<and> gget (signedMessageCs s) (g_key g) = Some c"
proof -
  have "chans_ok s"
    using agg.reachable_good [OF refl assms(1)] by (simp add: service_ok_def)
  then have "gget (signedMessageCs s) (g_key g) = Some c" "gget (signedMessageCs s) (g_key g) = Some c'"
    using assms(2-4) unfolding chans_ok_def by metis+
  then show ?thesis by simp
qed

text \<open>
  C7. When the timer of a goroutine fires, the goroutine ends with a final response and its key can be
  initialized again. Before the threshold this never faults: the response is the expiry error.
\<close>

theorem timer_ends_goroutine:
  assumes "gget (routines s) c = Some g"
  shows "(g_phase g = PreThreshold \<longrightarrow> (\<exists>s'. react cd bl c (Timer idx) s = Inr (None, s'))) \<and>
    (\<forall>reply s'. react cd bl c (Timer idx) s = Inr (reply, s') \<longrightarrow>
       gget (routines s') c = None \<and> gget (signedMessageCs s') (g_key g) = None \<and>
       (\<exists>r. chan_log s' c = chan_log s c @ [r] \<and> r_Finished r))"
proof -
  have "\<exists>s'. react cd bl c (Timer idx) s = Inr (None, s')" if "g_phase g = PreThreshold"
    using assms that by (simp add: react_def singleMessageAggregatorGoroutineFunc_def goroutine_iteration_def
        messageExpired_def Let_def)
  moreover have "gget (routines s') c = None \<and> gget (signedMessageCs s') (g_key g) = None \<and>
      (\<exists>r. chan_log s' c = chan_log s c @ [r] \<and> r_Finished r)"
    if r: "react cd bl c (Timer idx) s = Inr (reply, s')" for reply s'
  proof -
  obtain g' it ph' s1 where g: "gget (routines s) c = Some g'"
    and f: "singleMessageAggregatorGoroutineFunc cd bl (g_key g') (g_phase g') (Timer idx) (g_info g') = Inr (it, ph')"
    and s1: "s1 = s\<lparr>aggregatedResponsesC := aggregatedResponsesC s @ map (Pair c) (it_responses it)\<rparr>"
    and s': "s' = (case ph' of
       Some p \<Rightarrow> s1\<lparr>routines := gput c (g'\<lparr>g_phase := p, g_info := it_info it\<rparr>) (routines s)\<rparr>
     | None \<Rightarrow> closeMessageGoroutine (g_key g') (s1\<lparr>routines := gdel c (routines s)\<rparr>))"
    using r by (rule react_cases)
  have "ph' = None"
    using f by (auto simp: singleMessageAggregatorGoroutineFunc_def goroutine_iteration_def
        messageExpired_def thresholdReachedTimer_def split: phase.splits)
  then show ?thesis
    using goroutine_final [OF f] g assms
    by (auto simp: s' s1 closeMessageGoroutine_def gget_gdel chan_log_append closes_with_final_def)
  qed
  ultimately show ?thesis
    by blast
qed

text \<open>
  C35. An initialization that fails while it reads the registry leaves its key registered without a
  goroutine: from then on initializing the key again succeeds without starting one, and a signature
  for the key blocks its caller until the caller's context is done.
\<close>

theorem failed_initialization_wedges_key:
  assumes "InitializeMessageIfNotExists bl avs a s = (Some e, s')" "service_ok s"
    and "validateQuorumThresholdPercentages (ia_percentages a) = Inr ()"
    and "Key msg = ia_key a" "Digest cd msg = Inr d"
  shows "InitializeMessageIfNotExists bl avs' a s' = (None, s') \<and>
    ProcessNewSignature cd bl idx False msg sig op s' = (Some (Fault BlockedForever), s')"
proof -
  have n: "gget (signedMessageCs s) (ia_key a) = None"
    and s': "s' = s\<lparr>signedMessageCs := gput (ia_key a) (nextChan s) (signedMessageCs s), nextChan := nextChan s + 1\<rparr>"
    using assms(1,3) by (auto simp: InitializeMessageIfNotExists_def initializeMessageChan_def Let_def
        split: option.splits sum.splits)
  have "gget (routines s') (nextChan s) = None"
    using chans_ok_fresh(1) [of s "nextChan s"] assms(2) s' by (simp add: service_ok_def)
  then show ?thesis
    using assms(3-5) s' by (simp add: InitializeMessageIfNotExists_def initializeMessageChan_def
        ProcessNewSignature_def find_channel_def)
qed

section \<open>Concrete runs\<close>

text \<open>A registry with two operators, of 40 and 60 percent of the stake of quorum 0.\<close>

definition sample_pk :: "int \<Rightarrow> G2Point" where
  "sample_pk n = \<lparr>g2_X_A0 = n, g2_X_A1 = 0, g2_Y_A0 = 0, g2_Y_A1 = 0\<rparr>"

definition sample_registry :: AvsRegistry where
  "sample_registry =
     \<lparr>BlockNumber = Inr 100,
      GetOperatorsAvsStateAtBlock = \<lambda>_ _. Inr
        [(be_bytes 32 1, \<lparr>reg_G1Pubkey = Some \<lparr>g1_X = 1, g1_Y = 1\<rparr>, reg_G2Pubkey = Some (sample_pk 1),
           reg_StakePerQuorum = [(0, 40)]\<rparr>),
         (be_bytes 32 2, \<lparr>reg_G1Pubkey = Some \<lparr>g1_X = 2, g1_Y = 2\<rparr>, reg_G2Pubkey = Some (sample_pk 2),
           reg_StakePerQuorum = [(0, 60)]\<rparr>)],
      GetQuorumsAvsStateAtBlock = \<lambda>_ _. Inr
        [(0, \<lparr>qas_AggPubkeyG1 = Some \<lparr>g1_X = 3, g1_Y = 3\<rparr>, qas_TotalStake = 100\<rparr>)]\<rparr>"

definition sample_checkpoint_message :: ServiceMessage where
  "sample_checkpoint_message =
     CheckpointMsg \<lparr>ReferenceTaskIndex = 1, StateRootUpdatesRoot = zero32, OperatorSetUpdatesRoot = zero32\<rparr>"

definition sample_args :: init_args where
  "sample_args = \<lparr>ia_key = Key sample_checkpoint_message, ia_quorumNumbers = [0], ia_percentages = [66], ia_block = 7\<rparr>"

definition sample_info :: signedMessageDigestValidationInfo where
  "sample_info =
     projr (fetchValidationInfo toy_bls sample_registry (ia_quorumNumbers sample_args)
       (ia_percentages sample_args) (ia_block sample_args))"

lemma sample_fetch:
  "fetchValidationInfo toy_bls sample_registry (ia_quorumNumbers sample_args)
     (ia_percentages sample_args) (ia_block sample_args) = Inr sample_info"
  by (simp add: sample_info_def fetchValidationInfo_def sample_args_def sample_registry_def Let_def)

definition sample_service :: MessageBlsAggregatorService where
  "sample_service =
     NewMessageBlsAggregatorService\<lparr>
       signedMessageCs := [(Key sample_checkpoint_message, 0)],
       routines := [(0, \<lparr>g_key = Key sample_checkpoint_message, g_phase = PreThreshold, g_info = sample_info\<rparr>)],
       nextChan := 1\<rparr>"

lemma sample_reachable: "(mbas_step toy_codec toy_bls)\<^sup>*\<^sup>* NewMessageBlsAggregatorService sample_service"
proof -
  let ?n = NewMessageBlsAggregatorService
  let ?s = "?n\<lparr>signedMessageCs := [(Key sample_checkpoint_message, 0)], nextChan := 1\<rparr>"
  have "mbas_step toy_codec toy_bls ?n (?s\<lparr>pendingInits := gput 0 sample_args (pendingInits ?s)\<rparr>)"
    by (rule init_call) (simp_all add: sample_args_def initializeMessageChan_def
        NewMessageBlsAggregatorService_def Let_def)
  moreover have "mbas_step toy_codec toy_bls (?s\<lparr>pendingInits := gput 0 sample_args (pendingInits ?s)\<rparr>) 
    (start_routine (ia_key sample_args) 0 sample_info (?s\<lparr>pendingInits := 
      gdel 0 (gput 0 sample_args (pendingInits ?s))\<rparr>))"
    by (rule init_done [where avs = sample_registry, OF _ sample_fetch, THEN back_subst [where P = "mbas_step toy_codec toy_bls _"]])
      simp_all
  moreover have "start_routine (ia_key sample_args) 0 sample_info (?s\<lparr>pendingInits := 
      gdel 0 (gput 0 sample_args (pendingInits ?s))\<rparr>) = sample_service"
    by (simp add: start_routine_def sample_service_def NewMessageBlsAggregatorService_def sample_args_def)
  ultimately show ?thesis
    by (metis converse_rtranclp_into_rtranclp rtranclp.rtrancl_refl)
qed

definition sample_indices :: get_indices where
  "sample_indices b qs ops =
     Inr \<lparr>csi_NonSignerQuorumBitmapIndices = [], csi_QuorumApkIndices = [], csi_TotalStakeIndices = [],
          csi_NonSignerStakeIndices = []\<rparr>"

definition sample_routine :: routine where
  "sample_routine = \<lparr>g_key = Key sample_checkpoint_message, g_phase = PreThreshold, g_info = sample_info\<rparr>"

lemma sample_service_routine: "gget (routines sample_service) 0 = Some sample_routine"
  by (simp add: sample_service_def sample_routine_def NewMessageBlsAggregatorService_def)

definition sample_expired :: MessageBlsAggregatorService where
  "sample_expired = snd (projr (react toy_codec toy_bls 0 (Timer sample_indices) sample_service))"

lemma sample_expires:
  "react toy_codec toy_bls 0 (Timer sample_indices) sample_service = Inr (None, sample_expired)"
  by (simp add: sample_expired_def react_def sample_service_routine sample_routine_def
      singleMessageAggregatorGoroutineFunc_def goroutine_iteration_def messageExpired_def Let_def)

lemma sample_expired_log: "chan_log sample_expired 0 \<noteq> []" "gget (routines sample_expired) 0 = None"
  by (simp_all add: sample_expired_def react_def sample_service_routine sample_routine_def
      singleMessageAggregatorGoroutineFunc_def goroutine_iteration_def messageExpired_def Let_def
      closeMessageGoroutine_def chan_log_def sample_service_def NewMessageBlsAggregatorService_def)


theorem one_goroutine_per_key_witness:
  "(0 :: nat) = 0 \<and> gget (signedMessageCs sample_service) (g_key sample_routine) = Some 0"
  by (rule one_goroutine_per_key [OF sample_reachable sample_service_routine sample_service_routine refl])

theorem timer_ends_goroutine_witness:
  "(\<exists>s'. react toy_codec toy_bls 0 (Timer sample_indices) sample_service = Inr (None, s')) \<and>
   gget (routines sample_expired) 0 = None \<and>
   gget (signedMessageCs sample_expired) (Key sample_checkpoint_message) = None"
  using timer_ends_goroutine [OF sample_service_routine, of toy_codec toy_bls sample_indices] sample_expires
  by (auto simp: sample_routine_def)

theorem failed_initialization_witness:
  "InitializeMessageIfNotExists toy_bls sample_registry sample_args
     (snd (InitializeMessageIfNotExists toy_bls
        (sample_registry\<lparr>GetOperatorsAvsStateAtBlock := \<lambda>_ _. Inl ''unavailable''\<rparr>) sample_args
        NewMessageBlsAggregatorService)) =
   (None, snd (InitializeMessageIfNotExists toy_bls
        (sample_registry\<lparr>GetOperatorsAvsStateAtBlock := \<lambda>_ _. Inl ''unavailable''\<rparr>) sample_args
        NewMessageBlsAggregatorService))"
proof -
  let ?avs = "sample_registry\<lparr>GetOperatorsAvsStateAtBlock := \<lambda>_ _. Inl ''unavailable''\<rparr>"
  have "InitializeMessageIfNotExists toy_bls ?avs sample_args NewMessageBlsAggregatorService =
      (Some (Err (RegistryError ''unavailable'')),
       snd (InitializeMessageIfNotExists toy_bls ?avs sample_args NewMessageBlsAggregatorService))"
    by (simp add: InitializeMessageIfNotExists_def sample_args_def initializeMessageChan_def
        NewMessageBlsAggregatorService_def fetchValidationInfo_def sample_registry_def Let_def)
  from failed_initialization_wedges_key [OF this service_ok_new, of sample_checkpoint_message toy_codec zero32]
  show ?thesis
    by (simp add: sample_args_def sample_checkpoint_message_def CheckpointTaskResponse_Digest_def
        CheckpointTaskResponse_AbiEncode_def HashMessageWithPrefix_def Keccak256_def toy_codec_def zero32_def)
qed

end
