(* ===== verification/BlsAggStore.thy ===== *)
theory BlsAggStore
  imports BlsAggService
begin

text \<open>
  The store in which the aggregation service counts stake: the maps and integers of different
  operators are separated, adding a signer's stakes to a total changes that total only, and
  the validation info of a new message is allocated separated and with the registry's values.
\<close>

section \<open>Separation of the stored stakes\<close>

abbreviation stake_ref :: "(OperatorId, OperatorAvsState) gomap \<Rightarrow> OperatorId \<Rightarrow> nat option" where
  "stake_ref dict op \<equiv> map_option oas_StakePerQuorum (gget dict op)"

definition separated :: "(OperatorId, OperatorAvsState) gomap \<Rightarrow> objects \<Rightarrow> bool" where
  "separated dict ob \<longleftrightarrow>
     (\<forall>a b m. stake_ref dict a = Some m \<longrightarrow> stake_ref dict b = Some m \<longrightarrow> a = b) \<and>
     (\<forall>a m. stake_ref dict a = Some m \<longrightarrow> gmap_ok (o_map ob m)) \<and>
     (\<forall>a m q r. stake_ref dict a = Some m \<longrightarrow> gget (o_map ob m) q = Some r \<longrightarrow> r < o_next ob) \<and>
     (\<forall>a b m m' q q' r. stake_ref dict a = Some m \<longrightarrow> stake_ref dict b = Some m' \<longrightarrow>
        gget (o_map ob m) q = Some r \<longrightarrow> gget (o_map ob m') q' = Some r \<longrightarrow> m = m' \<and> q = q')"

lemma gget_stakes_of: "gget (stakes_of ob m) q = map_option (o_int ob) (gget (o_map ob m) q)"
  by (simp add: stakes_of_def map_of_map)

text \<open>Adding a list of stakes to the totals of map \<open>tot\<close>.\<close>

definition opt_add :: "int option \<Rightarrow> int option \<Rightarrow> int option" where
  "opt_add a b = (case b of None \<Rightarrow> a | Some v \<Rightarrow> Some (v + (case a of None \<Rightarrow> 0 | Some u \<Rightarrow> u)))"

lemma opt_add_simps [simp]:
  "opt_add a None = a" "opt_add None (Some v) = Some v" "opt_add (Some u) (Some v) = Some (v + u)"
  by (simp_all add: opt_add_def)

definition totals_ok :: "nat \<Rightarrow> objects \<Rightarrow> bool" where
  "totals_ok tot ob \<longleftrightarrow> gmap_ok (o_map ob tot) \<and>
     (\<forall>q r. gget (o_map ob tot) q = Some r \<longrightarrow> r < o_next ob) \<and>
     (\<forall>q q' r. gget (o_map ob tot) q = Some r \<longrightarrow> gget (o_map ob tot) q' = Some r \<longrightarrow> q = q')"

lemma total_entry_spec:
  assumes "total_entry tot q ob = (ob1, t)" "totals_ok tot ob"
  shows "totals_ok tot ob1" and "gget (o_map ob1 tot) q = Some t"
    and "o_next ob \<le> o_next ob1"
    and "m \<noteq> tot \<Longrightarrow> o_map ob1 m = o_map ob m"
    and "r < o_next ob \<Longrightarrow> o_int ob1 r = o_int ob r"
    and "gget (o_map ob1 tot) q' = Some r \<Longrightarrow> gget (o_map ob tot) q' = Some r \<or> o_next ob \<le> r"
    and "gget (stakes_of ob1 tot) q' = (if q' = q then opt_add (gget (stakes_of ob tot) q) (Some 0)
           else gget (stakes_of ob tot) q')"
    and "o_g2 ob1 = o_g2 ob" "o_sig ob1 = o_sig ob"
proof -
  have fresh: "gget (o_map ob tot) q' \<noteq> Some (o_next ob)" for q'
    using assms(2) by (auto simp: totals_ok_def)
  note thms = assms total_entry_def totals_ok_def gget_gput gget_stakes_of opt_add_def fresh
  show "totals_ok tot ob1" "gget (o_map ob1 tot) q = Some t" "o_next ob \<le> o_next ob1"
      "o_g2 ob1 = o_g2 ob" "o_sig ob1 = o_sig ob"
    using assms fresh by (auto simp: thms(3-6) Let_def less_SucI split: option.splits if_splits)
  show "m \<noteq> tot \<Longrightarrow> o_map ob1 m = o_map ob m" "r < o_next ob \<Longrightarrow> o_int ob1 r = o_int ob r"
      "gget (o_map ob1 tot) q' = Some r \<Longrightarrow> gget (o_map ob tot) q' = Some r \<or> o_next ob \<le> r"
    using assms by (auto simp: thms(3-6) Let_def split: option.splits if_splits)
  show "gget (stakes_of ob1 tot) q' = (if q' = q then opt_add (gget (stakes_of ob tot) q) (Some 0)
      else gget (stakes_of ob tot) q')"
    using assms(1) fresh [of q']
    by (cases "gget (o_map ob tot) q'") (auto simp: thms(3,5-8) Let_def split: option.splits)
qed

text \<open>
  The stakes that are added must not be stored among the totals; then the loop adds them, quorum by
  quorum, and touches nothing else.
\<close>

definition adds_to :: "nat \<Rightarrow> (u8 \<times> nat) list \<Rightarrow> objects \<Rightarrow> objects \<Rightarrow> bool" where
  "adds_to tot es ob ob' \<longleftrightarrow>
     totals_ok tot ob' \<and> o_next ob \<le> o_next ob' \<and> o_g2 ob' = o_g2 ob \<and> o_sig ob' = o_sig ob \<and>
     (\<forall>m. m \<noteq> tot \<longrightarrow> o_map ob' m = o_map ob m) \<and>
     (\<forall>r < o_next ob. (\<forall>q. gget (o_map ob tot) q \<noteq> Some r) \<longrightarrow> o_int ob' r = o_int ob r) \<and>
     (\<forall>q r. gget (o_map ob' tot) q = Some r \<longrightarrow> gget (o_map ob tot) q = Some r \<or> o_next ob \<le> r) \<and>
     (\<forall>q. gget (stakes_of ob' tot) q =
        opt_add (gget (stakes_of ob tot) q) (map_option (o_int ob) (gget es q)))"

lemma add_one_stake:
  assumes ok: "totals_ok tot ob" and te: "total_entry tot q0 ob = (ob1, t)"
    and r0: "r0 < o_next ob"
  defines "ob2 \<equiv> ob1\<lparr>o_int := (o_int ob1)(t := o_int ob1 t + o_int ob1 r0)\<rparr>"
  shows "adds_to tot [(q0, r0)] ob ob2"
proof -
  note te' = total_entry_spec [OF te ok]
  have t: "gget (o_map ob1 tot) q = Some t \<longleftrightarrow> q = q0" for q
    using te'(1,2) by (auto simp: totals_ok_def)
  have "gget (stakes_of ob2 tot) q =
      opt_add (gget (stakes_of ob tot) q) (map_option (o_int ob) (gget [(q0, r0)] q))" for q
  proof (cases "q = q0")
    case True
    have "gget (stakes_of ob2 tot) q0 = Some (o_int ob1 t + o_int ob r0)"
      using te'(2) te'(5) [OF r0] by (simp add: ob2_def gget_stakes_of)
    moreover have "Some (o_int ob1 t) = opt_add (gget (stakes_of ob tot) q0) (Some 0)"
      using te'(2) te'(7) [of q0] by (simp add: gget_stakes_of)
    ultimately show ?thesis
      using True by (simp add: opt_add_def split: option.splits)
  next
    case False
    have "gget (stakes_of ob2 tot) q = gget (stakes_of ob1 tot) q"
      using False t [of q] by (cases "gget (o_map ob1 tot) q") (auto simp: ob2_def gget_stakes_of)
    then show ?thesis
      using False te'(7) [of q] by (simp add: opt_add_def)
  qed
  moreover have "o_int ob2 r = o_int ob r" if "r < o_next ob" "\<forall>q. gget (o_map ob tot) q \<noteq> Some r" for r
    using that te'(2,5) te'(6) [of q0 t] by (auto simp: ob2_def)
  ultimately show ?thesis
    using te'(1,3,4,6,8,9) by (auto simp: adds_to_def ob2_def totals_ok_def)
qed

lemma adds_to_old:
  assumes "adds_to tot es ob ob'" "r < o_next ob" "\<forall>q. gget (o_map ob tot) q \<noteq> Some r"
  shows "r < o_next ob'" "gget (o_map ob' tot) q \<noteq> Some r" "o_int ob' r = o_int ob r"
proof -
  show "r < o_next ob'" "o_int ob' r = o_int ob r"
    using assms by (simp_all add: adds_to_def)
  have "gget (o_map ob' tot) q = Some r \<Longrightarrow> gget (o_map ob tot) q = Some r \<or> o_next ob \<le> r"
    using assms(1) by (simp add: adds_to_def)
  then show "gget (o_map ob' tot) q \<noteq> Some r"
    using assms(2,3) by auto
qed

lemma adds_to_trans:
  assumes a: "adds_to tot [(q0, r0)] ob ob1" and b: "adds_to tot es ob1 ob2"
    and es: "gmap_ok ((q0, r0) # es)"
      "\<forall>(q, r) \<in> set es. r < o_next ob \<and> (\<forall>q'. gget (o_map ob tot) q' \<noteq> Some r)"
  shows "adds_to tot ((q0, r0) # es) ob ob2"
proof -
  note old = adds_to_old [OF a]
  have "gget (stakes_of ob2 tot) q =
      opt_add (gget (stakes_of ob tot) q) (map_option (o_int ob) (gget ((q0, r0) # es) q))" for q
  proof -
    have "map_option (o_int ob1) (gget es q) = map_option (o_int ob) (gget es q)"
      using es(2) old(3) by (cases "gget es q") (auto dest!: map_of_SomeD)
    moreover have "gget es q0 = None"
      using es(1) by (simp add: gget_None_iff)
    moreover have "gget (stakes_of ob1 tot) q =
        opt_add (gget (stakes_of ob tot) q) (map_option (o_int ob) (gget [(q0, r0)] q))"
      "gget (stakes_of ob2 tot) q =
        opt_add (gget (stakes_of ob1 tot) q) (map_option (o_int ob1) (gget es q))"
      using a b by (auto simp: adds_to_def)
    ultimately show ?thesis
      by (cases "q = q0") simp_all
  qed
  moreover have "o_int ob2 r = o_int ob r" if "r < o_next ob" "\<forall>q. gget (o_map ob tot) q \<noteq> Some r" for r
    using adds_to_old(3) [OF b] old(1) [OF that] old(2) [OF that] old(3) [OF that] by simp
  moreover have "gget (o_map ob tot) q = Some r \<or> o_next ob \<le> r" if "gget (o_map ob2 tot) q = Some r" for q r
  proof -
    have "gget (o_map ob1 tot) q = Some r \<or> o_next ob1 \<le> r"
      using b that by (simp add: adds_to_def)
    moreover have "gget (o_map ob1 tot) q = Some r \<Longrightarrow> gget (o_map ob tot) q = Some r \<or> o_next ob \<le> r"
      "o_next ob \<le> o_next ob1"
      using a by (simp_all add: adds_to_def)
    ultimately show ?thesis by linarith
  qed
  moreover have "o_next ob \<le> o_next ob2"
    using a b by (simp add: adds_to_def)
  moreover have "o_map ob2 m = o_map ob m" if "m \<noteq> tot" for m
    using a b that by (simp add: adds_to_def)
  ultimately show ?thesis
    using a b by (simp add: adds_to_def)
qed

lemma add_stakes_adds:
  assumes "totals_ok tot ob" "gmap_ok es"
    and "\<forall>(q, r) \<in> set es. r < o_next ob \<and> (\<forall>q'. gget (o_map ob tot) q' \<noteq> Some r)"
  shows "adds_to tot es ob (add_stakes tot es ob)"
  using assms
proof (induction es arbitrary: ob)
  case Nil
  then show ?case
    by (simp add: adds_to_def opt_add_def)
next
  case (Cons e es)
  obtain q0 r0 where e: "e = (q0, r0)" by fastforce
  obtain ob1 t where te: "total_entry tot q0 ob = (ob1, t)" by fastforce
  define ob2 where "ob2 = ob1\<lparr>o_int := (o_int ob1)(t := o_int ob1 t + o_int ob1 r0)\<rparr>"
  have one: "adds_to tot [(q0, r0)] ob ob2"
    using add_one_stake [OF Cons.prems(1) te] Cons.prems(3) by (simp add: e ob2_def)
  have "\<forall>(q, r) \<in> set es. r < o_next ob2 \<and> (\<forall>q'. gget (o_map ob2 tot) q' \<noteq> Some r)"
    using adds_to_old(1,2) [OF one] Cons.prems(3) by (auto simp: e)
  then have "adds_to tot es ob2 (add_stakes tot es ob2)"
    using one Cons.prems(2) by (intro Cons.IH) (simp_all add: adds_to_def)
  then have "adds_to tot ((q0, r0) # es) ob (add_stakes tot es ob2)"
    using adds_to_trans [OF one] Cons.prems by (simp add: e)
  then show ?case
    by (simp add: e te ob2_def)
qed

section \<open>A fresh validation info\<close>

lemma alloc_stakes_spec:
  assumes "alloc_stakes es ob = (entries, ob')"
  shows "map fst entries = map fst es \<and> o_next ob' = o_next ob + length es \<and> o_map ob' = o_map ob \<and>
    map snd entries = [o_next ob..<o_next ob + length es] \<and>
    map (\<lambda>(q, r). (q, o_int ob' r)) entries = es \<and>
    (\<forall>r < o_next ob. o_int ob' r = o_int ob r)"
  using assms
proof (induction es arbitrary: ob entries ob')
  case Nil
  then show ?case by simp
next
  case (Cons e es)
  obtain q v where e: "e = (q, v)" by fastforce
  let ?ob1 = "ob\<lparr>o_next := o_next ob + 1, o_int := (o_int ob)(o_next ob := v)\<rparr>"
  obtain ents ob2 where r: "alloc_stakes es ?ob1 = (ents, ob2)" by fastforce
  have res: "entries = (q, o_next ob) # ents" "ob' = ob2"
    using Cons.prems r by (simp_all add: e Let_def)
  from Cons.IH [OF r] show ?case
    by (simp add: res e upt_conv_Cons less_SucI del: upt_Suc)
qed

lemma alloc_stakes_get:
  assumes "alloc_stakes es ob = (entries, ob')" "gmap_ok es"
  shows "gmap_ok entries"
    and "gget entries q = Some r \<Longrightarrow> o_next ob \<le> r \<and> r < o_next ob'"
    and "gget entries q = Some r \<Longrightarrow> gget entries q' = Some r \<Longrightarrow> q = q'"
    and "map_option (o_int ob') (gget entries q) = gget es q"
proof -
  have keys: "map fst entries = map fst es" and nxt: "o_next ob' = o_next ob + length es"
    and refs: "map snd entries = [o_next ob..<o_next ob + length es]"
    and vals: "es = map (\<lambda>(q, r). (q, o_int ob' r)) entries"
    using alloc_stakes_spec [OF assms(1)] by blast+
  show "gmap_ok entries"
    unfolding keys by (rule assms(2))
  show "map_option (o_int ob') (gget entries q) = gget es q"
    by (subst vals) (simp only: map_of_map comp_apply)
  show "o_next ob \<le> r \<and> r < o_next ob'" if "gget entries q = Some r"
  proof -
    have "(q, r) \<in> set entries"
      using that by (rule map_of_SomeD)
    then have "snd (q, r) \<in> set (map snd entries)"
      unfolding set_map by (rule imageI)
    then show ?thesis
      unfolding refs nxt by simp
  qed
  have "distinct (map snd entries)"
    unfolding refs by (rule distinct_upt)
  then show "gget entries q = Some r \<Longrightarrow> gget entries q' = Some r \<Longrightarrow> q = q'"
    by (metis (no_types) distinct_map inj_onD map_of_SomeD prod.inject snd_conv)
qed

definition fresh_info ::
  "(OperatorId, RegistryOperator) gomap \<Rightarrow> nat \<Rightarrow> (OperatorId, OperatorAvsState) gomap \<Rightarrow> objects \<Rightarrow> bool" where
  "fresh_info reg n dict ob \<longleftrightarrow>
     map fst dict = map fst reg \<and> separated dict ob \<and>
     (\<forall>op ro. gget reg op = Some ro \<longrightarrow> (\<exists>st. gget dict op = Some st \<and>
        oas_G1Pubkey st = reg_G1Pubkey ro \<and> oas_G2Pubkey st = reg_G2Pubkey ro \<and>
        n \<le> oas_StakePerQuorum st \<and> oas_StakePerQuorum st < o_next ob \<and>
        (\<forall>q r. gget (o_map ob (oas_StakePerQuorum st)) q = Some r \<longrightarrow> n \<le> r) \<and>
        (\<forall>q. gget (stakes_of ob (oas_StakePerQuorum st)) q = gget (reg_StakePerQuorum ro) q)))"

lemma separated_Cons:
  assumes sep: "separated ops ob" and new: "totals_ok (oas_StakePerQuorum st) ob"
    and low: "\<And>q r. gget (o_map ob (oas_StakePerQuorum st)) q = Some r \<Longrightarrow> r < oas_StakePerQuorum st"
    and high: "\<And>a m. stake_ref ops a = Some m \<Longrightarrow> oas_StakePerQuorum st < m"
      "\<And>a m q r. stake_ref ops a = Some m \<Longrightarrow> gget (o_map ob m) q = Some r \<Longrightarrow> oas_StakePerQuorum st < r"
  shows "separated ((op, st) # ops) ob"
proof -
  let ?n = "oas_StakePerQuorum st"
  have ref: "stake_ref ((op, st) # ops) a = Some m \<longleftrightarrow> (if a = op then m = ?n else stake_ref ops a = Some m)" for a m
    by auto
  have "a = b" if "stake_ref ((op, st) # ops) a = Some m" "stake_ref ((op, st) # ops) b = Some m" for a b m
    using that sep high(1) unfolding ref separated_def by (metis less_irrefl)
  moreover have "gmap_ok (o_map ob m)" if "stake_ref ((op, st) # ops) a = Some m" for a m
    using that sep new unfolding ref separated_def totals_ok_def by (metis (full_types))
  moreover have "r < o_next ob" if "stake_ref ((op, st) # ops) a = Some m" "gget (o_map ob m) q = Some r" for a m q r
    using that sep new unfolding ref separated_def totals_ok_def by (metis (full_types))
  moreover have "m = m' \<and> q = q'" if "stake_ref ((op, st) # ops) a = Some m" "stake_ref ((op, st) # ops) b = Some m'"
      "gget (o_map ob m) q = Some r" "gget (o_map ob m') q' = Some r" for a b m m' q q' r
  proof (cases "a = op"; cases "b = op")
    assume "a = op" "b = op"
    then show ?thesis using that new unfolding ref totals_ok_def by auto
  next
    assume "a = op" "b \<noteq> op"
    then show ?thesis using that low [of q r] high(2) [of b m' q' r] unfolding ref by simp
  next
    assume "a \<noteq> op" "b = op"
    then show ?thesis using that low [of q' r] high(2) [of a m q r] unfolding ref by simp
  next
    assume "a \<noteq> op" "b \<noteq> op"
    then show ?thesis using that sep unfolding ref separated_def by (metis (no_types))
  qed
  ultimately show ?thesis
    unfolding separated_def by blast
qed

lemma fresh_info_ref:
  assumes "fresh_info reg n dict ob" "stake_ref dict a = Some m"
  shows "n \<le> m" "gget (o_map ob m) q = Some r \<Longrightarrow> n \<le> r"
proof -
  obtain st where st: "gget dict a = Some st" "m = oas_StakePerQuorum st"
    using assms(2) by auto
  then have "a \<in> set (map fst reg)"
    using assms(1) by (metis fresh_info_def gget_Some_key)
  then obtain ro where "gget reg a = Some ro"
    using gkey_get by fastforce
  then show "n \<le> m" "gget (o_map ob m) q = Some r \<Longrightarrow> n \<le> r"
    using assms(1) st unfolding fresh_info_def by fastforce+
qed

lemma fresh_info_alloc:
  assumes "alloc_operators reg ob = (dict, ob')" "gmap_ok reg"
    and "\<forall>ro \<in> snd ` set reg. gmap_ok (reg_StakePerQuorum ro)"
  shows "fresh_info reg (o_next ob) dict ob' \<and> o_next ob \<le> o_next ob' \<and>
    (\<forall>r < o_next ob. o_int ob' r = o_int ob r \<and> o_map ob' r = o_map ob r)"
  using assms
proof (induction reg arbitrary: ob dict ob')
  case Nil
  then show ?case by (simp add: fresh_info_def separated_def)
next
  case (Cons e reg)
  obtain op ro where e: "e = (op, ro)" by fastforce
  obtain ents ob1 where a: "alloc_stakes (reg_StakePerQuorum ro) ob = (ents, ob1)" by fastforce
  let ?m = "o_next ob1"
  let ?ob2 = "ob1\<lparr>o_next := ?m + 1, o_map := (o_map ob1)(?m := ents)\<rparr>"
  let ?st = "\<lparr>oas_G1Pubkey = reg_G1Pubkey ro, oas_G2Pubkey = reg_G2Pubkey ro, oas_StakePerQuorum = ?m\<rparr>"
  obtain ops ob3 where b: "alloc_operators reg ?ob2 = (ops, ob3)" by fastforce
  have res: "dict = (op, ?st) # ops" "ob' = ob3"
    using Cons.prems(1) a b by (simp_all add: e Let_def)
  have ok: "gmap_ok (reg_StakePerQuorum ro)"
    using Cons.prems(3) by (simp add: e)
  note get = alloc_stakes_get [OF a ok] and sp = alloc_stakes_spec [OF a]
  have IH: "fresh_info reg (?m + 1) ops ob3" "?m + 1 \<le> o_next ob3"
      "r < ?m + 1 \<Longrightarrow> o_int ob3 r = o_int ob1 r \<and> o_map ob3 r = (if r = ?m then ents else o_map ob1 r)" for r
    using Cons.IH [OF b] Cons.prems(2,3) by (auto simp: e)
  have ents: "o_map ob3 ?m = ents" "gget ents q = Some r \<Longrightarrow> o_int ob3 r = o_int ob1 r" for q r
    using IH(3) get(2) by fastforce+
  have "separated ((op, ?st) # ops) ob3"
  proof (rule separated_Cons)
    show "separated ops ob3"
      using IH(1) by (simp add: fresh_info_def)
    show "totals_ok (oas_StakePerQuorum ?st) ob3"
      using get(1-3) IH(2) ents by (fastforce simp: totals_ok_def)
  qed (use fresh_info_ref [OF IH(1)] get(2) ents in \<open>fastforce+\<close>)
  moreover have "gget (stakes_of ob3 ?m) q = gget (reg_StakePerQuorum ro) q" for q
  proof -
    have "map_option (o_int ob3) (gget ents q) = map_option (o_int ob1) (gget ents q)"
      using ents(2) by (cases "gget ents q") auto
    then show ?thesis
      by (simp add: gget_stakes_of ents(1) get(4))
  qed
  moreover have "o_next ob \<le> ?m"
    using sp by simp
  ultimately have "fresh_info (e # reg) (o_next ob) dict ob'"
    using IH(1,2) get(2) ents(1) unfolding fresh_info_def res e
    by simp (meson Suc_leD le_trans)
  moreover have "o_int ob3 r = o_int ob r \<and> o_map ob3 r = o_map ob r" if "r < o_next ob" for r
    using that IH(3) [of r] sp by simp
  ultimately show ?case
    using IH(2) sp by (simp add: res)
qed

end
