(* ===== verification/BlsAggStake.thy ===== *)
theory BlsAggStake
  imports BlsAggStore
begin

text \<open>
  The stake that the aggregation service counts refines its specification, the list of the accepted
  signed messages and the stakes that the registry reported, as long as every operator is accepted at
  most once per message. The lemmas go through the two branches of \<^verbatim>\<open>handleSignedMessageDigest\<close>.
\<close>

section \<open>The specification of the counts\<close>

definition registered_stake :: "(OperatorId, RegistryOperator) gomap \<Rightarrow> OperatorId \<Rightarrow> u8 \<Rightarrow> int option" where
  "registered_stake reg op q =
     (case gget reg op of None \<Rightarrow> None | Some ro \<Rightarrow> gget (reg_StakePerQuorum ro) q)"

definition signed_stake :: "(OperatorId, RegistryOperator) gomap \<Rightarrow> OperatorId list \<Rightarrow> u8 \<Rightarrow> int option" where
  "signed_stake reg ops q = foldl (\<lambda>acc op. opt_add acc (registered_stake reg op q)) None ops"

definition signers_key :: "bls_lib \<Rightarrow> (OperatorId, RegistryOperator) gomap \<Rightarrow> OperatorId list \<Rightarrow> G2Point" where
  "signers_key bl reg ops =
     foldl (\<lambda>p op. case Option.bind (gget reg op) reg_G2Pubkey of None \<Rightarrow> p | Some pk \<Rightarrow> G2Add bl p pk)
       (ZeroG2Point bl) ops"

definition signers_sig :: "bls_lib \<Rightarrow> Signature list \<Rightarrow> Signature" where
  "signers_sig bl sigs = (case sigs of [] \<Rightarrow> None | s # ss \<Rightarrow> foldl (SigAdd bl) s ss)"

abbreviation accepted_for :: "MessageDigest \<Rightarrow> SignedMessage list \<Rightarrow> SignedMessage list" where
  "accepted_for d acc \<equiv> filter (\<lambda>sm. sm_MessageDigest sm = d) acc"

text \<open>The record of one digest agrees with the messages accepted for it.\<close>

definition record_ok ::
  "bls_lib \<Rightarrow> (OperatorId, RegistryOperator) gomap \<Rightarrow> SignedMessage list \<Rightarrow>
   (OperatorId, OperatorAvsState) gomap \<Rightarrow> objects \<Rightarrow> AggregatedOperators \<Rightarrow> bool" where
  "record_ok bl reg sms dict ob ao \<longleftrightarrow>
     sms \<noteq> [] \<and> stake_ref dict (sm_OperatorId (hd sms)) = Some (signersTotalStakePerQuorum ao) \<and>
     (\<forall>q. gget (stakes_of ob (signersTotalStakePerQuorum ao)) q = signed_stake reg (map sm_OperatorId sms) q) \<and>
     set (gkeys (signersOperatorIdsSet ao)) = sm_OperatorId ` set sms \<and>
     o_g2 ob (signersApkG2 ao) = signers_key bl reg (map sm_OperatorId sms) \<and>
     o_sig ob (signersAggSigG1 ao) = signers_sig bl (map sm_BlsSignature sms) \<and>
     signersApkG2 ao < o_next ob \<and> signersAggSigG1 ao < o_next ob"

definition same_operators ::
  "(OperatorId, RegistryOperator) gomap \<Rightarrow> (OperatorId, OperatorAvsState) gomap \<Rightarrow> bool" where
  "same_operators reg dict \<longleftrightarrow>
     map fst dict = map fst reg \<and>
     (\<forall>op ro st. gget reg op = Some ro \<longrightarrow> gget dict op = Some st \<longrightarrow>
        oas_G1Pubkey st = reg_G1Pubkey ro \<and> oas_G2Pubkey st = reg_G2Pubkey ro)"

definition records_apart :: "(MessageDigest, AggregatedOperators) gomap \<Rightarrow> bool" where
  "records_apart agg \<longleftrightarrow>
     (\<forall>d d' ao ao'. gget agg d = Some ao \<longrightarrow> gget agg d' = Some ao' \<longrightarrow> d \<noteq> d' \<longrightarrow>
        signersApkG2 ao \<noteq> signersApkG2 ao' \<and> signersAggSigG1 ao \<noteq> signersAggSigG1 ao')"

definition counts_ok ::
  "bls_lib \<Rightarrow> (OperatorId, RegistryOperator) gomap \<Rightarrow> SignedMessage list \<Rightarrow>
   signedMessageDigestValidationInfo \<Rightarrow> bool" where
  "counts_ok bl reg acc vi \<longleftrightarrow>
     same_operators reg (operatorsAvsStateDict vi) \<and> separated (operatorsAvsStateDict vi) (objs vi) \<and>
     records_apart (aggregatedOperatorsDict vi) \<and>
     (\<forall>op m q. op \<notin> sm_OperatorId ` set acc \<longrightarrow> stake_ref (operatorsAvsStateDict vi) op = Some m \<longrightarrow>
        gget (stakes_of (objs vi) m) q = registered_stake reg op q) \<and>
     (\<forall>d. case gget (aggregatedOperatorsDict vi) d of
            None \<Rightarrow> accepted_for d acc = []
          | Some ao \<Rightarrow> record_ok bl reg (accepted_for d acc) (operatorsAvsStateDict vi) (objs vi) ao)"

lemma counts_okD:
  assumes "counts_ok bl reg acc vi"
  shows "same_operators reg (operatorsAvsStateDict vi)"
    and "separated (operatorsAvsStateDict vi) (objs vi)"
    and "records_apart (aggregatedOperatorsDict vi)"
    and "op \<notin> sm_OperatorId ` set acc \<Longrightarrow> stake_ref (operatorsAvsStateDict vi) op = Some m \<Longrightarrow>
      gget (stakes_of (objs vi) m) q = registered_stake reg op q"
    and "gget (aggregatedOperatorsDict vi) d = None \<Longrightarrow> accepted_for d acc = []"
    and "gget (aggregatedOperatorsDict vi) d = Some ao \<Longrightarrow>
      record_ok bl reg (accepted_for d acc) (operatorsAvsStateDict vi) (objs vi) ao"
proof -
  have *: "case gget (aggregatedOperatorsDict vi) d of None \<Rightarrow> accepted_for d acc = []
      | Some ao \<Rightarrow> record_ok bl reg (accepted_for d acc) (operatorsAvsStateDict vi) (objs vi) ao"
    using assms unfolding counts_ok_def by blast
  show "gget (aggregatedOperatorsDict vi) d = None \<Longrightarrow> accepted_for d acc = []"
    using * by (simp only: option.case)
  show "gget (aggregatedOperatorsDict vi) d = Some ao \<Longrightarrow>
      record_ok bl reg (accepted_for d acc) (operatorsAvsStateDict vi) (objs vi) ao"
    using * by (simp only: option.case)
  show "same_operators reg (operatorsAvsStateDict vi)" "separated (operatorsAvsStateDict vi) (objs vi)"
      "records_apart (aggregatedOperatorsDict vi)"
    using assms unfolding counts_ok_def by blast+
  show "op \<notin> sm_OperatorId ` set acc \<Longrightarrow> stake_ref (operatorsAvsStateDict vi) op = Some m \<Longrightarrow>
      gget (stakes_of (objs vi) m) q = registered_stake reg op q"
    using assms unfolding counts_ok_def by blast
qed

lemma counts_okI:
  assumes "same_operators reg (operatorsAvsStateDict vi)"
    and "separated (operatorsAvsStateDict vi) (objs vi)"
    and "records_apart (aggregatedOperatorsDict vi)"
    and "\<And>op m q. op \<notin> sm_OperatorId ` set acc \<Longrightarrow> stake_ref (operatorsAvsStateDict vi) op = Some m \<Longrightarrow>
      gget (stakes_of (objs vi) m) q = registered_stake reg op q"
    and "\<And>d. gget (aggregatedOperatorsDict vi) d = None \<Longrightarrow> accepted_for d acc = []"
    and "\<And>d ao. gget (aggregatedOperatorsDict vi) d = Some ao \<Longrightarrow>
      record_ok bl reg (accepted_for d acc) (operatorsAvsStateDict vi) (objs vi) ao"
  shows "counts_ok bl reg acc vi"
  using assms unfolding counts_ok_def by (simp split: option.split)

lemma opt_add_None [simp]: "opt_add None x = x"
  by (cases x) simp_all

lemma signed_stake_snoc:
  "signed_stake reg (ops @ [op]) q = opt_add (signed_stake reg ops q) (registered_stake reg op q)"
  by (simp add: signed_stake_def)

lemma separated_adds:
  assumes sep: "separated dict ob" and f: "stake_ref dict f = Some tot" and add: "adds_to tot es ob ob'"
  shows "separated dict ob'"
  unfolding separated_def
proof (intro conjI allI impI)
  fix a b m
  assume "stake_ref dict a = Some m" "stake_ref dict b = Some m"
  then show "a = b"
    using sep unfolding separated_def by metis
next
  fix a m
  assume "stake_ref dict a = Some m"
  then show "gmap_ok (o_map ob' m)"
    using sep add unfolding separated_def adds_to_def totals_ok_def by metis
next
  fix a m q r
  assume "stake_ref dict a = Some m" "gget (o_map ob' m) q = Some r"
  then show "r < o_next ob'"
    using sep add unfolding separated_def adds_to_def totals_ok_def by (metis order_less_le_trans)
next
  have tot: "gget (o_map ob tot) q = Some r \<or> o_next ob \<le> r" if "gget (o_map ob' tot) q = Some r" for q r
    using add that by (simp add: adds_to_def)
  have old: "o_map ob' m = o_map ob m" if "m \<noteq> tot" for m
    using add that by (simp add: adds_to_def)
  have bound: "r < o_next ob" if "stake_ref dict a = Some m" "gget (o_map ob m) q = Some r" for a m q r
    using sep that unfolding separated_def by metis
  fix a b m m' q q' r
  assume *: "stake_ref dict a = Some m" "stake_ref dict b = Some m'"
    "gget (o_map ob' m) q = Some r" "gget (o_map ob' m') q' = Some r"
  have inj: "m = m' \<and> q = q'" if "gget (o_map ob m) q = Some r" "gget (o_map ob m') q' = Some r"
    using sep * that unfolding separated_def by metis
  show "m = m'" "q = q'"
    using * inj tot old bound add unfolding adds_to_def totals_ok_def by (metis linorder_not_less)+
qed

lemma adds_to_elsewhere:
  assumes sep: "separated dict ob" and f: "stake_ref dict f = Some tot" and b: "stake_ref dict b = Some m"
    and "m \<noteq> tot" and add: "adds_to tot es ob ob'"
  shows "gget (stakes_of ob' m) q = gget (stakes_of ob m) q"
proof -
  have "o_map ob' m = o_map ob m"
    using add assms(4) by (simp add: adds_to_def)
  moreover have "o_int ob' r = o_int ob r" if "gget (o_map ob m) q = Some r" for r
  proof (rule adds_to_old(3) [OF add])
    show "r < o_next ob"
      using sep b that unfolding separated_def by metis
    show "\<forall>q. gget (o_map ob tot) q \<noteq> Some r"
      using sep b f that assms(4) unfolding separated_def by metis
  qed
  ultimately show ?thesis
    by (cases "gget (o_map ob m) q") (simp_all add: gget_stakes_of)
qed

section \<open>Every accepted signature refines the specification\<close>

definition signed_ok :: "codec \<Rightarrow> SignedMessage \<Rightarrow> bool" where
  "signed_ok cd sm \<longleftrightarrow> Digest cd (sm_Message sm) = Inr (sm_MessageDigest sm)"

lemma handle_cases:
  assumes "handleSignedMessageDigest cd bl sm vi = Inr vi'" "signed_ok cd sm"
  obtains (first) st pk ao ob where "gget (operatorsAvsStateDict vi) (sm_OperatorId sm) = Some st"
    "oas_G2Pubkey st = Some pk" "gget (aggregatedOperatorsDict vi) (sm_MessageDigest sm) = None"
    "first_signer bl st pk sm (objs vi) = (ao, ob)"
    "vi' = vi\<lparr>aggregatedOperatorsDict := gput (sm_MessageDigest sm) ao (aggregatedOperatorsDict vi), objs := ob\<rparr>"
  | (later) st pk ao0 ao ob where "gget (operatorsAvsStateDict vi) (sm_OperatorId sm) = Some st"
    "oas_G2Pubkey st = Some pk" "gget (aggregatedOperatorsDict vi) (sm_MessageDigest sm) = Some ao0"
    "later_signer bl st pk sm ao0 (objs vi) = (ao, ob)"
    "vi' = vi\<lparr>aggregatedOperatorsDict := gput (sm_MessageDigest sm) ao (aggregatedOperatorsDict vi), objs := ob\<rparr>"
  using assms
  by (auto simp: handleSignedMessageDigest_def signed_ok_def split: option.splits prod.splits)

lemma record_ok_store:
  assumes "record_ok bl reg sms dict ob ao"
    and "o_next ob \<le> o_next ob'"
    and "\<And>q. gget (stakes_of ob' (signersTotalStakePerQuorum ao)) q =
           gget (stakes_of ob (signersTotalStakePerQuorum ao)) q"
    and "o_g2 ob' (signersApkG2 ao) = o_g2 ob (signersApkG2 ao)"
    and "o_sig ob' (signersAggSigG1 ao) = o_sig ob (signersAggSigG1 ao)"
  shows "record_ok bl reg sms dict ob' ao"
  using assms by (simp add: record_ok_def)

lemma same_operators_key:
  assumes "same_operators reg dict" "gget dict op = Some st"
  obtains ro where "gget reg op = Some ro" "oas_G2Pubkey st = reg_G2Pubkey ro" "oas_G1Pubkey st = reg_G1Pubkey ro"
proof -
  have "op \<in> set (map fst reg)"
    using assms by (metis same_operators_def gget_Some_key)
  then obtain ro where "gget reg op = Some ro"
    using gkey_get by fastforce
  then show ?thesis
    using that assms by (auto simp: same_operators_def)
qed

lemma signers_key_snoc:
  "gget reg op = Some ro \<Longrightarrow> reg_G2Pubkey ro = Some pk \<Longrightarrow>
   signers_key bl reg (ops @ [op]) = G2Add bl (signers_key bl reg ops) pk"
  by (simp add: signers_key_def)

lemma signers_sig_snoc:
  "sigs \<noteq> [] \<Longrightarrow> signers_sig bl (sigs @ [sig]) = SigAdd bl (signers_sig bl sigs) sig"
  by (cases sigs) (simp_all add: signers_sig_def)

lemma records_apart_put:
  assumes "records_apart agg"
    and "\<And>d' ao'. d' \<noteq> d \<Longrightarrow> gget agg d' = Some ao' \<Longrightarrow>
      signersApkG2 ao' \<noteq> signersApkG2 ao \<and> signersAggSigG1 ao' \<noteq> signersAggSigG1 ao"
  shows "records_apart (gput d ao agg)"
  unfolding records_apart_def
proof (intro allI impI)
  fix d1 d2 a1 a2
  assume *: "gget (gput d ao agg) d1 = Some a1" "gget (gput d ao agg) d2 = Some a2" "d1 \<noteq> d2"
  consider "d1 = d" "d2 \<noteq> d" | "d1 \<noteq> d" "d2 = d" | "d1 \<noteq> d" "d2 \<noteq> d"
    using *(3) by blast
  then show "signersApkG2 a1 \<noteq> signersApkG2 a2 \<and> signersAggSigG1 a1 \<noteq> signersAggSigG1 a2"
  proof cases
    case 1
    then show ?thesis using * assms(2) [of d2 a2] by simp
  next
    case 2
    then show ?thesis using * assms(2) [of d1 a1] by simp
  next
    case 3
    then show ?thesis using * assms(1) unfolding records_apart_def by simp
  qed
qed

text \<open>Storing the record of one digest, when the other records are untouched.\<close>

lemma counts_ok_put:
  assumes ok: "counts_ok bl reg acc vi"
    and sep: "separated (operatorsAvsStateDict vi) ob"
    and apart: "\<And>d' ao'. d' \<noteq> sm_MessageDigest sm \<Longrightarrow> gget (aggregatedOperatorsDict vi) d' = Some ao' \<Longrightarrow>
      signersApkG2 ao' \<noteq> signersApkG2 ao \<and> signersAggSigG1 ao' \<noteq> signersAggSigG1 ao"
    and rest: "\<And>op m q. op \<notin> sm_OperatorId ` set acc \<Longrightarrow> op \<noteq> sm_OperatorId sm \<Longrightarrow>
      stake_ref (operatorsAvsStateDict vi) op = Some m \<Longrightarrow> gget (stakes_of ob m) q = registered_stake reg op q"
    and new: "record_ok bl reg (accepted_for (sm_MessageDigest sm) acc @ [sm]) (operatorsAvsStateDict vi) ob ao"
    and old: "\<And>d ao'. d \<noteq> sm_MessageDigest sm \<Longrightarrow> gget (aggregatedOperatorsDict vi) d = Some ao' \<Longrightarrow>
      record_ok bl reg (accepted_for d acc) (operatorsAvsStateDict vi) ob ao'"
  shows "counts_ok bl reg (acc @ [sm])
    (vi\<lparr>aggregatedOperatorsDict := gput (sm_MessageDigest sm) ao (aggregatedOperatorsDict vi), objs := ob\<rparr>)"
    (is "counts_ok _ _ _ ?vi")
proof (rule counts_okI)
  show "same_operators reg (operatorsAvsStateDict ?vi)" "separated (operatorsAvsStateDict ?vi) (objs ?vi)"
    using counts_okD(1) [OF ok] sep by simp_all
  show "records_apart (aggregatedOperatorsDict ?vi)"
    using records_apart_put [OF counts_okD(3) [OF ok]] apart by simp
  show "gget (stakes_of (objs ?vi) m) q = registered_stake reg op q"
    if "op \<notin> sm_OperatorId ` set (acc @ [sm])" "stake_ref (operatorsAvsStateDict ?vi) op = Some m" for op m q
    using rest that by simp
  show "accepted_for d (acc @ [sm]) = []" if "gget (aggregatedOperatorsDict ?vi) d = None" for d
    using that counts_okD(5) [OF ok] by (simp add: gget_gput split: if_splits)
  show "record_ok bl reg (accepted_for d (acc @ [sm])) (operatorsAvsStateDict ?vi) (objs ?vi) ao'"
    if "gget (aggregatedOperatorsDict ?vi) d = Some ao'" for d ao'
    using that new old by (cases "d = sm_MessageDigest sm") simp_all
qed

lemma first_signer_ok:
  assumes ok: "counts_ok bl reg acc vi" and op: "sm_OperatorId sm \<notin> sm_OperatorId ` set acc"
    and st: "gget (operatorsAvsStateDict vi) (sm_OperatorId sm) = Some st" "oas_G2Pubkey st = Some pk"
    and none: "gget (aggregatedOperatorsDict vi) (sm_MessageDigest sm) = None"
    and f: "first_signer bl st pk sm (objs vi) = (ao, ob)"
  shows "counts_ok bl reg (acc @ [sm])
    (vi\<lparr>aggregatedOperatorsDict := gput (sm_MessageDigest sm) ao (aggregatedOperatorsDict vi), objs := ob\<rparr>)"
proof (rule counts_ok_put [OF ok])
  let ?ob = "objs vi" and ?dict = "operatorsAvsStateDict vi" and ?d = "sm_MessageDigest sm"
  have ao: "ao = \<lparr>signersApkG2 = o_next ?ob, signersAggSigG1 = o_next ?ob + 1,
      signersTotalStakePerQuorum = oas_StakePerQuorum st, signersOperatorIdsSet = [(sm_OperatorId sm, True)]\<rparr>"
    and ob: "ob = ?ob\<lparr>o_next := o_next ?ob + 2,
      o_g2 := (o_g2 ?ob)(o_next ?ob := G2Add bl (ZeroG2Point bl) pk),
      o_sig := (o_sig ?ob)(o_next ?ob + 1 := sm_BlsSignature sm)\<rparr>"
    using f by (auto simp: first_signer_def Let_def)
  have st_of: "stakes_of ob = stakes_of ?ob"
    by (simp add: ob stakes_of_def fun_eq_iff)
  have obs: "o_g2 ob (o_next ?ob) = G2Add bl (ZeroG2Point bl) pk" "o_sig ob (Suc (o_next ?ob)) = sm_BlsSignature sm"
      "o_next ob = Suc (Suc (o_next ?ob))"
    by (simp_all add: ob)
  obtain ro where ro: "gget reg (sm_OperatorId sm) = Some ro" "reg_G2Pubkey ro = Some pk"
    using same_operators_key [OF counts_okD(1) [OF ok] st(1)] st(2) by metis
  show "separated ?dict ob"
    using counts_okD(2) [OF ok] unfolding separated_def ob by (simp add: less_Suc_eq)
  show "record_ok bl reg (accepted_for ?d acc @ [sm]) ?dict ob ao"
    using counts_okD(4) [OF ok op] counts_okD(5) [OF ok none] st ro
    by (simp add: record_ok_def ao st_of signed_stake_def signers_key_def signers_sig_def obs)
  have r: "record_ok bl reg (accepted_for d acc) ?dict ?ob ao'"
    if "gget (aggregatedOperatorsDict vi) d = Some ao'" for d ao'
    using counts_okD(6) [OF ok that] .
  show "signersApkG2 ao' \<noteq> signersApkG2 ao \<and> signersAggSigG1 ao' \<noteq> signersAggSigG1 ao"
    if "gget (aggregatedOperatorsDict vi) d = Some ao'" for d ao'
    using r [OF that] by (simp add: record_ok_def ao)
  show "record_ok bl reg (accepted_for d acc) ?dict ob ao'"
    if "gget (aggregatedOperatorsDict vi) d = Some ao'" for d ao'
  proof (rule record_ok_store [OF r [OF that]])
    have "signersApkG2 ao' < o_next ?ob" "signersAggSigG1 ao' < o_next ?ob"
      using r [OF that] by (simp_all add: record_ok_def)
    then show "o_g2 ob (signersApkG2 ao') = o_g2 ?ob (signersApkG2 ao')"
        "o_sig ob (signersAggSigG1 ao') = o_sig ?ob (signersAggSigG1 ao')" "o_next ?ob \<le> o_next ob"
      by (simp_all add: ob)
  qed (simp add: st_of)
  show "gget (stakes_of ob m) q = registered_stake reg b q"
    if "b \<notin> sm_OperatorId ` set acc" "stake_ref ?dict b = Some m" for b m q
    using counts_okD(4) [OF ok that] by (simp add: st_of)
qed

text \<open>The stakes of a new signer are added to the first signer's map.\<close>

lemma later_signer_adds:
  assumes sep: "separated dict ob" and h: "stake_ref dict h = Some tot"
    and x: "stake_ref dict op = Some x" and "op \<noteq> h"
  shows "adds_to tot (o_map ob x) ob (add_stakes tot (o_map ob x) ob)"
proof (rule add_stakes_adds)
  have xt: "x \<noteq> tot"
    using sep h x assms(4) unfolding separated_def by metis
  show "totals_ok tot ob" "gmap_ok (o_map ob x)"
    using sep h x unfolding separated_def totals_ok_def by metis+
  show "\<forall>(q, r) \<in> set (o_map ob x). r < o_next ob \<and> (\<forall>q'. gget (o_map ob tot) q' \<noteq> Some r)"
  proof clarify
    fix q r assume "(q, r) \<in> set (o_map ob x)"
    then have "gget (o_map ob x) q = Some r"
      using sep x unfolding separated_def by (metis gget_iff_mem)
    then show "r < o_next ob \<and> (\<forall>q'. gget (o_map ob tot) q' \<noteq> Some r)"
      using sep h x xt unfolding separated_def by metis
  qed
qed

lemma distinct_heads:
  assumes "distinct (map sm_OperatorId acc)" "accepted_for d acc \<noteq> []" "accepted_for d' acc \<noteq> []" "d \<noteq> d'"
  shows "sm_OperatorId (hd (accepted_for d acc)) \<noteq> sm_OperatorId (hd (accepted_for d' acc))"
proof -
  show ?thesis
    using hd_in_set [OF assms(2)] hd_in_set [OF assms(3)] assms(1,4)
    unfolding distinct_map by (auto dest: inj_onD)
qed

lemma later_signer_ok:
  assumes ok: "counts_ok bl reg acc vi" and op: "sm_OperatorId sm \<notin> sm_OperatorId ` set acc"
    and dist: "distinct (map sm_OperatorId acc)"
    and st: "gget (operatorsAvsStateDict vi) (sm_OperatorId sm) = Some st" "oas_G2Pubkey st = Some pk"
    and some: "gget (aggregatedOperatorsDict vi) (sm_MessageDigest sm) = Some ao0"
    and f: "later_signer bl st pk sm ao0 (objs vi) = (ao, ob)"
  shows "counts_ok bl reg (acc @ [sm])
    (vi\<lparr>aggregatedOperatorsDict := gput (sm_MessageDigest sm) ao (aggregatedOperatorsDict vi), objs := ob\<rparr>)"
proof (rule counts_ok_put [OF ok])
  let ?ob = "objs vi" and ?dict = "operatorsAvsStateDict vi" and ?d = "sm_MessageDigest sm"
  let ?tot = "signersTotalStakePerQuorum ao0" and ?x = "oas_StakePerQuorum st"
  define ob1 where "ob1 = ?ob\<lparr>o_sig := (o_sig ?ob)(signersAggSigG1 ao0 :=
      SigAdd bl (o_sig ?ob (signersAggSigG1 ao0)) (sm_BlsSignature sm)),
    o_g2 := (o_g2 ?ob)(signersApkG2 ao0 := G2Add bl (o_g2 ?ob (signersApkG2 ao0)) pk)\<rparr>"
  have ao: "ao = ao0\<lparr>signersOperatorIdsSet := gput (sm_OperatorId sm) True (signersOperatorIdsSet ao0)\<rparr>"
    and ob: "ob = add_stakes ?tot (o_map ob1 ?x) ob1"
    using f by (auto simp: later_signer_def Let_def ob1_def)
  have st1: "stakes_of ob1 = stakes_of ?ob"
    by (simp add: ob1_def stakes_of_def fun_eq_iff)
  obtain ro where ro: "gget reg (sm_OperatorId sm) = Some ro" "reg_G2Pubkey ro = Some pk"
    using same_operators_key [OF counts_okD(1) [OF ok] st(1)] st(2) by metis
  note r0 = counts_okD(6) [OF ok some]
  have ne: "accepted_for ?d acc \<noteq> []"
    using r0 by (simp add: record_ok_def)
  define h where "h = sm_OperatorId (hd (accepted_for ?d acc))"
  have h: "stake_ref ?dict h = Some ?tot"
    using r0 by (simp add: record_ok_def h_def)
  have hin: "h \<in> sm_OperatorId ` set acc"
    using hd_in_set [OF ne] by (auto simp: h_def)
  have x: "stake_ref ?dict (sm_OperatorId sm) = Some ?x"
    using st by simp
  have sep1: "separated ?dict ob1"
    using counts_okD(2) [OF ok] unfolding separated_def ob1_def by simp
  have add: "adds_to ?tot (o_map ob1 ?x) ob1 ob"
    unfolding ob by (rule later_signer_adds [OF sep1 h x]) (use op hin in blast)
  have elsewhere: "gget (stakes_of ob m) q = gget (stakes_of ?ob m) q"
    if "stake_ref ?dict b = Some m" "b \<noteq> h" for b m q
  proof -
    have "m \<noteq> ?tot"
      using sep1 h that unfolding separated_def by metis
    then show ?thesis
      using adds_to_elsewhere [OF sep1 h that(1) _ add] by (simp add: st1)
  qed
  show "separated ?dict ob"
    by (rule separated_adds [OF sep1 h add])
  show "gget (stakes_of ob m) q = registered_stake reg b q"
    if "b \<notin> sm_OperatorId ` set acc" "stake_ref ?dict b = Some m" for b m q
    using counts_okD(4) [OF ok that] elsewhere [OF that(2)] that(1) hin by metis
  show apart: "signersApkG2 ao' \<noteq> signersApkG2 ao \<and> signersAggSigG1 ao' \<noteq> signersAggSigG1 ao"
    if "d' \<noteq> ?d" "gget (aggregatedOperatorsDict vi) d' = Some ao'" for d' ao'
    using counts_okD(3) [OF ok] that some unfolding records_apart_def ao by simp
  have "gget (stakes_of ob ?tot) q = opt_add (gget (stakes_of ?ob ?tot) q) (gget (stakes_of ?ob ?x) q)" for q
    using add by (simp add: adds_to_def gget_stakes_of flip: st1)
  then show "record_ok bl reg (accepted_for ?d acc @ [sm]) ?dict ob ao"
    using r0 ro counts_okD(4) [OF ok op x] add
    by (simp add: record_ok_def ao signed_stake_snoc signers_key_snoc signers_sig_snoc adds_to_def ob1_def)
  show "record_ok bl reg (accepted_for d acc) ?dict ob ao'"
    if d: "d \<noteq> ?d" "gget (aggregatedOperatorsDict vi) d = Some ao'" for d ao'
  proof (rule record_ok_store)
    show r: "record_ok bl reg (accepted_for d acc) ?dict ?ob ao'"
      using counts_okD(6) [OF ok d(2)] .
    then have "sm_OperatorId (hd (accepted_for d acc)) \<noteq> h"
      using distinct_heads [OF dist _ ne d(1)] by (simp add: record_ok_def h_def)
    moreover have "stake_ref ?dict (sm_OperatorId (hd (accepted_for d acc))) = Some (signersTotalStakePerQuorum ao')"
      using r unfolding record_ok_def by blast
    ultimately show "gget (stakes_of ob (signersTotalStakePerQuorum ao')) q =
        gget (stakes_of ?ob (signersTotalStakePerQuorum ao')) q" for q
      by (intro elsewhere)
    show "o_g2 ob (signersApkG2 ao') = o_g2 ?ob (signersApkG2 ao')"
        "o_sig ob (signersAggSigG1 ao') = o_sig ?ob (signersAggSigG1 ao')" "o_next ?ob \<le> o_next ob"
      using add apart [OF d] by (simp_all add: adds_to_def ob1_def ao)
  qed
qed

lemma handle_counts_ok:
  assumes "counts_ok bl reg acc vi" "handleSignedMessageDigest cd bl sm vi = Inr vi'" "signed_ok cd sm"
    and "distinct (map sm_OperatorId (acc @ [sm]))"
  shows "counts_ok bl reg (acc @ [sm]) vi'"
  using assms(2,3)
proof (cases rule: handle_cases)
  case (first st pk ao ob)
  then show ?thesis
    using first_signer_ok [OF assms(1) _ first(1-4)] assms(4) by simp
next
  case (later st pk ao0 ao ob)
  then show ?thesis
    using later_signer_ok [OF assms(1) _ _ later(1-4)] assms(4) by simp
qed

end
