(* ===== verification/BlsAggQuorum.thy ===== *)
theory BlsAggQuorum
  imports BlsAggStake
begin

text \<open>
  What the aggregation service reports about a digest: the stake behind it, the threshold it has
  reached, that no second digest reaches it, and what a repeated signature does to the count.
\<close>

section \<open>A sequence of signed messages\<close>

text \<open>What the goroutine's loops do to the counts: rejected messages change nothing.\<close>

fun handle_all ::
  "codec \<Rightarrow> bls_lib \<Rightarrow> SignedMessage list \<Rightarrow> signedMessageDigestValidationInfo \<Rightarrow>
   (agg_error, signedMessageDigestValidationInfo \<times> SignedMessage list) res" where
  "handle_all cd bl [] vi = Inr (vi, [])"
| "handle_all cd bl (sm # sms) vi =
     (case handleSignedMessageDigest cd bl sm vi of
        Inl (Fault f) \<Rightarrow> Inl (Fault f)
      | Inl (Err e) \<Rightarrow> handle_all cd bl sms vi
      | Inr vi' \<Rightarrow> bind_err (handle_all cd bl sms vi') (\<lambda>(vi'', acc). Inr (vi'', sm # acc)))"

lemma handle_all_counts_ok:
  assumes "counts_ok bl reg acc0 vi" "handle_all cd bl sms vi = Inr (vi', acc)"
    and "\<forall>sm \<in> set sms. signed_ok cd sm" "distinct (map sm_OperatorId (acc0 @ acc))"
  shows "counts_ok bl reg (acc0 @ acc) vi'"
  using assms
proof (induction sms arbitrary: acc0 vi acc)
  case Nil
  then show ?case by simp
next
  case (Cons sm sms)
  show ?case
  proof (cases "handleSignedMessageDigest cd bl sm vi")
    case (Inl e)
    then show ?thesis
      using Cons by (cases e) auto
  next
    case (Inr vi1)
    then obtain acc1 where a: "handle_all cd bl sms vi1 = Inr (vi', acc1)" "acc = sm # acc1"
      using Cons.prems(2) by auto
    have "counts_ok bl reg (acc0 @ [sm]) vi1"
      using Cons.prems a(2) Inr by (intro handle_counts_ok) auto
    from Cons.IH [OF this a(1)] show ?thesis
      using Cons.prems(3,4) a(2) by simp
  qed
qed

lemma handle_operator:
  assumes "handleSignedMessageDigest cd bl sm vi = Inr vi'"
  shows "sm_OperatorId sm \<in> set (gkeys (operatorsAvsStateDict vi)) \<and>
    operatorsAvsStateDict vi' = operatorsAvsStateDict vi \<and>
    totalStakePerQuorum vi' = totalStakePerQuorum vi \<and>
    quorumThresholdPercentagesMap vi' = quorumThresholdPercentagesMap vi"
  using assms
  by (auto simp: handleSignedMessageDigest_def Let_def split: option.splits sum.splits failure.splits prod.splits
      dest!: gget_Some_key)

lemma handle_all_operators:
  assumes "handle_all cd bl sms vi = Inr (vi', acc)"
  shows "sm_OperatorId ` set acc \<subseteq> set (gkeys (operatorsAvsStateDict vi)) \<and> set acc \<subseteq> set sms \<and>
    totalStakePerQuorum vi' = totalStakePerQuorum vi \<and>
    quorumThresholdPercentagesMap vi' = quorumThresholdPercentagesMap vi"
  using assms
proof (induction sms arbitrary: vi acc)
  case Nil
  then show ?case by simp
next
  case (Cons sm sms)
  show ?case
  proof (cases "handleSignedMessageDigest cd bl sm vi")
    case (Inl e)
    then show ?thesis
      using Cons by (cases e) auto
  next
    case (Inr vi1)
    then obtain acc1 where a: "handle_all cd bl sms vi1 = Inr (vi', acc1)" "acc = sm # acc1"
      using Cons.prems by auto
    show ?thesis
      using Cons.IH [OF a(1)] handle_operator [OF Inr] a(2) by auto
  qed
qed

text \<open>What the registry returns: maps, hence distinct keys.\<close>

definition registry_ok :: "(OperatorId, RegistryOperator) gomap \<Rightarrow> bool" where
  "registry_ok reg \<longleftrightarrow> gmap_ok reg \<and> (\<forall>ro \<in> snd ` set reg. gmap_ok (reg_StakePerQuorum ro))"

lemma fetch_counts_ok:
  assumes "fetchValidationInfo bl avs qs ps block = Inr vi" "block \<noteq> 0"
    and reg: "GetOperatorsAvsStateAtBlock avs qs (ucast block) = Inr reg" "registry_ok reg"
  shows "counts_ok bl reg [] vi"
proof -
  obtain dict ob where a: "alloc_operators reg (no_objects bl) = (dict, ob)" by fastforce
  have vi: "operatorsAvsStateDict vi = dict" "objs vi = ob" "aggregatedOperatorsDict vi = []"
    using assms(1,2) reg(1) a by (auto simp: fetchValidationInfo_def Let_def split: sum.splits)
  have "fresh_info reg (o_next (no_objects bl)) dict ob"
    using fresh_info_alloc [OF a] reg(2) by (auto simp: registry_ok_def)
  then have f: "map fst dict = map fst reg" "separated dict ob"
     "\<And>op ro. gget reg op = Some ro \<Longrightarrow> \<exists>st. gget dict op = Some st \<and>
        oas_G1Pubkey st = reg_G1Pubkey ro \<and> oas_G2Pubkey st = reg_G2Pubkey ro \<and>
        (\<forall>q. gget (stakes_of ob (oas_StakePerQuorum st)) q = gget (reg_StakePerQuorum ro) q)"
    unfolding fresh_info_def by blast+
  show ?thesis
  proof (rule counts_okI)
    show "same_operators reg (operatorsAvsStateDict vi)"
      using f(1,3) unfolding same_operators_def vi by fastforce
    show "separated (operatorsAvsStateDict vi) (objs vi)"
      using f(2) by (simp add: vi)
    show "gget (stakes_of (objs vi) m) q = registered_stake reg op q"
      if m: "stake_ref (operatorsAvsStateDict vi) op = Some m" for op m q
    proof -
      obtain st where st: "gget dict op = Some st" "m = oas_StakePerQuorum st"
        using m by (auto simp: vi)
      then have "op \<in> set (map fst reg)"
        using f(1) by (metis gget_Some_key)
      then obtain ro where "gget reg op = Some ro"
        using gkey_get by fastforce
      then show ?thesis
        using f(3) [of op ro] st by (auto simp: registered_stake_def vi)
    qed
  qed (simp_all add: vi records_apart_def)
qed

section \<open>Properties of the counts\<close>

text \<open>
  C1. As long as no operator is accepted twice for a message, the record of every digest is the one
  that the specification computes from the accepted messages and the registry: the total stake per
  quorum is the sum of the signers' registered stakes, the aggregate key and signature are the sums
  of the signers' keys and signatures, and the signers are the accepted operators. The in-place
  additions and the shared maps do not show.
\<close>

theorem counted_stake_refines:
  assumes "fetchValidationInfo bl avs qs ps block = Inr vi" "block \<noteq> 0"
    and "GetOperatorsAvsStateAtBlock avs qs (ucast block) = Inr reg" "registry_ok reg"
    and "handle_all cd bl sms vi = Inr (vi', acc)" "\<forall>sm \<in> set sms. signed_ok cd sm"
    and "distinct (map sm_OperatorId acc)"
    and "gget (aggregatedOperatorsDict vi') d = Some ao"
  shows "(\<forall>q. gget (stakes_of (objs vi') (signersTotalStakePerQuorum ao)) q =
      signed_stake reg (map sm_OperatorId (accepted_for d acc)) q) \<and>
    o_g2 (objs vi') (signersApkG2 ao) = signers_key bl reg (map sm_OperatorId (accepted_for d acc)) \<and>
    o_sig (objs vi') (signersAggSigG1 ao) = signers_sig bl (map sm_BlsSignature (accepted_for d acc)) \<and>
    set (gkeys (signersOperatorIdsSet ao)) = sm_OperatorId ` set (accepted_for d acc)"
proof -
  have "counts_ok bl reg acc vi'"
    using handle_all_counts_ok [OF fetch_counts_ok [OF assms(1-4)] assms(5,6)] assms(7) by simp
  from counts_okD(6) [OF this assms(8)] show ?thesis
    unfolding record_ok_def by blast
qed

lemma status_stakes:
  assumes "counts_ok bl reg acc vi" "getMessageBlsAggregationStatus d vi = Inr st"
  shows "accepted_for d acc \<noteq> [] \<and>
    (st = StatusThresholdReached \<longrightarrow> (\<forall>(q, p) \<in> set (quorumThresholdPercentagesMap vi). \<exists>s t.
       signed_stake reg (map sm_OperatorId (accepted_for d acc)) q = Some s \<and>
       gget (totalStakePerQuorum vi) q = Some t \<and> t * uint p \<le> s * 100)) \<and>
    (st = StatusFullStakeThresholdMet \<longrightarrow> (\<forall>q s.
       signed_stake reg (map sm_OperatorId (accepted_for d acc)) q = Some s \<longrightarrow>
       gget (totalStakePerQuorum vi) q = Some s))"
proof -
  obtain ao where ao: "gget (aggregatedOperatorsDict vi) d = Some ao"
    using assms(2) by (auto simp: getMessageBlsAggregationStatus_def split: option.splits)
  let ?st = "stakes_of (objs vi) (signersTotalStakePerQuorum ao)"
  have r: "record_ok bl reg (accepted_for d acc) (operatorsAvsStateDict vi) (objs vi) ao"
    using counts_okD(6) [OF assms(1) ao] .
  then have g: "gget ?st q = signed_stake reg (map sm_OperatorId (accepted_for d acc)) q" for q
    unfolding record_ok_def by blast
  have ne: "accepted_for d acc \<noteq> []"
    using r unfolding record_ok_def by blast
  obtain full where full: "checkIfFullStakeThresholdMet ?st (totalStakePerQuorum vi) = Inr full"
    using assms(2) ao by (auto simp: getMessageBlsAggregationStatus_def Let_def)
  show ?thesis
  proof (cases full)
    case True
    have "\<forall>q s. gget ?st q = Some s \<longrightarrow> gget (totalStakePerQuorum vi) q = Some s"
      using full True unfolding checkIfFullStakeThresholdMet_True [symmetric]
      by (auto simp: checkIfFullStakeThresholdMet_True dest!: map_of_SomeD)
    moreover have "st = StatusFullStakeThresholdMet"
      using assms(2) ao full True by (simp add: getMessageBlsAggregationStatus_def Let_def)
    ultimately show ?thesis
      using ne g by simp
  next
    case False
    then obtain met where met: "checkIfStakeThresholdsMet ?st (totalStakePerQuorum vi)
        (quorumThresholdPercentagesMap vi) = Inr met"
      "st = (if met then StatusThresholdReached else StatusThresholdNotReached)"
      using assms(2) ao full by (auto simp: getMessageBlsAggregationStatus_def Let_def split: if_splits)
    then show ?thesis
      using ne g checkIfStakeThresholdsMet_True [of ?st "totalStakePerQuorum vi" "quorumThresholdPercentagesMap vi"]
      by (cases met) auto
  qed
qed


text \<open>The stake of an operator in a quorum, and the sums over signers.\<close>

definition stake_in :: "(OperatorId, RegistryOperator) gomap \<Rightarrow> u8 \<Rightarrow> OperatorId \<Rightarrow> int" where
  "stake_in reg q op = (case registered_stake reg op q of None \<Rightarrow> 0 | Some v \<Rightarrow> v)"

lemma signed_stake_sum:
  assumes "ops \<noteq> []" "\<forall>op \<in> set ops. registered_stake reg op q \<noteq> None"
  shows "signed_stake reg ops q = Some (sum_list (map (stake_in reg q) ops))"
  using assms
proof (induction ops rule: rev_induct)
  case Nil
  then show ?case by simp
next
  case (snoc op ops)
  then obtain v where v: "registered_stake reg op q = Some v" by auto
  show ?case
  proof (cases "ops = []")
    case True
    then show ?thesis
      using v by (simp add: signed_stake_def stake_in_def)
  next
    case False
    then show ?thesis
      using snoc v by (simp add: signed_stake_snoc stake_in_def)
  qed
qed

lemma sum_two_signer_lists:
  fixes f :: "'a \<Rightarrow> int"
  assumes "distinct (xs @ ys)" "set (xs @ ys) \<subseteq> A" "finite A" "\<forall>a \<in> A. 0 \<le> f a"
  shows "sum_list (map f xs) + sum_list (map f ys) \<le> sum f A"
proof -
  have "sum_list (map f xs) + sum_list (map f ys) = sum f (set (xs @ ys))"
    using sum_list_distinct_conv_sum_set [OF assms(1), of f] by simp
  also have "\<dots> \<le> sum f A"
    using assms(2-4) by (intro sum_mono2) auto
  finally show ?thesis .
qed

lemma distinct_filter_pair:
  assumes "distinct (map f xs)" "\<And>x. x \<in> set xs \<Longrightarrow> \<not> (P x \<and> Q x)"
  shows "distinct (map f (filter P xs) @ map f (filter Q xs))"
  using assms by (auto simp: distinct_map inj_on_def distinct_filter)


section \<open>Signing twice\<close>

lemma distinct_refs:
  assumes "gmap_ok m" "\<And>q q' r. gget m q = Some r \<Longrightarrow> gget m q' = Some r \<Longrightarrow> q = q'"
  shows "distinct (map snd m)"
proof -
  have "inj_on snd (set m)"
  proof (rule inj_onI)
    fix x y assume "x \<in> set m" "y \<in> set m" "snd x = snd y"
    then have "gget m (fst x) = Some (snd x)" "gget m (fst y) = Some (snd x)"
      using gget_iff_mem [OF assms(1)] by (metis prod.collapse)+
    then show "x = y"
      using assms(2) \<open>snd x = snd y\<close> by (metis prod_eqI)
  qed
  then show ?thesis
    using assms(1) by (simp add: distinct_map)
qed

lemma add_own_stakes:
  assumes "set es \<subseteq> set (o_map ob tot)" "gmap_ok (o_map ob tot)" "distinct (map snd es)"
  shows "o_map (add_stakes tot es ob) = o_map ob \<and>
    (\<forall>r. o_int (add_stakes tot es ob) r = (if r \<in> snd ` set es then 2 * o_int ob r else o_int ob r))"
  using assms
proof (induction es arbitrary: ob)
  case Nil
  then show ?case by simp
next
  case (Cons e es)
  obtain q r where e: "e = (q, r)" by fastforce
  have "gget (o_map ob tot) q = Some r"
    using Cons.prems(1,2) e by (simp add: gget_iff_mem)
  then have te: "total_entry tot q ob = (ob, r)"
    by (simp add: total_entry_def)
  let ?ob = "ob\<lparr>o_int := (o_int ob)(r := o_int ob r + o_int ob r)\<rparr>"
  have "o_map (add_stakes tot es ?ob) = o_map ?ob \<and>
    (\<forall>r'. o_int (add_stakes tot es ?ob) r' = (if r' \<in> snd ` set es then 2 * o_int ?ob r' else o_int ?ob r'))"
    using Cons.prems by (intro Cons.IH) (simp_all add: e)
  then show ?case
    using Cons.prems(3) by (auto simp: e te)
qed

text \<open>
  C33. The service does not check for repeated signatures: when the operator whose signature is the
  only one accepted for a digest sends it again, the recorded stake of every quorum doubles. An
  operator with a third of the stake reaches a two-thirds threshold alone by signing twice.
\<close>

theorem resigning_doubles_stake:
  assumes "counts_ok bl reg acc vi" "signed_ok cd sm"
    and "gget (aggregatedOperatorsDict vi) (sm_MessageDigest sm) = None"
    and "handleSignedMessageDigest cd bl sm vi = Inr vi1" "handleSignedMessageDigest cd bl sm vi1 = Inr vi2"
    and "gget (aggregatedOperatorsDict vi1) (sm_MessageDigest sm) = Some ao1"
    and "gget (aggregatedOperatorsDict vi2) (sm_MessageDigest sm) = Some ao2"
  shows "gget (stakes_of (objs vi2) (signersTotalStakePerQuorum ao2)) q =
    map_option ((*) 2) (gget (stakes_of (objs vi1) (signersTotalStakePerQuorum ao1)) q)"
proof -
  let ?op = "sm_OperatorId sm"
  have "\<exists>st pk. gget (operatorsAvsStateDict vi) ?op = Some st \<and> oas_G2Pubkey st = Some pk \<and>
      signersTotalStakePerQuorum ao1 = oas_StakePerQuorum st \<and> o_map (objs vi1) = o_map (objs vi) \<and>
      operatorsAvsStateDict vi1 = operatorsAvsStateDict vi"
    using assms(4,2)
  proof (cases rule: handle_cases)
    case (first st pk ao ob)
    then show ?thesis
      using assms(6) by (auto simp: first_signer_def Let_def)
  qed (use assms(3) in simp)
  then obtain st pk where st: "gget (operatorsAvsStateDict vi) ?op = Some st" "oas_G2Pubkey st = Some pk"
      "signersTotalStakePerQuorum ao1 = oas_StakePerQuorum st" "o_map (objs vi1) = o_map (objs vi)"
      "operatorsAvsStateDict vi1 = operatorsAvsStateDict vi" by blast
  let ?m = "oas_StakePerQuorum st"
  have ref: "stake_ref (operatorsAvsStateDict vi) ?op = Some ?m"
    using st by simp
  have sep: "gmap_ok (o_map (objs vi1) ?m)"
      "\<And>q q' r. gget (o_map (objs vi1) ?m) q = Some r \<Longrightarrow> gget (o_map (objs vi1) ?m) q' = Some r \<Longrightarrow> q = q'"
    using counts_okD(2) [OF assms(1)] ref st(4) unfolding separated_def by metis+
  have inj: "distinct (map snd (o_map (objs vi1) ?m))"
    using sep by (rule distinct_refs)
  from assms(5,2) show ?thesis
  proof (cases rule: handle_cases)
    case (first st' pk' ao ob)
    then show ?thesis using assms(6) by simp
  next
    case (later st' pk' ao0 ao ob)
    define ob1 where "ob1 = objs vi1\<lparr>o_sig := (o_sig (objs vi1))(signersAggSigG1 ao1 :=
        SigAdd bl (o_sig (objs vi1) (signersAggSigG1 ao1)) (sm_BlsSignature sm)),
      o_g2 := (o_g2 (objs vi1))(signersApkG2 ao1 := G2Add bl (o_g2 (objs vi1) (signersApkG2 ao1)) pk)\<rparr>"
    have "signersTotalStakePerQuorum ao2 = ?m" "objs vi2 = add_stakes ?m (o_map ob1 ?m) ob1"
      using later st assms(6,7) by (auto simp: later_signer_def Let_def ob1_def)
    moreover have "o_map ob1 = o_map (objs vi1)" "o_int ob1 = o_int (objs vi1)"
      by (simp_all add: ob1_def)
    moreover have "r \<in> snd ` set (o_map (objs vi1) ?m)" if "gget (o_map (objs vi1) ?m) q = Some r" for r
      using map_of_SomeD [OF that] by (rule rev_image_eqI) simp
    ultimately show ?thesis
      using add_own_stakes [of "o_map ob1 ?m" ob1 ?m] sep(1) inj st(3)
      by (cases "gget (o_map (objs vi1) ?m) q") (simp_all add: gget_stakes_of)
  qed
qed

section \<open>A concrete count\<close>

definition sample_operators :: "(OperatorId, RegistryOperator) gomap" where
  "sample_operators = projr (GetOperatorsAvsStateAtBlock sample_registry [0] 7)"

definition sample_signed :: "int \<Rightarrow> SignedMessage" where
  "sample_signed n =
     \<lparr>sm_Message = sample_checkpoint_message, sm_MessageDigest = zero32,
      sm_BlsSignature = Some \<lparr>g1_X = n, g1_Y = 0\<rparr>, sm_OperatorId = be_bytes 32 (nat n)\<rparr>"

lemma sample_be [simp]: "be_bytes 32 (Suc 0) \<noteq> be_bytes 32 2" "be_bytes 32 2 \<noteq> be_bytes 32 (Suc 0)"
  using be32_inj [of "Suc 0" 2] by auto

lemma sample_digest: "Digest toy_codec sample_checkpoint_message = Inr zero32"
  by (simp add: sample_checkpoint_message_def CheckpointTaskResponse_Digest_def
      CheckpointTaskResponse_AbiEncode_def HashMessageWithPrefix_def Keccak256_def toy_codec_def zero32_def)

lemma sample_signed_ok: "signed_ok toy_codec (sample_signed n)"
  by (simp add: signed_ok_def sample_signed_def sample_digest)

lemma sample_operators_ok:
  "GetOperatorsAvsStateAtBlock sample_registry [0] (ucast (7 :: u64)) = Inr sample_operators"
  "registry_ok sample_operators"
  by (simp_all add: sample_operators_def sample_registry_def registry_ok_def)

lemma sample_fetch7: "fetchValidationInfo toy_bls sample_registry [0] [66] 7 = Inr sample_info"
  using sample_fetch by (simp add: sample_args_def)

definition sample_counted :: signedMessageDigestValidationInfo where
  "sample_counted = fst (projr (handle_all toy_codec toy_bls [sample_signed 1, sample_signed 2] sample_info))"

lemma sample_info_eval:
  "sample_info = \<lparr>operatorsAvsStateDict =
       [(be_bytes 32 1, \<lparr>oas_G1Pubkey = Some \<lparr>g1_X = 1, g1_Y = 1\<rparr>, oas_G2Pubkey = Some (sample_pk 1), oas_StakePerQuorum = Suc 0\<rparr>),
        (be_bytes 32 2, \<lparr>oas_G1Pubkey = Some \<lparr>g1_X = 2, g1_Y = 2\<rparr>, oas_G2Pubkey = Some (sample_pk 2), oas_StakePerQuorum = Suc (Suc (Suc 0))\<rparr>)],
     quorumsAvsStakeDict = [(0, \<lparr>qas_AggPubkeyG1 = Some \<lparr>g1_X = 3, g1_Y = 3\<rparr>, qas_TotalStake = 100\<rparr>)],
     totalStakePerQuorum = [(0, 100)], quorumApksG1 = [Some \<lparr>g1_X = 3, g1_Y = 3\<rparr>],
     aggregatedOperatorsDict = [], quorumThresholdPercentagesMap = [(0, 66)], quorumNumbers = [0],
     ethBlockNumber = 7,
     objs = \<lparr>o_next = Suc (Suc (Suc (Suc 0))), o_int = (\<lambda>_. 0)(0 := 40, Suc (Suc 0) := 60),
       o_map = (\<lambda>_. [])(Suc 0 := [(0, 0)], Suc (Suc (Suc 0)) := [(0, Suc (Suc 0))]),
       o_g2 = (\<lambda>_. ZeroG2Point toy_bls), o_sig = (\<lambda>_. None)\<rparr>\<rparr>"
  by (simp add: sample_info_def sample_args_def fetchValidationInfo_def sample_registry_def no_objects_def Let_def)

lemma sample_handled:
  "handle_all toy_codec toy_bls [sample_signed 1, sample_signed 2] sample_info =
     Inr (sample_counted, [sample_signed 1, sample_signed 2])"
  by (simp add: sample_counted_def sample_info_eval handleSignedMessageDigest_def verifySignature_def
      sample_signed_def sample_digest toy_bls_def sample_pk_def first_signer_def later_signer_def Let_def)

lemma sample_counted_eval:
  "\<exists>ao. gget (aggregatedOperatorsDict sample_counted) zero32 = Some ao"
  "getMessageBlsAggregationStatus zero32 sample_counted = Inr StatusFullStakeThresholdMet"
  by (simp_all add: sample_counted_def sample_info_eval handleSignedMessageDigest_def verifySignature_def
      sample_signed_def sample_digest toy_bls_def sample_pk_def first_signer_def later_signer_def Let_def
      getMessageBlsAggregationStatus_def stakes_of_def total_entry_def)

lemma sample_distinct: "distinct (map sm_OperatorId [sample_signed 1, sample_signed 2])"
  by (simp add: sample_signed_def)

lemma sample_all_signed: "\<forall>sm \<in> set [sample_signed 1, sample_signed 2]. signed_ok toy_codec sm"
  by (simp add: sample_signed_ok)

lemma sample_accepted:
  "accepted_for zero32 [sample_signed 1, sample_signed 2] = [sample_signed 1, sample_signed 2]"
  by (simp add: sample_signed_def)

theorem counted_stake_refines_witness:
  "\<exists>ao. gget (aggregatedOperatorsDict sample_counted) zero32 = Some ao \<and>
     gget (stakes_of (objs sample_counted) (signersTotalStakePerQuorum ao)) 0 =
       signed_stake sample_operators [be_bytes 32 1, be_bytes 32 2] 0 \<and>
     o_sig (objs sample_counted) (signersAggSigG1 ao) = Some \<lparr>g1_X = 3, g1_Y = 0\<rparr>"
proof -
  obtain ao where ao: "gget (aggregatedOperatorsDict sample_counted) zero32 = Some ao"
    using sample_counted_eval(1) by blast
  show ?thesis
    using counted_stake_refines [OF sample_fetch7 _ sample_operators_ok sample_handled sample_all_signed
        sample_distinct ao] ao
    by (auto simp: sample_accepted sample_signed_def signers_sig_def toy_bls_def)
qed

lemma sample_signed_stake: "signed_stake sample_operators (map sm_OperatorId
    (accepted_for zero32 [sample_signed 1, sample_signed 2])) 0 = Some 100"
  by (simp add: sample_accepted sample_signed_def signed_stake_def registered_stake_def sample_operators_def
      sample_registry_def)



definition sample_signed_once :: signedMessageDigestValidationInfo where
  "sample_signed_once = projr (handleSignedMessageDigest toy_codec toy_bls (sample_signed 1) sample_info)"

definition sample_signed_twice :: signedMessageDigestValidationInfo where
  "sample_signed_twice = projr (handleSignedMessageDigest toy_codec toy_bls (sample_signed 1) sample_signed_once)"

lemma sample_signs:
  "handleSignedMessageDigest toy_codec toy_bls (sample_signed 1) sample_info = Inr sample_signed_once"
  "handleSignedMessageDigest toy_codec toy_bls (sample_signed 1) sample_signed_once = Inr sample_signed_twice"
  "gget (aggregatedOperatorsDict sample_info) (sm_MessageDigest (sample_signed 1)) = None"
  "\<exists>ao. gget (aggregatedOperatorsDict sample_signed_once) zero32 = Some ao \<and>
     gget (stakes_of (objs sample_signed_once) (signersTotalStakePerQuorum ao)) 0 = Some 40"
  "\<exists>ao. gget (aggregatedOperatorsDict sample_signed_twice) zero32 = Some ao"
  by (simp_all add: sample_signed_once_def sample_signed_twice_def sample_info_eval handleSignedMessageDigest_def
      verifySignature_def sample_signed_def sample_digest toy_bls_def sample_pk_def first_signer_def
      later_signer_def Let_def stakes_of_def total_entry_def)

theorem resigning_doubles_stake_witness:
  "\<exists>ao. gget (aggregatedOperatorsDict sample_signed_twice) zero32 = Some ao \<and>
     gget (stakes_of (objs sample_signed_twice) (signersTotalStakePerQuorum ao)) 0 = Some 80"
proof -
  obtain ao1 where ao1: "gget (aggregatedOperatorsDict sample_signed_once) zero32 = Some ao1"
      "gget (stakes_of (objs sample_signed_once) (signersTotalStakePerQuorum ao1)) 0 = Some 40"
    using sample_signs(4) by blast
  obtain ao2 where ao2: "gget (aggregatedOperatorsDict sample_signed_twice) zero32 = Some ao2"
    using sample_signs(5) by blast
  have d: "sm_MessageDigest (sample_signed 1) = zero32"
    by (simp add: sample_signed_def)
  have "counts_ok toy_bls sample_operators [] sample_info"
    by (rule fetch_counts_ok [OF sample_fetch7 _ sample_operators_ok]) simp
  from resigning_doubles_stake [OF this sample_signed_ok sample_signs(3,1,2), of ao1 ao2 0] show ?thesis
    using ao1 ao2 by (auto simp: d)
qed

end
