(* ===== verification/Metrics.thy ===== *)
theory Metrics
  imports Prelude
begin

text \<open>
  The event listeners of the components and the metrics behind them: \<^verbatim>\<open>operator/metrics.go\<close>,
  \<^verbatim>\<open>aggregator/metrics.go\<close>, \<^verbatim>\<open>relayer/metrics.go\<close>, the \<^verbatim>\<open>metrics.go\<close> of the two servers and the
  \<^verbatim>\<open>event_listener.go\<close> of the attestor, the consumer and the database.

  For each listener there are its interface (a datatype of events), its struct of optional callbacks,
  the methods that call the callback of an event when it is set, the collectors that are registered,
  in order, with the error text of each, and the struct that is returned when all registrations have
  succeeded. A callback's effect is a \<open>metric_op\<close> on a collector, which is named by its
  namespace, subsystem and name. Registration is Prometheus's, a parameter. The operands of
  \<^verbatim>\<open>float64(...)\<close> are kept as integers.
\<close>

section \<open>Collectors\<close>

type_synonym metric_id = "string \<times> string \<times> string"

text \<open>\<^verbatim>\<open>time.Duration\<close>, in nanoseconds.\<close>

type_synonym duration = int

text \<open>Integer division in Go truncates towards zero.\<close>

definition quot :: "int \<Rightarrow> int \<Rightarrow> int" where
  "quot a b = sgn a * sgn b * (\<bar>a\<bar> div \<bar>b\<bar>)"

definition Microseconds :: "duration \<Rightarrow> int" where
  "Microseconds d = quot d 1000"

definition Milliseconds :: "duration \<Rightarrow> int" where
  "Milliseconds d = quot d 1000000"

datatype metric_op =
    CounterInc metric_id "string list"
  | GaugeSet metric_id "string list" int
  | GaugeSetToCurrentTime metric_id "string list"
  | HistogramObserve metric_id int

fun op_id :: "metric_op \<Rightarrow> metric_id" where
  "op_id (CounterInc m _) = m"
| "op_id (GaugeSet m _ _) = m"
| "op_id (GaugeSetToCurrentTime m _) = m"
| "op_id (HistogramObserve m _) = m"

text \<open>\<^verbatim>\<open>fmt.Sprintf\<close> with \<^verbatim>\<open>%d\<close>, \<^verbatim>\<open>%t\<close> and \<^verbatim>\<open>%x\<close>.\<close>

definition digit :: "nat \<Rightarrow> char" where
  "digit n = ''0123456789abcdef'' ! (n mod 16)"

fun sprint_d :: "nat \<Rightarrow> string" where
  "sprint_d n = (if n < 10 then [digit n] else sprint_d (n div 10) @ [digit (n mod 10)])"

declare sprint_d.simps [simp del]

definition sprint_t :: "bool \<Rightarrow> string" where
  "sprint_t b = (if b then ''true'' else ''false'')"

definition sprint_x :: "bytes \<Rightarrow> string" where
  "sprint_x bs = concat (map (\<lambda>b. [digit (unat b div 16), digit (unat b mod 16)]) bs)"

text \<open>A method of a selective listener: a nil callback is skipped.\<close>

definition call_cb :: "'cb option \<Rightarrow> ('cb \<Rightarrow> metric_op list) \<Rightarrow> metric_op list" where
  "call_cb cb f = (case cb of None \<Rightarrow> [] | Some c \<Rightarrow> f c)"

text \<open>
  The \<^verbatim>\<open>if err := registry.Register(c); err != nil { return nil, fmt.Errorf(...) }\<close> sequence; the
  registry keeps what was registered before the error.
\<close>

fun register_all ::
  "(metric_id \<Rightarrow> 'r \<Rightarrow> string option \<times> 'r) \<Rightarrow> (metric_id \<times> string) list \<Rightarrow> 'r \<Rightarrow> string option \<times> 'r" where
  "register_all register [] r = (None, r)"
| "register_all register ((m, msg) # ms) r =
     (case register m r of
        (Some e, r') \<Rightarrow> (Some (msg @ e), r')
      | (None, r') \<Rightarrow> register_all register ms r')"

definition make_metrics ::
  "(metric_id \<Rightarrow> 'r \<Rightarrow> string option \<times> 'r) \<Rightarrow> (metric_id \<times> string) list \<Rightarrow> 'l \<Rightarrow> 'r \<Rightarrow> (string + 'l) \<times> 'r"
where
  "make_metrics register ms listener r =
     (case register_all register ms r of
        (Some e, r') \<Rightarrow> (Inl e, r')
      | (None, r') \<Rightarrow> (Inr listener, r'))"


section \<open>operator/metrics.go: the operator\<close>

datatype OperatorEvent =
    OnTasksReceived
  | IncInitializationCount
  | ObserveLastInitializedTime

record SelectiveOperatorListener =
  OnTasksReceivedCb :: "metric_op option"
  IncInitializationCountCb :: "metric_op option"
  ObserveLastInitializedTimeCb :: "metric_op option"

fun operator_event :: "SelectiveOperatorListener \<Rightarrow> OperatorEvent \<Rightarrow> metric_op list" where
  "operator_event l OnTasksReceived = call_cb (OnTasksReceivedCb l) (\<lambda>cb. [cb])"
| "operator_event l IncInitializationCount = call_cb (IncInitializationCountCb l) (\<lambda>cb. [cb])"
| "operator_event l ObserveLastInitializedTime = call_cb (ObserveLastInitializedTimeCb l) (\<lambda>cb. [cb])"

definition operator_metrics :: "(metric_id \<times> string) list" where
  "operator_metrics =
     [((''sffl_operator'', '''', ''num_tasks_received''), ''error registering numTasksReceived counter: ''),
      ((''sffl_operator'', '''', ''last_initialized_time''), ''error registering lastInitializedTime gauge: ''),
      ((''sffl_operator'', '''', ''initialization_count''), ''error registering initializationCount counter: '')]"

definition operator_listener :: SelectiveOperatorListener where
  "operator_listener =
     \<lparr>OnTasksReceivedCb = Some (CounterInc (''sffl_operator'', '''', ''num_tasks_received'') []),
      IncInitializationCountCb = Some (CounterInc (''sffl_operator'', '''', ''initialization_count'') []),
      ObserveLastInitializedTimeCb = Some (GaugeSetToCurrentTime (''sffl_operator'', '''', ''last_initialized_time'') [])\<rparr>"

definition MakeOperatorMetrics ::
  "(metric_id \<Rightarrow> 'r \<Rightarrow> string option \<times> 'r) \<Rightarrow> 'r \<Rightarrow> (string + SelectiveOperatorListener) \<times> 'r" where
  "MakeOperatorMetrics register r = make_metrics register operator_metrics operator_listener r"

section \<open>operator/metrics.go: the RPC client\<close>

datatype RpcClientEvent =
    OnMessagesReceived
  | ObserveResendQueueSize nat
  | ObserveLastCheckpointIdResponded u32
  | ObserveLastOperatorSetUpdateIdResponded u64
  | IncStateRootUpdateSubmissions u32 bool
  | IncOperatorSetUpdateUpdateSubmissions bool
  | IncCheckpointTaskResponseSubmissions bool
  | IncErroredStateRootUpdateSubmissions u32 bool
  | IncErroredOperatorSetUpdateSubmissions bool
  | IncErroredCheckpointSubmissions bool

record SelectiveRpcClientListener =
  OnMessagesReceivedCb :: "metric_op option"
  ObserveResendQueueSizeCb :: "(nat \<Rightarrow> metric_op) option"
  ObserveLastCheckpointIdRespondedCb :: "(u32 \<Rightarrow> metric_op) option"
  ObserveLastOperatorSetUpdateIdRespondedCb :: "(u64 \<Rightarrow> metric_op) option"
  IncStateRootUpdateSubmissionsCb :: "(u32 \<Rightarrow> bool \<Rightarrow> metric_op) option"
  IncOperatorSetUpdateUpdateSubmissionsCb :: "(bool \<Rightarrow> metric_op) option"
  IncCheckpointTaskResponseSubmissionsCb :: "(bool \<Rightarrow> metric_op) option"
  IncErroredStateRootUpdateSubmissionsCb :: "(u32 \<Rightarrow> bool \<Rightarrow> metric_op) option"
  IncErroredOperatorSetUpdateSubmissionsCb :: "(bool \<Rightarrow> metric_op) option"
  IncErroredCheckpointSubmissionsCb :: "(bool \<Rightarrow> metric_op) option"

fun rpc_client_event :: "SelectiveRpcClientListener \<Rightarrow> RpcClientEvent \<Rightarrow> metric_op list" where
  "rpc_client_event l OnMessagesReceived = call_cb (OnMessagesReceivedCb l) (\<lambda>cb. [cb])"
| "rpc_client_event l (ObserveResendQueueSize x) = call_cb (ObserveResendQueueSizeCb l) (\<lambda>cb. [cb x])"
| "rpc_client_event l (ObserveLastCheckpointIdResponded x) = call_cb (ObserveLastCheckpointIdRespondedCb l) (\<lambda>cb. [cb x])"
| "rpc_client_event l (ObserveLastOperatorSetUpdateIdResponded x) = call_cb (ObserveLastOperatorSetUpdateIdRespondedCb l) (\<lambda>cb. [cb x])"
| "rpc_client_event l (IncStateRootUpdateSubmissions x y) = call_cb (IncStateRootUpdateSubmissionsCb l) (\<lambda>cb. [cb x y])"
| "rpc_client_event l (IncOperatorSetUpdateUpdateSubmissions x) = call_cb (IncOperatorSetUpdateUpdateSubmissionsCb l) (\<lambda>cb. [cb x])"
| "rpc_client_event l (IncCheckpointTaskResponseSubmissions x) = call_cb (IncCheckpointTaskResponseSubmissionsCb l) (\<lambda>cb. [cb x])"
| "rpc_client_event l (IncErroredStateRootUpdateSubmissions x y) = call_cb (IncErroredStateRootUpdateSubmissionsCb l) (\<lambda>cb. [cb x y])"
| "rpc_client_event l (IncErroredOperatorSetUpdateSubmissions x) = call_cb (IncErroredOperatorSetUpdateSubmissionsCb l) (\<lambda>cb. [cb x])"
| "rpc_client_event l (IncErroredCheckpointSubmissions x) = call_cb (IncErroredCheckpointSubmissionsCb l) (\<lambda>cb. [cb x])"

definition rpc_client_metrics :: "(metric_id \<times> string) list" where
  "rpc_client_metrics =
     [((''sffl_operator'', '''', ''num_messages_received''), ''error registering numMessagesReceived counter: ''),
      ((''sffl_operator'', '''', ''resend_queue_size''), ''error registering resendQueueSize gauge: ''),
      ((''sffl_operator'', '''', ''last_checkpoint_id_responded''), ''error registering lastCheckpointIdResponded gauge: ''),
      ((''sffl_operator'', '''', ''last_operator_set_update_id_responded''), ''error registering lastOperatorSetUpdateIdResponded gauge: ''),
      ((''sffl_operator'', '''', ''state_root_update_submissions''), ''error registering stateRootUpdatesSent counter: ''),
      ((''sffl_operator'', '''', ''operator_set_update_submissions''), ''error registering operatorSetUpdateSubmissions counter: ''),
      ((''sffl_operator'', '''', ''checkpoint_task_response_submissions''), ''error registering checkpointTaskResponseSubmissions counter: ''),
      ((''sffl_operator'', '''', ''errored_checkpoint_submissions''), ''error registering erroredCheckpointSubmissions counter: ''),
      ((''sffl_operator'', '''', ''errored_operator_set_update_submissions''), ''error registering erroredOperatorSetUpdateSubmissions counter: '')]"

definition rpc_client_listener :: SelectiveRpcClientListener where
  "rpc_client_listener =
     \<lparr>OnMessagesReceivedCb = Some (CounterInc (''sffl_operator'', '''', ''num_messages_received'') []),
      ObserveResendQueueSizeCb = Some (\<lambda>x. GaugeSet (''sffl_operator'', '''', ''resend_queue_size'') [] (int x)),
      ObserveLastCheckpointIdRespondedCb = Some (\<lambda>x. GaugeSet (''sffl_operator'', '''', ''last_checkpoint_id_responded'') [] (uint x)),
      ObserveLastOperatorSetUpdateIdRespondedCb = Some (\<lambda>x. GaugeSet (''sffl_operator'', '''', ''last_operator_set_update_id_responded'') [] (uint x)),
      IncStateRootUpdateSubmissionsCb = Some (\<lambda>x y. CounterInc (''sffl_operator'', '''', ''state_root_update_submissions'') [sprint_d (unat x), sprint_t y]),
      IncOperatorSetUpdateUpdateSubmissionsCb = Some (\<lambda>x. CounterInc (''sffl_operator'', '''', ''operator_set_update_submissions'') [sprint_t x]),
      IncCheckpointTaskResponseSubmissionsCb = Some (\<lambda>x. CounterInc (''sffl_operator'', '''', ''checkpoint_task_response_submissions'') [sprint_t x]),
      IncErroredStateRootUpdateSubmissionsCb = Some (\<lambda>x y. CounterInc (''sffl_operator'', '''', ''errored_state_root_update_submissions'') [sprint_d (unat x), sprint_t y]),
      IncErroredOperatorSetUpdateSubmissionsCb = Some (\<lambda>x. CounterInc (''sffl_operator'', '''', ''errored_operator_set_update_submissions'') [sprint_t x]),
      IncErroredCheckpointSubmissionsCb = Some (\<lambda>x. CounterInc (''sffl_operator'', '''', ''errored_checkpoint_submissions'') [sprint_t x])\<rparr>"

definition MakeRpcClientMetrics ::
  "(metric_id \<Rightarrow> 'r \<Rightarrow> string option \<times> 'r) \<Rightarrow> 'r \<Rightarrow> (string + SelectiveRpcClientListener) \<times> 'r" where
  "MakeRpcClientMetrics register r = make_metrics register rpc_client_metrics rpc_client_listener r"

section \<open>aggregator/metrics.go\<close>

datatype AggregatorEvent =
    ObserveLastStateRootUpdateAggregated u32 u64
  | ObserveLastStateRootUpdateReceived u32 u64
  | ObserveLastOperatorSetUpdateAggregated u64
  | ObserveLastOperatorSetUpdateReceived u64
  | IncExpiredMessages
  | IncExpiredTasks
  | IncErroredSubmissions
  | IncAggregatorInitializations
  | ObserveLastCheckpointReferenceSent u32
  | ObserveLastCheckpointTaskReferenceReceived u32
  | ObserveLastCheckpointTaskReferenceAggregated u32

record SelectiveAggregatorListener =
  ObserveLastStateRootUpdateAggregatedCb :: "(u32 \<Rightarrow> u64 \<Rightarrow> metric_op) option"
  ObserveLastStateRootUpdateReceivedCb :: "(u32 \<Rightarrow> u64 \<Rightarrow> metric_op) option"
  ObserveLastOperatorSetUpdateAggregatedCb :: "(u64 \<Rightarrow> metric_op) option"
  ObserveLastOperatorSetUpdateReceivedCb :: "(u64 \<Rightarrow> metric_op) option"
  IncExpiredMessagesCb :: "metric_op option"
  IncExpiredTasksCb :: "metric_op option"
  IncErroredSubmissionsCb :: "metric_op option"
  IncAggregatorInitializationsCb :: "metric_op option"
  ObserveLastCheckpointReferenceSentCb :: "(u32 \<Rightarrow> metric_op) option"
  ObserveLastCheckpointTaskReferenceReceivedCb :: "(u32 \<Rightarrow> metric_op) option"
  ObserveLastCheckpointTaskReferenceAggregatedCb :: "(u32 \<Rightarrow> metric_op) option"

fun aggregator_event :: "SelectiveAggregatorListener \<Rightarrow> AggregatorEvent \<Rightarrow> metric_op list" where
  "aggregator_event l (ObserveLastStateRootUpdateAggregated x y) = call_cb (ObserveLastStateRootUpdateAggregatedCb l) (\<lambda>cb. [cb x y])"
| "aggregator_event l (ObserveLastStateRootUpdateReceived x y) = call_cb (ObserveLastStateRootUpdateReceivedCb l) (\<lambda>cb. [cb x y])"
| "aggregator_event l (ObserveLastOperatorSetUpdateAggregated x) = call_cb (ObserveLastOperatorSetUpdateAggregatedCb l) (\<lambda>cb. [cb x])"
| "aggregator_event l (ObserveLastOperatorSetUpdateReceived x) = call_cb (ObserveLastOperatorSetUpdateReceivedCb l) (\<lambda>cb. [cb x])"
| "aggregator_event l IncExpiredMessages = call_cb (IncExpiredMessagesCb l) (\<lambda>cb. [cb])"
| "aggregator_event l IncExpiredTasks = call_cb (IncExpiredTasksCb l) (\<lambda>cb. [cb])"
| "aggregator_event l IncErroredSubmissions = call_cb (IncErroredSubmissionsCb l) (\<lambda>cb. [cb])"
| "aggregator_event l IncAggregatorInitializations = call_cb (IncAggregatorInitializationsCb l) (\<lambda>cb. [cb])"
| "aggregator_event l (ObserveLastCheckpointReferenceSent x) = call_cb (ObserveLastCheckpointReferenceSentCb l) (\<lambda>cb. [cb x])"
| "aggregator_event l (ObserveLastCheckpointTaskReferenceReceived x) = call_cb (ObserveLastCheckpointTaskReferenceReceivedCb l) (\<lambda>cb. [cb x])"
| "aggregator_event l (ObserveLastCheckpointTaskReferenceAggregated x) = call_cb (ObserveLastCheckpointTaskReferenceAggregatedCb l) (\<lambda>cb. [cb x])"

definition aggregator_metrics :: "(metric_id \<times> string) list" where
  "aggregator_metrics =
     [((''sffl_aggregator'', '''', ''last_state_root_update_aggregated''), ''error registering lastStateRootUpdateAggregated gauge: ''),
      ((''sffl_aggregator'', '''', ''last_state_root_update_received''), ''error registering lastStateRootUpdateReceived gauge: ''),
      ((''sffl_aggregator'', '''', ''last_operator_set_update_aggregated''), ''error registering lastOperatorSetUpdateAggregated gauge: ''),
      ((''sffl_aggregator'', '''', ''last_operator_set_update_received''), ''error registering lastBlockReceived gauge: ''),
      ((''sffl_aggregator'', '''', ''expired_messages_total''), ''error registering expiredMessages counter: ''),
      ((''sffl_aggregator'', '''', ''expired_tasks_total''), ''error registering expiredTasks counter: ''),
      ((''sffl_aggregator'', '''', ''errored_submissions_total''), ''error registering erroredSubmissions counter: ''),
      ((''sffl_aggregator'', '''', ''reinitializations_total''), ''error registering aggregatorInitializations counter: ''),
      ((''sffl_aggregator'', '''', ''last_checkpoint_reference_sent''), ''error registering lastCheckpointReferenceSent gauge: ''),
      ((''sffl_aggregator'', '''', ''last_checkpoint_task_reference_received''), ''error registering lastCheckpointTaskReferenceReceived gauge: ''),
      ((''sffl_aggregator'', '''', ''last_checkpoint_task_reference_aggregated''), ''error registering lastCheckpointTaskReferenceAggregated gauge: '')]"

definition aggregator_listener :: SelectiveAggregatorListener where
  "aggregator_listener =
     \<lparr>ObserveLastStateRootUpdateAggregatedCb = Some (\<lambda>x y. GaugeSet (''sffl_aggregator'', '''', ''last_state_root_update_aggregated'') [sprint_d (unat x)] (uint y)),
      ObserveLastStateRootUpdateReceivedCb = Some (\<lambda>x y. GaugeSet (''sffl_aggregator'', '''', ''last_state_root_update_received'') [sprint_d (unat x)] (uint y)),
      ObserveLastOperatorSetUpdateAggregatedCb = Some (\<lambda>x. GaugeSet (''sffl_aggregator'', '''', ''last_operator_set_update_aggregated'') [] (uint x)),
      ObserveLastOperatorSetUpdateReceivedCb = Some (\<lambda>x. GaugeSet (''sffl_aggregator'', '''', ''last_operator_set_update_received'') [] (uint x)),
      IncExpiredMessagesCb = Some (CounterInc (''sffl_aggregator'', '''', ''expired_messages_total'') []),
      IncExpiredTasksCb = Some (CounterInc (''sffl_aggregator'', '''', ''expired_tasks_total'') []),
      IncErroredSubmissionsCb = Some (CounterInc (''sffl_aggregator'', '''', ''errored_submissions_total'') []),
      IncAggregatorInitializationsCb = Some (CounterInc (''sffl_aggregator'', '''', ''reinitializations_total'') []),
      ObserveLastCheckpointReferenceSentCb = Some (\<lambda>x. GaugeSet (''sffl_aggregator'', '''', ''last_checkpoint_reference_sent'') [] (uint x)),
      ObserveLastCheckpointTaskReferenceReceivedCb = Some (\<lambda>x. GaugeSet (''sffl_aggregator'', '''', ''last_checkpoint_task_reference_received'') [] (uint x)),
      ObserveLastCheckpointTaskReferenceAggregatedCb = Some (\<lambda>x. GaugeSet (''sffl_aggregator'', '''', ''last_checkpoint_task_reference_aggregated'') [] (uint x))\<rparr>"

definition MakeAggregatorMetrics ::
  "(metric_id \<Rightarrow> 'r \<Rightarrow> string option \<times> 'r) \<Rightarrow> 'r \<Rightarrow> (string + SelectiveAggregatorListener) \<times> 'r" where
  "MakeAggregatorMetrics register r = make_metrics register aggregator_metrics aggregator_listener r"

section \<open>operator/attestor/event\_listener.go\<close>

datatype AttestorEvent =
    OnMissedMQBlock u32
  | OnBlockMismatch u32
  | AttestorOnBlockReceived u32
  | ObserveLastBlockReceived u32 u64
  | ObserveLastBlockReceivedTimestamp u32 u64
  | ObserveInitializationInitialBlockNumber u32 u64

record SelectiveAttestorListener =
  at_OnMissedMQBlockCb :: "(u32 \<Rightarrow> metric_op) option"
  at_OnBlockMismatchCb :: "(u32 \<Rightarrow> metric_op) option"
  at_OnBlockReceivedCb :: "(u32 \<Rightarrow> metric_op) option"
  at_ObserveLastBlockReceivedCb :: "(u32 \<Rightarrow> u64 \<Rightarrow> metric_op) option"
  at_ObserveLastBlockReceivedTimestampCb :: "(u32 \<Rightarrow> u64 \<Rightarrow> metric_op) option"
  at_ObserveInitializationInitialBlockNumberCb :: "(u32 \<Rightarrow> u64 \<Rightarrow> metric_op) option"

fun attestor_event :: "SelectiveAttestorListener \<Rightarrow> AttestorEvent \<Rightarrow> metric_op list" where
  "attestor_event l (OnMissedMQBlock x) = call_cb (at_OnMissedMQBlockCb l) (\<lambda>cb. [cb x])"
| "attestor_event l (OnBlockMismatch x) = call_cb (at_OnBlockMismatchCb l) (\<lambda>cb. [cb x])"
| "attestor_event l (AttestorOnBlockReceived x) = call_cb (at_OnBlockReceivedCb l) (\<lambda>cb. [cb x])"
| "attestor_event l (ObserveLastBlockReceived x y) = call_cb (at_ObserveLastBlockReceivedCb l) (\<lambda>cb. [cb x y])"
| "attestor_event l (ObserveLastBlockReceivedTimestamp x y) = call_cb (at_ObserveLastBlockReceivedTimestampCb l) (\<lambda>cb. [cb x y])"
| "attestor_event l (ObserveInitializationInitialBlockNumber x y) = call_cb (at_ObserveInitializationInitialBlockNumberCb l) (\<lambda>cb. [cb x y])"

definition attestor_metrics :: "(metric_id \<times> string) list" where
  "attestor_metrics =
     [((''sffl_operator'', ''attestor'', ''num_of_missed_mq_blocks''), ''error registering numMissedMqBlocks counter: ''),
      ((''sffl_operator'', ''attestor'', ''num_of_mismatched_blocks''), ''error registering numBlocksMismatched counter: ''),
      ((''sffl_operator'', ''attestor'', ''num_of_received_blocks''), ''error registering numBlocksReceived counter: ''),
      ((''sffl_operator'', '''', ''last_block_received''), ''error registering lastBlockReceived gauge: ''),
      ((''sffl_operator'', '''', ''last_block_received_timestamp''), ''error registering lastBlockReceivedTimestamp gauge: ''),
      ((''sffl_operator'', '''', ''initialization_initial_block_number''), ''error registering initializationInitialBlockNumber gauge: '')]"

definition attestor_listener :: SelectiveAttestorListener where
  "attestor_listener =
     \<lparr>at_OnMissedMQBlockCb = Some (\<lambda>x. CounterInc (''sffl_operator'', ''attestor'', ''num_of_missed_mq_blocks'') [sprint_d (unat x)]),
      at_OnBlockMismatchCb = Some (\<lambda>x. CounterInc (''sffl_operator'', ''attestor'', ''num_of_mismatched_blocks'') [sprint_d (unat x)]),
      at_OnBlockReceivedCb = None,
      at_ObserveLastBlockReceivedCb = Some (\<lambda>x y. GaugeSet (''sffl_operator'', '''', ''last_block_received'') [sprint_d (unat x)] (uint y)),
      at_ObserveLastBlockReceivedTimestampCb = Some (\<lambda>x y. GaugeSet (''sffl_operator'', '''', ''last_block_received_timestamp'') [sprint_d (unat x)] (uint y)),
      at_ObserveInitializationInitialBlockNumberCb = Some (\<lambda>x y. GaugeSet (''sffl_operator'', '''', ''initialization_initial_block_number'') [sprint_d (unat x)] (uint y))\<rparr>"

definition MakeAttestorMetrics ::
  "(metric_id \<Rightarrow> 'r \<Rightarrow> string option \<times> 'r) \<Rightarrow> 'r \<Rightarrow> (string + SelectiveAttestorListener) \<times> 'r" where
  "MakeAttestorMetrics register r = make_metrics register attestor_metrics attestor_listener r"

section \<open>operator/consumer/event\_listener.go\<close>

datatype ConsumerEvent =
    OnArrival
  | OnFormatError

record SelectiveConsumerListener =
  co_OnArrivalCb :: "metric_op option"
  co_OnFormatErrorCb :: "metric_op option"

fun consumer_event :: "SelectiveConsumerListener \<Rightarrow> ConsumerEvent \<Rightarrow> metric_op list" where
  "consumer_event l OnArrival = call_cb (co_OnArrivalCb l) (\<lambda>cb. [cb])"
| "consumer_event l OnFormatError = call_cb (co_OnFormatErrorCb l) (\<lambda>cb. [cb])"

definition consumer_metrics :: "(metric_id \<times> string) list" where
  "consumer_metrics =
     [((''sffl_operator'', ''consumer'', ''num_of_mq_arrivals''), ''error registering numBlocksArrived counter: ''),
      ((''sffl_operator'', ''consumer'', ''num_of_mismatched_blocks''), ''error registering numFormatErrors counter: '')]"

definition consumer_listener :: SelectiveConsumerListener where
  "consumer_listener =
     \<lparr>co_OnArrivalCb = Some (CounterInc (''sffl_operator'', ''consumer'', ''num_of_mq_arrivals'') []),
      co_OnFormatErrorCb = Some (CounterInc (''sffl_operator'', ''consumer'', ''num_of_mismatched_blocks'') [])\<rparr>"

definition MakeConsumerMetrics ::
  "(metric_id \<Rightarrow> 'r \<Rightarrow> string option \<times> 'r) \<Rightarrow> 'r \<Rightarrow> (string + SelectiveConsumerListener) \<times> 'r" where
  "MakeConsumerMetrics register r = make_metrics register consumer_metrics consumer_listener r"

section \<open>aggregator/database/event\_listener.go\<close>

datatype DatabaseEvent =
    OnStore duration
  | OnFetch duration

record SelectiveDatabaseListener =
  db_OnStoreCb :: "(duration \<Rightarrow> metric_op) option"
  db_OnFetchCb :: "(duration \<Rightarrow> metric_op) option"

fun database_event :: "SelectiveDatabaseListener \<Rightarrow> DatabaseEvent \<Rightarrow> metric_op list" where
  "database_event l (OnStore x) = call_cb (db_OnStoreCb l) (\<lambda>cb. [cb x])"
| "database_event l (OnFetch x) = call_cb (db_OnFetchCb l) (\<lambda>cb. [cb x])"

definition db_metrics :: "(metric_id \<times> string) list" where
  "db_metrics =
     [((''sffl_aggregator'', ''db'', ''read_latency''), ''error registering readLatencyHistogram: ''),
      ((''sffl_aggregator'', ''db'', ''write_latency''), ''error registering writeLatencyHistogram: '')]"

definition db_listener :: SelectiveDatabaseListener where
  "db_listener =
     \<lparr>db_OnStoreCb = Some (\<lambda>x. HistogramObserve (''sffl_aggregator'', ''db'', ''write_latency'') (Microseconds x)),
      db_OnFetchCb = Some (\<lambda>x. HistogramObserve (''sffl_aggregator'', ''db'', ''read_latency'') (Microseconds x))\<rparr>"

definition MakeDBMetrics ::
  "(metric_id \<Rightarrow> 'r \<Rightarrow> string option \<times> 'r) \<Rightarrow> 'r \<Rightarrow> (string + SelectiveDatabaseListener) \<times> 'r" where
  "MakeDBMetrics register r = make_metrics register db_metrics db_listener r"

section \<open>aggregator/rpc\_server/metrics.go\<close>

datatype RpcServerEvent =
    IncOperatorInitializations bytes32
  | IncSignedCheckpointTaskResponse bytes32 bool bool
  | IncSignedStateRootUpdateMessage bytes32 u32 bool bool
  | IncSignedOperatorSetUpdateMessage bytes32 bool
  | IncTotalSignedCheckpointTaskResponse
  | IncTotalSignedStateRootUpdateMessage
  | IncTotalSignedOperatorSetUpdateMessage
  | ObserveLastMessageReceivedTime bytes32 string

record SelectiveRpcListener =
  IncOperatorInitializationsCb :: "(bytes32 \<Rightarrow> metric_op) option"
  IncSignedCheckpointTaskResponseCb :: "(bytes32 \<Rightarrow> bool \<Rightarrow> bool \<Rightarrow> metric_op) option"
  IncSignedStateRootUpdateMessageCb :: "(bytes32 \<Rightarrow> u32 \<Rightarrow> bool \<Rightarrow> bool \<Rightarrow> metric_op) option"
  IncSignedOperatorSetUpdateMessageCb :: "(bytes32 \<Rightarrow> bool \<Rightarrow> metric_op) option"
  IncTotalSignedCheckpointTaskResponseCb :: "metric_op option"
  IncTotalSignedStateRootUpdateMessageCb :: "metric_op option"
  IncTotalSignedOperatorSetUpdateMessageCb :: "metric_op option"
  ObserveLastMessageReceivedTimeCb :: "(bytes32 \<Rightarrow> string \<Rightarrow> metric_op) option"

fun rpc_server_event :: "SelectiveRpcListener \<Rightarrow> RpcServerEvent \<Rightarrow> metric_op list" where
  "rpc_server_event l (IncOperatorInitializations x) = call_cb (IncOperatorInitializationsCb l) (\<lambda>cb. [cb x])"
| "rpc_server_event l (IncSignedCheckpointTaskResponse x y z) = call_cb (IncSignedCheckpointTaskResponseCb l) (\<lambda>cb. [cb x y z])"
| "rpc_server_event l (IncSignedStateRootUpdateMessage x y z w) = call_cb (IncSignedStateRootUpdateMessageCb l) (\<lambda>cb. [cb x y z w])"
| "rpc_server_event l (IncSignedOperatorSetUpdateMessage x y) = call_cb (IncSignedOperatorSetUpdateMessageCb l) (\<lambda>cb. [cb x y])"
| "rpc_server_event l IncTotalSignedCheckpointTaskResponse = call_cb (IncTotalSignedCheckpointTaskResponseCb l) (\<lambda>cb. [cb])"
| "rpc_server_event l IncTotalSignedStateRootUpdateMessage = call_cb (IncTotalSignedStateRootUpdateMessageCb l) (\<lambda>cb. [cb])"
| "rpc_server_event l IncTotalSignedOperatorSetUpdateMessage = call_cb (IncTotalSignedOperatorSetUpdateMessageCb l) (\<lambda>cb. [cb])"
| "rpc_server_event l (ObserveLastMessageReceivedTime x y) = call_cb (ObserveLastMessageReceivedTimeCb l) (\<lambda>cb. [cb x y])"

definition rpc_server_metrics :: "(metric_id \<times> string) list" where
  "rpc_server_metrics =
     [((''sffl_aggregator'', '''', ''operator_initializations_total''), ''error registering operatorInitializationsTotal counter: ''),
      ((''sffl_aggregator'', '''', ''signed_checkpoint_task_responses_total''), ''error registering signedCheckpointTaskResponsesTotal counter: ''),
      ((''sffl_aggregator'', '''', ''signed_state_root_update_messages_total''), ''error registering signedStateRootUpdateMessagesTotal counter: ''),
      ((''sffl_aggregator'', '''', ''signed_operator_set_update_messages_total''), ''error registering signedOperatorSetUpdateMessagesTotal counter: ''),
      ((''sffl_aggregator'', '''', ''last_message_received_time''), ''error registering lastMessageReceivedTime gauge: '')]"

definition rpc_server_listener :: SelectiveRpcListener where
  "rpc_server_listener =
     \<lparr>IncOperatorInitializationsCb = Some (\<lambda>x. CounterInc (''sffl_aggregator'', '''', ''operator_initializations_total'') [sprint_x x]),
      IncSignedCheckpointTaskResponseCb = Some (\<lambda>x y z. CounterInc (''sffl_aggregator'', '''', ''signed_checkpoint_task_responses_total'') [sprint_x x, sprint_t y, sprint_t z]),
      IncSignedStateRootUpdateMessageCb = Some (\<lambda>x y z w. CounterInc (''sffl_aggregator'', '''', ''signed_state_root_update_messages_total'') [sprint_x x, sprint_d (unat y), sprint_t z, sprint_t w]),
      IncSignedOperatorSetUpdateMessageCb = Some (\<lambda>x y. CounterInc (''sffl_aggregator'', '''', ''signed_operator_set_update_messages_total'') [sprint_x x, sprint_t y]),
      IncTotalSignedCheckpointTaskResponseCb = None,
      IncTotalSignedStateRootUpdateMessageCb = None,
      IncTotalSignedOperatorSetUpdateMessageCb = None,
      ObserveLastMessageReceivedTimeCb = Some (\<lambda>x y. GaugeSetToCurrentTime (''sffl_aggregator'', '''', ''last_message_received_time'') [sprint_x x, y])\<rparr>"

definition MakeRpcServerMetrics ::
  "(metric_id \<Rightarrow> 'r \<Rightarrow> string option \<times> 'r) \<Rightarrow> 'r \<Rightarrow> (string + SelectiveRpcListener) \<times> 'r" where
  "MakeRpcServerMetrics register r = make_metrics register rpc_server_metrics rpc_server_listener r"

section \<open>aggregator/rest\_server/metrics.go\<close>

datatype RestEvent =
    IncStateRootUpdateRequests
  | IncOperatorSetUpdateRequests
  | IncCheckpointMessagesRequests
  | APIErrors

record SelectiveRestListener =
  IncStateRootUpdateRequestsCb :: "metric_op option"
  IncOperatorSetUpdateRequestsCb :: "metric_op option"
  IncCheckpointMessagesRequestsCb :: "metric_op option"
  APIErrorsCb :: "metric_op option"

fun rest_event :: "SelectiveRestListener \<Rightarrow> RestEvent \<Rightarrow> metric_op list" where
  "rest_event l IncStateRootUpdateRequests = call_cb (IncStateRootUpdateRequestsCb l) (\<lambda>cb. [cb])"
| "rest_event l IncOperatorSetUpdateRequests = call_cb (IncOperatorSetUpdateRequestsCb l) (\<lambda>cb. [cb])"
| "rest_event l IncCheckpointMessagesRequests = call_cb (IncCheckpointMessagesRequestsCb l) (\<lambda>cb. [cb])"
| "rest_event l APIErrors = call_cb (APIErrorsCb l) (\<lambda>cb. [cb])"

definition rest_metrics :: "(metric_id \<times> string) list" where
  "rest_metrics =
     [((''sffl_aggregator'', '''', ''state_root_update_requests_total''), ''error registering stateRootUpdateRequests counter: ''),
      ((''sffl_aggregator'', '''', ''operator_set_update_requests_total''), ''error registering operatorSetUpdateRequests counter: ''),
      ((''sffl_aggregator'', '''', ''checkpoint_messages_requests_total''), ''error registering checkpointMessagesRequests counter: ''),
      ((''sffl_aggregator'', '''', ''api_errors_total''), ''error registering apiErrors counter: '')]"

definition rest_listener :: SelectiveRestListener where
  "rest_listener =
     \<lparr>IncStateRootUpdateRequestsCb = Some (CounterInc (''sffl_aggregator'', '''', ''state_root_update_requests_total'') []),
      IncOperatorSetUpdateRequestsCb = Some (CounterInc (''sffl_aggregator'', '''', ''operator_set_update_requests_total'') []),
      IncCheckpointMessagesRequestsCb = Some (CounterInc (''sffl_aggregator'', '''', ''checkpoint_messages_requests_total'') []),
      APIErrorsCb = Some (CounterInc (''sffl_aggregator'', '''', ''api_errors_total'') [])\<rparr>"

definition MakeServerMetrics ::
  "(metric_id \<Rightarrow> 'r \<Rightarrow> string option \<times> 'r) \<Rightarrow> 'r \<Rightarrow> (string + SelectiveRestListener) \<times> 'r" where
  "MakeServerMetrics register r = make_metrics register rest_metrics rest_listener r"

section \<open>relayer/metrics.go\<close>

datatype RelayerEvent =
    OnBlockReceived
  | OnDaSubmissionFailed
  | OnDaSubmitted duration
  | OnRetriesRequired nat
  | OnInvalidNonce
  | OnExpiredTx
  | OnTimeoutTx

record SelectiveRelayerListener =
  rl_OnBlockReceivedCb :: "metric_op option"
  rl_OnDaSubmissionFailedCb :: "metric_op option"
  rl_OnDaSubmittedCb :: "(duration \<Rightarrow> metric_op) option"
  rl_OnRetriesRequiredCb :: "(nat \<Rightarrow> metric_op) option"
  rl_OnInvalidNonceCb :: "metric_op option"
  rl_OnExpiredTxCb :: "metric_op option"
  rl_OnTimeoutTxCb :: "metric_op option"

fun relayer_event :: "SelectiveRelayerListener \<Rightarrow> RelayerEvent \<Rightarrow> metric_op list" where
  "relayer_event l OnBlockReceived = call_cb (rl_OnBlockReceivedCb l) (\<lambda>cb. [cb])"
| "relayer_event l OnDaSubmissionFailed = call_cb (rl_OnDaSubmissionFailedCb l) (\<lambda>cb. [cb])"
| "relayer_event l (OnDaSubmitted x) = call_cb (rl_OnDaSubmittedCb l) (\<lambda>cb. [cb x])"
| "relayer_event l (OnRetriesRequired x) = call_cb (rl_OnRetriesRequiredCb l) (\<lambda>cb. [cb x])"
| "relayer_event l OnInvalidNonce = call_cb (rl_OnInvalidNonceCb l) (\<lambda>cb. [cb])"
| "relayer_event l OnExpiredTx = call_cb (rl_OnExpiredTxCb l) (\<lambda>cb. [cb])"
| "relayer_event l OnTimeoutTx = call_cb (rl_OnTimeoutTxCb l) (\<lambda>cb. [cb])"

definition relayer_metrics :: "(metric_id \<times> string) list" where
  "relayer_metrics =
     [((''sffl_relayer'', '''', ''num_blocks_received''), ''error registering numBlocksReceived counter: ''),
      ((''sffl_relayer'', '''', ''num_da_submissions_failed''), ''error registering numDaSubmissionsFailed counter: ''),
      ((''sffl_relayer'', '''', ''submission_duration_ms''), ''error registering submissionDuration histogram: ''),
      ((''sffl_relayer'', '''', ''retries_histogram''), ''error registering retriesHistogram histogram: ''),
      ((''sffl_relayer'', '''', ''num_of_invalid_nonces''), ''error registering numInvalidNonces count: ''),
      ((''sffl_relayer'', '''', ''num_of_expired_txs''), ''error registering numExpiredTxs count: ''),
      ((''sffl_relayer'', '''', ''num_of_timeout_txs''), ''error registering numTimeoutTxs count: '')]"

definition relayer_listener :: SelectiveRelayerListener where
  "relayer_listener =
     \<lparr>rl_OnBlockReceivedCb = Some (CounterInc (''sffl_relayer'', '''', ''num_blocks_received'') []),
      rl_OnDaSubmissionFailedCb = Some (CounterInc (''sffl_relayer'', '''', ''num_da_submissions_failed'') []),
      rl_OnDaSubmittedCb = Some (\<lambda>x. HistogramObserve (''sffl_relayer'', '''', ''submission_duration_ms'') (Milliseconds x)),
      rl_OnRetriesRequiredCb = Some (\<lambda>x. HistogramObserve (''sffl_relayer'', '''', ''retries_histogram'') (int x)),
      rl_OnInvalidNonceCb = Some (CounterInc (''sffl_relayer'', '''', ''num_of_invalid_nonces'') []),
      rl_OnExpiredTxCb = Some (CounterInc (''sffl_relayer'', '''', ''num_of_expired_txs'') []),
      rl_OnTimeoutTxCb = Some (CounterInc (''sffl_relayer'', '''', ''num_of_timeout_txs'') [])\<rparr>"

definition MakeRelayerMetrics ::
  "(metric_id \<Rightarrow> 'r \<Rightarrow> string option \<times> 'r) \<Rightarrow> 'r \<Rightarrow> (string + SelectiveRelayerListener) \<times> 'r" where
  "MakeRelayerMetrics register r = make_metrics register relayer_metrics relayer_listener r"

section \<open>relayer/metrics.go: the metrics server\<close>

text \<open>
  \<^verbatim>\<open>http.Handle\<close> adds a pattern to the process's default mux and panics on a pattern that is
  registered already. The mux is the list of its patterns.
\<close>

definition http_Handle :: "string \<Rightarrow> string list \<Rightarrow> (string, string list) res" where
  "http_Handle pat mux =
     (if pat \<in> set mux then Inl (Fault (PanicCall ''http: multiple registrations'')) else Inr (pat # mux))"

definition startMetrics :: "string list \<Rightarrow> (string, string list) res" where
  "startMetrics mux = http_Handle ''/metrics'' mux"

datatype server_event =
    ServerError "string option" "string option"
  | ServerCtxDone

text \<open>
  The loop of \<^verbatim>\<open>StartMetricsServer\<close> on the values that its channels deliver; a server error comes with
  the result of the shutdown that follows it. The result is the mux and the number of restarts when
  the goroutine returns.
\<close>

fun metrics_server_loop ::
  "server_event list \<Rightarrow> nat \<Rightarrow> string list \<Rightarrow> (string, string list \<times> nat) res" where
  "metrics_server_loop [] retryCount mux = Inr (mux, retryCount)"
| "metrics_server_loop (ServerCtxDone # evs) retryCount mux = Inr (mux, retryCount)"
| "metrics_server_loop (ServerError None sd # evs) retryCount mux = metrics_server_loop evs retryCount mux"
| "metrics_server_loop (ServerError (Some e) sd # evs) retryCount mux =
     (if retryCount \<ge> 3 then Inr (mux, retryCount)
      else (case sd of
              Some err \<Rightarrow> Inr (mux, retryCount)
            | None \<Rightarrow> bind_err (startMetrics mux) (metrics_server_loop evs (retryCount + 1))))"

definition StartMetricsServer :: "server_event list \<Rightarrow> string list \<Rightarrow> (string, string list \<times> nat) res" where
  "StartMetricsServer evs mux = bind_err (startMetrics mux) (metrics_server_loop evs 0)"

section \<open>Properties\<close>

definition ids :: "(metric_id \<times> string) list \<Rightarrow> metric_id set" where
  "ids ms = fst ` set ms"

definition touches :: "metric_op list \<Rightarrow> metric_id set" where
  "touches ops = op_id ` set ops"

lemma touches_simps [simp]: "touches [] = {}" "touches [x] = {op_id x}"
  by (simp_all add: touches_def)

lemmas listener_defs = call_cb_def ids_def operator_listener_def operator_metrics_def
  rpc_client_listener_def rpc_client_metrics_def aggregator_listener_def aggregator_metrics_def
  attestor_listener_def attestor_metrics_def consumer_listener_def consumer_metrics_def
  db_listener_def db_metrics_def rpc_server_listener_def rpc_server_metrics_def
  rest_listener_def rest_metrics_def relayer_listener_def relayer_metrics_def

lemma operator_touches: "touches (operator_event operator_listener ev) \<subseteq> ids operator_metrics"
  by (cases ev) (simp_all add: listener_defs)

lemma aggregator_touches: "touches (aggregator_event aggregator_listener ev) \<subseteq> ids aggregator_metrics"
  by (cases ev) (simp_all add: listener_defs)

lemma attestor_touches: "touches (attestor_event attestor_listener ev) \<subseteq> ids attestor_metrics"
  by (cases ev) (simp_all add: listener_defs)

lemma consumer_touches: "touches (consumer_event consumer_listener ev) \<subseteq> ids consumer_metrics"
  by (cases ev) (simp_all add: listener_defs)

lemma db_touches: "touches (database_event db_listener ev) \<subseteq> ids db_metrics"
  by (cases ev) (simp_all add: listener_defs)

lemma rpc_server_touches: "touches (rpc_server_event rpc_server_listener ev) \<subseteq> ids rpc_server_metrics"
  by (cases ev) (simp_all add: listener_defs)

lemma rest_touches: "touches (rest_event rest_listener ev) \<subseteq> ids rest_metrics"
  by (cases ev) (simp_all add: listener_defs)

lemma relayer_touches: "touches (relayer_event relayer_listener ev) \<subseteq> ids relayer_metrics"
  by (cases ev) (simp_all add: listener_defs)

lemma rpc_client_touches:
  "touches (rpc_client_event rpc_client_listener ev) \<subseteq> ids rpc_client_metrics \<longleftrightarrow>
     (\<nexists>rollup resend. ev = IncErroredStateRootUpdateSubmissions rollup resend)"
  by (cases ev) (simp_all add: listener_defs)


text \<open>
  The relayer's metrics server cannot be restarted: after the first server error whose shutdown
  succeeds, the handler is registered on the default mux a second time and the process panics, before
  any of the three retries has run.
\<close>

theorem metrics_server_restart_panics:
  "''/metrics'' \<notin> set mux \<Longrightarrow>
   StartMetricsServer (ServerError (Some e) None # evs) mux =
     Inl (Fault (PanicCall ''http: multiple registrations''))"
  by (simp add: StartMetricsServer_def startMetrics_def http_Handle_def)

theorem metrics_server_restart_panics_witness:
  "StartMetricsServer [ServerError (Some ''listen tcp: address in use'') None, ServerCtxDone] [] =
     Inl (Fault (PanicCall ''http: multiple registrations''))"
  by (rule metrics_server_restart_panics) simp

end
