(* ===== verification/RpcClient.thy ===== *)
theory RpcClient
  imports Messages Metrics
begin

text \<open>
  The operator's client of the aggregator, \<^verbatim>\<open>operator/rpc_client.go\<close>: messages that could not be sent
  wait in a queue, and a ticker resends them. \<^verbatim>\<open>tryResendFromDeque\<close> compacts the queue in place while
  it walks over it; the model keeps the slice and the two positions, and the lemmas show that the
  result is the functional one.

  Calls of the aggregator are answered by the environment: \<open>None\<close> is success. Besides the
  struct's fields the state has the connections of \<^verbatim>\<open>net/rpc\<close>, the goroutines started by
  \<^verbatim>\<open>handleRpcError\<close> that have not run yet, the events sent to the listener, and, for the statements only, the
  messages that were delivered and dropped.
\<close>

section \<open>Messages and errors\<close>

datatype rpc_message =
    RpcCheckpoint SignedCheckpointTaskResponse
  | RpcStateRoot SignedStateRootUpdateMessage
  | RpcOperatorSet SignedOperatorSetUpdateMessage

text \<open>\<^verbatim>\<open>rpc.ErrShutdown\<close>, a \<^verbatim>\<open>*net.OpError\<close>, or any other error.\<close>

datatype call_error = ErrShutdown | NetOpError string | OtherError string

definition ResendInterval :: duration where
  "ResendInterval = 2 * 1000000000"

definition MaxRetries :: nat where
  "MaxRetries = 10"

record unsentRpcMessage =
  um_Message :: rpc_message
  um_Retries :: nat

record AggregatorRpcClient =
  rpcClient :: "nat option"
  aggregatorIpPortAddr :: string
  registryCoordinatorAddress :: bytes
  operatorId :: OperatorId
  notifiedInitialized :: bool
  unsentMessages :: "unsentRpcMessage list"
  rpcListener :: SelectiveRpcClientListener
  nextConn :: nat
  pendingShutdowns :: nat
  rpcEvents :: "RpcClientEvent list"
  delivered :: "rpc_message list"
  dropped :: "rpc_message list"

definition NewAggregatorRpcClient :: "string \<Rightarrow> OperatorId \<Rightarrow> bytes \<Rightarrow> AggregatorRpcClient" where
  "NewAggregatorRpcClient addr op registry =
     \<lparr>rpcClient = None, aggregatorIpPortAddr = addr, registryCoordinatorAddress = registry,
      operatorId = op, notifiedInitialized = False, unsentMessages = [],
      rpcListener =
        \<lparr>OnMessagesReceivedCb = None, ObserveResendQueueSizeCb = None,
         ObserveLastCheckpointIdRespondedCb = None, ObserveLastOperatorSetUpdateIdRespondedCb = None,
         IncStateRootUpdateSubmissionsCb = None, IncOperatorSetUpdateUpdateSubmissionsCb = None,
         IncCheckpointTaskResponseSubmissionsCb = None, IncErroredStateRootUpdateSubmissionsCb = None,
         IncErroredOperatorSetUpdateSubmissionsCb = None, IncErroredCheckpointSubmissionsCb = None\<rparr>,
      nextConn = 0,
      pendingShutdowns = 0, rpcEvents = [], delivered = [], dropped = []\<rparr>"

definition RpcClient_EnableMetrics ::
  "(metric_id \<Rightarrow> 'r \<Rightarrow> string option \<times> 'r) \<Rightarrow> 'r \<Rightarrow> AggregatorRpcClient \<Rightarrow>
   string option \<times> AggregatorRpcClient \<times> 'r" where
  "RpcClient_EnableMetrics register r c =
     (case MakeRpcClientMetrics register r of
        (Inl err, r') \<Rightarrow> (Some err, c, r')
      | (Inr l, r') \<Rightarrow> (None, c\<lparr>rpcListener := l\<rparr>, r'))"

definition isShutdownOrNetworkError :: "call_error \<Rightarrow> bool" where
  "isShutdownOrNetworkError e = (case e of ErrShutdown \<Rightarrow> True | NetOpError _ \<Rightarrow> True | OtherError _ \<Rightarrow> False)"

section \<open>Dialing\<close>

text \<open>
  What the environment answers to a dial: the result of \<^verbatim>\<open>DialHTTP\<close>, of the call for the registry
  coordinator address (as \<^verbatim>\<open>common.HexToAddress\<close> reads it) and of the notification.
\<close>

record dial_answer =
  da_dial :: "string option"
  da_address :: "string + bytes"
  da_notify :: "string option"

definition dialAggregatorRpcClient ::
  "dial_answer \<Rightarrow> AggregatorRpcClient \<Rightarrow> (string, string option \<times> AggregatorRpcClient) res" where
  "dialAggregatorRpcClient a c =
     (if rpcClient c \<noteq> None then Inr (None, c)
      else case da_dial a of
        Some e \<Rightarrow> Inr (Some e, c)
      | None \<Rightarrow>
          (let conn = nextConn c; c1 = c\<lparr>nextConn := conn + 1\<rparr>
           in case da_address a of
                Inl e \<Rightarrow> Inr (Some e, c1)
              | Inr address \<Rightarrow>
                  if \<not> notifiedInitialized c1 \<and> da_notify a \<noteq> None then Inr (da_notify a, c1)
                  else
                    (let c2 = c1\<lparr>notifiedInitialized := True\<rparr>
                     in if address \<noteq> registryCoordinatorAddress c2
                        then Inl (Fault (FatalExit ''Registry coordinator address mismatch''))
                        else Inr (None, c2\<lparr>rpcClient := Some conn\<rparr>))))"

definition InitializeClientIfNotExist ::
  "dial_answer \<Rightarrow> AggregatorRpcClient \<Rightarrow> (string, string option \<times> AggregatorRpcClient) res" where
  "InitializeClientIfNotExist a c =
     (if rpcClient c \<noteq> None then Inr (None, c) else dialAggregatorRpcClient a c)"

definition handleRpcError :: "call_error \<Rightarrow> AggregatorRpcClient \<Rightarrow> AggregatorRpcClient" where
  "handleRpcError e c =
     (if isShutdownOrNetworkError e then c\<lparr>pendingShutdowns := pendingShutdowns c + 1\<rparr> else c)"

text \<open>The goroutine that \<^verbatim>\<open>handleRpcError\<close> starts; the result of \<^verbatim>\<open>Close\<close> is only logged.\<close>

definition handleRpcShutdown :: "AggregatorRpcClient \<Rightarrow> AggregatorRpcClient" where
  "handleRpcShutdown c = c\<lparr>rpcClient := None, pendingShutdowns := pendingShutdowns c - 1\<rparr>"

section \<open>Resending\<close>

text \<open>The listener calls for one attempt, by message type.\<close>

fun attempt_events :: "bool \<Rightarrow> rpc_message \<Rightarrow> bool \<Rightarrow> RpcClientEvent list" where
  "attempt_events resend (RpcCheckpoint m) ok =
     (if ok then [IncCheckpointTaskResponseSubmissions resend,
                  ObserveLastCheckpointIdResponded (ReferenceTaskIndex (sctr_TaskResponse m))]
      else [IncErroredCheckpointSubmissions resend])"
| "attempt_events resend (RpcStateRoot m) ok =
     (if ok then [IncStateRootUpdateSubmissions (sru_RollupId (ssru_Message m)) resend]
      else [IncErroredStateRootUpdateSubmissions (sru_RollupId (ssru_Message m)) resend])"
| "attempt_events resend (RpcOperatorSet m) ok =
     (if ok then [IncOperatorSetUpdateUpdateSubmissions resend,
                  ObserveLastOperatorSetUpdateIdResponded (osu_Id (sosu_Message m))]
      else [IncErroredOperatorSetUpdateSubmissions resend])"

text \<open>The inner loop that moves the rest of the slice to position \<open>errorPos\<close>.\<close>

function shift_rest :: "nat \<Rightarrow> nat \<Rightarrow> unsentRpcMessage list \<Rightarrow> nat \<times> unsentRpcMessage list" where
  "shift_rest j errorPos arr =
     (if j < length arr then shift_rest (j + 1) (errorPos + 1) (arr[errorPos := arr ! j]) else (errorPos, arr))"
  by auto
termination
  by (relation "measure (\<lambda>(j, e, arr). length arr - j)") auto

declare shift_rest.simps [simp del]

text \<open>
  The loop over the slice. The aggregator's answer to the call for position \<open>i\<close> is \<open>call i\<close>.
  The result is the new slice, whether the function returned early (and so did not report the queue
  size), the listener events, and the delivered and dropped messages.
\<close>

record resend_result =
  rr_queue :: "unsentRpcMessage list"
  rr_early :: bool
  rr_events :: "RpcClientEvent list"
  rr_delivered :: "rpc_message list"
  rr_dropped :: "rpc_message list"

function resend_loop ::
  "(nat \<Rightarrow> call_error option) \<Rightarrow> nat \<Rightarrow> nat \<Rightarrow> unsentRpcMessage list \<Rightarrow> resend_result" where
  "resend_loop call i errorPos arr =
     (if i < length arr then
        (let entry = arr ! i; message = um_Message entry; evs = attempt_events True message (call i = None)
         in case call i of
              None \<Rightarrow>
                (let r = resend_loop call (i + 1) errorPos arr
                 in r\<lparr>rr_events := evs @ rr_events r, rr_delivered := message # rr_delivered r\<rparr>)
            | Some err \<Rightarrow>
                if isShutdownOrNetworkError err then
                  (if errorPos = 0
                   then \<lparr>rr_queue = drop i arr, rr_early = True, rr_events = evs, rr_delivered = [],
                         rr_dropped = []\<rparr>
                   else (let (errorPos', arr') = shift_rest i errorPos arr
                         in \<lparr>rr_queue = take errorPos' arr', rr_early = False, rr_events = evs,
                             rr_delivered = [], rr_dropped = []\<rparr>))
                else
                  (let entry' = entry\<lparr>um_Retries := um_Retries entry + 1\<rparr>
                   in if um_Retries entry' \<ge> MaxRetries
                      then (let r = resend_loop call (i + 1) errorPos arr
                            in r\<lparr>rr_events := evs @ rr_events r, rr_dropped := message # rr_dropped r\<rparr>)
                      else (let r = resend_loop call (i + 1) (errorPos + 1) (arr[errorPos := entry'])
                            in r\<lparr>rr_events := evs @ rr_events r\<rparr>)))
      else \<lparr>rr_queue = take errorPos arr, rr_early = False, rr_events = [], rr_delivered = [], rr_dropped = []\<rparr>)"
  by auto
termination
  by (relation "measure (\<lambda>(call, i, e, arr). length arr - i)") auto

declare resend_loop.simps [simp del]

definition tryResendFromDeque ::
  "(nat \<Rightarrow> call_error option) \<Rightarrow> AggregatorRpcClient \<Rightarrow> (string, AggregatorRpcClient) res" where
  "tryResendFromDeque call c =
     (if unsentMessages c \<noteq> [] \<and> rpcClient c = None then Inl (Fault NilDereference)
      else
        (let r = resend_loop call 0 0 (unsentMessages c)
         in Inr (c\<lparr>unsentMessages := rr_queue r,
                   rpcEvents := rpcEvents c @ rr_events r @
                     (if rr_early r then [] else [ObserveResendQueueSize (length (rr_queue r))]),
                   delivered := delivered c @ rr_delivered r,
                   dropped := dropped c @ rr_dropped r\<rparr>)))"

text \<open>One tick, when no other goroutine runs between its two halves.\<close>

definition onTick ::
  "dial_answer \<Rightarrow> (nat \<Rightarrow> call_error option) \<Rightarrow> AggregatorRpcClient \<Rightarrow> (string, AggregatorRpcClient) res" where
  "onTick a call c =
     bind_err (InitializeClientIfNotExist a c) (\<lambda>(err, c').
       if err \<noteq> None then Inr c'
       else if unsentMessages c' = [] then Inr c'
       else tryResendFromDeque call c')"

section \<open>Sending\<close>

definition appendProtected :: "rpc_message \<Rightarrow> AggregatorRpcClient \<Rightarrow> AggregatorRpcClient" where
  "appendProtected m c =
     (let q = unsentMessages c @ [\<lparr>um_Message = m, um_Retries = 0\<rparr>]
      in c\<lparr>unsentMessages := q, rpcEvents := rpcEvents c @ [ObserveResendQueueSize (length q)]\<rparr>)"

definition sendOperatorMessage ::
  "call_error option \<Rightarrow> rpc_message \<Rightarrow> AggregatorRpcClient \<Rightarrow> AggregatorRpcClient" where
  "sendOperatorMessage answer m c =
     (if rpcClient c = None then appendProtected m c
      else
        (let c1 = c\<lparr>rpcEvents := rpcEvents c @ attempt_events False m (answer = None) @
                     (if answer = None then [OnMessagesReceived] else [])\<rparr>
         in case answer of
              Some err \<Rightarrow> appendProtected m (handleRpcError err c1)
            | None \<Rightarrow> c1\<lparr>delivered := delivered c1 @ [m]\<rparr>))"

definition SendSignedCheckpointTaskResponseToAggregator ::
  "call_error option \<Rightarrow> SignedCheckpointTaskResponse \<Rightarrow> AggregatorRpcClient \<Rightarrow> AggregatorRpcClient" where
  "SendSignedCheckpointTaskResponseToAggregator answer m = sendOperatorMessage answer (RpcCheckpoint m)"

definition SendSignedStateRootUpdateToAggregator ::
  "call_error option \<Rightarrow> SignedStateRootUpdateMessage \<Rightarrow> AggregatorRpcClient \<Rightarrow> AggregatorRpcClient" where
  "SendSignedStateRootUpdateToAggregator answer m = sendOperatorMessage answer (RpcStateRoot m)"

definition SendSignedOperatorSetUpdateToAggregator ::
  "call_error option \<Rightarrow> SignedOperatorSetUpdateMessage \<Rightarrow> AggregatorRpcClient \<Rightarrow> AggregatorRpcClient" where
  "SendSignedOperatorSetUpdateToAggregator answer m = sendOperatorMessage answer (RpcOperatorSet m)"

definition sendRequest ::
  "(call_error + 'a) \<Rightarrow> AggregatorRpcClient \<Rightarrow> (string + 'a) \<times> AggregatorRpcClient" where
  "sendRequest answer c =
     (if rpcClient c = None then (Inl ''rpc client is nil'', c)
      else case answer of
        Inl err \<Rightarrow> (Inl (case err of ErrShutdown \<Rightarrow> ''connection is shut down'' | NetOpError e \<Rightarrow> e | OtherError e \<Rightarrow> e),
                    handleRpcError err c)
      | Inr x \<Rightarrow> (Inr x, c))"

text \<open>The environment answers a request for the messages between two timestamps.\<close>

definition GetAggregatedCheckpointMessages ::
  "(u64 \<Rightarrow> u64 \<Rightarrow> call_error + 'cm) \<Rightarrow> u64 \<Rightarrow> u64 \<Rightarrow> AggregatorRpcClient \<Rightarrow>
   (string + 'cm) \<times> AggregatorRpcClient" where
  "GetAggregatedCheckpointMessages answer fromTimestamp toTimestamp c =
     sendRequest (answer fromTimestamp toTimestamp) c"

section \<open>All interleavings\<close>

text \<open>
  A tick takes the client lock twice, so a shutdown can come between: the resend is a step of its own,
  enabled by \<open>tick_ready\<close>.
\<close>

inductive rpc_step :: "AggregatorRpcClient \<times> bool \<Rightarrow> AggregatorRpcClient \<times> bool \<Rightarrow> bool" where
  send: "rpc_step (c, t) (sendOperatorMessage answer m c, t)"
| shutdown: "0 < pendingShutdowns c \<Longrightarrow> rpc_step (c, t) (handleRpcShutdown c, t)"
| tick_init:
    "InitializeClientIfNotExist a c = Inr (err, c') \<Longrightarrow> rpc_step (c, False) (c', err = None)"
| request: "sendRequest (answer :: call_error + unit) c = (r, c') \<Longrightarrow> rpc_step (c, t) (c', t)"
| tick_idle: "unsentMessages c = [] \<Longrightarrow> rpc_step (c, True) (c, False)"
| tick_resend:
    "unsentMessages c \<noteq> [] \<Longrightarrow> tryResendFromDeque call c = Inr c' \<Longrightarrow> rpc_step (c, True) (c', False)"

inductive_cases rpc_stepE: "rpc_step x y"

section \<open>The in-place loop is the functional one\<close>

text \<open>The queue that is left, the messages delivered and the messages dropped.\<close>

fun resend_spec ::
  "(nat \<Rightarrow> call_error option) \<Rightarrow> nat \<Rightarrow> unsentRpcMessage list \<Rightarrow>
   unsentRpcMessage list \<times> rpc_message list \<times> rpc_message list" where
  "resend_spec call i [] = ([], [], [])"
| "resend_spec call i (e # es) =
     (let (q, d, x) = resend_spec call (i + 1) es
      in case call i of
           None \<Rightarrow> (q, um_Message e # d, x)
         | Some err \<Rightarrow>
             if isShutdownOrNetworkError err then (e # es, [], [])
             else if um_Retries e + 1 \<ge> MaxRetries then (q, d, um_Message e # x)
             else (e\<lparr>um_Retries := um_Retries e + 1\<rparr> # q, d, x))"

lemma shift_rest_spec:
  assumes "e \<le> j" "j \<le> length arr"
  shows "\<exists>arr'. shift_rest j e arr = (e + (length arr - j), arr') \<and>
    take (e + (length arr - j)) arr' = take e arr @ drop j arr"
  using assms
proof (induction j e arr rule: shift_rest.induct)
  case (1 j e arr)
  show ?case
  proof (cases "j < length arr")
    case True
    let ?arr = "arr[e := arr ! j]"
    obtain arr' where IH: "shift_rest (j + 1) (e + 1) ?arr = (e + 1 + (length arr - (j + 1)), arr')"
        "take (e + 1 + (length arr - (j + 1))) arr' = take (e + 1) ?arr @ drop (j + 1) ?arr"
      using "1.IH" [OF True] 1 True by auto
    have "take (e + 1) ?arr @ drop (j + 1) ?arr = take e arr @ drop j arr"
      using 1 True by (simp add: take_Suc_conv_app_nth Cons_nth_drop_Suc)
    moreover have "e + 1 + (length arr - (j + 1)) = e + (length arr - j)"
      using True by simp
    ultimately show ?thesis
      using IH True by (simp add: shift_rest.simps [of j])
  next
    case False
    then show ?thesis
      using 1 by (simp add: shift_rest.simps)
  qed
qed

lemma resend_loop_spec:
  assumes "e \<le> i" "i \<le> length arr" "resend_spec call i (drop i arr) = (q, d, x)"
  shows "rr_queue (resend_loop call i e arr) = take e arr @ q \<and>
    rr_delivered (resend_loop call i e arr) = d \<and> rr_dropped (resend_loop call i e arr) = x"
  using assms
proof (induction call i e arr arbitrary: q d x rule: resend_loop.induct)
  case (1 call i e arr)
  show ?case
  proof (cases "i < length arr")
    case False
    then show ?thesis
      using 1(4-6) by (simp add: resend_loop.simps)
  next
    case True
    have dr: "drop i arr = arr ! i # drop (Suc i) arr"
      using True by (simp add: Cons_nth_drop_Suc)
    obtain q1 d1 x1 where r1: "resend_spec call (Suc i) (drop (Suc i) arr) = (q1, d1, x1)"
      using prod_cases3 by blast
    note eqs = resend_loop.simps [of call i] Let_def
    show ?thesis
    proof (cases "call i")
      case None
      then show ?thesis
        using 1(1) [OF True refl refl refl None, of q1 d1 x1] 1(4,6) True r1
        by (auto simp: eqs dr)
    next
      case (Some err)
      let ?e' = "(arr ! i)\<lparr>um_Retries := um_Retries (arr ! i) + 1\<rparr>"
      consider "isShutdownOrNetworkError err" | "\<not> isShutdownOrNetworkError err" "um_Retries ?e' \<ge> MaxRetries"
        | "\<not> isShutdownOrNetworkError err" "\<not> um_Retries ?e' \<ge> MaxRetries"
        by blast
      then show ?thesis
      proof cases
        case 1
        then show ?thesis
          using shift_rest_spec [of e i arr] \<open>e \<le> i\<close> \<open>i \<le> length arr\<close> True Some r1
            \<open>resend_spec call i (drop i arr) = (q, d, x)\<close>
          by (auto simp: eqs dr)
      next
        case 2
        then show ?thesis
          using 1(2) [OF True refl refl refl Some 2(1) refl 2(2), of q1 d1 x1] \<open>e \<le> i\<close> True Some r1
            \<open>resend_spec call i (drop i arr) = (q, d, x)\<close>
          by (auto simp: eqs dr)
      next
        case 3
        then show ?thesis
          using 1(3) [OF True refl refl refl Some 3(1) refl 3(2), of q1 d1 x1] \<open>e \<le> i\<close> True Some r1
            \<open>resend_spec call i (drop i arr) = (q, d, x)\<close>
          by (auto simp: eqs dr take_Suc_conv_app_nth)
      qed
    qed
  qed
qed

section \<open>Properties\<close>

text \<open>
  C17. Resending in place computes the functional specification: from the front of the queue, delivered
  messages leave it, messages whose tenth attempt failed leave it, the others stay in their order with
  one more attempt counted, and a shutdown or network error stops the walk and keeps the failing
  message and everything behind it unchanged.
\<close>

theorem resend_is_functional:
  assumes "rpcClient c \<noteq> None" "resend_spec call 0 (unsentMessages c) = (q, d, x)"
  shows "\<exists>c'. tryResendFromDeque call c = Inr c' \<and> unsentMessages c' = q \<and>
    delivered c' = delivered c @ d \<and> dropped c' = dropped c @ x"
  using resend_loop_spec [of 0 0 "unsentMessages c" call] assms by (simp add: tryResendFromDeque_def Let_def)

lemma resend_spec_conserves:
  "resend_spec call i es = (q, d, x) \<Longrightarrow>
     mset (map um_Message es) = mset d + mset x + mset (map um_Message q)"
proof (induction es arbitrary: i q d x)
  case Nil
  then show ?case by simp
next
  case (Cons e es)
  obtain q1 d1 x1 where "resend_spec call (Suc i) es = (q1, d1, x1)"
    using prod_cases3 by blast
  then show ?case
    using Cons.IH [of "Suc i" q1 d1 x1] Cons.prems by (auto split: option.splits if_splits)
qed

lemma resend_spec_retries:
  "resend_spec call i es = (q, d, x) \<Longrightarrow> \<forall>e \<in> set es. um_Retries e < MaxRetries \<Longrightarrow>
     \<forall>e \<in> set q. um_Retries e < MaxRetries"
proof (induction es arbitrary: i q d x)
  case Nil
  then show ?case by simp
next
  case (Cons e es)
  obtain q1 d1 x1 where "resend_spec call (Suc i) es = (q1, d1, x1)"
    using prod_cases3 by blast
  then show ?case
    using Cons.IH [of "Suc i" q1 d1 x1] Cons.prems by (auto split: option.splits if_splits)
qed

text \<open>All messages that the client has been given.\<close>

definition held :: "AggregatorRpcClient \<Rightarrow> rpc_message multiset" where
  "held c = mset (delivered c) + mset (dropped c) + mset (map um_Message (unsentMessages c))"

lemma tryResend_spec:
  assumes "tryResendFromDeque call c = Inr c'"
  obtains q d x where "resend_spec call 0 (unsentMessages c) = (q, d, x)" "unsentMessages c' = q"
    "delivered c' = delivered c @ d" "dropped c' = dropped c @ x"
proof -
  obtain q d x where r: "resend_spec call 0 (unsentMessages c) = (q, d, x)"
    using prod_cases3 by blast
  show ?thesis
    using that [OF r] resend_loop_spec [of 0 0 "unsentMessages c" call] r assms
    by (auto simp: tryResendFromDeque_def Let_def split: if_splits)
qed

lemma dial_keeps:
  "InitializeClientIfNotExist a c = Inr (err, c') \<Longrightarrow>
     unsentMessages c' = unsentMessages c \<and> delivered c' = delivered c \<and> dropped c' = dropped c"
  by (auto simp: InitializeClientIfNotExist_def dialAggregatorRpcClient_def Let_def
      split: if_splits option.splits sum.splits)

lemma request_keeps:
  "sendRequest answer c = (r, c') \<Longrightarrow>
     unsentMessages c' = unsentMessages c \<and> delivered c' = delivered c \<and> dropped c' = dropped c"
  by (auto simp: sendRequest_def handleRpcError_def split: if_splits sum.splits)

lemma held_send: "held (sendOperatorMessage answer m c) = add_mset m (held c)"
  by (auto simp: held_def sendOperatorMessage_def appendProtected_def handleRpcError_def Let_def
      split: option.splits)

lemma held_step:
  "rpc_step s t \<Longrightarrow> held (fst t) = held (fst s) \<or> (\<exists>m. held (fst t) = add_mset m (held (fst s)))"
proof (induction rule: rpc_step.induct)
  case (tick_resend c call c')
  from tick_resend(2) show ?case
    by (rule tryResend_spec) (use resend_spec_conserves in \<open>fastforce simp: held_def\<close>)
next
  case (request answer c r c' t)
  then show ?case
    using request_keeps by (fastforce simp: held_def)
next
  case (tick_init a c err c')
  then show ?case
    using dial_keeps by (fastforce simp: held_def)
qed (auto simp: held_send, simp_all add: held_def handleRpcShutdown_def)


lemma resend_spec_dropped:
  assumes "resend_spec call i es = (q, d, x)" "m \<in> set x"
  shows "\<exists>j < length es. um_Message (es ! j) = m \<and> um_Retries (es ! j) + 1 \<ge> MaxRetries \<and>
    (\<exists>e. call (i + j) = Some (OtherError e))"
  using assms
proof (induction es arbitrary: i q d x)
  case Nil
  then show ?case by simp
next
  case (Cons e es)
  obtain q1 d1 x1 where r: "resend_spec call (Suc i) es = (q1, d1, x1)"
    using prod_cases3 by blast
  show ?case
  proof (cases "m \<in> set x1")
    case True
    then obtain j where "j < length es" "um_Message (es ! j) = m" "um_Retries (es ! j) + 1 \<ge> MaxRetries"
      "\<exists>e. call (Suc i + j) = Some (OtherError e)"
      using Cons.IH [OF r] by blast
    then show ?thesis
      by (intro exI [of _ "Suc j"]) simp
  next
    case False
    then have "m = um_Message e" "um_Retries e + 1 \<ge> MaxRetries" "\<exists>err. call i = Some (OtherError err)"
      using Cons.prems r
      by (auto simp: isShutdownOrNetworkError_def split: option.splits if_splits call_error.splits)
    then show ?thesis
      by (intro exI [of _ 0]) simp
  qed
qed

definition rpc_ok :: "AggregatorRpcClient \<times> bool \<Rightarrow> bool" where
  "rpc_ok s \<longleftrightarrow> (\<forall>e \<in> set (unsentMessages (fst s)). um_Retries e < MaxRetries)"

lemma rpc_step_ok: "rpc_step s t \<Longrightarrow> rpc_ok s \<Longrightarrow> rpc_ok t"
proof (induction rule: rpc_step.induct)
  case (tick_resend c call c')
  from tick_resend(2) show ?case
    by (rule tryResend_spec) (use tick_resend(3) resend_spec_retries in \<open>auto simp: rpc_ok_def\<close>)
next
  case (request answer c r c' t)
  then show ?case
    using request_keeps by (fastforce simp: rpc_ok_def)
next
  case (tick_init a c err c')
  then show ?case
    using dial_keeps by (fastforce simp: rpc_ok_def)
next
  case (send c t answer m)
  then show ?case
    by (auto simp: rpc_ok_def sendOperatorMessage_def appendProtected_def handleRpcError_def Let_def
        MaxRetries_def split: option.splits)
qed (simp_all add: rpc_ok_def handleRpcShutdown_def)

interpretation rpc: step_system "\<lambda>s. \<exists>addr op reg. s = (NewAggregatorRpcClient addr op reg, False)" rpc_step rpc_ok
  by unfold_locales (auto simp: rpc_ok_def NewAggregatorRpcClient_def, use rpc_step_ok in \<open>auto simp: rpc_ok_def\<close>)


section \<open>Witnesses\<close>

definition sample_message :: rpc_message where
  "sample_message = RpcStateRoot
     \<lparr>ssru_Message = \<lparr>sru_RollupId = 1, sru_BlockHeight = 2, sru_Timestamp = 3, sru_NearDaTransactionId = zero32,
        sru_NearDaCommitment = zero32, sru_StateRoot = zero32\<rparr>,
      ssru_BlsSignature = None, ssru_OperatorId = zero32\<rparr>"

definition new_client :: AggregatorRpcClient where
  "new_client = NewAggregatorRpcClient ''localhost:8090'' zero32 []"

definition good_dial :: "bytes \<Rightarrow> dial_answer" where
  "good_dial reg = \<lparr>da_dial = None, da_address = Inr reg, da_notify = None\<rparr>"

text \<open>The message waits in the queue after \<open>k\<close> rejected attempts.\<close>

definition waiting :: "nat \<Rightarrow> AggregatorRpcClient \<Rightarrow> bool" where
  "waiting k c \<longleftrightarrow> rpcClient c = Some 0 \<and> unsentMessages c = [\<lparr>um_Message = sample_message, um_Retries = k\<rparr>] \<and>
     delivered c = [] \<and> dropped c = []"

lemma waiting_tick:
  assumes "waiting k c" "k < 9"
  shows "\<exists>c'. rpc_step\<^sup>*\<^sup>* (c, False) (c', False) \<and> waiting (Suc k) c'"
proof -
  obtain c' where c': "tryResendFromDeque (\<lambda>_. Some (OtherError ''rejected'')) c = Inr c'" "waiting (Suc k) c'"
    using assms by (auto simp: tryResendFromDeque_def resend_loop.simps waiting_def Let_def MaxRetries_def
        isShutdownOrNetworkError_def)
  have "rpc_step (c, False) (c, True)"
    using rpc_step.tick_init [of "good_dial []" c None c] assms(1)
    by (simp add: InitializeClientIfNotExist_def waiting_def)
  moreover have "rpc_step (c, True) (c', False)"
    using assms(1) by (intro rpc_step.tick_resend [OF _ c'(1)]) (simp add: waiting_def)
  ultimately show ?thesis
    using c'(2) by (meson converse_rtranclp_into_rtranclp rtranclp.rtrancl_refl)
qed

lemma waiting_reachable:
  "k \<le> 9 \<Longrightarrow> \<exists>c. rpc_step\<^sup>*\<^sup>* (new_client, False) (c, False) \<and> waiting k c"
proof (induction k)
  case 0
  let ?c = "sendOperatorMessage None sample_message new_client"
  obtain c' where c': "InitializeClientIfNotExist (good_dial []) ?c = Inr (None, c')" "waiting 0 c'"
    by (auto simp: InitializeClientIfNotExist_def dialAggregatorRpcClient_def good_dial_def waiting_def
        new_client_def NewAggregatorRpcClient_def sendOperatorMessage_def appendProtected_def Let_def)
  obtain c'' where c'': "tryResendFromDeque (\<lambda>_. Some ErrShutdown) c' = Inr c''" "waiting 0 c''"
    using c'(2) by (auto simp: tryResendFromDeque_def resend_loop.simps waiting_def Let_def
        isShutdownOrNetworkError_def)
  have "rpc_step (new_client, False) (?c, False)" "rpc_step (?c, False) (c', True)"
    using rpc_step.tick_init [OF c'(1)] by (simp_all add: rpc_step.send)
  moreover have "rpc_step (c', True) (c'', False)"
    using c'(2) by (intro rpc_step.tick_resend [OF _ c''(1)]) (simp add: waiting_def)
  ultimately show ?case
    using c''(2) by (meson converse_rtranclp_into_rtranclp rtranclp.rtrancl_refl)
next
  case (Suc k)
  then show ?case
    using waiting_tick [of k] by (meson Suc_leD Suc_le_lessD rtranclp_trans)
qed

theorem resend_is_functional_witness:
  "\<exists>c'. tryResendFromDeque (\<lambda>i. if i = 1 then None else Some (OtherError ''rejected''))
       (new_client\<lparr>rpcClient := Some 0,
          unsentMessages := [\<lparr>um_Message = sample_message, um_Retries = 3\<rparr>,
            \<lparr>um_Message = sample_message, um_Retries = 0\<rparr>, \<lparr>um_Message = sample_message, um_Retries = 9\<rparr>]\<rparr>) = Inr c' \<and>
     unsentMessages c' = [\<lparr>um_Message = sample_message, um_Retries = 4\<rparr>] \<and>
     delivered c' = [sample_message] \<and> dropped c' = [sample_message]"
  using resend_is_functional [of "new_client\<lparr>rpcClient := Some 0,
          unsentMessages := [\<lparr>um_Message = sample_message, um_Retries = 3\<rparr>,
            \<lparr>um_Message = sample_message, um_Retries = 0\<rparr>, \<lparr>um_Message = sample_message, um_Retries = 9\<rparr>]\<rparr>"
      "\<lambda>i. if i = 1 then None else Some (OtherError ''rejected'')"]
  by (simp add: new_client_def NewAggregatorRpcClient_def isShutdownOrNetworkError_def MaxRetries_def)



text \<open>
  C36. The two halves of a tick are not atomic, and the second dereferences the connection without
  looking: after a message was queued by a failed send, a shutdown that runs between the dial and the
  resend leaves a nil client to the resend, which then faults.
\<close>

theorem shutdown_during_tick_faults:
  "\<exists>c. rpc_step\<^sup>*\<^sup>* (NewAggregatorRpcClient addr op reg, False) (c, True) \<and>
     tryResendFromDeque call c = Inl (Fault NilDereference)"
proof -
  let ?c0 = "NewAggregatorRpcClient addr op reg"
  obtain c1 where c1: "InitializeClientIfNotExist (good_dial reg) ?c0 = Inr (None, c1)"
      "rpcClient c1 = Some 0" "unsentMessages c1 = []" "pendingShutdowns c1 = 0"
    by (auto simp: InitializeClientIfNotExist_def dialAggregatorRpcClient_def good_dial_def
        NewAggregatorRpcClient_def Let_def)
  let ?c2 = "sendOperatorMessage (Some ErrShutdown) sample_message c1"
  let ?c3 = "handleRpcShutdown ?c2"
  have "rpc_step (?c0, False) (c1, True)"
    using rpc_step.tick_init [OF c1(1)] by simp
  moreover have "rpc_step (c1, True) (?c2, True)"
    by (rule rpc_step.send)
  moreover have "rpc_step (?c2, True) (?c3, True)"
    by (rule rpc_step.shutdown)
      (simp add: c1 sendOperatorMessage_def appendProtected_def handleRpcError_def
        isShutdownOrNetworkError_def Let_def)
  moreover have "tryResendFromDeque call ?c3 = Inl (Fault NilDereference)"
    by (simp add: c1 tryResendFromDeque_def handleRpcShutdown_def sendOperatorMessage_def appendProtected_def
        handleRpcError_def Let_def)
  ultimately show ?thesis
    by (meson converse_rtranclp_into_rtranclp rtranclp.rtrancl_refl)
qed

end
