(* ===== verification/Database.thy ===== *)
theory Database
  imports Smt Metrics
begin

text \<open>
  The aggregator's message store, \<^verbatim>\<open>aggregator/database/database.go\<close> and its models.

  The database is reached through GORM, which is a parameter: a \<open>gorm_table\<close> has the queries that
  the source builds for one table, as functions of the database. What the store relies on is stated
  over the rows that the database holds (\<open>table_laws\<close>). Of \<^verbatim>\<open>gorm.Model\<close> only the primary
  key is kept, and the aggregation that a row's foreign key names is kept in the row.
\<close>

section \<open>Models\<close>

record MessageBlsAggregationModel =
  mam_EthBlockNumber :: u64
  mam_MessageDigest :: bytes
  mam_NonSignersPubkeysG1 :: "G1Point option list"
  mam_QuorumApksG1 :: "G1Point option list"
  mam_SignersApkG2 :: "G2Point option"
  mam_SignersAggSigG1 :: "Signature option"
  mam_NonSignerQuorumBitmapIndices :: "u32 list"
  mam_QuorumApkIndices :: "u32 list"
  mam_TotalStakeIndices :: "u32 list"
  mam_NonSignerStakeIndices :: "u32 list list"

definition NewMessageBlsAggregationModel :: "Aggregation \<Rightarrow> MessageBlsAggregationModel" where
  "NewMessageBlsAggregationModel msg =
     \<lparr>mam_EthBlockNumber = mba_EthBlockNumber msg,
      mam_MessageDigest = mba_MessageDigest msg,
      mam_NonSignersPubkeysG1 = mba_NonSignersPubkeysG1 msg,
      mam_QuorumApksG1 = mba_QuorumApksG1 msg,
      mam_SignersApkG2 = mba_SignersApkG2 msg,
      mam_SignersAggSigG1 = mba_SignersAggSigG1 msg,
      mam_NonSignerQuorumBitmapIndices = mba_NonSignerQuorumBitmapIndices msg,
      mam_QuorumApkIndices = mba_QuorumApkIndices msg,
      mam_TotalStakeIndices = mba_TotalStakeIndices msg,
      mam_NonSignerStakeIndices = mba_NonSignerStakeIndices msg\<rparr>"

definition MessageBlsAggregationModel_ToMessage ::
  "MessageBlsAggregationModel \<Rightarrow> (string, Aggregation) res" where
  "MessageBlsAggregationModel_ToMessage model =
     bind_err (to_array32 (mam_MessageDigest model)) (\<lambda>digest.
     Inr \<lparr>mba_EthBlockNumber = mam_EthBlockNumber model,
          mba_MessageDigest = digest,
          mba_NonSignersPubkeysG1 = mam_NonSignersPubkeysG1 model,
          mba_QuorumApksG1 = mam_QuorumApksG1 model,
          mba_SignersApkG2 = mam_SignersApkG2 model,
          mba_SignersAggSigG1 = mam_SignersAggSigG1 model,
          mba_NonSignerQuorumBitmapIndices = mam_NonSignerQuorumBitmapIndices model,
          mba_QuorumApkIndices = mam_QuorumApkIndices model,
          mba_TotalStakeIndices = mam_TotalStakeIndices model,
          mba_NonSignerStakeIndices = mam_NonSignerStakeIndices model\<rparr>)"

record StateRootUpdateModel =
  srm_ID :: nat
  srm_RollupId :: u32
  srm_BlockHeight :: u64
  srm_Timestamp :: u64
  srm_NearDaTransactionId :: bytes
  srm_NearDaCommitment :: bytes
  srm_StateRoot :: bytes
  srm_Aggregation :: "MessageBlsAggregationModel option"

definition NewStateRootUpdateMessageModel :: "StateRootUpdateMessage \<Rightarrow> StateRootUpdateModel" where
  "NewStateRootUpdateMessageModel msg =
     \<lparr>srm_ID = 0, srm_RollupId = sru_RollupId msg, srm_BlockHeight = sru_BlockHeight msg,
      srm_Timestamp = sru_Timestamp msg, srm_NearDaTransactionId = sru_NearDaTransactionId msg,
      srm_NearDaCommitment = sru_NearDaCommitment msg, srm_StateRoot = sru_StateRoot msg,
      srm_Aggregation = None\<rparr>"

definition StateRootUpdateModel_ToMessage :: "StateRootUpdateModel \<Rightarrow> (string, StateRootUpdateMessage) res" where
  "StateRootUpdateModel_ToMessage model =
     bind_err (to_array32 (srm_NearDaTransactionId model)) (\<lambda>tx.
     bind_err (to_array32 (srm_NearDaCommitment model)) (\<lambda>commitment.
     bind_err (to_array32 (srm_StateRoot model)) (\<lambda>root.
     Inr \<lparr>sru_RollupId = srm_RollupId model, sru_BlockHeight = srm_BlockHeight model,
          sru_Timestamp = srm_Timestamp model, sru_NearDaTransactionId = tx,
          sru_NearDaCommitment = commitment, sru_StateRoot = root\<rparr>)))"

record OperatorSetUpdateModel =
  osm_ID :: nat
  osm_UpdateId :: u64
  osm_Timestamp :: u64
  osm_Operators :: "RollupOperator list"
  osm_Aggregation :: "MessageBlsAggregationModel option"

definition NewOperatorSetUpdateMessageModel :: "OperatorSetUpdateMessage \<Rightarrow> OperatorSetUpdateModel" where
  "NewOperatorSetUpdateMessageModel msg =
     \<lparr>osm_ID = 0, osm_UpdateId = osu_Id msg, osm_Timestamp = osu_Timestamp msg,
      osm_Operators = osu_Operators msg, osm_Aggregation = None\<rparr>"

definition OperatorSetUpdateModel_ToMessage ::
  "OperatorSetUpdateModel \<Rightarrow> (string, OperatorSetUpdateMessage) res" where
  "OperatorSetUpdateModel_ToMessage model =
     Inr \<lparr>osu_Id = osm_UpdateId model, osu_Timestamp = osm_Timestamp model, osu_Operators = osm_Operators model\<rparr>"

section \<open>The queries\<close>

text \<open>
  For one table, with its unique key \<open>'k\<close> and its rows \<open>'r\<close>: \<^verbatim>\<open>Where(key).FirstOrCreate(&row)\<close>
  (the row it leaves in its argument and its error), \<^verbatim>\<open>Where(key).First(&row)\<close> without and with
  \<^verbatim>\<open>Preload("Aggregation")\<close>, \<^verbatim>\<open>Model(row).Association("Aggregation").Replace\<close>, and the rows
  between two timestamps with their aggregations.
\<close>

record ('db, 'k, 'r) gorm_table =
  FirstOrCreate :: "'k \<Rightarrow> 'r \<Rightarrow> 'db \<Rightarrow> ('r \<times> string option) \<times> 'db"
  First :: "bool \<Rightarrow> 'k \<Rightarrow> 'db \<Rightarrow> string + 'r"
  Replace :: "'r \<Rightarrow> MessageBlsAggregationModel \<Rightarrow> 'db \<Rightarrow> string option \<times> 'db"
  FindBetween :: "u64 \<Rightarrow> u64 \<Rightarrow> 'db \<Rightarrow> string + 'r list"

record 'db gorm =
  gorm_Open :: "string \<Rightarrow> string + 'db"
  AutoMigrate :: "'db \<Rightarrow> string option \<times> 'db"
  gorm_DB :: "'db \<Rightarrow> string option"
  gorm_Close :: "'db \<Rightarrow> string option \<times> 'db"
  stateRoots :: "('db, u32 \<times> u64, StateRootUpdateModel) gorm_table"
  operatorSets :: "('db, u64, OperatorSetUpdateModel) gorm_table"

section \<open>The store\<close>

record 'db Database =
  d_db :: 'db
  d_dbPath :: string
  d_listener :: SelectiveDatabaseListener
  d_events :: "DatabaseEvent list"

definition NewDatabase :: "'db gorm \<Rightarrow> string \<Rightarrow> string + 'db Database" where
  "NewDatabase g path =
     (let dbPath = (if path = '''' then ''file::memory:?cache=shared'' else path)
      in case gorm_Open g dbPath of
           Inl err \<Rightarrow> Inl err
         | Inr db \<Rightarrow>
             (case AutoMigrate g db of
                (Some err, db') \<Rightarrow> Inl err
              | (None, db') \<Rightarrow>
                  (case gorm_DB g db' of
                     Some err \<Rightarrow> Inl err
                   | None \<Rightarrow> Inr \<lparr>d_db = db', d_dbPath = dbPath,
                       d_listener = \<lparr>db_OnStoreCb = None, db_OnFetchCb = None\<rparr>, d_events = []\<rparr>)))"

definition Database_Close :: "'db gorm \<Rightarrow> 'db Database \<Rightarrow> string option \<times> 'db Database" where
  "Database_Close g d =
     (case gorm_DB g (d_db d) of
        Some err \<Rightarrow> (Some err, d)
      | None \<Rightarrow> (case gorm_Close g (d_db d) of (err, db') \<Rightarrow> (err, d\<lparr>d_db := db'\<rparr>)))"

definition Database_EnableMetrics ::
  "(metric_id \<Rightarrow> 'reg \<Rightarrow> string option \<times> 'reg) \<Rightarrow> 'reg \<Rightarrow> 'db Database \<Rightarrow> string option \<times> 'db Database \<times> 'reg"
where
  "Database_EnableMetrics register r d =
     (case MakeDBMetrics register r of
        (Inl err, r') \<Rightarrow> (Some err, d, r')
      | (Inr l, r') \<Rightarrow> (None, d\<lparr>d_listener := l\<rparr>, r'))"

text \<open>The deferred latency observations; the duration is the environment's.\<close>

definition observe :: "DatabaseEvent \<Rightarrow> 'db Database \<Rightarrow> 'db Database" where
  "observe ev d = d\<lparr>d_events := d_events d @ [ev]\<rparr>"

definition StoreStateRootUpdate ::
  "'db gorm \<Rightarrow> duration \<Rightarrow> StateRootUpdateMessage \<Rightarrow> 'db Database \<Rightarrow>
   (StateRootUpdateModel \<times> string option) \<times> 'db Database" where
  "StoreStateRootUpdate g dur msg d =
     (case FirstOrCreate (stateRoots g) (sru_RollupId msg, sru_BlockHeight msg)
             (NewStateRootUpdateMessageModel msg) (d_db d) of
        (answer, db') \<Rightarrow> (answer, observe (OnStore dur) (d\<lparr>d_db := db'\<rparr>)))"

definition FetchStateRootUpdate ::
  "'db gorm \<Rightarrow> duration \<Rightarrow> u32 \<Rightarrow> u64 \<Rightarrow> 'db Database \<Rightarrow> (string, StateRootUpdateMessage) res \<times> 'db Database" where
  "FetchStateRootUpdate g dur rollupId blockHeight d =
     ((case First (stateRoots g) False (rollupId, blockHeight) (d_db d) of
         Inl err \<Rightarrow> Inl (Err err)
       | Inr model \<Rightarrow> StateRootUpdateModel_ToMessage model),
      observe (OnFetch dur) d)"

definition StoreStateRootUpdateAggregation ::
  "'db gorm \<Rightarrow> duration \<Rightarrow> StateRootUpdateModel \<Rightarrow> Aggregation \<Rightarrow> 'db Database \<Rightarrow> string option \<times> 'db Database" where
  "StoreStateRootUpdateAggregation g dur model aggregation d =
     (case Replace (stateRoots g) model (NewMessageBlsAggregationModel aggregation) (d_db d) of
        (err, db') \<Rightarrow> (err, observe (OnStore dur) (d\<lparr>d_db := db'\<rparr>)))"

definition FetchStateRootUpdateAggregation ::
  "'db gorm \<Rightarrow> duration \<Rightarrow> u32 \<Rightarrow> u64 \<Rightarrow> 'db Database \<Rightarrow> (string, Aggregation) res \<times> 'db Database" where
  "FetchStateRootUpdateAggregation g dur rollupId blockHeight d =
     ((case First (stateRoots g) True (rollupId, blockHeight) (d_db d) of
         Inl err \<Rightarrow> Inl (Err err)
       | Inr model \<Rightarrow>
           (case srm_Aggregation model of
              None \<Rightarrow> Inl (Err ''aggregation not found'')
            | Some agg \<Rightarrow> MessageBlsAggregationModel_ToMessage agg)),
      observe (OnFetch dur) d)"

definition StoreOperatorSetUpdate ::
  "'db gorm \<Rightarrow> duration \<Rightarrow> OperatorSetUpdateMessage \<Rightarrow> 'db Database \<Rightarrow>
   (OperatorSetUpdateModel \<times> string option) \<times> 'db Database" where
  "StoreOperatorSetUpdate g dur msg d =
     (case FirstOrCreate (operatorSets g) (osu_Id msg) (NewOperatorSetUpdateMessageModel msg) (d_db d) of
        (answer, db') \<Rightarrow> (answer, observe (OnStore dur) (d\<lparr>d_db := db'\<rparr>)))"

definition FetchOperatorSetUpdate ::
  "'db gorm \<Rightarrow> duration \<Rightarrow> u64 \<Rightarrow> 'db Database \<Rightarrow> (string, OperatorSetUpdateMessage) res \<times> 'db Database" where
  "FetchOperatorSetUpdate g dur updateId d =
     ((case First (operatorSets g) False updateId (d_db d) of
         Inl err \<Rightarrow> Inl (Err err)
       | Inr model \<Rightarrow> OperatorSetUpdateModel_ToMessage model),
      observe (OnFetch dur) d)"

definition StoreOperatorSetUpdateAggregation ::
  "'db gorm \<Rightarrow> duration \<Rightarrow> OperatorSetUpdateModel \<Rightarrow> Aggregation \<Rightarrow> 'db Database \<Rightarrow> string option \<times> 'db Database" where
  "StoreOperatorSetUpdateAggregation g dur model aggregation d =
     (case Replace (operatorSets g) model (NewMessageBlsAggregationModel aggregation) (d_db d) of
        (err, db') \<Rightarrow> (err, observe (OnStore dur) (d\<lparr>d_db := db'\<rparr>)))"

definition FetchOperatorSetUpdateAggregation ::
  "'db gorm \<Rightarrow> duration \<Rightarrow> u64 \<Rightarrow> 'db Database \<Rightarrow> (string, Aggregation) res \<times> 'db Database" where
  "FetchOperatorSetUpdateAggregation g dur updateId d =
     ((case First (operatorSets g) True updateId (d_db d) of
         Inl err \<Rightarrow> Inl (Err err)
       | Inr model \<Rightarrow>
           (case osm_Aggregation model of
              None \<Rightarrow> Inl (Err ''aggregation not found'')
            | Some agg \<Rightarrow> MessageBlsAggregationModel_ToMessage agg)),
      observe (OnFetch dur) d)"

text \<open>The two loops of \<^verbatim>\<open>FetchCheckpointMessages\<close>: rows without an aggregation are skipped.\<close>

fun collect_aggregated ::
  "('r \<Rightarrow> MessageBlsAggregationModel option) \<Rightarrow> ('r \<Rightarrow> (string, 'm) res) \<Rightarrow> 'r list \<Rightarrow>
   (string, 'm list \<times> Aggregation list) res" where
  "collect_aggregated aggregation toMessage [] = Inr ([], [])"
| "collect_aggregated aggregation toMessage (row # rows) =
     (case aggregation row of
        None \<Rightarrow> collect_aggregated aggregation toMessage rows
      | Some agg \<Rightarrow>
          bind_err (toMessage row) (\<lambda>m.
          bind_err (MessageBlsAggregationModel_ToMessage agg) (\<lambda>a.
          bind_err (collect_aggregated aggregation toMessage rows) (\<lambda>(ms, as). Inr (m # ms, a # as)))))"

definition MaxInt64 :: u64 where
  "MaxInt64 = 0x7FFFFFFFFFFFFFFF"

definition FetchCheckpointMessages ::
  "'db gorm \<Rightarrow> duration \<Rightarrow> u64 \<Rightarrow> u64 \<Rightarrow> 'db Database \<Rightarrow> (string, CheckpointMessages) res \<times> 'db Database" where
  "FetchCheckpointMessages g dur fromTimestamp toTimestamp d =
     (if fromTimestamp > MaxInt64 \<or> toTimestamp > MaxInt64
      then (Inl (Err ''timestamp does not fit in int64''), d)
      else if toTimestamp < fromTimestamp
      then (Inl (Err ''toTimestamp is less than fromTimestamp''), d)
      else
        ((case FindBetween (stateRoots g) fromTimestamp toTimestamp (d_db d) of
            Inl err \<Rightarrow> Inl (Err err)
          | Inr stateRootUpdates \<Rightarrow>
              (case FindBetween (operatorSets g) fromTimestamp toTimestamp (d_db d) of
                 Inl err \<Rightarrow> Inl (Err err)
               | Inr operatorSetUpdates \<Rightarrow>
                   bind_err (collect_aggregated srm_Aggregation StateRootUpdateModel_ToMessage stateRootUpdates)
                     (\<lambda>(srs, srAggs).
                   bind_err (collect_aggregated osm_Aggregation OperatorSetUpdateModel_ToMessage operatorSetUpdates)
                     (\<lambda>(oss, osAggs).
                   Inr \<lparr>cm_StateRootUpdateMessages = srs, cm_StateRootUpdateMessageAggregations = srAggs,
                        cm_OperatorSetUpdateMessages = oss, cm_OperatorSetUpdateMessageAggregations = osAggs\<rparr>)))),
         observe (OnFetch dur) d))"

section \<open>What the store relies on\<close>

text \<open>The columns that the queries use.\<close>

record ('k, 'r) schema =
  sc_key :: "'r \<Rightarrow> 'k"
  sc_id :: "'r \<Rightarrow> nat"
  sc_setId :: "nat \<Rightarrow> 'r \<Rightarrow> 'r"
  sc_agg :: "'r \<Rightarrow> MessageBlsAggregationModel option"
  sc_setAgg :: "MessageBlsAggregationModel option \<Rightarrow> 'r \<Rightarrow> 'r"
  sc_timestamp :: "'r \<Rightarrow> u64"

definition state_root_schema :: "(u32 \<times> u64, StateRootUpdateModel) schema" where
  "state_root_schema =
     \<lparr>sc_key = \<lambda>r. (srm_RollupId r, srm_BlockHeight r), sc_id = srm_ID, sc_setId = \<lambda>i r. r\<lparr>srm_ID := i\<rparr>,
      sc_agg = srm_Aggregation, sc_setAgg = \<lambda>a r. r\<lparr>srm_Aggregation := a\<rparr>, sc_timestamp = srm_Timestamp\<rparr>"

definition operator_set_schema :: "(u64, OperatorSetUpdateModel) schema" where
  "operator_set_schema =
     \<lparr>sc_key = osm_UpdateId, sc_id = osm_ID, sc_setId = \<lambda>i r. r\<lparr>osm_ID := i\<rparr>,
      sc_agg = osm_Aggregation, sc_setAgg = \<lambda>a r. r\<lparr>osm_Aggregation := a\<rparr>, sc_timestamp = osm_Timestamp\<rparr>"

definition lookup :: "('k, 'r) schema \<Rightarrow> 'k \<Rightarrow> 'r list \<Rightarrow> 'r option" where
  "lookup sc k rows = find (\<lambda>r. sc_key sc r = k) rows"

definition attach :: "('k, 'r) schema \<Rightarrow> nat \<Rightarrow> MessageBlsAggregationModel \<Rightarrow> 'r list \<Rightarrow> 'r list" where
  "attach sc i a rows = map (\<lambda>r. if sc_id sc r = i then sc_setAgg sc (Some a) r else r) rows"

text \<open>
  GORM's documented behaviour on one table, over the rows in the order of their primary keys.
  \<^verbatim>\<open>FirstOrCreate\<close> and \<^verbatim>\<open>Replace\<close> may report an error, about which nothing is assumed.
\<close>

definition table_laws :: "('k, 'r) schema \<Rightarrow> ('db \<Rightarrow> 'r list) \<Rightarrow> ('db, 'k, 'r) gorm_table \<Rightarrow> bool" where
  "table_laws sc rows t \<longleftrightarrow>
     (\<forall>k r db r' db'. FirstOrCreate t k r db = ((r', None), db') \<longrightarrow>
        (case lookup sc k (rows db) of
           Some x \<Rightarrow> r' = sc_setAgg sc (sc_agg sc r) x \<and> rows db' = rows db
         | None \<Rightarrow> \<exists>i. i \<notin> sc_id sc ` set (rows db) \<and> r' = sc_setId sc i r \<and> rows db' = rows db @ [r'])) \<and>
     (\<forall>p k db. First t p k db =
        (case lookup sc k (rows db) of
           None \<Rightarrow> Inl ''record not found''
         | Some x \<Rightarrow> Inr (if p then x else sc_setAgg sc None x))) \<and>
     (\<forall>r a db db'. Replace t r a db = (None, db') \<longrightarrow> rows db' = attach sc (sc_id sc r) a (rows db)) \<and>
     (\<forall>f u db. FindBetween t f u db =
        Inr (filter (\<lambda>r. f \<le> sc_timestamp sc r \<and> sc_timestamp sc r \<le> u) (rows db)))"

definition gorm_laws ::
  "('db \<Rightarrow> StateRootUpdateModel list) \<Rightarrow> ('db \<Rightarrow> OperatorSetUpdateModel list) \<Rightarrow> 'db gorm \<Rightarrow> bool" where
  "gorm_laws srs oss g \<longleftrightarrow>
     table_laws state_root_schema srs (stateRoots g) \<and> table_laws operator_set_schema oss (operatorSets g)"

definition table_ok :: "('k, 'r) schema \<Rightarrow> 'r list \<Rightarrow> bool" where
  "table_ok sc rows \<longleftrightarrow> distinct (map (sc_id sc) rows) \<and> distinct (map (sc_key sc) rows)"

lemma find_map_same:
  assumes "\<And>x. P (f x) = P x"
  shows "find P (map f xs) = map_option f (find P xs)"
  using assms by (induction xs) auto

lemma find_append: "find P (xs @ ys) = (case find P xs of None \<Rightarrow> find P ys | Some x \<Rightarrow> Some x)"
  by (induction xs) auto

lemma lookup_mem: "lookup sc k rows = Some x \<Longrightarrow> x \<in> set rows \<and> sc_key sc x = k"
  by (auto simp: lookup_def find_Some_iff)

lemma lookup_None: "lookup sc k rows = None \<longleftrightarrow> k \<notin> sc_key sc ` set rows"
  by (auto simp: lookup_def find_None_iff)

lemma laws_create:
  "table_laws sc rows t \<Longrightarrow> FirstOrCreate t k r db = ((r', None), db') \<Longrightarrow>
     (case lookup sc k (rows db) of
        Some x \<Rightarrow> r' = sc_setAgg sc (sc_agg sc r) x \<and> rows db' = rows db
      | None \<Rightarrow> \<exists>i. i \<notin> sc_id sc ` set (rows db) \<and> r' = sc_setId sc i r \<and> rows db' = rows db @ [r'])"
  unfolding table_laws_def by blast

lemma laws_first:
  "table_laws sc rows t \<Longrightarrow>
     First t p k db = (case lookup sc k (rows db) of None \<Rightarrow> Inl ''record not found''
       | Some x \<Rightarrow> Inr (if p then x else sc_setAgg sc None x))"
  unfolding table_laws_def by blast

lemma laws_replace:
  "table_laws sc rows t \<Longrightarrow> Replace t r a db = (None, db') \<Longrightarrow> rows db' = attach sc (sc_id sc r) a (rows db)"
  unfolding table_laws_def by blast

lemma laws_find:
  "table_laws sc rows t \<Longrightarrow>
     FindBetween t f u db = Inr (filter (\<lambda>r. f \<le> sc_timestamp sc r \<and> sc_timestamp sc r \<le> u) (rows db))"
  unfolding table_laws_def by blast

locale table_schema =
  fixes sc :: "('k, 'r) schema"
  assumes key_setAgg: "sc_key sc (sc_setAgg sc a r) = sc_key sc r"
    and id_setAgg: "sc_id sc (sc_setAgg sc a r) = sc_id sc r"
    and setAgg_setAgg: "sc_setAgg sc a (sc_setAgg sc b r) = sc_setAgg sc a r"
    and setAgg_agg: "sc_setAgg sc (sc_agg sc r) r = r"
    and agg_setAgg: "sc_agg sc (sc_setAgg sc a r) = a"
    and key_setId: "sc_key sc (sc_setId sc i r) = sc_key sc r"
    and id_setId: "sc_id sc (sc_setId sc i r) = i"
    and agg_setId: "sc_agg sc (sc_setId sc i r) = sc_agg sc r"
begin

lemmas schema_simps [simp] = key_setAgg id_setAgg setAgg_setAgg setAgg_agg agg_setAgg key_setId id_setId agg_setId

lemma lookup_attach:
  "lookup sc k (attach sc i a rows) =
     map_option (\<lambda>r. if sc_id sc r = i then sc_setAgg sc (Some a) r else r) (lookup sc k rows)"
  unfolding lookup_def attach_def by (rule find_map_same) simp

lemma ok_attach: "table_ok sc rows \<Longrightarrow> table_ok sc (attach sc i a rows)"
  unfolding table_ok_def attach_def by (simp add: o_def if_distrib cong: if_cong)

text \<open>A row is created for a new key only, and it keeps its first contents.\<close>

lemma store_row:
  assumes "table_laws sc rows t" "table_ok sc (rows db)"
    and "FirstOrCreate t (sc_key sc r) r db = ((r', None), db')" "sc_agg sc r = None"
  obtains x where "lookup sc (sc_key sc r) (rows db') = Some x" "r' = sc_setAgg sc None x"
    "table_ok sc (rows db')" "sc_key sc x = sc_key sc r"
    "case lookup sc (sc_key sc r) (rows db) of Some y \<Rightarrow> x = y | None \<Rightarrow> \<exists>i. x = sc_setId sc i r"
proof (cases "lookup sc (sc_key sc r) (rows db)")
  case (Some x)
  then have "r' = sc_setAgg sc None x" "rows db' = rows db"
    using laws_create [OF assms(1,3)] assms(4) by simp_all
  then show ?thesis
    using that [of x] Some assms(2) lookup_mem [OF Some] by simp
next
  case None
  then obtain i where i: "i \<notin> sc_id sc ` set (rows db)" "r' = sc_setId sc i r" "rows db' = rows db @ [r']"
    using laws_create [OF assms(1,3)] by auto
  have "lookup sc (sc_key sc r) (rows db') = Some r'"
    using None i by (simp add: lookup_def find_append)
  moreover have "table_ok sc (rows db')"
    using assms(2) i None lookup_None [of sc "sc_key sc r" "rows db"] by (simp add: table_ok_def)
  moreover have "r' = sc_setAgg sc None r'"
    using i(2) assms(4) by (metis agg_setId setAgg_agg)
  ultimately show ?thesis
    using that [of r'] None i(2) by auto
qed

lemma store_then_fetch:
  assumes "table_laws sc rows t" "table_ok sc (rows db)"
    and "FirstOrCreate t (sc_key sc r) r db = ((r', None), db1)" "sc_agg sc r = None"
    and "Replace t r' a db1 = (None, db2)"
  obtains x where
    "First t True (sc_key sc r) db2 = Inr (sc_setAgg sc (Some a) x)"
    "First t False (sc_key sc r) db2 = Inr (sc_setAgg sc None x)"
    "case lookup sc (sc_key sc r) (rows db) of Some y \<Rightarrow> x = y | None \<Rightarrow> \<exists>i. x = sc_setId sc i r"
    "table_ok sc (rows db2)"
proof -
  obtain x where x: "lookup sc (sc_key sc r) (rows db1) = Some x" "r' = sc_setAgg sc None x"
      "table_ok sc (rows db1)"
      "case lookup sc (sc_key sc r) (rows db) of Some y \<Rightarrow> x = y | None \<Rightarrow> \<exists>i. x = sc_setId sc i r"
    by (rule store_row [OF assms(1-4)]) blast
  have rows2: "rows db2 = attach sc (sc_id sc x) a (rows db1)"
    using laws_replace [OF assms(1,5)] x(2) by simp
  then have "lookup sc (sc_key sc r) (rows db2) = Some (sc_setAgg sc (Some a) x)"
    using x(1) by (simp add: lookup_attach)
  then have "First t True (sc_key sc r) db2 = Inr (sc_setAgg sc (Some a) x)"
    "First t False (sc_key sc r) db2 = Inr (sc_setAgg sc None x)"
    by (simp_all add: laws_first [OF assms(1)])
  moreover have "table_ok sc (rows db2)"
    unfolding rows2 using x(3) by (rule ok_attach)
  ultimately show ?thesis
    using that x(4) by blast
qed

end

interpretation sr_table: table_schema state_root_schema
  by unfold_locales (auto simp: state_root_schema_def)

interpretation os_table: table_schema operator_set_schema
  by unfold_locales (auto simp: operator_set_schema_def)

section \<open>Storing and fetching\<close>

definition arrays_ok :: "StateRootUpdateMessage \<Rightarrow> bool" where
  "arrays_ok m \<longleftrightarrow> is_bytes32 (sru_NearDaTransactionId m) \<and> is_bytes32 (sru_NearDaCommitment m) \<and>
     is_bytes32 (sru_StateRoot m)"

lemma to_array32_id: "is_bytes32 b \<Longrightarrow> to_array32 b = Inr b"
  by (simp add: to_array32_def is_bytes32_def)

lemma aggregation_model_roundtrip:
  "is_bytes32 (mba_MessageDigest a) \<Longrightarrow>
     MessageBlsAggregationModel_ToMessage (NewMessageBlsAggregationModel a) = Inr a"
  by (simp add: MessageBlsAggregationModel_ToMessage_def NewMessageBlsAggregationModel_def to_array32_id)

lemma state_root_model_roundtrip:
  "arrays_ok m \<Longrightarrow> StateRootUpdateModel_ToMessage ((NewStateRootUpdateMessageModel m)\<lparr>srm_ID := i\<rparr>) = Inr m"
  by (simp add: StateRootUpdateModel_ToMessage_def NewStateRootUpdateMessageModel_def to_array32_id arrays_ok_def)

lemma operator_set_model_roundtrip:
  "OperatorSetUpdateModel_ToMessage ((NewOperatorSetUpdateMessageModel m)\<lparr>osm_ID := i\<rparr>) = Inr m"
  by (simp add: OperatorSetUpdateModel_ToMessage_def NewOperatorSetUpdateMessageModel_def)

lemma ToMessage_setAgg [simp]:
  "StateRootUpdateModel_ToMessage (r\<lparr>srm_Aggregation := a\<rparr>) = StateRootUpdateModel_ToMessage r"
  "OperatorSetUpdateModel_ToMessage (s\<lparr>osm_Aggregation := a\<rparr>) = OperatorSetUpdateModel_ToMessage s"
  by (simp_all add: StateRootUpdateModel_ToMessage_def OperatorSetUpdateModel_ToMessage_def)

lemma state_root_schema_simps [simp]:
  "sc_key state_root_schema r = (srm_RollupId r, srm_BlockHeight r)"
  "sc_setAgg state_root_schema a r = r\<lparr>srm_Aggregation := a\<rparr>"
  "sc_setId state_root_schema i r = r\<lparr>srm_ID := i\<rparr>"
  "sc_agg state_root_schema r = srm_Aggregation r"
  "sc_timestamp state_root_schema r = srm_Timestamp r"
  "sc_id state_root_schema r = srm_ID r"
  by (simp_all add: state_root_schema_def)

lemma operator_set_schema_simps [simp]:
  "sc_key operator_set_schema s = osm_UpdateId s"
  "sc_setAgg operator_set_schema a s = s\<lparr>osm_Aggregation := a\<rparr>"
  "sc_setId operator_set_schema i s = s\<lparr>osm_ID := i\<rparr>"
  "sc_agg operator_set_schema s = osm_Aggregation s"
  "sc_timestamp operator_set_schema s = osm_Timestamp s"
  "sc_id operator_set_schema s = osm_ID s"
  by (simp_all add: operator_set_schema_def)

lemma NewModel_columns [simp]:
  "srm_RollupId (NewStateRootUpdateMessageModel m) = sru_RollupId m"
  "srm_BlockHeight (NewStateRootUpdateMessageModel m) = sru_BlockHeight m"
  "srm_Aggregation (NewStateRootUpdateMessageModel m) = None"
  "osm_UpdateId (NewOperatorSetUpdateMessageModel u) = osu_Id u"
  "osm_Aggregation (NewOperatorSetUpdateMessageModel u) = None"
  by (simp_all add: NewStateRootUpdateMessageModel_def NewOperatorSetUpdateMessageModel_def)

lemma state_root_stored:
  assumes "gorm_laws srs oss g" "table_ok state_root_schema (srs (d_db d))"
    and "StoreStateRootUpdate g t1 msg d = ((model, None), d1)"
    and "StoreStateRootUpdateAggregation g t2 model agg d1 = (None, d2)"
    and "arrays_ok msg" "is_bytes32 (mba_MessageDigest agg)"
  shows "fst (FetchStateRootUpdateAggregation g t3 (sru_RollupId msg) (sru_BlockHeight msg) d2) = Inr agg"
    and "fst (FetchStateRootUpdate g t4 (sru_RollupId msg) (sru_BlockHeight msg) d2) =
      (case lookup state_root_schema (sru_RollupId msg, sru_BlockHeight msg) (srs (d_db d)) of
         None \<Rightarrow> Inr msg
       | Some row \<Rightarrow> StateRootUpdateModel_ToMessage row)"
    and "table_ok state_root_schema (srs (d_db d2))"
proof -
  let ?r = "NewStateRootUpdateMessageModel msg" and ?a = "NewMessageBlsAggregationModel agg"
  have laws: "table_laws state_root_schema srs (stateRoots g)"
    using assms(1) by (simp add: gorm_laws_def)
  obtain db1 where db1: "FirstOrCreate (stateRoots g) (sc_key state_root_schema ?r) ?r (d_db d) = ((model, None), db1)"
      "d_db d1 = db1"
    using assms(3) by (auto simp: StoreStateRootUpdate_def observe_def split: prod.splits)
  obtain db2 where db2: "Replace (stateRoots g) model ?a db1 = (None, db2)" "d_db d2 = db2"
    using assms(4) db1(2) by (auto simp: StoreStateRootUpdateAggregation_def observe_def split: prod.splits)
  obtain x where x: "First (stateRoots g) True (sc_key state_root_schema ?r) db2 = Inr (sc_setAgg state_root_schema (Some ?a) x)"
    "First (stateRoots g) False (sc_key state_root_schema ?r) db2 = Inr (sc_setAgg state_root_schema None x)"
    "case lookup state_root_schema (sc_key state_root_schema ?r) (srs (d_db d)) of
       Some y \<Rightarrow> x = y | None \<Rightarrow> \<exists>i. x = sc_setId state_root_schema i ?r"
    "table_ok state_root_schema (srs db2)"
    by (rule sr_table.store_then_fetch [OF laws assms(2) db1(1) _ db2(1)]) auto
  show "fst (FetchStateRootUpdateAggregation g t3 (sru_RollupId msg) (sru_BlockHeight msg) d2) = Inr agg"
    using x(1) db2(2) assms(6)
    by (simp add: FetchStateRootUpdateAggregation_def aggregation_model_roundtrip)
  show "fst (FetchStateRootUpdate g t4 (sru_RollupId msg) (sru_BlockHeight msg) d2) =
      (case lookup state_root_schema (sru_RollupId msg, sru_BlockHeight msg) (srs (d_db d)) of
         None \<Rightarrow> Inr msg
       | Some row \<Rightarrow> StateRootUpdateModel_ToMessage row)"
    using x(2,3) db2(2) state_root_model_roundtrip [OF assms(5)]
    by (auto simp: FetchStateRootUpdate_def split: option.splits)
  show "table_ok state_root_schema (srs (d_db d2))"
    using x(4) db2(2) by simp
qed

lemma operator_set_stored:
  assumes "gorm_laws srs oss g" "table_ok operator_set_schema (oss (d_db d))"
    and "StoreOperatorSetUpdate g t1 msg d = ((model, None), d1)"
    and "StoreOperatorSetUpdateAggregation g t2 model agg d1 = (None, d2)"
    and "is_bytes32 (mba_MessageDigest agg)"
  shows "fst (FetchOperatorSetUpdateAggregation g t3 (osu_Id msg) d2) = Inr agg"
    and "fst (FetchOperatorSetUpdate g t4 (osu_Id msg) d2) =
      (case lookup operator_set_schema (osu_Id msg) (oss (d_db d)) of
         None \<Rightarrow> Inr msg
       | Some row \<Rightarrow> OperatorSetUpdateModel_ToMessage row)"
    and "table_ok operator_set_schema (oss (d_db d2))"
proof -
  let ?r = "NewOperatorSetUpdateMessageModel msg" and ?a = "NewMessageBlsAggregationModel agg"
  have laws: "table_laws operator_set_schema oss (operatorSets g)"
    using assms(1) by (simp add: gorm_laws_def)
  obtain db1 where db1: "FirstOrCreate (operatorSets g) (sc_key operator_set_schema ?r) ?r (d_db d) = ((model, None), db1)"
      "d_db d1 = db1"
    using assms(3) by (auto simp: StoreOperatorSetUpdate_def observe_def split: prod.splits)
  obtain db2 where db2: "Replace (operatorSets g) model ?a db1 = (None, db2)" "d_db d2 = db2"
    using assms(4) db1(2) by (auto simp: StoreOperatorSetUpdateAggregation_def observe_def split: prod.splits)
  obtain x where x: "First (operatorSets g) True (sc_key operator_set_schema ?r) db2 = Inr (sc_setAgg operator_set_schema (Some ?a) x)"
    "First (operatorSets g) False (sc_key operator_set_schema ?r) db2 = Inr (sc_setAgg operator_set_schema None x)"
    "case lookup operator_set_schema (sc_key operator_set_schema ?r) (oss (d_db d)) of
       Some y \<Rightarrow> x = y | None \<Rightarrow> \<exists>i. x = sc_setId operator_set_schema i ?r"
    "table_ok operator_set_schema (oss db2)"
    by (rule os_table.store_then_fetch [OF laws assms(2) db1(1) _ db2(1)]) auto
  show "fst (FetchOperatorSetUpdateAggregation g t3 (osu_Id msg) d2) = Inr agg"
    using x(1) db2(2) assms(5)
    by (simp add: FetchOperatorSetUpdateAggregation_def aggregation_model_roundtrip)
  show "fst (FetchOperatorSetUpdate g t4 (osu_Id msg) d2) =
      (case lookup operator_set_schema (osu_Id msg) (oss (d_db d)) of
         None \<Rightarrow> Inr msg
       | Some row \<Rightarrow> OperatorSetUpdateModel_ToMessage row)"
    using x(2,3) db2(2) operator_set_model_roundtrip
    by (auto simp: FetchOperatorSetUpdate_def split: option.splits)
  show "table_ok operator_set_schema (oss (d_db d2))"
    using x(4) db2(2) by simp
qed

text \<open>
  C20. When a state root update and its aggregation have been stored, fetching the aggregation gives
  the one stored last, and fetching the message gives the one stored first for that rollup block: the
  new message when there was none, and otherwise the row that was there before.
\<close>

theorem first_message_last_aggregation:
  assumes "gorm_laws srs oss g" "table_ok state_root_schema (srs (d_db d))"
    and "StoreStateRootUpdate g t1 msg d = ((model, None), d1)"
    and "StoreStateRootUpdateAggregation g t2 model agg d1 = (None, d2)"
    and "arrays_ok msg" "is_bytes32 (mba_MessageDigest agg)"
  shows "fst (FetchStateRootUpdateAggregation g t3 (sru_RollupId msg) (sru_BlockHeight msg) d2) = Inr agg \<and>
    fst (FetchStateRootUpdate g t4 (sru_RollupId msg) (sru_BlockHeight msg) d2) =
      (case lookup state_root_schema (sru_RollupId msg, sru_BlockHeight msg) (srs (d_db d)) of
         None \<Rightarrow> Inr msg
       | Some row \<Rightarrow> StateRootUpdateModel_ToMessage row)"
  using state_root_stored [OF assms] by blast

section \<open>Checkpoint messages\<close>

lemma collect_aggregated_exact:
  assumes "\<forall>r \<in> set rows. \<forall>am. aggregation r = Some am \<longrightarrow>
     (\<exists>m a. toMessage r = Inr m \<and> MessageBlsAggregationModel_ToMessage am = Inr a)"
  shows "\<exists>ms as. collect_aggregated aggregation toMessage rows = Inr (ms, as) \<and> length ms = length as \<and>
    (\<forall>m a. (m, a) \<in> set (zip ms as) \<longleftrightarrow>
       (\<exists>r \<in> set rows. toMessage r = Inr m \<and>
          (\<exists>am. aggregation r = Some am \<and> MessageBlsAggregationModel_ToMessage am = Inr a)))"
  using assms
proof (induction rows)
  case Nil
  then show ?case by simp
next
  case (Cons r rows)
  then obtain ms as where IH: "collect_aggregated aggregation toMessage rows = Inr (ms, as)" "length ms = length as"
    "\<forall>m a. (m, a) \<in> set (zip ms as) \<longleftrightarrow> (\<exists>r \<in> set rows. toMessage r = Inr m \<and>
          (\<exists>am. aggregation r = Some am \<and> MessageBlsAggregationModel_ToMessage am = Inr a))"
    by auto
  show ?case
  proof (cases "aggregation r")
    case None
    with IH show ?thesis by simp
  next
    case (Some am)
    then obtain m a where "toMessage r = Inr m" "MessageBlsAggregationModel_ToMessage am = Inr a"
      using Cons.prems by auto
    with IH Some show ?thesis by auto
  qed
qed

definition sr_row_ok :: "StateRootUpdateModel \<Rightarrow> bool" where
  "sr_row_ok r \<longleftrightarrow> length (srm_NearDaTransactionId r) = 32 \<and> length (srm_NearDaCommitment r) = 32 \<and>
     length (srm_StateRoot r) = 32 \<and> (\<forall>am. srm_Aggregation r = Some am \<longrightarrow> length (mam_MessageDigest am) = 32)"

definition os_row_ok :: "OperatorSetUpdateModel \<Rightarrow> bool" where
  "os_row_ok r \<longleftrightarrow> (\<forall>am. osm_Aggregation r = Some am \<longrightarrow> length (mam_MessageDigest am) = 32)"


section \<open>Witnesses\<close>

text \<open>Tables in memory, with the next free primary key above the sum of the others.\<close>

definition mem_table ::
  "('k, 'r) schema \<Rightarrow> ('db \<Rightarrow> 'r list) \<Rightarrow> ('r list \<Rightarrow> 'db \<Rightarrow> 'db) \<Rightarrow> ('db, 'k, 'r) gorm_table" where
  "mem_table sc rows put =
     \<lparr>FirstOrCreate = \<lambda>k r db.
        (case lookup sc k (rows db) of
           Some x \<Rightarrow> ((sc_setAgg sc (sc_agg sc r) x, None), db)
         | None \<Rightarrow> (let r' = sc_setId sc (Suc (sum_list (map (sc_id sc) (rows db)))) r
                   in ((r', None), put (rows db @ [r']) db))),
      First = \<lambda>p k db.
        (case lookup sc k (rows db) of
           None \<Rightarrow> Inl ''record not found''
         | Some x \<Rightarrow> Inr (if p then x else sc_setAgg sc None x)),
      Replace = \<lambda>r a db. (None, put (attach sc (sc_id sc r) a (rows db)) db),
      FindBetween = \<lambda>f u db. Inr (filter (\<lambda>r. f \<le> sc_timestamp sc r \<and> sc_timestamp sc r \<le> u) (rows db))\<rparr>"

lemma mem_table_laws:
  assumes "\<And>rs db. rows (put rs db) = rs"
  shows "table_laws sc rows (mem_table sc rows put)"
proof -
  have "Suc (sum_list (map (sc_id sc) rs)) \<notin> sc_id sc ` set rs" for rs
    using member_le_sum_list [of _ "map (sc_id sc) rs"] by fastforce
  then show ?thesis
    unfolding table_laws_def mem_table_def using assms by (auto simp: Let_def split: option.splits)
qed

type_synonym mem_db = "StateRootUpdateModel list \<times> OperatorSetUpdateModel list"

definition mem_gorm :: "mem_db gorm" where
  "mem_gorm =
     \<lparr>gorm_Open = \<lambda>_. Inr ([], []), AutoMigrate = \<lambda>db. (None, db), gorm_DB = \<lambda>_. None,
      gorm_Close = \<lambda>db. (None, db),
      stateRoots = mem_table state_root_schema fst (\<lambda>rs db. (rs, snd db)),
      operatorSets = mem_table operator_set_schema snd (\<lambda>rs db. (fst db, rs))\<rparr>"

lemma mem_gorm_laws: "gorm_laws fst snd mem_gorm"
  by (simp add: gorm_laws_def mem_gorm_def mem_table_laws)

definition mem_database :: "mem_db Database" where
  "mem_database = \<lparr>d_db = ([], []), d_dbPath = '''', d_listener = \<lparr>db_OnStoreCb = None, db_OnFetchCb = None\<rparr>, d_events = []\<rparr>"

definition sample_update :: "u64 \<Rightarrow> StateRootUpdateMessage" where
  "sample_update ts =
     \<lparr>sru_RollupId = 1, sru_BlockHeight = 2, sru_Timestamp = ts, sru_NearDaTransactionId = zero32,
      sru_NearDaCommitment = zero32, sru_StateRoot = zero32\<rparr>"

definition sample_aggregation :: Aggregation where
  "sample_aggregation =
     \<lparr>mba_EthBlockNumber = 5, mba_MessageDigest = zero32, mba_NonSignersPubkeysG1 = [], mba_QuorumApksG1 = [],
      mba_SignersApkG2 = None, mba_SignersAggSigG1 = None, mba_NonSignerQuorumBitmapIndices = [],
      mba_QuorumApkIndices = [], mba_TotalStakeIndices = [], mba_NonSignerStakeIndices = []\<rparr>"

text \<open>The store after a message with timestamp 100 and its aggregation.\<close>

definition stored_row :: StateRootUpdateModel where
  "stored_row = (NewStateRootUpdateMessageModel (sample_update 100))
     \<lparr>srm_ID := 1, srm_Aggregation := Some (NewMessageBlsAggregationModel sample_aggregation)\<rparr>"

theorem first_message_last_aggregation_witness:
  "fst (FetchStateRootUpdateAggregation mem_gorm 1 1 2 (observe (OnStore 1) (observe (OnStore 1)
      (mem_database\<lparr>d_db := ([stored_row], [])\<rparr>)))) = Inr sample_aggregation \<and>
   fst (FetchStateRootUpdate mem_gorm 1 1 2 (observe (OnStore 1) (observe (OnStore 1)
      (mem_database\<lparr>d_db := ([stored_row], [])\<rparr>)))) = Inr (sample_update 100)"
  using first_message_last_aggregation [OF mem_gorm_laws, of mem_database 1 "sample_update 100"
      "(NewStateRootUpdateMessageModel (sample_update 100))\<lparr>srm_ID := 1\<rparr>"
      "observe (OnStore 1) (mem_database\<lparr>d_db := ([(NewStateRootUpdateMessageModel (sample_update 100))\<lparr>srm_ID := 1\<rparr>], [])\<rparr>)"
      1 sample_aggregation
      "observe (OnStore 1) (observe (OnStore 1) (mem_database\<lparr>d_db := ([stored_row], [])\<rparr>))" 1 1]
  by (simp add: mem_database_def mem_gorm_def mem_table_def lookup_def attach_def StoreStateRootUpdate_def
      StoreStateRootUpdateAggregation_def observe_def table_ok_def sample_update_def arrays_ok_def
      sample_aggregation_def stored_row_def Let_def)


end
