(* ===== verification/Registrations.thy ===== *)
theory Registrations
  imports Messages
begin

text \<open>
  The operators that have registered with the service,
  \<^verbatim>\<open>aggregator/operator_registrations_inmemory.go\<close>: a goroutine fills four maps from the registry's
  events and answers queries that come through channels.

  The state has the maps and what the goroutine is doing: it serves, it has returned because its
  context was cancelled, or it is stuck in sending an answer that nobody receives any more. The
  registry, its subscriptions and \<^verbatim>\<open>types.OperatorIdFromG1Pubkey\<close> (\<open>idOf\<close>) are parameters.
\<close>

section \<open>State\<close>

type_synonym Address = bytes
type_synonym Socket = string

record OperatorPubkeys =
  op_G1Pubkey :: "G1Point option"
  op_G2Pubkey :: "G2Point option"

record OperatorInfo =
  oi_Pubkeys :: OperatorPubkeys
  oi_Socket :: Socket

datatype loop_status = Serving | LoopExited | LoopWedged

record OperatorRegistrationsServiceInMemory =
  idToAddr :: "(OperatorId, Address) gomap"
  addrToId :: "(Address, OperatorId) gomap"
  pubkeysById :: "(OperatorId, OperatorPubkeys) gomap"
  socketById :: "(OperatorId, Socket) gomap"
  ors_loop :: loop_status

definition noPubkeys :: OperatorPubkeys where
  "noPubkeys = \<lparr>op_G1Pubkey = None, op_G2Pubkey = None\<rparr>"

definition noOperatorInfo :: OperatorInfo where
  "noOperatorInfo = \<lparr>oi_Pubkeys = noPubkeys, oi_Socket = ''''\<rparr>"

text \<open>A missing map entry reads as the zero value.\<close>

definition gget_or :: "'v \<Rightarrow> ('k, 'v) gomap \<Rightarrow> 'k \<Rightarrow> 'v" where
  "gget_or z m k = (case gget m k of None \<Rightarrow> z | Some v \<Rightarrow> v)"

section \<open>Start\<close>

definition empty_registrations :: OperatorRegistrationsServiceInMemory where
  "empty_registrations =
     \<lparr>idToAddr = [], addrToId = [], pubkeysById = [], socketById = [], ors_loop = Serving\<rparr>"

definition add_pubkeys ::
  "OperatorId \<Rightarrow> Address \<Rightarrow> OperatorPubkeys \<Rightarrow> OperatorRegistrationsServiceInMemory \<Rightarrow> OperatorRegistrationsServiceInMemory"
where
  "add_pubkeys operatorId operatorAddr pubkeys s =
     s\<lparr>idToAddr := gput operatorId operatorAddr (idToAddr s),
       addrToId := gput operatorAddr operatorId (addrToId s),
       pubkeysById := gput operatorId pubkeys (pubkeysById s)\<rparr>"

fun add_past_operators ::
  "(G1Point option \<Rightarrow> OperatorId) \<Rightarrow> (OperatorId, Socket) gomap \<Rightarrow> Address list \<Rightarrow> OperatorPubkeys list \<Rightarrow>
   OperatorRegistrationsServiceInMemory \<Rightarrow> (string, OperatorRegistrationsServiceInMemory) res" where
  "add_past_operators idOf sockets [] pubkeys s = Inr s"
| "add_past_operators idOf sockets (operatorAddr # addrs) [] s = Inl (Fault IndexOutOfRange)"
| "add_past_operators idOf sockets (operatorAddr # addrs) (operatorPubkeys # pubkeys) s =
     (let operatorId = idOf (op_G1Pubkey operatorPubkeys);
          s1 = add_pubkeys operatorId operatorAddr operatorPubkeys s
      in add_past_operators idOf sockets addrs pubkeys
           (s1\<lparr>socketById := gput operatorId (gget_or '''' sockets operatorId) (socketById s1)\<rparr>))"

definition queryPastRegisteredOperators ::
  "(G1Point option \<Rightarrow> OperatorId) \<Rightarrow> (string + Address list \<times> OperatorPubkeys list) \<Rightarrow>
   (string + (OperatorId, Socket) gomap) \<Rightarrow> OperatorRegistrationsServiceInMemory \<Rightarrow>
   (string, OperatorRegistrationsServiceInMemory) res" where
  "queryPastRegisteredOperators idOf pastKeys pastSockets s =
     (case pastKeys of
        Inl err \<Rightarrow> Inl (Err err)
      | Inr (addrs, pubkeys) \<Rightarrow>
          (case pastSockets of
             Inl err \<Rightarrow> Inl (Err err)
           | Inr sockets \<Rightarrow> add_past_operators idOf sockets addrs pubkeys s))"

text \<open>
  \<^verbatim>\<open>asyncInit\<close> waits for the goroutine of \<^verbatim>\<open>startServiceInGoroutine\<close> to have subscribed twice and
  read the past; the two arguments are the errors of the subscriptions.
\<close>

definition startServiceInGoroutine ::
  "(G1Point option \<Rightarrow> OperatorId) \<Rightarrow> string option \<Rightarrow> string option \<Rightarrow>
   (string + Address list \<times> OperatorPubkeys list) \<Rightarrow> (string + (OperatorId, Socket) gomap) \<Rightarrow>
   OperatorRegistrationsServiceInMemory \<Rightarrow> (string, OperatorRegistrationsServiceInMemory) res" where
  "startServiceInGoroutine idOf pubkeySub socketSub pastKeys pastSockets s =
     (case pubkeySub of
        Some err \<Rightarrow> Inl (Err err)
      | None \<Rightarrow>
          (case socketSub of
             Some err \<Rightarrow> Inl (Err err)
           | None \<Rightarrow> queryPastRegisteredOperators idOf pastKeys pastSockets s))"

definition asyncInit ::
  "(G1Point option \<Rightarrow> OperatorId) \<Rightarrow> string option \<Rightarrow> string option \<Rightarrow>
   (string + Address list \<times> OperatorPubkeys list) \<Rightarrow> (string + (OperatorId, Socket) gomap) \<Rightarrow>
   OperatorRegistrationsServiceInMemory \<Rightarrow> (string, OperatorRegistrationsServiceInMemory) res" where
  "asyncInit = startServiceInGoroutine"

definition NewOperatorRegistrationsServiceInMemory ::
  "(G1Point option \<Rightarrow> OperatorId) \<Rightarrow> string option \<Rightarrow> string option \<Rightarrow>
   (string + Address list \<times> OperatorPubkeys list) \<Rightarrow> (string + (OperatorId, Socket) gomap) \<Rightarrow>
   (string, OperatorRegistrationsServiceInMemory) res" where
  "NewOperatorRegistrationsServiceInMemory idOf pubkeySub socketSub pastKeys pastSockets =
     asyncInit idOf pubkeySub socketSub pastKeys pastSockets empty_registrations"

section \<open>The loop of the goroutine\<close>

record NewPubkeyRegistration =
  npr_Operator :: Address
  npr_PubkeyG1 :: BN254G1Point
  npr_PubkeyG2 :: BN254G2Point

definition onNewPubkeyRegistration ::
  "bls_lib \<Rightarrow> (G1Point option \<Rightarrow> OperatorId) \<Rightarrow> NewPubkeyRegistration \<Rightarrow> OperatorRegistrationsServiceInMemory \<Rightarrow>
   OperatorRegistrationsServiceInMemory" where
  "onNewPubkeyRegistration bl idOf e s =
     (let pubkeys = \<lparr>op_G1Pubkey = Some (NewG1Point bl (bn_X (npr_PubkeyG1 e)) (bn_Y (npr_PubkeyG1 e))),
                     op_G2Pubkey = Some (NewG2Point bl (bn2_X (npr_PubkeyG2 e)) (bn2_Y (npr_PubkeyG2 e)))\<rparr>
      in add_pubkeys (idOf (op_G1Pubkey pubkeys)) (npr_Operator e) pubkeys s)"

definition onOperatorSocketUpdate ::
  "OperatorId \<Rightarrow> Socket \<Rightarrow> OperatorRegistrationsServiceInMemory \<Rightarrow> OperatorRegistrationsServiceInMemory" where
  "onOperatorSocketUpdate operatorId socket s = s\<lparr>socketById := gput operatorId socket (socketById s)\<rparr>"

definition onQueryByAddr :: "Address \<Rightarrow> OperatorRegistrationsServiceInMemory \<Rightarrow> OperatorInfo \<times> bool" where
  "onQueryByAddr operatorAddr s =
     (let operatorId = gget_or zero32 (addrToId s) operatorAddr
      in (\<lparr>oi_Pubkeys = gget_or noPubkeys (pubkeysById s) operatorId,
           oi_Socket = gget_or '''' (socketById s) operatorId\<rparr>,
          gget (addrToId s) operatorAddr \<noteq> None \<and> gget (pubkeysById s) operatorId \<noteq> None \<and>
          gget (socketById s) operatorId \<noteq> None))"

definition onQueryById :: "OperatorId \<Rightarrow> OperatorRegistrationsServiceInMemory \<Rightarrow> OperatorInfo \<times> bool" where
  "onQueryById operatorId s =
     (\<lparr>oi_Pubkeys = gget_or noPubkeys (pubkeysById s) operatorId,
       oi_Socket = gget_or '''' (socketById s) operatorId\<rparr>,
      gget (pubkeysById s) operatorId \<noteq> None \<and> gget (socketById s) operatorId \<noteq> None)"

text \<open>
  A query through the channels, which are unbuffered. When the caller's context is done before the
  answer comes, the caller leaves and the goroutine stays in the send.
\<close>

definition ask ::
  "bool \<Rightarrow> (OperatorRegistrationsServiceInMemory \<Rightarrow> OperatorInfo \<times> bool) \<Rightarrow> OperatorRegistrationsServiceInMemory \<Rightarrow>
   (string, OperatorInfo \<times> bool) res \<times> OperatorRegistrationsServiceInMemory" where
  "ask ctxDone q s =
     (if ors_loop s \<noteq> Serving then (Inl (Fault BlockedForever), s)
      else if ctxDone then (Inr (noOperatorInfo, False), s\<lparr>ors_loop := LoopWedged\<rparr>)
      else (Inr (q s), s))"

definition GetOperatorInfo ::
  "bool \<Rightarrow> Address \<Rightarrow> OperatorRegistrationsServiceInMemory \<Rightarrow>
   (string, OperatorInfo \<times> bool) res \<times> OperatorRegistrationsServiceInMemory" where
  "GetOperatorInfo ctxDone operator = ask ctxDone (onQueryByAddr operator)"

definition GetOperatorInfoById ::
  "bool \<Rightarrow> OperatorId \<Rightarrow> OperatorRegistrationsServiceInMemory \<Rightarrow>
   (string, OperatorInfo \<times> bool) res \<times> OperatorRegistrationsServiceInMemory" where
  "GetOperatorInfoById ctxDone operatorId = ask ctxDone (onQueryById operatorId)"

text \<open>
  One turn of the loop. A subscription error only unsubscribes and logs; the events that come later
  are none.
\<close>

inductive ors_step ::
  "bls_lib \<Rightarrow> (G1Point option \<Rightarrow> OperatorId) \<Rightarrow> OperatorRegistrationsServiceInMemory \<Rightarrow>
   OperatorRegistrationsServiceInMemory \<Rightarrow> bool" for bl idOf where
  pubkey: "ors_loop s = Serving \<Longrightarrow> ors_step bl idOf s (onNewPubkeyRegistration bl idOf e s)"
| socket: "ors_loop s = Serving \<Longrightarrow> ors_step bl idOf s (onOperatorSocketUpdate operatorId sock s)"
| by_addr: "ors_step bl idOf s (snd (GetOperatorInfo ctxDone addr s))"
| by_id: "ors_step bl idOf s (snd (GetOperatorInfoById ctxDone operatorId s))"
| sub_error: "ors_loop s = Serving \<Longrightarrow> ors_step bl idOf s s"
| cancelled: "ors_loop s = Serving \<Longrightarrow> ors_step bl idOf s (s\<lparr>ors_loop := LoopExited\<rparr>)"

section \<open>Ids and keys\<close>

text \<open>Every id is the id of its key, and the two address maps agree.\<close>

definition registrations_ok :: "(G1Point option \<Rightarrow> OperatorId) \<Rightarrow> OperatorRegistrationsServiceInMemory \<Rightarrow> bool" where
  "registrations_ok idOf s \<longleftrightarrow>
     (\<forall>i pk. gget (pubkeysById s) i = Some pk \<longrightarrow> idOf (op_G1Pubkey pk) = i) \<and>
     (\<forall>a i. gget (addrToId s) a = Some i \<longrightarrow> gget (pubkeysById s) i \<noteq> None)"

lemma registrations_ok_add:
  "registrations_ok idOf s \<Longrightarrow> registrations_ok idOf (add_pubkeys (idOf (op_G1Pubkey pk)) a pk s)"
  by (auto simp: registrations_ok_def add_pubkeys_def gget_gput)

lemma registrations_ok_other [simp]:
  "registrations_ok idOf (s\<lparr>socketById := m\<rparr>) = registrations_ok idOf s"
  "registrations_ok idOf (s\<lparr>ors_loop := l\<rparr>) = registrations_ok idOf s"
  by (simp_all add: registrations_ok_def)

lemma registrations_ok_ask [simp]: "registrations_ok idOf (snd (ask b q s)) = registrations_ok idOf s"
  by (simp add: ask_def)

lemma registrations_ok_empty: "registrations_ok idOf empty_registrations"
  by (simp add: registrations_ok_def empty_registrations_def)

lemma registrations_ok_past:
  "registrations_ok idOf s \<Longrightarrow> add_past_operators idOf sockets addrs pks s = Inr t \<Longrightarrow> registrations_ok idOf t"
proof (induction idOf sockets addrs pks s rule: add_past_operators.induct)
  case (3 idOf sockets a addrs pk pks s)
  let ?i = "idOf (op_G1Pubkey pk)"
  have "registrations_ok idOf ((add_pubkeys ?i a pk s)\<lparr>socketById := m\<rparr>)" for m
    using registrations_ok_add [OF 3(2)] by simp
  from "3.IH" [OF refl refl this] 3(3) show ?case
    by (simp only: add_past_operators.simps Let_def)
qed simp_all

lemma registrations_ok_new:
  "NewOperatorRegistrationsServiceInMemory idOf e1 e2 keys socks = Inr s \<Longrightarrow> registrations_ok idOf s"
  unfolding NewOperatorRegistrationsServiceInMemory_def asyncInit_def startServiceInGoroutine_def
    queryPastRegisteredOperators_def
  using registrations_ok_past [OF registrations_ok_empty] by (auto split: option.splits sum.splits)

lemma ask_maps:
  "addrToId (snd (ask b q s)) = addrToId s" "pubkeysById (snd (ask b q s)) = pubkeysById s"
  "socketById (snd (ask b q s)) = socketById s"
  by (simp_all add: ask_def)

lemma ors_step_ok: "ors_step bl idOf s t \<Longrightarrow> registrations_ok idOf s \<Longrightarrow> registrations_ok idOf t"
proof (induction rule: ors_step.induct)
  case (pubkey s e)
  then show ?case
    by (simp only: onNewPubkeyRegistration_def Let_def registrations_ok_add)
next
  case (socket s operatorId sock)
  then show ?case by (simp add: onOperatorSocketUpdate_def)
next
  case (by_addr s ctxDone addr)
  then show ?case by (simp add: GetOperatorInfo_def)
next
  case (by_id s ctxDone operatorId)
  then show ?case by (simp add: GetOperatorInfoById_def)
qed simp_all

interpretation ors: step_system
  "\<lambda>s. \<exists>e1 e2 keys socks. NewOperatorRegistrationsServiceInMemory idOf e1 e2 keys socks = Inr s"
  "ors_step bl idOf" "registrations_ok idOf" for bl idOf
  by unfold_locales (auto intro: ors_step_ok registrations_ok_new)

text \<open>
  C24. Whatever the registry sends and whatever is asked, an operator that is found by an id has the
  key with that id, and one that is found by an address is the operator whose id the address has: the
  key against which a signature is checked is the key of the operator that the message names.
\<close>

theorem found_key_has_the_id:
  assumes "NewOperatorRegistrationsServiceInMemory idOf e1 e2 keys socks = Inr s" "(ors_step bl idOf)\<^sup>*\<^sup>* s t"
  shows "(fst (GetOperatorInfoById ctxDone operatorId t) = Inr (info, True) \<longrightarrow>
      idOf (op_G1Pubkey (oi_Pubkeys info)) = operatorId) \<and>
    (fst (GetOperatorInfo ctxDone addr t) = Inr (info', True) \<longrightarrow>
      (\<exists>i. gget (addrToId t) addr = Some i \<and> idOf (op_G1Pubkey (oi_Pubkeys info')) = i))"
proof -
  have "registrations_ok idOf t"
    using ors.reachable_good [OF _ assms(2)] assms(1) by blast
  then show ?thesis
    by (auto simp: GetOperatorInfoById_def GetOperatorInfo_def ask_def onQueryById_def onQueryByAddr_def
        registrations_ok_def gget_or_def Let_def split: if_splits)
qed


text \<open>An operator that is found stays found, and its registration and its socket make it found.\<close>

definition known :: "OperatorId \<Rightarrow> OperatorRegistrationsServiceInMemory \<Rightarrow> bool" where
  "known i s \<longleftrightarrow> gget (pubkeysById s) i \<noteq> None \<and> gget (socketById s) i \<noteq> None"

lemma known_step: "ors_step bl idOf s t \<Longrightarrow> known i s \<Longrightarrow> known i t"
proof (induction rule: ors_step.induct)
  case (by_addr s ctxDone addr)
  then show ?case by (simp add: known_def GetOperatorInfo_def ask_maps)
next
  case (by_id s ctxDone operatorId)
  then show ?case by (simp add: known_def GetOperatorInfoById_def ask_maps)
qed (auto simp: known_def onNewPubkeyRegistration_def onOperatorSocketUpdate_def add_pubkeys_def gget_gput Let_def)


section \<open>Witnesses\<close>

definition sample_id :: "G1Point option \<Rightarrow> OperatorId" where
  "sample_id p = (case p of None \<Rightarrow> zero32 | Some q \<Rightarrow> be_bytes 32 (nat (g1_X q)))"

definition sample_pubkeys :: OperatorPubkeys where
  "sample_pubkeys = \<lparr>op_G1Pubkey = Some \<lparr>g1_X = 1, g1_Y = 2\<rparr>, op_G2Pubkey = None\<rparr>"

definition sample_registrations :: OperatorRegistrationsServiceInMemory where
  "sample_registrations =
     \<lparr>idToAddr = [(be_bytes 32 1, [7])], addrToId = [([7], be_bytes 32 1)],
      pubkeysById = [(be_bytes 32 1, sample_pubkeys)], socketById = [(be_bytes 32 1, ''host:1'')],
      ors_loop = Serving\<rparr>"

lemma sample_registrations_new:
  "NewOperatorRegistrationsServiceInMemory sample_id None None (Inr ([[7]], [sample_pubkeys]))
     (Inr [(be_bytes 32 1, ''host:1'')]) = Inr sample_registrations"
  by (simp add: NewOperatorRegistrationsServiceInMemory_def asyncInit_def startServiceInGoroutine_def
      queryPastRegisteredOperators_def empty_registrations_def add_pubkeys_def sample_id_def sample_pubkeys_def
      sample_registrations_def gget_or_def Let_def)

theorem found_key_has_the_id_witness:
  "fst (GetOperatorInfoById False (be_bytes 32 1) sample_registrations) =
     Inr (\<lparr>oi_Pubkeys = sample_pubkeys, oi_Socket = ''host:1''\<rparr>, True) \<and>
   sample_id (op_G1Pubkey sample_pubkeys) = be_bytes 32 1"
proof -
  have "fst (GetOperatorInfoById False (be_bytes 32 1) sample_registrations) =
     Inr (\<lparr>oi_Pubkeys = sample_pubkeys, oi_Socket = ''host:1''\<rparr>, True)"
    by (simp add: GetOperatorInfoById_def ask_def onQueryById_def gget_or_def sample_registrations_def)
  then show ?thesis
    using found_key_has_the_id [OF sample_registrations_new rtranclp.rtrancl_refl [of "ors_step toy_bls sample_id"],
        of False "be_bytes 32 1" "\<lparr>oi_Pubkeys = sample_pubkeys, oi_Socket = ''host:1''\<rparr>"]
    by simp
qed


definition sample_event :: NewPubkeyRegistration where
  "sample_event = \<lparr>npr_Operator = [7], npr_PubkeyG1 = \<lparr>bn_X = 1, bn_Y = 2\<rparr>,
     npr_PubkeyG2 = \<lparr>bn2_X = (1, 2), bn2_Y = (3, 4)\<rparr>\<rparr>"


end
