(* ===== verification/Chainio.thy ===== *)
theory Chainio
  imports Smt Metrics
begin

text \<open>
  Reading and writing the service's contracts, \<^verbatim>\<open>core/chainio\<close>. The contracts, their generated
  bindings and the transaction manager are parameters: an answer is an error or a result. A
  transaction is a value of \<open>avs_tx\<close>, and the writers return the ones that they have sent.

  \<^verbatim>\<open>GetOperatorSetUpdateDelta\<close> computes with Go's maps, decimal strings and \<^verbatim>\<open>sort.Slice\<close>. The order
  in which \<^verbatim>\<open>range\<close> visits the map is an argument.
\<close>

section \<open>Contract answers\<close>

record QuorumStakeTotals =
  qst_SignedStakeForQuorum :: "int list"
  qst_TotalStakeForQuorum :: "int list"

record task_manager =
  tm_CheckSignatures :: "bytes32 \<Rightarrow> bytes \<Rightarrow> u32 \<Rightarrow> NonSignerStakesAndSignature \<Rightarrow> string + QuorumStakeTotals"
  tm_LastCheckpointToTimestamp :: "string + u64"

record opset_registry =
  osr_GetOperatorSetUpdate :: "u64 \<Rightarrow> string + RollupOperatorsOperator list \<times> RollupOperatorsOperator list"
  osr_OperatorSetUpdateIdToBlockNumber :: "int \<Rightarrow> string + u32"
  osr_GetOperatorSetUpdateCount :: "string + u64"

section \<open>The reader\<close>

definition CheckSignatures ::
  "task_manager \<Rightarrow> bytes \<Rightarrow> Aggregation \<Rightarrow> (string, QuorumStakeTotals) res" where
  "CheckSignatures tm quorumNumbers aggregation =
     bind_err (ExtractBindingMainnet aggregation) (\<lambda>binding.
     (case tm_CheckSignatures tm (mba_MessageDigest aggregation) quorumNumbers
             (ucast (mba_EthBlockNumber aggregation)) binding of
        Inl err \<Rightarrow> Inl (Err err)
      | Inr stakeTotalsPerQuorum \<Rightarrow> Inr stakeTotalsPerQuorum))"

definition GetOperatorSetById :: "opset_registry \<Rightarrow> u64 \<Rightarrow> string + RollupOperatorsOperator list" where
  "GetOperatorSetById reg i =
     (case osr_GetOperatorSetUpdate reg i of
        Inl err \<Rightarrow> Inl err
      | Inr (previousOperatorSet, newOperatorSet) \<Rightarrow> Inr newOperatorSet)"

definition GetOperatorSetUpdateBlock :: "opset_registry \<Rightarrow> u64 \<Rightarrow> string + u32" where
  "GetOperatorSetUpdateBlock reg i = osr_OperatorSetUpdateIdToBlockNumber reg (uint i)"

definition GetNextOperatorSetUpdateId :: "opset_registry \<Rightarrow> string + u64" where
  "GetNextOperatorSetUpdateId reg = osr_GetOperatorSetUpdateCount reg"

definition GetLastCheckpointToTimestamp :: "task_manager \<Rightarrow> string + u64" where
  "GetLastCheckpointToTimestamp tm = tm_LastCheckpointToTimestamp tm"

subsection \<open>The delta of an operator set update\<close>

record operatorUpdate =
  ou_pubkey :: BN254G1Point
  ou_previousWeight :: "int option"
  ou_newWeight :: "int option"

text \<open>\<^verbatim>\<open>big.Int.String\<close> and \<^verbatim>\<open>fmt.Sprintf("%s_%s", X.String(), Y.String())\<close>.\<close>

definition big_String :: "int \<Rightarrow> string" where
  "big_String i = (if i < 0 then CHR ''-'' # sprint_d (nat (- i)) else sprint_d (nat i))"

definition operatorKey :: "BN254G1Point \<Rightarrow> string" where
  "operatorKey p = big_String (bn_X p) @ CHR ''_'' # big_String (bn_Y p)"

definition add_previous ::
  "RollupOperatorsOperator \<Rightarrow> (string, operatorUpdate) gomap \<Rightarrow> (string, operatorUpdate) gomap" where
  "add_previous operator operators =
     gput (operatorKey (roo_Pubkey operator))
       \<lparr>ou_pubkey = roo_Pubkey operator, ou_previousWeight = roo_Weight operator, ou_newWeight = Some 0\<rparr> operators"

definition add_new ::
  "RollupOperatorsOperator \<Rightarrow> (string, operatorUpdate) gomap \<Rightarrow> (string, operatorUpdate) gomap" where
  "add_new operator operators =
     gput (operatorKey (roo_Pubkey operator))
       (case gget operators (operatorKey (roo_Pubkey operator)) of
          Some weights \<Rightarrow> weights\<lparr>ou_newWeight := roo_Weight operator\<rparr>
        | None \<Rightarrow> \<lparr>ou_pubkey = roo_Pubkey operator, ou_previousWeight = Some 0, ou_newWeight = roo_Weight operator\<rparr>)
       operators"

text \<open>The loop over the map; comparing a nil weight dereferences it.\<close>

fun changed_operators :: "(string \<times> operatorUpdate) list \<Rightarrow> (string, RollupOperatorsOperator list) res" where
  "changed_operators [] = Inr []"
| "changed_operators ((key, u) # rest) =
     (case (ou_previousWeight u, ou_newWeight u) of
        (Some p, Some n) \<Rightarrow>
          bind_err (changed_operators rest) (\<lambda>delta.
          Inr (if p \<noteq> n then \<lparr>roo_Pubkey = ou_pubkey u, roo_Weight = ou_newWeight u\<rparr> # delta else delta))
      | _ \<Rightarrow> Inl (Fault NilDereference))"

text \<open>\<^verbatim>\<open>bytes.Compare\<close>.\<close>

fun bytes_Compare :: "bytes \<Rightarrow> bytes \<Rightarrow> int" where
  "bytes_Compare [] [] = 0"
| "bytes_Compare [] (b # bs) = - 1"
| "bytes_Compare (a # as) [] = 1"
| "bytes_Compare (a # as) (b # bs) = (if a < b then - 1 else if a > b then 1 else bytes_Compare as bs)"

text \<open>
  \<^verbatim>\<open>sort.Slice\<close> calls \<open>isLess\<close> with positions and swaps elements: an insertion sort up to twelve
  elements, and other algorithms (\<open>pdq\<close>) above.
\<close>

definition swap :: "nat \<Rightarrow> nat \<Rightarrow> 'a list \<Rightarrow> 'a list" where
  "swap i j xs = xs[i := xs ! j, j := xs ! i]"

fun sift :: "(nat \<Rightarrow> nat \<Rightarrow> bool) \<Rightarrow> nat \<Rightarrow> 'a list \<Rightarrow> 'a list" where
  "sift isLess 0 xs = xs"
| "sift isLess (Suc j) xs = (if isLess (Suc j) j then sift isLess j (swap (Suc j) j xs) else xs)"

definition insertionSort :: "(nat \<Rightarrow> nat \<Rightarrow> bool) \<Rightarrow> 'a list \<Rightarrow> 'a list" where
  "insertionSort isLess xs = fold (sift isLess) [1..<length xs] xs"

definition sort_Slice ::
  "((nat \<Rightarrow> nat \<Rightarrow> bool) \<Rightarrow> 'a list \<Rightarrow> 'a list) \<Rightarrow> (nat \<Rightarrow> nat \<Rightarrow> bool) \<Rightarrow> 'a list \<Rightarrow> 'a list" where
  "sort_Slice pdq isLess xs = (if length xs \<le> 12 then insertionSort isLess xs else pdq isLess xs)"

definition GetOperatorSetUpdateDelta ::
  "codec \<Rightarrow> ((nat \<Rightarrow> nat \<Rightarrow> bool) \<Rightarrow> RollupOperatorsOperator list \<Rightarrow> RollupOperatorsOperator list) \<Rightarrow>
   ((string, operatorUpdate) gomap \<Rightarrow> (string \<times> operatorUpdate) list) \<Rightarrow>
   opset_registry \<Rightarrow> u64 \<Rightarrow> (string, RollupOperatorsOperator list) res" where
  "GetOperatorSetUpdateDelta cd pdq rangeOrder reg i =
     (case osr_GetOperatorSetUpdate reg i of
        Inl err \<Rightarrow> Inl (Err err)
      | Inr (previousOperatorSet, newOperatorSet) \<Rightarrow>
          (let operators = fold add_new newOperatorSet (fold add_previous previousOperatorSet [])
           in bind_err (changed_operators (rangeOrder operators)) (\<lambda>delta.
              bind_err (map_err (\<lambda>operatorDelta. HashBNG1Point cd (roo_Pubkey operatorDelta)) delta)
                (\<lambda>nonSignersPubkeyHashes.
              Inr (sort_Slice pdq
                (\<lambda>i j. bytes_Compare (nonSignersPubkeyHashes ! i) (nonSignersPubkeyHashes ! j) = - 1) delta)))))"

section \<open>The writer\<close>

record CheckpointTask =
  ct_TaskCreatedBlock :: u32
  ct_FromTimestamp :: u64
  ct_ToTimestamp :: u64
  ct_QuorumThreshold :: u32
  ct_QuorumNumbers :: bytes

record CheckpointTaskResponseMetadata =
  ctm_TaskRespondedBlock :: u32
  ctm_HashOfNonSigners :: bytes32

datatype avs_tx =
    TxCreateCheckpointTask u64 u64 u32 bytes
  | TxRespondToCheckpointTask CheckpointTask CheckpointTaskResponseBinding NonSignerStakesAndSignature
  | TxRaiseAndResolveChallenge CheckpointTask CheckpointTaskResponseBinding CheckpointTaskResponseMetadata
      "BN254G1Point list"

text \<open>The answers of the transaction manager and the bindings to one call of a writer.\<close>

record 'log tx_env =
  txe_GetNoSendTxOpts :: "string option"
  txe_assemble :: "avs_tx \<Rightarrow> string option"
  txe_Send :: "avs_tx \<Rightarrow> string + 'log list"
  txe_ParseCheckpointTaskCreated :: "'log \<Rightarrow> string + CheckpointTask \<times> u32"

definition send_tx :: "'log tx_env \<Rightarrow> avs_tx \<Rightarrow> (string, 'log list) res \<times> avs_tx list" where
  "send_tx env tx =
     (case txe_assemble env tx of
        Some err \<Rightarrow> (Inl (Err err), [])
      | None \<Rightarrow> (case txe_Send env tx of Inl err \<Rightarrow> (Inl (Err err), [tx]) | Inr logs \<Rightarrow> (Inr logs, [tx])))"

definition SendNewCheckpointTask ::
  "'log tx_env \<Rightarrow> u64 \<Rightarrow> u64 \<Rightarrow> u8 \<Rightarrow> bytes \<Rightarrow> (string, CheckpointTask \<times> u32) res \<times> avs_tx list" where
  "SendNewCheckpointTask env fromTimestamp toTimestamp quorumThreshold quorumNumbers =
     (case txe_GetNoSendTxOpts env of
        Some err \<Rightarrow> (Inl (Err err), [])
      | None \<Rightarrow>
          (case send_tx env (TxCreateCheckpointTask fromTimestamp toTimestamp (ucast quorumThreshold) quorumNumbers) of
             (Inl err, sent) \<Rightarrow> (Inl err, sent)
           | (Inr logs, sent) \<Rightarrow>
               ((case logs of
                   [] \<Rightarrow> Inl (Fault IndexOutOfRange)
                 | log # _ \<Rightarrow>
                     (case txe_ParseCheckpointTaskCreated env log of
                        Inl err \<Rightarrow> Inl (Err err)
                      | Inr (task, taskIndex) \<Rightarrow> Inr (task, taskIndex))), sent)))"

definition SendAggregatedResponse ::
  "'log tx_env \<Rightarrow> CheckpointTask \<Rightarrow> CheckpointTaskResponse \<Rightarrow> Aggregation \<Rightarrow> (string, 'log list) res \<times> avs_tx list" where
  "SendAggregatedResponse env task taskResponse aggregation =
     (case txe_GetNoSendTxOpts env of
        Some err \<Rightarrow> (Inl (Err err), [])
      | None \<Rightarrow>
          (case ExtractBindingMainnet aggregation of
             Inl e \<Rightarrow> (Inl e, [])
           | Inr binding \<Rightarrow>
               send_tx env (TxRespondToCheckpointTask task (CheckpointTaskResponse_ToBinding taskResponse) binding)))"

definition RaiseChallenge ::
  "'log tx_env \<Rightarrow> CheckpointTask \<Rightarrow> CheckpointTaskResponse \<Rightarrow> CheckpointTaskResponseMetadata \<Rightarrow>
   BN254G1Point list \<Rightarrow> (string, 'log list) res \<times> avs_tx list" where
  "RaiseChallenge env task taskResponse metadata pubkeysOfNonSigningOperators =
     (case txe_GetNoSendTxOpts env of
        Some err \<Rightarrow> (Inl (Err err), [])
      | None \<Rightarrow>
          send_tx env (TxRaiseAndResolveChallenge task (CheckpointTaskResponse_ToBinding taskResponse) metadata
            pubkeysOfNonSigningOperators))"

section \<open>Subscriptions\<close>

text \<open>A watcher of the bindings answers an error or a subscription.\<close>

definition SubscribeToNewTasks :: "(string + 'sub) \<Rightarrow> string + 'sub" where
  "SubscribeToNewTasks watchCheckpointTaskCreated =
     (case watchCheckpointTaskCreated of Inl err \<Rightarrow> Inl err | Inr sub \<Rightarrow> Inr sub)"

definition SubscribeToTaskResponses :: "(string + 'sub) \<Rightarrow> string + 'sub" where
  "SubscribeToTaskResponses watchCheckpointTaskResponded =
     (case watchCheckpointTaskResponded of Inl err \<Rightarrow> Inl err | Inr sub \<Rightarrow> Inr sub)"

definition SubscribeToOperatorSetUpdates :: "(string + 'sub) \<Rightarrow> string + 'sub" where
  "SubscribeToOperatorSetUpdates watchOperatorSetUpdatedAtBlock =
     (case watchOperatorSetUpdatedAtBlock of Inl err \<Rightarrow> Inl err | Inr sub \<Rightarrow> Inr sub)"

section \<open>Operator keys\<close>

lemma digit_less_10:
  assumes "n < 10"
  shows "digit n \<in> set ''0123456789''"
proof -
  have "n \<in> set [0..<10]"
    using assms by simp
  then show ?thesis
    by (simp add: upt_rec digit_def) auto
qed

lemma digit_inj: "m < 10 \<Longrightarrow> n < 10 \<Longrightarrow> digit m = digit n \<Longrightarrow> m = n"
  using nth_eq_iff_index_eq [of "''0123456789abcdef''" "m mod 16" "n mod 16"] by (simp add: digit_def)

lemma sprint_d_digits: "set (sprint_d n) \<subseteq> set ''0123456789''"
proof (induction n rule: sprint_d.induct)
  case (1 n)
  then show ?case
    using digit_less_10 [of n] digit_less_10 [of "n mod 10"] by (subst sprint_d.simps) auto
qed

lemma sprint_d_nonempty: "sprint_d n \<noteq> []"
  by (subst sprint_d.simps) simp

lemma sprint_d_inj: "sprint_d m = sprint_d n \<Longrightarrow> m = n"
proof (induction m arbitrary: n rule: sprint_d.induct)
  case (1 m)
  consider "m < 10" "n < 10" | "m < 10" "\<not> n < 10" | "\<not> m < 10" "n < 10" | "\<not> m < 10" "\<not> n < 10"
    by blast
  then show ?case
  proof cases
    case 1
    then show ?thesis
      using "1.prems" digit_inj by (simp add: sprint_d.simps [of m] sprint_d.simps [of n])
  next
    case 2
    then show ?thesis
      using "1.prems" sprint_d_nonempty [of "n div 10"]
      by (simp add: sprint_d.simps [of m] sprint_d.simps [of n] Cons_eq_append_conv)
  next
    case 3
    then show ?thesis
      using "1.prems" sprint_d_nonempty [of "m div 10"]
      by (simp add: sprint_d.simps [of m] sprint_d.simps [of n] append_eq_Cons_conv)
  next
    case 4
    then have "sprint_d (m div 10) = sprint_d (n div 10)" "digit (m mod 10) = digit (n mod 10)"
      using "1.prems" by (simp_all add: sprint_d.simps [of m] sprint_d.simps [of n])
    then have "m div 10 = n div 10" "m mod 10 = n mod 10"
      using "1.IH" [OF 4(1)] digit_inj by auto
    then show ?thesis
      by (metis div_mult_mod_eq)
  qed
qed

lemma minus_not_sprint_d: "CHR ''-'' # xs \<noteq> sprint_d n"
proof
  assume "CHR ''-'' # xs = sprint_d n"
  then have "CHR ''-'' \<in> set (sprint_d n)"
    by (metis list.set_intros(1))
  then show False
    using sprint_d_digits [of n] by auto
qed

lemma big_String_inj: "big_String i = big_String j \<Longrightarrow> i = j"
  using minus_not_sprint_d minus_not_sprint_d [symmetric]
  by (auto simp: big_String_def dest!: sprint_d_inj split: if_splits)

lemma big_String_chars: "CHR ''_'' \<notin> set (big_String i)"
  using sprint_d_digits [of "nat i"] sprint_d_digits [of "nat (- i)"] by (auto simp: big_String_def)

lemma operatorKey_inj: "operatorKey p = operatorKey q \<longleftrightarrow> p = q"
  using big_String_chars
  by (auto simp: operatorKey_def append_Cons_eq_iff dest!: big_String_inj intro: BN254G1Point.equality)

section \<open>The delta is the difference of the operator sets\<close>

definition weights :: "RollupOperatorsOperator list \<Rightarrow> (BN254G1Point \<times> int option) list" where
  "weights ops = map (\<lambda>op. (roo_Pubkey op, roo_Weight op)) ops"

text \<open>The weight of a key in an operator set; a key that is not in the set has weight zero.\<close>

definition weight_in :: "RollupOperatorsOperator list \<Rightarrow> BN254G1Point \<Rightarrow> int option" where
  "weight_in ops p = (case gget (weights ops) p of None \<Rightarrow> Some 0 | Some w \<Rightarrow> w)"

lemma weights_Nil [simp]: "weights [] = []"
  by (simp add: weights_def)

lemma weights_Cons [simp]: "weights (op # ops) = (roo_Pubkey op, roo_Weight op) # weights ops"
  by (simp add: weights_def)

lemma weights_None [simp]: "p \<notin> roo_Pubkey ` set ops \<Longrightarrow> gget (weights ops) p = None"
  by (auto simp: weights_def map_of_eq_None_iff)

lemma weight_in_Some: "\<forall>op \<in> set ops. roo_Weight op \<noteq> None \<Longrightarrow> weight_in ops p \<noteq> None"
  by (induction ops) (auto simp: weight_in_def split: option.splits if_splits)

lemma gget_add_previous:
  "gget (add_previous op m) (operatorKey p) =
     (if p = roo_Pubkey op
      then Some \<lparr>ou_pubkey = p, ou_previousWeight = roo_Weight op, ou_newWeight = Some 0\<rparr>
      else gget m (operatorKey p))"
  by (auto simp: add_previous_def gget_gput operatorKey_inj)

lemma gget_add_new:
  "gget (add_new op m) (operatorKey p) =
     (if p = roo_Pubkey op
      then (case gget m (operatorKey p) of
              Some u \<Rightarrow> Some (u\<lparr>ou_newWeight := roo_Weight op\<rparr>)
            | None \<Rightarrow> Some \<lparr>ou_pubkey = p, ou_previousWeight = Some 0, ou_newWeight = roo_Weight op\<rparr>)
      else gget m (operatorKey p))"
  by (auto simp: add_new_def gget_gput operatorKey_inj split: option.splits)

lemma gget_previous:
  "distinct (map roo_Pubkey ops) \<Longrightarrow>
     gget (fold add_previous ops m) (operatorKey p) =
       (case gget (weights ops) p of
          Some w \<Rightarrow> Some \<lparr>ou_pubkey = p, ou_previousWeight = w, ou_newWeight = Some 0\<rparr>
        | None \<Rightarrow> gget m (operatorKey p))"
proof (induction ops arbitrary: m)
  case Nil
  then show ?case by simp
next
  case (Cons op ops)
  then show ?case
    by (cases "p = roo_Pubkey op") (auto simp: gget_add_previous split: option.splits)
qed

lemma gget_new:
  "distinct (map roo_Pubkey ops) \<Longrightarrow>
     gget (fold add_new ops m) (operatorKey p) =
       (case gget (weights ops) p of
          Some w \<Rightarrow>
            (case gget m (operatorKey p) of
               Some u \<Rightarrow> Some (u\<lparr>ou_newWeight := w\<rparr>)
             | None \<Rightarrow> Some \<lparr>ou_pubkey = p, ou_previousWeight = Some 0, ou_newWeight = w\<rparr>)
        | None \<Rightarrow> gget m (operatorKey p))"
proof (induction ops arbitrary: m)
  case Nil
  then show ?case by simp
next
  case (Cons op ops)
  then show ?case
    by (cases "p = roo_Pubkey op") (auto simp: gget_add_new split: option.splits)
qed

text \<open>Every entry stands at the key of its own point.\<close>

definition keyed :: "(string, operatorUpdate) gomap \<Rightarrow> bool" where
  "keyed m \<longleftrightarrow> gmap_ok m \<and> (\<forall>k u. gget m k = Some u \<longrightarrow> k = operatorKey (ou_pubkey u))"

lemma keyedD: "keyed m \<Longrightarrow> gget m (operatorKey p) = Some u \<Longrightarrow> ou_pubkey u = p"
  using operatorKey_inj [of p "ou_pubkey u"] unfolding keyed_def by simp

lemma keyed_mem:
  assumes "keyed m" "u \<in> snd ` set m"
  shows "gget m (operatorKey (ou_pubkey u)) = Some u"
proof -
  obtain k where "(k, u) \<in> set m"
    using assms(2) by force
  then have "gget m k = Some u"
    using assms(1) by (simp add: keyed_def gget_iff_mem)
  moreover from this have "k = operatorKey (ou_pubkey u)"
    using assms(1) unfolding keyed_def by blast
  ultimately show ?thesis
    by simp
qed

lemma keyed_distinct:
  assumes "keyed m"
  shows "distinct (map (ou_pubkey \<circ> snd) m)"
proof -
  have "operatorKey (ou_pubkey (snd e)) = fst e" if "e \<in> set m" for e
    using assms that unfolding keyed_def by (cases e) (auto simp: gget_iff_mem)
  then have "map operatorKey (map (ou_pubkey \<circ> snd) m) = map fst m"
    by simp
  then show ?thesis
    using assms unfolding keyed_def by (metis distinct_map)
qed

lemma keyed_gput: "keyed m \<Longrightarrow> ou_pubkey u = p \<Longrightarrow> keyed (gput (operatorKey p) u m)"
  by (auto simp: keyed_def gget_gput)

lemma keyed_previous: "keyed m \<Longrightarrow> keyed (fold add_previous ops m)"
  by (induction ops arbitrary: m) (simp_all add: add_previous_def keyed_gput)

lemma keyed_new: "keyed m \<Longrightarrow> keyed (fold add_new ops m)"
proof (induction ops arbitrary: m)
  case Nil
  then show ?case by simp
next
  case (Cons op ops)
  have "keyed (add_new op m)"
    unfolding add_new_def using Cons.prems
    by (intro keyed_gput) (auto dest: keyedD split: option.splits)
  then show ?case
    using Cons.IH by simp
qed

lemma changed_operators_spec:
  assumes "\<forall>(k, u) \<in> set es. ou_previousWeight u \<noteq> None \<and> ou_newWeight u \<noteq> None"
  shows "changed_operators es =
    Inr (map (\<lambda>(k, u). \<lparr>roo_Pubkey = ou_pubkey u, roo_Weight = ou_newWeight u\<rparr>)
      (filter (\<lambda>(k, u). ou_previousWeight u \<noteq> ou_newWeight u) es))"
  using assms by (induction es) auto

lemma mset_sift: "j < length xs \<Longrightarrow> mset (sift isLess j xs) = mset xs"
proof (induction isLess j xs rule: sift.induct)
  case (2 isLess j xs)
  have "mset (swap (Suc j) j xs) = mset xs" "length (swap (Suc j) j xs) = length xs"
    using 2(2) by (simp_all add: swap_def mset_swap)
  then show ?case
    using 2 by simp
qed simp

lemma length_sift [simp]: "length (sift isLess j xs) = length xs"
  by (induction isLess j xs rule: sift.induct) (auto simp: swap_def)

lemma mset_insertionSort: "mset (insertionSort isLess xs) = mset xs"
proof -
  have "mset (fold (sift isLess) is ys) = mset ys" if "\<forall>i \<in> set is. i < length ys" for "is" and ys :: "'a list"
    using that by (induction "is" arbitrary: ys) (auto simp: mset_sift)
  then show ?thesis
    unfolding insertionSort_def by simp
qed

lemma mset_sort_Slice:
  "(\<And>l ys. mset (pdq l ys) = mset ys) \<Longrightarrow> mset (sort_Slice pdq isLess xs) = mset xs"
  by (simp add: sort_Slice_def mset_insertionSort)

lemma map_err_ok: "(\<And>x. \<exists>y. f x = Inr y) \<Longrightarrow> \<exists>ys. map_err f xs = Inr ys"
  by (induction xs) (simp, metis bind_err_simps(2) map_err.simps(2))

text \<open>The entries of the map after both loops.\<close>

lemma operators_entries:
  assumes "distinct (map roo_Pubkey prev)" "distinct (map roo_Pubkey new)"
    and "u \<in> snd ` set (fold add_new new (fold add_previous prev []))"
  shows "ou_previousWeight u = weight_in prev (ou_pubkey u)" "ou_newWeight u = weight_in new (ou_pubkey u)"
proof -
  let ?m = "fold add_new new (fold add_previous prev [])"
  have k: "keyed ?m"
    by (intro keyed_new keyed_previous) (simp add: keyed_def)
  then have "gget ?m (operatorKey (ou_pubkey u)) = Some u"
    using assms(3) by (rule keyed_mem)
  then show "ou_previousWeight u = weight_in prev (ou_pubkey u)" "ou_newWeight u = weight_in new (ou_pubkey u)"
    using assms(1,2) by (cases u; auto simp: gget_new gget_previous weight_in_def split: option.splits)+
qed

lemma operators_complete:
  assumes "distinct (map roo_Pubkey prev)" "distinct (map roo_Pubkey new)"
    and "weight_in prev p \<noteq> weight_in new p"
  shows "\<exists>u \<in> snd ` set (fold add_new new (fold add_previous prev [])). ou_pubkey u = p"
proof -
  let ?m = "fold add_new new (fold add_previous prev [])"
  have k: "keyed ?m"
    by (intro keyed_new keyed_previous) (simp add: keyed_def)
  have "gget ?m (operatorKey p) \<noteq> None"
    using assms by (auto simp: gget_new gget_previous weight_in_def split: option.splits)
  then obtain u where u: "gget ?m (operatorKey p) = Some u"
    by blast
  have "ou_pubkey u = p"
    by (rule keyedD [OF k u])
  then show ?thesis
    using map_of_SomeD [OF u] by force
qed

text \<open>
  C27. The delta of an operator set update has exactly the operators whose weight changes, once each,
  with their new weight, which is zero for an operator that leaves: so the delta turns the previous
  operator set into the new one, whatever the order in which the map is visited.
\<close>

theorem delta_is_the_difference:
  assumes "osr_GetOperatorSetUpdate reg i = Inr (prev, new)"
    and "distinct (map roo_Pubkey prev)" "distinct (map roo_Pubkey new)"
    and "\<forall>op \<in> set prev \<union> set new. roo_Weight op \<noteq> None"
    and "\<And>m. mset (rangeOrder m) = mset m" "\<And>l ys. mset (pdq l ys) = mset ys"
    and "\<And>p. \<exists>h. HashBNG1Point cd p = Inr h"
  shows "\<exists>delta. GetOperatorSetUpdateDelta cd pdq rangeOrder reg i = Inr delta \<and>
    distinct (map roo_Pubkey delta) \<and>
    (\<forall>p w. \<lparr>roo_Pubkey = p, roo_Weight = w\<rparr> \<in> set delta \<longleftrightarrow> weight_in prev p \<noteq> w \<and> weight_in new p = w)"
proof -
  define m where "m = fold add_new new (fold add_previous prev [])"
  define op where "op u = \<lparr>roo_Pubkey = ou_pubkey u, roo_Weight = ou_newWeight u\<rparr>" for u :: operatorUpdate
  define ch where "ch = filter (\<lambda>(k, u). ou_previousWeight u \<noteq> ou_newWeight u) (rangeOrder m)"
  have k: "keyed m"
    unfolding m_def by (intro keyed_new keyed_previous) (simp add: keyed_def)
  note entries = operators_entries [OF assms(2,3), folded m_def]
  have ord: "mset (rangeOrder m) = mset m"
    by (rule assms(5))
  then have sets: "set (rangeOrder m) = set m"
    by (rule mset_eq_setD)
  have w: "weight_in prev p \<noteq> None" "weight_in new p \<noteq> None" for p
    using assms(4) by (intro weight_in_Some; blast)+
  have "ou_previousWeight u \<noteq> None \<and> ou_newWeight u \<noteq> None" if "(k, u) \<in> set m" for k u
    using entries [of u] w that by force
  then have "\<forall>(k, u) \<in> set (rangeOrder m). ou_previousWeight u \<noteq> None \<and> ou_newWeight u \<noteq> None"
    unfolding sets by blast
  then have "changed_operators (rangeOrder m) = Inr (map (op \<circ> snd) ch)"
    unfolding ch_def by (subst changed_operators_spec) (auto simp: op_def)
  moreover obtain hs where "map_err (\<lambda>op. HashBNG1Point cd (roo_Pubkey op)) (map (op \<circ> snd) ch) = Inr hs"
    using map_err_ok [of "\<lambda>op. HashBNG1Point cd (roo_Pubkey op)"] assms(7) by blast
  ultimately obtain l where delta:
    "GetOperatorSetUpdateDelta cd pdq rangeOrder reg i = Inr (sort_Slice pdq l (map (op \<circ> snd) ch))"
    using assms(1) by (auto simp: GetOperatorSetUpdateDelta_def Let_def m_def)
  have ms: "mset (sort_Slice pdq l (map (op \<circ> snd) ch)) = mset (map (op \<circ> snd) ch)"
    by (rule mset_sort_Slice) (rule assms(6))
  have "distinct (map (ou_pubkey \<circ> snd) m)"
    by (rule keyed_distinct [OF k])
  then have "distinct (map (ou_pubkey \<circ> snd) (rangeOrder m))"
    using distinct_map_mset [OF ord] by blast
  then have "distinct (map (ou_pubkey \<circ> snd) ch)"
    unfolding ch_def by (rule distinct_map_filter)
  moreover have "map roo_Pubkey (map (op \<circ> snd) ch) = map (ou_pubkey \<circ> snd) ch"
    by (simp add: op_def)
  ultimately have dist: "distinct (map roo_Pubkey (sort_Slice pdq l (map (op \<circ> snd) ch)))"
    using distinct_map_mset [OF ms, of roo_Pubkey] by (simp only:)
  have mem: "x \<in> set (sort_Slice pdq l (map (op \<circ> snd) ch)) \<longleftrightarrow>
      (\<exists>u \<in> snd ` set m. ou_previousWeight u \<noteq> ou_newWeight u \<and> x = op u)" for x
  proof -
    have "set ch = {e \<in> set m. ou_previousWeight (snd e) \<noteq> ou_newWeight (snd e)}"
      unfolding ch_def set_filter sets by auto
    then show ?thesis
      unfolding mset_eq_setD [OF ms] by auto
  qed
  have "\<lparr>roo_Pubkey = p, roo_Weight = w\<rparr> \<in> set (sort_Slice pdq l (map (op \<circ> snd) ch)) \<longleftrightarrow>
      weight_in prev p \<noteq> w \<and> weight_in new p = w" for p w
  proof
    assume "weight_in prev p \<noteq> w \<and> weight_in new p = w"
    moreover from this obtain u where "u \<in> snd ` set m" "ou_pubkey u = p"
      using operators_complete [OF assms(2,3), of p] unfolding m_def by blast
    ultimately show "\<lparr>roo_Pubkey = p, roo_Weight = w\<rparr> \<in> set (sort_Slice pdq l (map (op \<circ> snd) ch))"
      unfolding mem using entries [of u] by (intro bexI [of _ u]) (simp_all add: op_def)
  next
    assume "\<lparr>roo_Pubkey = p, roo_Weight = w\<rparr> \<in> set (sort_Slice pdq l (map (op \<circ> snd) ch))"
    then obtain u where "u \<in> snd ` set m" "ou_previousWeight u \<noteq> ou_newWeight u" "p = ou_pubkey u" "w = ou_newWeight u"
      unfolding mem by (auto simp: op_def)
    then show "weight_in prev p \<noteq> w \<and> weight_in new p = w"
      using entries [of u] by simp
  qed
  then show ?thesis
    using delta dist by (intro exI conjI allI) assumption+
qed

section \<open>Witnesses\<close>

text \<open>A codec whose hash is the first coordinate of the point.\<close>

definition first_coordinate :: codec where
  "first_coordinate =
     \<lparr>abiPack = \<lambda>vs. (case vs of [AbiTuple [AbiUint _ (Some x), _]] \<Rightarrow> Inr [word_of_int x] | _ \<Rightarrow> Inr []),
      legacyKeccak256 = \<lambda>bs. bs @ replicate 32 0\<rparr>"

definition operator_at :: "int \<Rightarrow> int \<Rightarrow> RollupOperatorsOperator" where
  "operator_at x w = \<lparr>roo_Pubkey = \<lparr>bn_X = x, bn_Y = 0\<rparr>, roo_Weight = Some w\<rparr>"

text \<open>Three operators join in the order 3, 1, 2.\<close>

definition three_join :: opset_registry where
  "three_join =
     \<lparr>osr_GetOperatorSetUpdate = \<lambda>_. Inr ([], [operator_at 3 1, operator_at 1 1, operator_at 2 1]),
      osr_OperatorSetUpdateIdToBlockNumber = \<lambda>_. Inr 1, osr_GetOperatorSetUpdateCount = Inr 1\<rparr>"

lemma first_coordinate_hash:
  "HashBNG1Point first_coordinate p = Inr (word_of_int (bn_X p) # replicate 31 0)"
  by (simp add: HashBNG1Point_def first_coordinate_def Keccak256_def numeral_eq_Suc)

theorem delta_is_the_difference_witness:
  "\<exists>delta. GetOperatorSetUpdateDelta first_coordinate (\<lambda>_ ys. ys) (\<lambda>m. m) three_join 0 = Inr delta \<and>
     operator_at 3 1 \<in> set delta"
proof -
  have "\<exists>delta. GetOperatorSetUpdateDelta first_coordinate (\<lambda>_ ys. ys) (\<lambda>m. m) three_join 0 = Inr delta \<and>
    distinct (map roo_Pubkey delta) \<and>
    (\<forall>p w. \<lparr>roo_Pubkey = p, roo_Weight = w\<rparr> \<in> set delta \<longleftrightarrow> weight_in [] p \<noteq> w \<and>
       weight_in [operator_at 3 1, operator_at 1 1, operator_at 2 1] p = w)"
    by (rule delta_is_the_difference) (simp_all add: three_join_def operator_at_def first_coordinate_hash)
  then show ?thesis
    by (auto simp: operator_at_def weight_in_def)
qed


text \<open>
  Creating a task reads the first log of the receipt without looking at their number: a receipt
  without logs, as a reverted transaction has, ends the caller with an index panic after the
  transaction was sent.
\<close>

theorem receipt_without_logs_panics:
  assumes "txe_GetNoSendTxOpts env = None" "\<And>tx. txe_assemble env tx = None" "\<And>tx. txe_Send env tx = Inr []"
  shows "SendNewCheckpointTask env fromTimestamp toTimestamp threshold quorumNumbers =
    (Inl (Fault IndexOutOfRange), [TxCreateCheckpointTask fromTimestamp toTimestamp (ucast threshold) quorumNumbers])"
  using assms by (simp add: SendNewCheckpointTask_def send_tx_def)

theorem receipt_without_logs_panics_witness:
  "fst (SendNewCheckpointTask (\<lparr>txe_GetNoSendTxOpts = None, txe_assemble = \<lambda>_. None, txe_Send = \<lambda>_. Inr [],
     txe_ParseCheckpointTaskCreated = \<lambda>_. Inl ''''\<rparr> :: unit tx_env) 1 2 66 [0]) = Inl (Fault IndexOutOfRange)"
  by (subst receipt_without_logs_panics) simp_all

end
