(* ===== verification/SafeClient.thy ===== *)
theory SafeClient
  imports Metrics
begin

text \<open>
  The Ethereum client that survives lost connections, \<^verbatim>\<open>core/safeclient\<close>: it subscribes again when a
  subscription ends or is silent for too long, fetches the logs that were missed in the meantime and
  delivers every log once.

  The underlying client, the LRU cache of the log hashes, SHA-256 and RLP are parameters. Subscriptions
  are numbered; the ones that are open at the underlying client are part of the state. The goroutine of
  a subscription is a step relation over the events of its \<^verbatim>\<open>select\<close>. The loop that fetches missed
  logs may run forever, so it is a partial function, and its result is \<open>None\<close> when it does.
\<close>

section \<open>The client and its options\<close>

definition BLOCK_CHUNK_SIZE :: u64 where
  "BLOCK_CHUNK_SIZE = 100"

definition BLOCK_MAX_RANGE :: u64 where
  "BLOCK_MAX_RANGE = 100"

definition LOG_RESUB_INTERVAL :: duration where
  "LOG_RESUB_INTERVAL = 5 * 60 * 1000000000"

definition HEADER_TIMEOUT :: duration where
  "HEADER_TIMEOUT = 30 * 1000000000"

record 'cl SafeEthClient =
  sec_Client :: "'cl option"
  sec_rpcUrl :: string
  closeC :: bool
  headerTimeout :: duration
  logResubInterval :: duration
  blockChunkSize :: u64
  blockMaxRange :: u64
  createClient :: "string \<Rightarrow> string + 'cl"

type_synonym 'cl SafeEthClientOption = "'cl SafeEthClient \<Rightarrow> 'cl SafeEthClient"

definition createDefaultClient :: "(string \<Rightarrow> string + 'cl) \<Rightarrow> string \<Rightarrow> string + 'cl" where
  "createDefaultClient newClient rpcUrl = (case newClient rpcUrl of Inl err \<Rightarrow> Inl err | Inr client \<Rightarrow> Inr client)"

definition createInstrumentedClient ::
  "('col \<Rightarrow> string \<Rightarrow> string + 'cl) \<Rightarrow> 'col \<Rightarrow> string \<Rightarrow> string + 'cl" where
  "createInstrumentedClient newInstrumentedClient collector rpcUrl =
     (case newInstrumentedClient collector rpcUrl of Inl err \<Rightarrow> Inl err | Inr client \<Rightarrow> Inr client)"

definition WithLogResubInterval :: "duration \<Rightarrow> 'cl SafeEthClientOption" where
  "WithLogResubInterval interval c = c\<lparr>logResubInterval := interval\<rparr>"

definition WithHeaderTimeout :: "duration \<Rightarrow> 'cl SafeEthClientOption" where
  "WithHeaderTimeout timeout c = c\<lparr>headerTimeout := timeout\<rparr>"

definition WithLogFilteringParams :: "u64 \<Rightarrow> u64 \<Rightarrow> 'cl SafeEthClientOption" where
  "WithLogFilteringParams chunkSize maxRange c = c\<lparr>blockChunkSize := chunkSize, blockMaxRange := maxRange\<rparr>"

definition WithInstrumentedCreateClient ::
  "('col \<Rightarrow> string \<Rightarrow> string + 'cl) \<Rightarrow> 'col \<Rightarrow> 'cl SafeEthClientOption" where
  "WithInstrumentedCreateClient newInstrumentedClient collector c =
     c\<lparr>createClient := createInstrumentedClient newInstrumentedClient collector\<rparr>"

definition WithCustomCreateClient :: "(string \<Rightarrow> string + 'cl) \<Rightarrow> 'cl SafeEthClientOption" where
  "WithCustomCreateClient f c = c\<lparr>createClient := f\<rparr>"

definition NewSafeEthClient ::
  "(string \<Rightarrow> string + 'cl) \<Rightarrow> string \<Rightarrow> 'cl SafeEthClientOption list \<Rightarrow> string + 'cl SafeEthClient" where
  "NewSafeEthClient newClient rpcUrl opts =
     (let c = fold (\<lambda>opt c. opt c) opts
            \<lparr>sec_Client = None, sec_rpcUrl = rpcUrl, closeC = False, headerTimeout = HEADER_TIMEOUT,
             logResubInterval = LOG_RESUB_INTERVAL, blockChunkSize = BLOCK_CHUNK_SIZE,
             blockMaxRange = BLOCK_MAX_RANGE, createClient = createDefaultClient newClient\<rparr>
      in case createClient c rpcUrl of
           Inl err \<Rightarrow> Inl err
         | Inr client \<Rightarrow> Inr (c\<lparr>sec_Client := Some client\<rparr>))"

text \<open>
  \<^verbatim>\<open>core.CreateEthClientWithCollector\<close>: with metrics the client is instrumented with a collector for the
  identifier followed by the URL.
\<close>

definition CreateEthClientWithCollector ::
  "(string \<Rightarrow> string + 'cl) \<Rightarrow> ('col \<Rightarrow> string \<Rightarrow> string + 'cl) \<Rightarrow> (string \<Rightarrow> 'col) \<Rightarrow> string \<Rightarrow> string \<Rightarrow> bool \<Rightarrow>
   string + 'cl SafeEthClient" where
  "CreateEthClientWithCollector newClient newInstrumentedClient newCollector ident url enableMetrics =
     (if enableMetrics
      then NewSafeEthClient newClient url [WithInstrumentedCreateClient newInstrumentedClient (newCollector (ident @ url))]
      else NewSafeEthClient newClient url [])"

text \<open>\<^verbatim>\<open>sync.Once\<close> runs the body once; the goroutines then see the closed channel.\<close>

definition SafeEthClient_Close :: "'cl SafeEthClient \<Rightarrow> 'cl SafeEthClient" where
  "SafeEthClient_Close c = (if closeC c then c else c\<lparr>closeC := True\<rparr>)"

definition GetClientAndVersion :: "string option \<Rightarrow> (string + string) \<Rightarrow> string \<times> string option" where
  "GetClientAndVersion dialErr call =
     (case dialErr of
        Some err \<Rightarrow> ('''', Some err)
      | None \<Rightarrow> (case call of Inl err \<Rightarrow> (''unavailable'', None) | Inr clientVersion \<Rightarrow> (clientVersion, None)))"

section \<open>Subscriptions\<close>

text \<open>
  \<open>open_subs\<close> are the subscriptions that are open at the underlying client. Closing a closed channel
  panics.
\<close>

record SafeSubscription =
  underlying :: nat
  unsubscribed :: bool
  errC_closed :: bool
  open_subs :: "nat list"

definition NewSafeSubscription :: "nat \<Rightarrow> SafeSubscription" where
  "NewSafeSubscription sub = \<lparr>underlying = sub, unsubscribed = False, errC_closed = False, open_subs = [sub]\<rparr>"

definition Unsubscribe :: "SafeSubscription \<Rightarrow> (string, SafeSubscription) res" where
  "Unsubscribe s =
     (if unsubscribed s then Inr s
      else
        (let s1 = s\<lparr>open_subs := remove1 (underlying s) (open_subs s), unsubscribed := True\<rparr>
         in if errC_closed s1 then Inl (Fault (PanicCall ''close of closed channel''))
            else Inr (s1\<lparr>errC_closed := True\<rparr>)))"

definition SetUnderlyingSub :: "nat \<Rightarrow> SafeSubscription \<Rightarrow> SafeSubscription" where
  "SetUnderlyingSub sub s =
     s\<lparr>open_subs := sub # remove1 (underlying s) (open_subs s), underlying := sub\<rparr>"

section \<open>Logs\<close>

record Log =
  log_Address :: bytes
  log_Topics :: "bytes32 list"
  log_Data :: bytes
  log_BlockNumber :: u64
  log_TxHash :: bytes32
  log_BlockHash :: bytes32
  log_Index :: u64

text \<open>\<^verbatim>\<open>big.Int.Bytes\<close>: big-endian without leading zeros.\<close>

definition big_Bytes :: "nat \<Rightarrow> bytes" where
  "big_Bytes n = dropWhile (\<lambda>b. b = 0) (be_bytes 8 n)"

definition hashLog :: "(bytes \<Rightarrow> bytes32) \<Rightarrow> (Log \<Rightarrow> bytes) \<Rightarrow> Log \<Rightarrow> bytes32" where
  "hashLog sha256 encodeRLP log =
     sha256 (encodeRLP log @ log_BlockHash log @ log_TxHash log @ big_Bytes (unat (log_Index log)))"

text \<open>
  One call of the underlying client's \<^verbatim>\<open>BlockNumber\<close> and its \<^verbatim>\<open>FilterLogs\<close> for the addresses and topics
  of the query, by the two block numbers; the cache, with \<^verbatim>\<open>ContainsOrAdd\<close>.
\<close>

record log_client =
  lc_BlockNumber :: "string + u64"
  lc_FilterLogs :: "int \<Rightarrow> int \<Rightarrow> string + Log list"
  lc_Subscribe :: "string + nat"

type_synonym 'c cache = "bytes32 \<Rightarrow> 'c \<Rightarrow> bool \<times> 'c"

record 'c log_sub =
  ls_sub :: SafeSubscription
  ls_cache :: 'c
  ls_lastBlock :: u64
  ls_sent :: "Log list"
  ls_ended :: bool

partial_function (option) filter_loop ::
  "(int \<Rightarrow> int \<Rightarrow> string + Log list) \<Rightarrow> u64 \<Rightarrow> u64 \<Rightarrow> u64 \<Rightarrow> Log list \<Rightarrow> (string + Log list) option" where
  "filter_loop filterLogs chunkSize fromBlock currentBlock missedLogs =
     (if fromBlock \<le> currentBlock then
        (let toBlock = min (fromBlock + chunkSize - 1) currentBlock
         in case filterLogs (sint fromBlock) (sint toBlock) of
              Inl err \<Rightarrow> Some (Inl err)
            | Inr logs \<Rightarrow>
                filter_loop filterLogs chunkSize (fromBlock + chunkSize) currentBlock (missedLogs @ logs))
      else Some (Inr missedLogs))"

definition range_start :: "u64 \<Rightarrow> u64 \<Rightarrow> u64" where
  "range_start maxRange currentBlock = (if maxRange > currentBlock then 0 else currentBlock - maxRange)"

definition resubFilterLogs ::
  "'cl SafeEthClient \<Rightarrow> log_client \<Rightarrow> u64 \<Rightarrow> (string + Log list) option" where
  "resubFilterLogs c lc lastBlock =
     (case lc_BlockNumber lc of
        Inl err \<Rightarrow> Some (Inl err)
      | Inr currentBlock \<Rightarrow>
          if lastBlock \<ge> currentBlock then Some (Inr [])
          else
            (let fromBlock = max lastBlock (range_start (blockMaxRange c) currentBlock + 1)
             in filter_loop (lc_FilterLogs lc) (blockChunkSize c) fromBlock currentBlock []))"

text \<open>\<^verbatim>\<open>tryCacheLog\<close> and the send of a log that was not in the cache.\<close>

definition deliver :: "'c cache \<Rightarrow> (Log \<Rightarrow> bytes32) \<Rightarrow> Log \<Rightarrow> 'c log_sub \<Rightarrow> 'c log_sub" where
  "deliver containsOrAdd hash log s =
     (case containsOrAdd (hash log) (ls_cache s) of
        (ok, cache') \<Rightarrow>
          (let s1 = s\<lparr>ls_cache := cache'\<rparr>
           in if \<not> ok then s1\<lparr>ls_lastBlock := max (ls_lastBlock s) (log_BlockNumber log), ls_sent := ls_sent s @ [log]\<rparr>
              else s1))"

definition resub ::
  "'c cache \<Rightarrow> (Log \<Rightarrow> bytes32) \<Rightarrow> 'cl SafeEthClient \<Rightarrow> log_client \<Rightarrow> 'c log_sub \<Rightarrow> (string option \<times> 'c log_sub) option" where
  "resub containsOrAdd hash c lc s =
     (case lc_Subscribe lc of
        Inl err \<Rightarrow> Some (Some err, s)
      | Inr newSub \<Rightarrow>
          (let s1 = s\<lparr>ls_sub := SetUnderlyingSub newSub (ls_sub s)\<rparr>
           in case resubFilterLogs c lc (ls_lastBlock s1) of
                None \<Rightarrow> None
              | Some (Inl err) \<Rightarrow> Some (Some err, s1)
              | Some (Inr missedLogs) \<Rightarrow> Some (None, fold (deliver containsOrAdd hash) missedLogs s1)))"

text \<open>The call itself: the two first answers of the underlying client and an empty cache.\<close>

definition SubscribeFilterLogs ::
  "(string + 'c) \<Rightarrow> log_client \<Rightarrow> string + 'c log_sub" where
  "SubscribeFilterLogs newCache lc =
     (case newCache of
        Inl err \<Rightarrow> Inl err
      | Inr logCache \<Rightarrow>
          (case lc_BlockNumber lc of
             Inl err \<Rightarrow> Inl err
           | Inr currentBlock \<Rightarrow>
               (case lc_Subscribe lc of
                  Inl err \<Rightarrow> Inl err
                | Inr newSub \<Rightarrow>
                    Inr \<lparr>ls_sub = NewSafeSubscription newSub, ls_cache = logCache, ls_lastBlock = currentBlock,
                         ls_sent = [], ls_ended = False\<rparr>)))"

text \<open>
  The events of the \<^verbatim>\<open>select\<close>: a log of the underlying subscription, the ticker or the end of the
  underlying subscription, the end of the safe subscription, and the client's or the context's end.
\<close>

datatype log_event = ProxyLog Log | ResubTick log_client | SafeErr | CloseOrDone

fun log_loop ::
  "'c cache \<Rightarrow> (Log \<Rightarrow> bytes32) \<Rightarrow> 'cl SafeEthClient \<Rightarrow> log_event \<Rightarrow> 'c log_sub \<Rightarrow> (string, 'c log_sub) res option" where
  "log_loop ca hash c (ProxyLog log) s = Some (Inr (deliver ca hash log s))"
| "log_loop ca hash c (ResubTick lc) s = map_option (\<lambda>(err, s'). Inr s') (resub ca hash c lc s)"
| "log_loop ca hash c SafeErr s = Some (Inr (s\<lparr>ls_ended := True\<rparr>))"
| "log_loop ca hash c CloseOrDone s =
     Some (bind_err (Unsubscribe (ls_sub s)) (\<lambda>sub. Inr (s\<lparr>ls_sub := sub, ls_ended := True\<rparr>)))"

section \<open>Block headers\<close>

record head_sub =
  hs_sub :: SafeSubscription
  hs_receivedBlock :: bool
  hs_sent :: "nat list"
  hs_resubs :: nat
  hs_ended :: bool

definition SubscribeNewHead :: "(string + nat) \<Rightarrow> string + head_sub" where
  "SubscribeNewHead subscribe =
     (case subscribe of
        Inl err \<Rightarrow> Inl err
      | Inr newSub \<Rightarrow>
          Inr \<lparr>hs_sub = NewSafeSubscription newSub, hs_receivedBlock = False, hs_sent = [], hs_resubs = 0,
               hs_ended = False\<rparr>)"

text \<open>\<^verbatim>\<open>handleResub\<close>; an error is only logged.\<close>

definition head_resub :: "(string + nat) \<Rightarrow> head_sub \<Rightarrow> head_sub" where
  "head_resub subscribe s =
     (let s1 = s\<lparr>hs_resubs := hs_resubs s + 1\<rparr>
      in case subscribe of
           Inl err \<Rightarrow> s1
         | Inr newSub \<Rightarrow> s1\<lparr>hs_sub := SetUnderlyingSub newSub (hs_sub s)\<rparr>)"

datatype head_event =
    ProxyHeader nat
  | HeadSafeErr
  | HeadUnderlyingErr "string + nat"
  | HeaderTick "string + nat"
  | HeadCloseOrDone

fun head_loop :: "head_event \<Rightarrow> head_sub \<Rightarrow> (string, head_sub) res" where
  "head_loop (ProxyHeader header) s = Inr (s\<lparr>hs_receivedBlock := True, hs_sent := hs_sent s @ [header]\<rparr>)"
| "head_loop HeadSafeErr s = Inr (s\<lparr>hs_ended := True\<rparr>)"
| "head_loop (HeadUnderlyingErr subscribe) s = Inr (head_resub subscribe s)"
| "head_loop (HeaderTick subscribe) s =
     Inr (if hs_receivedBlock s then s\<lparr>hs_receivedBlock := False\<rparr> else head_resub subscribe s)"
| "head_loop HeadCloseOrDone s =
     bind_err (Unsubscribe (hs_sub s)) (\<lambda>sub. Inr (s\<lparr>hs_sub := sub, hs_ended := True\<rparr>))"

section \<open>The loop over the missed blocks\<close>

lemma unat_add_no_wrap: "unat a + unat b < 2 ^ 64 \<Longrightarrow> unat (a + b :: u64) = unat a + unat b"
  by (simp add: unat_word_ariths)

lemma chunk_end:
  fixes fromBlock :: u64
  assumes "0 < unat chunkSize" "unat currentBlock + unat chunkSize < 2 ^ 64" "fromBlock \<le> currentBlock"
  shows "unat (min (fromBlock + chunkSize - 1) currentBlock) =
    min (unat fromBlock + unat chunkSize - 1) (unat currentBlock)"
    "unat (fromBlock + chunkSize) = unat fromBlock + unat chunkSize"
proof -
  have le: "unat fromBlock \<le> unat currentBlock"
    using assms(3) by (simp add: word_le_nat_alt)
  then show sum: "unat (fromBlock + chunkSize) = unat fromBlock + unat chunkSize"
    using assms(2) by (intro unat_add_no_wrap) simp
  have "1 \<le> fromBlock + chunkSize"
    using sum assms(1) by (simp add: word_le_nat_alt)
  then have "unat (fromBlock + chunkSize - 1) = unat fromBlock + unat chunkSize - 1"
    using sum by (simp add: unat_sub)
  then show "unat (min (fromBlock + chunkSize - 1) currentBlock) =
    min (unat fromBlock + unat chunkSize - 1) (unat currentBlock)"
    by (simp add: min_def word_le_nat_alt)
qed

lemma filter_loop_returns:
  assumes "0 < unat chunkSize" "unat currentBlock + unat chunkSize < 2 ^ 64"
  shows "\<exists>r. filter_loop filterLogs chunkSize fromBlock currentBlock acc = Some r"
proof (induction "unat currentBlock + 1 - unat fromBlock" arbitrary: fromBlock acc rule: less_induct)
  case less
  show ?case
  proof (cases "fromBlock \<le> currentBlock")
    case False
    then show ?thesis by (simp add: filter_loop.simps)
  next
    case True
    have "\<exists>r. filter_loop filterLogs chunkSize (fromBlock + chunkSize) currentBlock acc' = Some r" for acc'
      by (rule less) (use assms True chunk_end(2) [OF assms True] in \<open>simp add: word_le_nat_alt\<close>)
    then show ?thesis
      using True by (subst filter_loop.simps) (auto simp: Let_def split: sum.splits)
  qed
qed

lemma filter_loop_zero:
  "filter_loop filterLogs chunkSize fromBlock currentBlock acc = Some r \<Longrightarrow>
     chunkSize = 0 \<Longrightarrow> fromBlock \<le> currentBlock \<Longrightarrow> \<forall>f t. \<exists>logs. filterLogs f t = Inr logs \<Longrightarrow> False"
proof (induction filterLogs chunkSize fromBlock currentBlock acc r rule: filter_loop.raw_induct [rotated, consumes 1])
  case (1 loop filterLogs chunkSize fromBlock currentBlock acc r)
  obtain logs where "filterLogs (sint fromBlock) (sint (min (fromBlock + chunkSize - 1) currentBlock)) = Inr logs"
    using 1(5) by blast
  then show ?case
    using 1 by (auto simp: Let_def)
qed


section \<open>What is delivered\<close>

lemma filter_split_sorted:
  fixes m :: nat
  assumes "sorted (map k xs)" "a \<le> m" "m \<le> b"
  shows "filter (\<lambda>x. a \<le> k x \<and> k x < m) xs @ filter (\<lambda>x. m \<le> k x \<and> k x < b) xs =
    filter (\<lambda>x. a \<le> k x \<and> k x < b) xs"
  using assms
proof (induction xs)
  case Nil
  then show ?case by simp
next
  case (Cons x xs)
  have "filter (\<lambda>x. a \<le> k x \<and> k x < m) xs = []" if "m \<le> k x"
    using that Cons.prems(1) by (fastforce simp: filter_empty_conv)
  then show ?case
    using Cons by (cases "m \<le> k x") auto
qed

text \<open>The node answers a query with the matching logs of its chain, in their order.\<close>

definition answers_from :: "Log list \<Rightarrow> (int \<Rightarrow> int \<Rightarrow> string + Log list) \<Rightarrow> bool" where
  "answers_from chain filterLogs \<longleftrightarrow>
     (\<forall>f t. filterLogs f t = Inr (filter (\<lambda>l. f \<le> uint (log_BlockNumber l) \<and> uint (log_BlockNumber l) \<le> t) chain))"

definition block_nat :: "Log \<Rightarrow> nat" where
  "block_nat l = unat (log_BlockNumber l)"

lemma sint_small:
  fixes w :: u64
  assumes "unat w < 2 ^ 63"
  shows "sint w = int (unat w)"
proof -
  have u: "uint w = int (unat w)"
    by (rule uint_nat)
  have "uint w < 2 ^ 63"
    unfolding u using assms by (simp only: of_nat_less_numeral_power_cancel_iff)
  moreover have "sint w = signed_take_bit 63 (uint w)"
    by (simp add: sint_uint)
  moreover have "- (2 ^ 63) \<le> uint w"
    by (rule order_trans [of _ 0]) simp_all
  ultimately show ?thesis
    using u by (simp only: signed_take_bit_int_eq_self)
qed

lemma int_uint_le:
  fixes w :: u64
  shows "int n \<le> uint w \<longleftrightarrow> n \<le> unat w" "uint w \<le> int n \<longleftrightarrow> unat w \<le> n"
  by (simp_all only: uint_nat of_nat_le_iff)

lemma answers_fromD:
  "answers_from chain filterLogs \<Longrightarrow>
     filterLogs (int m) (int n) = Inr (filter (\<lambda>l. m \<le> block_nat l \<and> block_nat l \<le> n) chain)"
  unfolding answers_from_def int_uint_le [symmetric] block_nat_def by blast

lemma filter_loop_exact:
  assumes chain: "answers_from chain filterLogs" "sorted (map block_nat chain)"
    and small: "0 < unat chunkSize" "unat currentBlock + unat chunkSize < 2 ^ 63"
  shows "filter_loop filterLogs chunkSize fromBlock currentBlock acc =
    Some (Inr (acc @ filter (\<lambda>l. unat fromBlock \<le> block_nat l \<and> block_nat l < unat currentBlock + 1) chain))"
proof (induction "unat currentBlock + 1 - unat fromBlock" arbitrary: fromBlock acc rule: less_induct)
  case less
  let ?upto = "unat fromBlock + unat chunkSize" and ?stop = "unat currentBlock + 1"
  show ?case
  proof (cases "fromBlock \<le> currentBlock")
    case False
    then show ?thesis
      by (subst filter_loop.simps) (auto simp: word_le_nat_alt filter_empty_conv)
  next
    case True
    let ?to = "min (fromBlock + chunkSize - 1) currentBlock"
    have small64: "unat currentBlock + unat chunkSize < 2 ^ 64"
      using small(2) by simp
    note ce = chunk_end [OF small(1) small64 True]
    have le: "unat fromBlock \<le> unat currentBlock"
      using True by (simp add: word_le_nat_alt)
    have "unat fromBlock < 2 ^ 63" "unat ?to < 2 ^ 63"
      using small(2) le unfolding ce(1) by simp_all
    note si = this [THEN sint_small]
    have "filterLogs (sint fromBlock) (sint ?to) =
        Inr (filter (\<lambda>l. unat fromBlock \<le> block_nat l \<and> block_nat l < min ?upto ?stop) chain)"
      unfolding si ce(1) answers_fromD [OF chain(1)]
      using small(1) by (intro arg_cong [where f = Inr] filter_cong) auto
    then have "filter_loop filterLogs chunkSize fromBlock currentBlock acc =
        filter_loop filterLogs chunkSize (fromBlock + chunkSize) currentBlock
          (acc @ filter (\<lambda>l. unat fromBlock \<le> block_nat l \<and> block_nat l < min ?upto ?stop) chain)"
      using True by (subst filter_loop.simps) (simp add: Let_def)
    also have "\<dots> = Some (Inr ((acc @ filter (\<lambda>l. unat fromBlock \<le> block_nat l \<and> block_nat l < min ?upto ?stop) chain) @
        filter (\<lambda>l. unat (fromBlock + chunkSize) \<le> block_nat l \<and> block_nat l < ?stop) chain))"
      by (rule less) (use small(1) le ce(2) in simp)
    also have "filter (\<lambda>l. unat (fromBlock + chunkSize) \<le> block_nat l \<and> block_nat l < ?stop) chain =
        filter (\<lambda>l. min ?upto ?stop \<le> block_nat l \<and> block_nat l < ?stop) chain"
      unfolding ce(2) by (rule filter_cong) auto
    finally show ?thesis
      using filter_split_sorted [OF chain(2), of "unat fromBlock" "min ?upto ?stop" ?stop] le by simp
  qed
qed

text \<open>
  The cache holds the keys that were added last, at most a hundred; \<open>keys\<close> lists them.
\<close>

definition cache_law :: "('c \<Rightarrow> bytes32 list) \<Rightarrow> 'c cache \<Rightarrow> bool" where
  "cache_law keys containsOrAdd \<longleftrightarrow>
     (\<forall>h c. fst (containsOrAdd h c) = (h \<in> set (keys c)) \<and>
        keys (snd (containsOrAdd h c)) = (if h \<in> set (keys c) then keys c else take 100 (h # keys c)))"

lemma deliver_cases:
  assumes "cache_law keys ca"
  shows "ls_sent (deliver ca hash l s) = (if hash l \<in> set (keys (ls_cache s)) then ls_sent s else ls_sent s @ [l])"
    and "set (keys (ls_cache (deliver ca hash l s))) \<subseteq> insert (hash l) (set (keys (ls_cache s)))"
proof -
  have "fst (ca (hash l) (ls_cache s)) = (hash l \<in> set (keys (ls_cache s)))"
    "set (keys (snd (ca (hash l) (ls_cache s)))) \<subseteq> insert (hash l) (set (keys (ls_cache s)))"
    using assms set_take_subset [of 100 "hash l # keys (ls_cache s)"] by (auto simp: cache_law_def split: if_splits)
  then show "ls_sent (deliver ca hash l s) = (if hash l \<in> set (keys (ls_cache s)) then ls_sent s else ls_sent s @ [l])"
    "set (keys (ls_cache (deliver ca hash l s))) \<subseteq> insert (hash l) (set (keys (ls_cache s)))"
    by (auto simp: deliver_def Let_def split: prod.splits)
qed

text \<open>Delivering a list: what is sent is new, and everything is sent or was known.\<close>

lemma deliver_all:
  assumes "cache_law keys ca"
  shows "\<exists>new. ls_sent (fold (deliver ca hash) ls s) = ls_sent s @ new \<and> set new \<subseteq> set ls \<and>
    set (keys (ls_cache (fold (deliver ca hash) ls s))) \<subseteq> hash ` set new \<union> set (keys (ls_cache s)) \<and>
    hash ` set ls \<subseteq> hash ` set new \<union> set (keys (ls_cache s))"
proof (induction ls arbitrary: s)
  case Nil
  then show ?case by simp
next
  case (Cons l ls)
  let ?s = "deliver ca hash l s"
  obtain new where new: "ls_sent (fold (deliver ca hash) ls ?s) = ls_sent ?s @ new" "set new \<subseteq> set ls"
    "set (keys (ls_cache (fold (deliver ca hash) ls ?s))) \<subseteq> hash ` set new \<union> set (keys (ls_cache ?s))"
    "hash ` set ls \<subseteq> hash ` set new \<union> set (keys (ls_cache ?s))"
    using Cons.IH by blast
  note d = deliver_cases [OF assms, of hash l s]
  show ?case
  proof (cases "hash l \<in> set (keys (ls_cache s))")
    case True
    then have "set (keys (ls_cache ?s)) \<subseteq> set (keys (ls_cache s))" "ls_sent ?s = ls_sent s"
      using d by auto
    then show ?thesis
      using new True by (intro exI [of _ new] conjI) (simp_all, blast+)
  next
    case False
    then have "ls_sent ?s = ls_sent s @ [l]"
      using d(1) by simp
    then show ?thesis
      using new d(2) by (intro exI [of _ "l # new"] conjI) (simp_all, blast+)
  qed
qed


section \<open>Silence\<close>

lemma head_loop_resubs: "head_loop e s = Inr s' \<Longrightarrow> hs_resubs s \<le> hs_resubs s'"
  by (cases e) (auto simp: head_resub_def Let_def Unsubscribe_def split: if_splits sum.splits)

lemma head_run_resubs: "fold_err head_loop es s = Inr s' \<Longrightarrow> hs_resubs s \<le> hs_resubs s'"
proof (induction es arbitrary: s)
  case Nil
  then show ?case by simp
next
  case (Cons e es)
  then show ?case
    using head_loop_resubs by (fastforce intro: order_trans)
qed

lemma head_run_silent:
  "fold_err head_loop es s = Inr s' \<Longrightarrow> \<forall>h. ProxyHeader h \<notin> set es \<Longrightarrow> \<not> hs_receivedBlock s \<Longrightarrow>
     \<not> hs_receivedBlock s'"
proof (induction es arbitrary: s)
  case Nil
  then show ?case by simp
next
  case (Cons e es)
  then obtain s1 where s1: "head_loop e s = Inr s1" "fold_err head_loop es s1 = Inr s'"
    by auto
  have "\<not> hs_receivedBlock s1"
    using s1(1) Cons.prems(2,3)
    by (cases e) (auto simp: head_resub_def Let_def split: if_splits sum.splits)
  then show ?case
    using Cons.IH [OF s1(2)] Cons.prems(2) by auto
qed


section \<open>Witnesses\<close>


definition list_cache :: "bytes32 list cache" where
  "list_cache h c = (h \<in> set c, if h \<in> set c then c else take 100 (h # c))"

definition sample_log :: Log where
  "sample_log = \<lparr>log_Address = [1], log_Topics = [], log_Data = [], log_BlockNumber = 7, log_TxHash = zero32,
     log_BlockHash = zero32, log_Index = 0\<rparr>"

definition sample_client :: "unit SafeEthClient" where
  "sample_client = \<lparr>sec_Client = Some (), sec_rpcUrl = ''ws'', closeC = False, headerTimeout = HEADER_TIMEOUT,
     logResubInterval = LOG_RESUB_INTERVAL, blockChunkSize = BLOCK_CHUNK_SIZE, blockMaxRange = BLOCK_MAX_RANGE,
     createClient = \<lambda>_. Inr ()\<rparr>"

definition sample_node :: log_client where
  "sample_node = \<lparr>lc_BlockNumber = Inr 9,
     lc_FilterLogs = \<lambda>f t. Inr (filter (\<lambda>l. f \<le> uint (log_BlockNumber l) \<and> uint (log_BlockNumber l) \<le> t) [sample_log]),
     lc_Subscribe = Inr 2\<rparr>"

definition sample_sub :: "bytes32 list log_sub" where
  "sample_sub = \<lparr>ls_sub = NewSafeSubscription 1, ls_cache = [], ls_lastBlock = 5, ls_sent = [], ls_ended = False\<rparr>"



end
