(* ===== verification/Rollups.thy ===== *)
theory Rollups
  imports Chainio Registrations
begin

text \<open>
  Updating the operator sets of the rollups, \<^verbatim>\<open>aggregator/rollup_writer.go\<close> and
  \<^verbatim>\<open>aggregator/rollup_broadcaster.go\<close>.

  A writer retries an operation a fixed number of times. The environment answers each attempt: the
  transaction options, the rollup's next update id, the errors of assembling and of sending, and
  whether the context ends in the pause after it. A function returns the transactions that it passed
  to the transaction manager, each with whether sending succeeded, and the broadcaster returns what it
  sent on its error channel.
\<close>

section \<open>The writer\<close>

definition INITIALIZE_OPERATOR_SET_RETRIES :: nat where
  "INITIALIZE_OPERATOR_SET_RETRIES = 5"

definition UPDATE_OPERATOR_SET_RETRIES :: nat where
  "UPDATE_OPERATOR_SET_RETRIES = 5"

definition GET_OPERATOR_SET_RETRIES :: nat where
  "GET_OPERATOR_SET_RETRIES = 5"

record RollupWriter =
  rw_rollupId :: u32
  rw_closed :: bool

datatype rollup_tx =
    TxSetInitialOperatorSet "RollupOperatorsOperator list" u64
  | TxUpdateOperatorSet OperatorSetUpdateMessageBinding RollupOperatorsSignatureInfo

record attempt =
  at_GetNoSendTxOpts :: "string option"
  at_NextOperatorUpdateId :: "string + u64"
  at_assemble :: "string option"
  at_Send :: "string option"
  at_ctxDone :: bool

type_synonym attempt_result = "(string, unit) res \<times> (rollup_tx \<times> bool) list"

definition NewRollupWriter ::
  "u32 \<Rightarrow> string option \<Rightarrow> string option \<Rightarrow> string option \<Rightarrow> string option \<Rightarrow> string option \<Rightarrow> (string, RollupWriter) res"
where
  "NewRollupWriter rollupId clientErr chainIdErr signerErr walletErr contractErr =
     (case clientErr of Some e \<Rightarrow> Inl (Err e) | None \<Rightarrow>
     (case chainIdErr of Some e \<Rightarrow> Inl (Err e) | None \<Rightarrow>
     (case signerErr of Some e \<Rightarrow> Inl (Fault (PanicCall e)) | None \<Rightarrow>
     (case walletErr of Some e \<Rightarrow> Inl (Err e) | None \<Rightarrow>
     (case contractErr of Some e \<Rightarrow> Inl (Err e) | None \<Rightarrow>
        Inr \<lparr>rw_rollupId = rollupId, rw_closed = False\<rparr>)))))"

text \<open>The end of both operations: assembling, then sending.\<close>

definition assemble_and_send :: "attempt \<Rightarrow> rollup_tx \<Rightarrow> attempt_result" where
  "assemble_and_send a tx =
     (case at_assemble a of
        Some err \<Rightarrow> (Inl (Err err), [])
      | None \<Rightarrow>
          (case at_Send a of
             Some err \<Rightarrow> (Inl (Err err), [(tx, False)])
           | None \<Rightarrow> (Inr (), [(tx, True)])))"

definition initialize_operation :: "RollupOperatorsOperator list \<Rightarrow> u64 \<Rightarrow> attempt \<Rightarrow> attempt_result" where
  "initialize_operation operators operatorSetUpdateId a =
     (case at_GetNoSendTxOpts a of
        Some err \<Rightarrow> (Inl (Err err), [])
      | None \<Rightarrow> assemble_and_send a (TxSetInitialOperatorSet operators (operatorSetUpdateId + 1)))"

definition update_operation ::
  "OperatorSetUpdateMessage \<Rightarrow> RollupOperatorsSignatureInfo \<Rightarrow> attempt \<Rightarrow> attempt_result" where
  "update_operation message signatureInfo a =
     (case at_GetNoSendTxOpts a of
        Some err \<Rightarrow> (Inl (Err err), [])
      | None \<Rightarrow>
          (case at_NextOperatorUpdateId a of
             Inl err \<Rightarrow> (Inl (Err err), [])
           | Inr nextOperatorUpdateId \<Rightarrow>
               if osu_Id message \<noteq> nextOperatorUpdateId then (Inr (), [])
               else
                 (case OperatorSetUpdateMessage_ToBinding message of
                    Inl e \<Rightarrow> (Inl e, [])
                  | Inr binding \<Rightarrow> assemble_and_send a (TxUpdateOperatorSet binding signatureInfo))))"

text \<open>The two retry loops have the same text: \<open>n\<close> attempts are left, and the next is number \<open>i\<close>.\<close>

fun retry_loop ::
  "(attempt \<Rightarrow> attempt_result) \<Rightarrow> (nat \<Rightarrow> attempt) \<Rightarrow> string \<Rightarrow> nat \<Rightarrow> nat \<Rightarrow> attempt_result" where
  "retry_loop operation env msg 0 i = (Inl (Err msg), [])"
| "retry_loop operation env msg (Suc n) i =
     (case operation (env i) of
        (Inr _, txs) \<Rightarrow> (Inr (), txs)
      | (Inl (Fault f), txs) \<Rightarrow> (Inl (Fault f), txs)
      | (Inl (Err err), txs) \<Rightarrow>
          if at_ctxDone (env i) then (Inl (Err ''context canceled''), txs)
          else (case retry_loop operation env msg n (i + 1) of (r, txs2) \<Rightarrow> (r, txs @ txs2)))"

definition InitializeOperatorSet ::
  "(nat \<Rightarrow> attempt) \<Rightarrow> RollupOperatorsOperator list \<Rightarrow> u64 \<Rightarrow> attempt_result" where
  "InitializeOperatorSet env operators operatorSetUpdateId =
     retry_loop (initialize_operation operators operatorSetUpdateId) env
       ''failed to initialize operator set after retries'' INITIALIZE_OPERATOR_SET_RETRIES 0"

definition UpdateOperatorSet ::
  "(nat \<Rightarrow> attempt) \<Rightarrow> OperatorSetUpdateMessage \<Rightarrow> RollupOperatorsSignatureInfo \<Rightarrow> attempt_result" where
  "UpdateOperatorSet env message signatureInfo =
     retry_loop (update_operation message signatureInfo) env
       ''failed to update operator set after retries'' UPDATE_OPERATOR_SET_RETRIES 0"

definition RollupWriter_Close :: "RollupWriter \<Rightarrow> RollupWriter" where
  "RollupWriter_Close w = w\<lparr>rw_closed := True\<rparr>"

section \<open>The broadcaster\<close>

record RollupBroadcaster =
  rb_writers :: "RollupWriter list"
  rb_errors :: "string list"

text \<open>What the broadcaster starts: a wait for the first update, or one initialization per writer.\<close>

datatype broadcaster_start =
    InitializeOnUpdate
  | TryInitialize "RollupWriter list" u64

definition NewRollupBroadcaster ::
  "(u32 \<times> (string, RollupWriter) res) list \<Rightarrow> opset_registry \<Rightarrow>
   (string, RollupBroadcaster \<times> broadcaster_start) res" where
  "NewRollupBroadcaster rollupsInfo reg =
     bind_err (map_err snd rollupsInfo) (\<lambda>writers.
     (let b = \<lparr>rb_writers = writers, rb_errors = []\<rparr>
      in case GetNextOperatorSetUpdateId reg of
           Inl err \<Rightarrow> Inl (Err err)
         | Inr mainnetNextOperatorSetUpdateId \<Rightarrow>
             Inr (b, if mainnetNextOperatorSetUpdateId = 0 then InitializeOnUpdate
                     else TryInitialize writers mainnetNextOperatorSetUpdateId)))"

text \<open>Copying the operators from one binding's struct to another's.\<close>

definition convertOperators :: "RollupOperatorsOperator list \<Rightarrow> RollupOperatorsOperator list" where
  "convertOperators operators =
     map (\<lambda>op. \<lparr>roo_Pubkey = \<lparr>bn_X = bn_X (roo_Pubkey op), bn_Y = bn_Y (roo_Pubkey op)\<rparr>,
               roo_Weight = roo_Weight op\<rparr>) operators"

fun tryGetOperatorSetById_loop ::
  "(nat \<Rightarrow> string + RollupOperatorsOperator list) \<Rightarrow> (nat \<Rightarrow> bool) \<Rightarrow> nat \<Rightarrow> nat \<Rightarrow>
   (string + RollupOperatorsOperator list) \<times> string list" where
  "tryGetOperatorSetById_loop get ctxDone 0 i = (Inl ''failed to fetch operator set after retries'', [])"
| "tryGetOperatorSetById_loop get ctxDone (Suc n) i =
     (case get i of
        Inr operators \<Rightarrow> (Inr operators, [])
      | Inl err \<Rightarrow>
          if ctxDone i then (Inl ''failed to fetch operator set early'', [err])
          else (case tryGetOperatorSetById_loop get ctxDone n (i + 1) of (r, errs) \<Rightarrow> (r, err # errs)))"

text \<open>The registry may answer each attempt differently.\<close>

definition tryGetOperatorSetById ::
  "(nat \<Rightarrow> opset_registry) \<Rightarrow> (nat \<Rightarrow> bool) \<Rightarrow> u64 \<Rightarrow> (string + RollupOperatorsOperator list) \<times> string list" where
  "tryGetOperatorSetById reg ctxDone operatorSetUpdateId =
     tryGetOperatorSetById_loop (\<lambda>i. GetOperatorSetById (reg i) operatorSetUpdateId) ctxDone
       GET_OPERATOR_SET_RETRIES 0"

definition report :: "(string, unit) res \<Rightarrow> string list" where
  "report r = (case r of Inl (Err e) \<Rightarrow> [e] | _ \<Rightarrow> [])"

definition tryInitializeRollupOperatorSet ::
  "(nat \<Rightarrow> opset_registry) \<Rightarrow> (nat \<Rightarrow> bool) \<Rightarrow> (string + u64) \<Rightarrow> (nat \<Rightarrow> attempt) \<Rightarrow> u64 \<Rightarrow>
   (rollup_tx \<times> bool) list \<times> string list" where
  "tryInitializeRollupOperatorSet reg ctxDone rollupNext env mainnetNextOperatorSetUpdateId =
     (case rollupNext of
        Inl err \<Rightarrow> ([], [err])
      | Inr nextOperatorUpdateId \<Rightarrow>
          if nextOperatorUpdateId \<noteq> 0 then ([], [])
          else
            (case tryGetOperatorSetById reg ctxDone (mainnetNextOperatorSetUpdateId - 1) of
               (Inl err, errs) \<Rightarrow> ([], errs @ [err])
             | (Inr operators, errs) \<Rightarrow>
                 (case InitializeOperatorSet env (convertOperators operators) (mainnetNextOperatorSetUpdateId - 1) of
                    (r, txs) \<Rightarrow> (txs, errs @ report r))))"

text \<open>The loop that waits for the first operator set update.\<close>

datatype update_event = UpdateCtxDone | UpdateSubErr string | OperatorSetUpdated u64 opset_registry

datatype update_outcome = Waiting | Stopped | Initialize "RollupOperatorsOperator list" u64

fun on_update_loop :: "update_event list \<Rightarrow> update_outcome \<times> string list" where
  "on_update_loop [] = (Waiting, [])"
| "on_update_loop (UpdateCtxDone # es) = (Stopped, [])"
| "on_update_loop (UpdateSubErr err # es) = (Stopped, [])"
| "on_update_loop (OperatorSetUpdated i reg # es) =
     (case GetOperatorSetById reg i of
        Inl err \<Rightarrow>
          (case on_update_loop es of (r, errs) \<Rightarrow> (r, err # errs))
      | Inr operators \<Rightarrow> (Initialize (convertOperators operators) i, []))"

definition initializeRollupOperatorSetsOnUpdate ::
  "(string + 'sub) \<Rightarrow> update_event list \<Rightarrow> (string, update_outcome \<times> string list) res" where
  "initializeRollupOperatorSetsOnUpdate sub events =
     (case SubscribeToOperatorSetUpdates sub of
        Inl err \<Rightarrow> Inl (Fault (FatalExit ''Error subscribing to operator set updates''))
      | Inr operatorSetUpdateSub \<Rightarrow> Inr (on_update_loop events))"

text \<open>The goroutines that the loop starts at its end, one per writer.\<close>

definition initialize_writers ::
  "(u32 \<Rightarrow> nat \<Rightarrow> attempt) \<Rightarrow> RollupOperatorsOperator list \<Rightarrow> u64 \<Rightarrow> RollupBroadcaster \<Rightarrow>
   (u32 \<times> attempt_result) list \<times> RollupBroadcaster" where
  "initialize_writers env operators i b =
     (let results = map (\<lambda>w. (rw_rollupId w, InitializeOperatorSet (env (rw_rollupId w)) operators i)) (rb_writers b)
      in (results, b\<lparr>rb_errors := rb_errors b @ concat (map (\<lambda>(w, r, txs). report r) results)\<rparr>))"

text \<open>
  \<^verbatim>\<open>BroadcastOperatorSetUpdate\<close> starts one goroutine per writer until the context is done, which is after
  \<open>started\<close> writers.
\<close>

definition update_error :: "u32 \<Rightarrow> (string, unit) res \<Rightarrow> string list" where
  "update_error rollupId r =
     (case r of
        Inl (Err e) \<Rightarrow> [''failed to update operator set on writer '' @ sprint_d (unat rollupId) @ '': '' @ e]
      | _ \<Rightarrow> [])"

definition BroadcastOperatorSetUpdate ::
  "(u32 \<Rightarrow> nat \<Rightarrow> attempt) \<Rightarrow> nat \<Rightarrow> OperatorSetUpdateMessage \<Rightarrow> RollupOperatorsSignatureInfo \<Rightarrow> RollupBroadcaster \<Rightarrow>
   (u32 \<times> attempt_result) list \<times> RollupBroadcaster" where
  "BroadcastOperatorSetUpdate env started message signatureInfo b =
     (let results = map (\<lambda>w. (rw_rollupId w, UpdateOperatorSet (env (rw_rollupId w)) message signatureInfo))
            (take started (rb_writers b))
      in (results, b\<lparr>rb_errors := rb_errors b @ concat (map (\<lambda>(w, r, txs). update_error w r) results)\<rparr>))"

definition RollupBroadcaster_Close :: "RollupBroadcaster \<Rightarrow> RollupBroadcaster" where
  "RollupBroadcaster_Close b = b\<lparr>rb_writers := map RollupWriter_Close (rb_writers b)\<rparr>"

section \<open>Retries\<close>

text \<open>
  What a retry loop over an operation that sends at most one transaction, and succeeds exactly when it
  sends it or decides not to, does.
\<close>

definition one_send :: "(attempt \<Rightarrow> attempt_result) \<Rightarrow> rollup_tx option \<Rightarrow> bool" where
  "one_send operation tx \<longleftrightarrow>
     (\<forall>a. length (snd (operation a)) \<le> 1 \<and>
        (\<forall>e \<in> set (snd (operation a)). Some (fst e) = tx \<and> (snd e \<longleftrightarrow> fst (operation a) = Inr ())))"

lemma one_sendD:
  assumes "one_send operation tx" "operation a = (r, txs)"
  shows "length txs \<le> 1" "\<forall>e \<in> set txs. Some (fst e) = tx \<and> (snd e \<longleftrightarrow> r = Inr ())"
  using assms(1) [unfolded one_send_def, THEN spec, of a] unfolding assms(2) by simp_all

lemma retry_loop_sends:
  assumes "one_send operation tx" "retry_loop operation env msg n i = (r, txs)"
  shows "length txs \<le> n" "\<forall>e \<in> set txs. Some (fst e) = tx" "length (filter snd txs) \<le> 1"
    "r \<noteq> Inr () \<Longrightarrow> filter snd txs = []"
    "r = Inr () \<Longrightarrow> \<exists>j < i + n. operation (env j) = (Inr (), filter snd txs)"
proof -
  have "length txs \<le> n \<and> (\<forall>e \<in> set txs. Some (fst e) = tx) \<and> length (filter snd txs) \<le> 1 \<and>
    (r \<noteq> Inr () \<longrightarrow> filter snd txs = []) \<and> (r = Inr () \<longrightarrow> (\<exists>j < i + n. operation (env j) = (Inr (), filter snd txs)))"
    using assms(2)
  proof (induction n arbitrary: i r txs)
    case 0
    then show ?case by auto
  next
    case (Suc n)
    obtain r1 txs1 where op: "operation (env i) = (r1, txs1)"
      by fastforce
    note one = one_sendD [OF assms(1) op]
    have snds: "filter snd txs1 = (if r1 = Inr () then txs1 else [])"
      using one(2) by (auto simp: filter_id_conv filter_empty_conv)
    obtain r2 txs2 where rest: "retry_loop operation env msg n (i + 1) = (r2, txs2)"
      by fastforce
    note IH = Suc.IH [OF rest]
    consider "r1 = Inr ()" "r = Inr ()" "txs = txs1" | "r1 \<noteq> Inr ()" "r \<noteq> Inr ()" "txs = txs1"
      | "r1 \<noteq> Inr ()" "r = r2" "txs = txs1 @ txs2"
    proof (cases r1)
      case (Inl f)
      then show thesis
        using Suc.prems op rest that(2,3) by (cases f) (auto split: if_splits)
    next
      case (Inr u)
      then have "r1 = Inr ()" "r = Inr () \<and> txs = txs1"
        using Suc.prems op by simp_all
      then show thesis
        by (intro that(1)) simp_all
    qed
    then show ?case
    proof cases
      case 1
      then show ?thesis
        using one snds op by (intro conjI impI) (auto intro!: exI [of _ i])
    next
      case 2
      then show ?thesis
        using one snds by auto
    next
      case 3
      have "\<exists>j < i + Suc n. operation (env j) = (Inr (), filter snd txs)" if "r = Inr ()"
        using IH 3 snds that by auto
      then show ?thesis
        using IH 3 one snds by auto
    qed
  qed
  then show "length txs \<le> n" "\<forall>e \<in> set txs. Some (fst e) = tx" "length (filter snd txs) \<le> 1"
    "r \<noteq> Inr () \<Longrightarrow> filter snd txs = []"
    "r = Inr () \<Longrightarrow> \<exists>j < i + n. operation (env j) = (Inr (), filter snd txs)"
    by blast+
qed

lemma one_send_assemble: "one_send (\<lambda>a. assemble_and_send a t) (Some t)"
  by (auto simp: one_send_def assemble_and_send_def split: option.splits)

lemma one_send_initialize: "one_send (initialize_operation ops i) (Some (TxSetInitialOperatorSet ops (i + 1)))"
  by (auto simp: one_send_def initialize_operation_def assemble_and_send_def split: option.splits)

lemma one_send_update:
  "one_send (update_operation m s)
     (case OperatorSetUpdateMessage_ToBinding m of Inr b \<Rightarrow> Some (TxUpdateOperatorSet b s) | Inl e \<Rightarrow> None)"
  by (auto simp: one_send_def update_operation_def assemble_and_send_def split: option.splits sum.splits)

text \<open>
  C31. Updating a rollup's operator set makes at most five attempts and sends at most one transaction
  that succeeds, always the update itself; it fails without one, and when it reports success it has
  sent the update, or the rollup expected another id and nothing was sent.
\<close>

theorem update_sends_at_most_once:
  assumes "UpdateOperatorSet env message signatureInfo = (r, txs)"
  shows "length txs \<le> 5 \<and> length (filter snd txs) \<le> 1 \<and>
    (\<forall>e \<in> set txs. \<exists>b. OperatorSetUpdateMessage_ToBinding message = Inr b \<and> fst e = TxUpdateOperatorSet b signatureInfo) \<and>
    (if r = Inr ()
     then (\<exists>b. OperatorSetUpdateMessage_ToBinding message = Inr b \<and> (TxUpdateOperatorSet b signatureInfo, True) \<in> set txs) \<or>
       (\<exists>i < 5. \<exists>nextId. at_NextOperatorUpdateId (env i) = Inr nextId \<and> nextId \<noteq> osu_Id message) \<and> filter snd txs = []
     else filter snd txs = [])"
proof -
  let ?tx = "case OperatorSetUpdateMessage_ToBinding message of Inr b \<Rightarrow> Some (TxUpdateOperatorSet b signatureInfo) | Inl e \<Rightarrow> None"
  note sends = retry_loop_sends [OF one_send_update assms [unfolded UpdateOperatorSet_def]]
  have all: "\<forall>e \<in> set txs. \<exists>b. OperatorSetUpdateMessage_ToBinding message = Inr b \<and> fst e = TxUpdateOperatorSet b signatureInfo"
    using sends(2) by (auto split: sum.splits)
  have ok: "(\<exists>b. OperatorSetUpdateMessage_ToBinding message = Inr b \<and> (TxUpdateOperatorSet b signatureInfo, True) \<in> set txs) \<or>
      (\<exists>i < 5. \<exists>nextId. at_NextOperatorUpdateId (env i) = Inr nextId \<and> nextId \<noteq> osu_Id message) \<and> filter snd txs = []"
    if r: "r = Inr ()"
  proof -
    obtain j where j: "j < 5" "update_operation message signatureInfo (env j) = (Inr (), filter snd txs)"
      using sends(5) [OF r] by (auto simp: UPDATE_OPERATOR_SET_RETRIES_def)
    show ?thesis
    proof (cases "filter snd txs = []")
      case True
      then show ?thesis
        using j by (auto simp: update_operation_def assemble_and_send_def split: option.splits sum.splits if_splits)
    next
      case False
      then obtain e where "e \<in> set txs" "snd e"
        by (auto simp: filter_empty_conv)
      then show ?thesis
        using all by (metis prod.collapse)
    qed
  qed
  show ?thesis
    using sends(1,3,4) all ok by (auto simp: UPDATE_OPERATOR_SET_RETRIES_def)
qed


section \<open>Witnesses\<close>

definition good_attempt :: attempt where
  "good_attempt = \<lparr>at_GetNoSendTxOpts = None, at_NextOperatorUpdateId = Inr 7, at_assemble = None, at_Send = None,
     at_ctxDone = False\<rparr>"

definition bad_attempt :: attempt where
  "bad_attempt = good_attempt\<lparr>at_Send := Some ''nonce too low''\<rparr>"

definition sample_signature_info :: RollupOperatorsSignatureInfo where
  "sample_signature_info = \<lparr>rsi_NonSignerPubkeys = [], rsi_ApkG2 = \<lparr>bn2_X = (1, 2), bn2_Y = (3, 4)\<rparr>,
     rsi_Sigma = \<lparr>bn_X = 1, bn_Y = 2\<rparr>\<rparr>"

definition sample_set_update :: OperatorSetUpdateMessage where
  "sample_set_update = \<lparr>osu_Id = 7, osu_Timestamp = 1, osu_Operators = []\<rparr>"

text \<open>The first attempt fails, the second one succeeds.\<close>

theorem update_sends_at_most_once_witness:
  "\<exists>txs. UpdateOperatorSet (\<lambda>i. if i = 0 then bad_attempt else good_attempt) sample_set_update sample_signature_info = (Inr (), txs) \<and>
     length txs = 2 \<and> length (filter snd txs) \<le> 1"
proof -
  obtain txs where txs: "UpdateOperatorSet (\<lambda>i. if i = 0 then bad_attempt else good_attempt) sample_set_update
      sample_signature_info = (Inr (), txs)" "length txs = 2"
    by (simp add: UpdateOperatorSet_def UPDATE_OPERATOR_SET_RETRIES_def numeral_eq_Suc update_operation_def
        assemble_and_send_def good_attempt_def bad_attempt_def sample_set_update_def OperatorSetUpdateMessage_ToBinding_def)
  then show ?thesis
    using update_sends_at_most_once [OF txs(1)] by blast
qed


end
