(* ===== verification/Aggregator.thy ===== *)
theory Aggregator
  imports BlsAggService Database Registrations SafeClient Rollups
begin

text \<open>
  The aggregator, \<^verbatim>\<open>aggregator/aggregator.go\<close>, which composes the other components: signed messages are
  checked against the registered keys and go to one of three aggregation services; what the services
  respond is stored in the database, sent to the task manager or broadcast to the rollups; and the
  database answers the queries of the two servers.

  The state holds the states of the components, the events for the listener, the transactions that
  were sent, how many responses of each service the loop has received, and the goroutines that it
  started. The environment is a record of what the clock, the registry, the contracts and the curve
  answer during a handler. A response of a service refers to a signature and a key that the service's
  goroutine goes on mutating, so a handler reads them from the objects as they are at that time.
\<close>

section \<open>Constants and errors\<close>

definition QUORUM_NUMBERS :: "u8 list" where
  "QUORUM_NUMBERS = [0]"

definition TASK_QUORUM_THRESHOLD :: u8 where
  "TASK_QUORUM_THRESHOLD = 66"

definition MESSAGE_AGGREGATION_QUORUM_THRESHOLD :: u8 where
  "MESSAGE_AGGREGATION_QUORUM_THRESHOLD = 66"

definition TASK_AGGREGATION_QUORUM_THRESHOLD :: u8 where
  "TASK_AGGREGATION_QUORUM_THRESHOLD = 66"

definition MESSAGE_BLS_AGGREGATION_TIMEOUT :: duration where
  "MESSAGE_BLS_AGGREGATION_TIMEOUT = 30 * 1000000000"

definition MESSAGE_SUBMISSION_TIMEOUT :: duration where
  "MESSAGE_SUBMISSION_TIMEOUT = 60 * 1000000000"

text \<open>\<^verbatim>\<open>uint64(d.Seconds())\<close> for a duration that is not negative.\<close>

definition seconds :: "duration \<Rightarrow> u64" where
  "seconds d = word_of_int (d div 1000000000)"

datatype aggregator_error =
    MessageDigestError
  | TaskResponseDigestError
  | GetOperatorSetUpdateBlockError
  | OperatorNotFoundError
  | InvalidSignatureError
  | UnsupportedMessageTypeError
  | MessageTimeoutError
  | StateRootUpdateNotFoundError
  | StateRootAggNotFoundError
  | OperatorSetNotFoundError
  | OperatorAggNotFoundError
  | CheckpointNotFoundError
  | BlsAggError agg_error
  | DatabaseError string

text \<open>The texts of the aggregation service's errors.\<close>

fun agg_error_text :: "agg_error \<Rightarrow> string" where
  "agg_error_text MessageExpiredError = ''message expired''"
| "agg_error_text (MessageNotFoundError d) = ''message 0x'' @ sprint_x d @ '' not initialized or already completed''"
| "agg_error_text (OperatorNotPartOfMessageQuorumError i d) =
     ''operator 0x'' @ sprint_x i @ '' not part of message 0x'' @ sprint_x d @ CHR 0x27 # ''s quorum''"
| "agg_error_text (SignatureVerificationError e) = ''Failed to verify signature: '' @ e"
| "agg_error_text IncorrectSignatureError = ''Signature verification failed. Incorrect Signature.''"
| "agg_error_text MessageDigestNotFoundError = ''Message digest not found''"
| "agg_error_text QuorumThresholdPercentageOutOfBoundsError = ''Quorum threshold percentage out of bounds''"
| "agg_error_text QuorumThresholdPercentageLessThan51Error = ''Quorum threshold percentage less than 51''"
| "agg_error_text (DigestError e) = e"
| "agg_error_text (RegistryError e) = e"
| "agg_error_text ContextError = ''context canceled''"

section \<open>State\<close>

datatype agg_goroutine =
    SendAggregatedResponseToContract MessageBlsAggregationServiceResponse
  | SendNewCheckpointTaskToContract

record 'db Aggregator =
  ag_registryCoordinator :: string
  ag_checkpointInterval :: duration
  ag_rollupBroadcaster :: RollupBroadcaster
  ag_clientsClosed :: bool
  ag_listener :: SelectiveAggregatorListener
  ag_registrations :: OperatorRegistrationsServiceInMemory
  ag_taskService :: MessageBlsAggregatorService
  ag_stateRootService :: MessageBlsAggregatorService
  ag_operatorSetService :: MessageBlsAggregatorService
  ag_tasks :: "(u32, CheckpointTask) gomap"
  ag_msgDb :: "'db Database"
  ag_events :: "AggregatorEvent list"
  ag_avsTxs :: "avs_tx list"
  ag_broadcasts :: "(u32 \<times> attempt_result) list list"
  ag_received :: "nat \<times> nat \<times> nat"
  ag_goroutines :: "agg_goroutine list"
  ag_running :: bool

text \<open>What the code outside the aggregator answers during one handler.\<close>

record ('db, 'log) world =
  w_cd :: codec
  w_bl :: bls_lib
  w_avs :: AvsRegistry
  w_idx :: get_indices
  w_now :: int
  w_reg :: opset_registry
  w_tm :: task_manager
  w_gorm :: "'db gorm"
  w_dur :: duration
  w_BlockNumber :: "string + u64"
  w_BlockTime :: "u64 \<Rightarrow> string + u64"
  w_tx :: "'log tx_env"
  w_rollups :: "u32 \<Rightarrow> nat \<Rightarrow> attempt"
  w_started :: nat

definition notify :: "AggregatorEvent list \<Rightarrow> 'db Aggregator \<Rightarrow> 'db Aggregator" where
  "notify evs s = s\<lparr>ag_events := ag_events s @ evs\<rparr>"

section \<open>Construction\<close>

text \<open>The answers of the constructors, in the order in which \<^verbatim>\<open>NewAggregator\<close> calls them.\<close>

record ('db, 'cl) new_env =
  ne_ethHttpClient :: "string + 'cl SafeEthClient"
  ne_ethWsClient :: "string + 'cl SafeEthClient"
  ne_avsReader :: "string option"
  ne_chainId :: "string option"
  ne_signer :: "string option"
  ne_wallet :: "string option"
  ne_avsWriter :: "string option"
  ne_avsSubscriber :: "string option"
  ne_msgDb :: "string + 'db Database"
  ne_broadcaster :: "(string, RollupBroadcaster \<times> broadcaster_start) res"
  ne_registrations :: "(string, OperatorRegistrationsServiceInMemory) res"

definition noAggregatorListener :: SelectiveAggregatorListener where
  "noAggregatorListener =
     \<lparr>ObserveLastStateRootUpdateAggregatedCb = None, ObserveLastStateRootUpdateReceivedCb = None,
      ObserveLastOperatorSetUpdateAggregatedCb = None, ObserveLastOperatorSetUpdateReceivedCb = None,
      IncExpiredMessagesCb = None, IncExpiredTasksCb = None, IncErroredSubmissionsCb = None,
      IncAggregatorInitializationsCb = None, ObserveLastCheckpointReferenceSentCb = None,
      ObserveLastCheckpointTaskReferenceReceivedCb = None, ObserveLastCheckpointTaskReferenceAggregatedCb = None\<rparr>"

definition Aggregator_EnableMetrics ::
  "(metric_id \<Rightarrow> 'r \<Rightarrow> string option \<times> 'r) \<Rightarrow> 'r \<Rightarrow> 'db Aggregator \<Rightarrow> string option \<times> 'db Aggregator \<times> 'r" where
  "Aggregator_EnableMetrics register r s =
     (case MakeAggregatorMetrics register r of
        (Inl err, r') \<Rightarrow> (Some err, s, r')
      | (Inr listener, r') \<Rightarrow>
          (let s1 = s\<lparr>ag_listener := listener\<rparr>
           in case Database_EnableMetrics register r' (ag_msgDb s1) of
                (Some err, db', r'') \<Rightarrow> (Some err, s1\<lparr>ag_msgDb := db'\<rparr>, r'')
              | (None, db', r'') \<Rightarrow> (None, s1\<lparr>ag_msgDb := db'\<rparr>, r'')))"

text \<open>\<^verbatim>\<open>if err != nil { return nil, err }\<close> after a call whose result is not part of the state.\<close>

definition check :: "string option \<Rightarrow> (string, unit) res" where
  "check e = (case e of Some err \<Rightarrow> Inl (Err err) | None \<Rightarrow> Inr ())"

definition lift_err :: "string + 'a \<Rightarrow> (string, 'a) res" where
  "lift_err r = (case r of Inl err \<Rightarrow> Inl (Err err) | Inr x \<Rightarrow> Inr x)"

definition NewAggregator ::
  "('db, 'cl) new_env \<Rightarrow> string \<Rightarrow> duration \<Rightarrow> bool \<Rightarrow> (metric_id \<Rightarrow> 'r \<Rightarrow> string option \<times> 'r) \<Rightarrow> 'r \<Rightarrow>
   (string, 'db Aggregator) res" where
  "NewAggregator env coordinator interval enableMetrics register r =
     bind_err (lift_err (ne_ethHttpClient env)) (\<lambda>_.
     bind_err (lift_err (ne_ethWsClient env)) (\<lambda>_.
     bind_err (check (ne_avsReader env)) (\<lambda>_.
     bind_err (check (ne_chainId env)) (\<lambda>_.
     bind_err (case ne_signer env of Some e \<Rightarrow> Inl (Fault (PanicCall e)) | None \<Rightarrow> Inr ()) (\<lambda>_.
     bind_err (check (ne_wallet env)) (\<lambda>_.
     bind_err (check (ne_avsWriter env)) (\<lambda>_.
     bind_err (check (ne_avsSubscriber env)) (\<lambda>_.
     bind_err (lift_err (ne_msgDb env)) (\<lambda>msgDb.
     bind_err (ne_broadcaster env) (\<lambda>(rollupBroadcaster, start).
     bind_err (ne_registrations env) (\<lambda>registrations.
     (let agg = \<lparr>ag_registryCoordinator = coordinator, ag_checkpointInterval = interval,
            ag_rollupBroadcaster = rollupBroadcaster, ag_clientsClosed = False, ag_listener = noAggregatorListener,
            ag_registrations = registrations, ag_taskService = NewMessageBlsAggregatorService,
            ag_stateRootService = NewMessageBlsAggregatorService,
            ag_operatorSetService = NewMessageBlsAggregatorService, ag_tasks = [], ag_msgDb = msgDb,
            ag_events = [], ag_avsTxs = [], ag_broadcasts = [], ag_received = (0, 0, 0), ag_goroutines = [],
            ag_running = True\<rparr>
      in if enableMetrics
         then (case Aggregator_EnableMetrics register r agg of
                 (Some err, agg', r') \<Rightarrow> Inl (Err err)
               | (None, agg', r') \<Rightarrow> Inr (notify [IncAggregatorInitializations] agg'))
         else Inr (notify [IncAggregatorInitializations] agg)))))))))))))"

definition Aggregator_Close :: "'db gorm \<Rightarrow> 'db Aggregator \<Rightarrow> string option \<times> 'db Aggregator" where
  "Aggregator_Close g s =
     (case Database_Close g (ag_msgDb s) of
        (Some err, db') \<Rightarrow> (Some err, s\<lparr>ag_msgDb := db'\<rparr>)
      | (None, db') \<Rightarrow>
          (None, s\<lparr>ag_msgDb := db', ag_clientsClosed := True,
                   ag_rollupBroadcaster := RollupBroadcaster_Close (ag_rollupBroadcaster s)\<rparr>))"

section \<open>Responses of the aggregation services\<close>

definition read_aggregation :: "objects \<Rightarrow> (nat, nat) MessageBlsAggregation \<Rightarrow> Aggregation" where
  "read_aggregation ob a =
     \<lparr>mba_EthBlockNumber = mba_EthBlockNumber a, mba_MessageDigest = mba_MessageDigest a,
      mba_NonSignersPubkeysG1 = mba_NonSignersPubkeysG1 a, mba_QuorumApksG1 = mba_QuorumApksG1 a,
      mba_SignersApkG2 = map_option (o_g2 ob) (mba_SignersApkG2 a),
      mba_SignersAggSigG1 = map_option (o_sig ob) (mba_SignersAggSigG1 a),
      mba_NonSignerQuorumBitmapIndices = mba_NonSignerQuorumBitmapIndices a,
      mba_QuorumApkIndices = mba_QuorumApkIndices a, mba_TotalStakeIndices = mba_TotalStakeIndices a,
      mba_NonSignerStakeIndices = mba_NonSignerStakeIndices a\<rparr>"

definition noCheckpointTask :: CheckpointTask where
  "noCheckpointTask = \<lparr>ct_TaskCreatedBlock = 0, ct_FromTimestamp = 0, ct_ToTimestamp = 0, ct_QuorumThreshold = 0,
     ct_QuorumNumbers = []\<rparr>"

text \<open>
  \<^verbatim>\<open>sendAggregatedResponseToContract\<close>. The deferred function deletes the task on every return;
  \<^verbatim>\<open>logger.Fatal\<close> exits. Errors are logged.
\<close>

definition sendAggregatedResponseToContract ::
  "('db, 'log) world \<Rightarrow> objects \<Rightarrow> MessageBlsAggregationServiceResponse \<Rightarrow> 'db Aggregator \<Rightarrow>
   (string, 'db Aggregator) res" where
  "sendAggregatedResponseToContract w ob resp s =
     (let forget = (\<lambda>s. s\<lparr>ag_tasks := gdel (CheckpointTaskResponseKeyToTaskIndex (r_MessageKey resp)) (ag_tasks s)\<rparr>)
      in case r_Err resp of
           Some err \<Rightarrow>
             Inr (forget (notify (IncErroredSubmissions #
               (if strings_Contains (agg_error_text err) ''expired'' then [IncExpiredTasks] else [])) s))
         | None \<Rightarrow>
             (case r_Message resp of
                Some (CheckpointMsg taskResponse) \<Rightarrow>
                  (let task = gget_or noCheckpointTask (ag_tasks s) (ReferenceTaskIndex taskResponse);
                       s1 = notify [ObserveLastCheckpointTaskReferenceAggregated (ReferenceTaskIndex taskResponse)] s
                   in case w_BlockNumber w of
                        Inl err \<Rightarrow> Inr (forget s1)
                      | Inr currentBlock \<Rightarrow>
                          (case SendAggregatedResponse (w_tx w) task taskResponse
                                  (read_aggregation ob (r_MessageBlsAggregation resp)) of
                             (Inl (Fault f), sent) \<Rightarrow> Inl (Fault f)
                           | (_, sent) \<Rightarrow> Inr (forget (s1\<lparr>ag_avsTxs := ag_avsTxs s1 @ sent\<rparr>))))
              | _ \<Rightarrow> Inl (Fault (FatalExit ''BlsAggregationServiceResponse contains a non-task response message''))))"

text \<open>What both other handlers do with an error.\<close>

definition errored_response :: "agg_error \<Rightarrow> 'db Aggregator \<Rightarrow> 'db Aggregator" where
  "errored_response err =
     notify (IncErroredSubmissions # (if err = MessageExpiredError then [IncExpiredMessages] else []))"

definition handleStateRootUpdateReachedQuorum ::
  "('db, 'log) world \<Rightarrow> objects \<Rightarrow> MessageBlsAggregationServiceResponse \<Rightarrow> 'db Aggregator \<Rightarrow>
   (string, 'db Aggregator) res" where
  "handleStateRootUpdateReachedQuorum w ob resp s =
     (case r_Err resp of
        Some err \<Rightarrow> Inr (errored_response err s)
      | None \<Rightarrow>
          (case r_Message resp of
             None \<Rightarrow> Inl (Fault (FatalExit ''Non-errored BlsAggregationServiceResponse contains a nil message''))
           | Some (StateRootMsg msg) \<Rightarrow>
               (let s1 = notify [ObserveLastStateRootUpdateAggregated (sru_RollupId msg) (sru_BlockHeight msg)] s
                in case StoreStateRootUpdate (w_gorm w) (w_dur w) msg (ag_msgDb s1) of
                     ((msgModel, Some err), db') \<Rightarrow> Inr (s1\<lparr>ag_msgDb := db'\<rparr>)
                   | ((msgModel, None), db') \<Rightarrow>
                       (case StoreStateRootUpdateAggregation (w_gorm w) (w_dur w) msgModel
                               (read_aggregation ob (r_MessageBlsAggregation resp)) db' of
                          (err, db'') \<Rightarrow> Inr (s1\<lparr>ag_msgDb := db''\<rparr>)))
           | Some _ \<Rightarrow> Inl (Fault (FatalExit ''BlsAggregationServiceResponse contains a non-state root update message''))))"

text \<open>The deferred broadcast of a finished operator set update.\<close>

definition broadcast_update ::
  "('db, 'log) world \<Rightarrow> objects \<Rightarrow> OperatorSetUpdateMessage \<Rightarrow> MessageBlsAggregationServiceResponse \<Rightarrow> 'db Aggregator \<Rightarrow>
   (string, 'db Aggregator) res" where
  "broadcast_update w ob msg resp s =
     (if r_Finished resp then
        bind_err (ExtractBindingRollup (read_aggregation ob (r_MessageBlsAggregation resp))) (\<lambda>signatureInfo.
        (case BroadcastOperatorSetUpdate (w_rollups w) (w_started w) msg signatureInfo (ag_rollupBroadcaster s) of
           (results, b') \<Rightarrow>
             Inr (s\<lparr>ag_rollupBroadcaster := b', ag_broadcasts := ag_broadcasts s @ [results]\<rparr>)))
      else Inr s)"

definition handleOperatorSetUpdateReachedQuorum ::
  "('db, 'log) world \<Rightarrow> objects \<Rightarrow> MessageBlsAggregationServiceResponse \<Rightarrow> 'db Aggregator \<Rightarrow>
   (string, 'db Aggregator) res" where
  "handleOperatorSetUpdateReachedQuorum w ob resp s =
     (case r_Err resp of
        Some err \<Rightarrow> Inr (errored_response err s)
      | None \<Rightarrow>
          (case r_Message resp of
             None \<Rightarrow> Inl (Fault (FatalExit ''Non-errored BlsAggregationServiceResponse contains a nil message''))
           | Some (OperatorSetMsg msg) \<Rightarrow>
               (let s1 = notify [ObserveLastOperatorSetUpdateAggregated (osu_Id msg)] s
                in case StoreOperatorSetUpdate (w_gorm w) (w_dur w) msg (ag_msgDb s1) of
                     ((msgModel, Some err), db') \<Rightarrow> broadcast_update w ob msg resp (s1\<lparr>ag_msgDb := db'\<rparr>)
                   | ((msgModel, None), db') \<Rightarrow>
                       (case StoreOperatorSetUpdateAggregation (w_gorm w) (w_dur w) msgModel
                               (read_aggregation ob (r_MessageBlsAggregation resp)) db' of
                          (err, db'') \<Rightarrow> broadcast_update w ob msg resp (s1\<lparr>ag_msgDb := db''\<rparr>)))
           | Some _ \<Rightarrow> Inl (Fault (FatalExit ''BlsAggregationServiceResponse contains a non-operator set update message''))))"

section \<open>New checkpoint tasks\<close>

definition checkpoint_range :: "duration \<Rightarrow> u64 \<Rightarrow> u64 \<Rightarrow> u64 \<times> u64" where
  "checkpoint_range interval blockTime lastCheckpointToTimestamp =
     (let toTimestamp = blockTime - seconds MESSAGE_SUBMISSION_TIMEOUT - seconds MESSAGE_BLS_AGGREGATION_TIMEOUT;
          fromTimestamp = (if lastCheckpointToTimestamp = 0 then toTimestamp - seconds interval
                           else lastCheckpointToTimestamp + 1)
      in (fromTimestamp, toTimestamp))"

definition task_init_args :: "u32 \<Rightarrow> CheckpointTask \<Rightarrow> init_args" where
  "task_init_args taskIndex newTask =
     \<lparr>ia_key = CheckpointTaskResponse_Key \<lparr>ReferenceTaskIndex = taskIndex, StateRootUpdatesRoot = zero32,
        OperatorSetUpdatesRoot = zero32\<rparr>,
      ia_quorumNumbers = ConvertBytesToQuorumNumbers (ct_QuorumNumbers newTask),
      ia_percentages = map (\<lambda>_. TASK_AGGREGATION_QUORUM_THRESHOLD) (ct_QuorumNumbers newTask),
      ia_block = ucast (ct_TaskCreatedBlock newTask)\<rparr>"

definition sendNewCheckpointTask :: "('db, 'log) world \<Rightarrow> 'db Aggregator \<Rightarrow> (string, 'db Aggregator) res" where
  "sendNewCheckpointTask w s =
     (case w_BlockNumber w of Inl err \<Rightarrow> Inr s | Inr blockNumber \<Rightarrow>
     (case w_BlockTime w blockNumber of Inl err \<Rightarrow> Inr s | Inr blockTime \<Rightarrow>
     (case GetLastCheckpointToTimestamp (w_tm w) of Inl err \<Rightarrow> Inr s | Inr lastCheckpointToTimestamp \<Rightarrow>
     (case checkpoint_range (ag_checkpointInterval s) blockTime lastCheckpointToTimestamp of
        (fromTimestamp, toTimestamp) \<Rightarrow>
          (case SendNewCheckpointTask (w_tx w) fromTimestamp toTimestamp TASK_QUORUM_THRESHOLD QUORUM_NUMBERS of
             (Inl (Fault f), sent) \<Rightarrow> Inl (Fault f)
           | (Inl (Err err), sent) \<Rightarrow> Inr (s\<lparr>ag_avsTxs := ag_avsTxs s @ sent\<rparr>)
           | (Inr (newTask, taskIndex), sent) \<Rightarrow>
               (let s1 = (notify [ObserveLastCheckpointReferenceSent taskIndex] s)
                      \<lparr>ag_avsTxs := ag_avsTxs s @ sent, ag_tasks := gput taskIndex newTask (ag_tasks s)\<rparr>
                in case InitializeMessageIfNotExists (w_bl w) (w_avs w) (task_init_args taskIndex newTask) (ag_taskService s) of
                     (Some (Fault f), service') \<Rightarrow> Inl (Fault f)
                   | (_, service') \<Rightarrow> Inr (s1\<lparr>ag_taskService := service'\<rparr>)))))))"

section \<open>Signed messages\<close>

text \<open>The argument of \<^verbatim>\<open>verifySignature\<close>, an \<^verbatim>\<open>interface{}\<close>.\<close>

datatype signed_message =
    SignedTaskResponse SignedCheckpointTaskResponse
  | SignedStateRoot SignedStateRootUpdateMessage
  | SignedOperatorSet SignedOperatorSetUpdateMessage
  | SignedOther

definition digest_or :: "aggregator_error \<Rightarrow> (string, MessageDigest) res \<Rightarrow> (aggregator_error, MessageDigest) res" where
  "digest_or e r = (case r of Inl (Err _) \<Rightarrow> Inl (Err e) | Inl (Fault f) \<Rightarrow> Inl (Fault f) | Inr d \<Rightarrow> Inr d)"

fun signed_parts :: "codec \<Rightarrow> signed_message \<Rightarrow> (aggregator_error, OperatorId \<times> Signature \<times> MessageDigest) res" where
  "signed_parts cd (SignedTaskResponse m) =
     bind_err (digest_or TaskResponseDigestError (CheckpointTaskResponse_Digest cd (sctr_TaskResponse m))) (\<lambda>d.
       Inr (sctr_OperatorId m, sctr_BlsSignature m, d))"
| "signed_parts cd (SignedStateRoot m) =
     bind_err (digest_or MessageDigestError (StateRootUpdateMessage_Digest cd (ssru_Message m))) (\<lambda>d.
       Inr (ssru_OperatorId m, ssru_BlsSignature m, d))"
| "signed_parts cd (SignedOperatorSet m) =
     bind_err (digest_or MessageDigestError (OperatorSetUpdateMessage_Digest cd (sosu_Message m))) (\<lambda>d.
       Inr (sosu_OperatorId m, sosu_BlsSignature m, d))"
| "signed_parts cd SignedOther = Inl (Err UnsupportedMessageTypeError)"

definition Aggregator_GetOperatorInfoById ::
  "bool \<Rightarrow> OperatorId \<Rightarrow> 'db Aggregator \<Rightarrow> (string, OperatorInfo \<times> bool) res \<times> 'db Aggregator" where
  "Aggregator_GetOperatorInfoById ctxDone operatorId s =
     (case GetOperatorInfoById ctxDone operatorId (ag_registrations s) of
        (r, regs) \<Rightarrow> (r, s\<lparr>ag_registrations := regs\<rparr>))"

definition Aggregator_verifySignature ::
  "('db, 'log) world \<Rightarrow> signed_message \<Rightarrow> 'db Aggregator \<Rightarrow> (aggregator_error, unit) res \<times> 'db Aggregator" where
  "Aggregator_verifySignature w m s =
     (case signed_parts (w_cd w) m of
        Inl e \<Rightarrow> (Inl e, s)
      | Inr (operatorId, signature, digest) \<Rightarrow>
          (case Aggregator_GetOperatorInfoById False operatorId s of
             (Inl (Fault f), s') \<Rightarrow> (Inl (Fault f), s')
           | (Inl (Err _), s') \<Rightarrow> (Inl (Err OperatorNotFoundError), s')
           | (Inr (operatorInfo, ok), s') \<Rightarrow>
               (if \<not> ok then (Inl (Err OperatorNotFoundError), s')
                else
                  (case op_G2Pubkey (oi_Pubkeys operatorInfo) of
                     None \<Rightarrow> (Inl (Fault NilDereference), s')
                   | Some pk \<Rightarrow>
                       (case SigVerify (w_bl w) signature pk digest of
                          Inl err \<Rightarrow> (Inl (Err InvalidSignatureError), s')
                        | Inr verified \<Rightarrow>
                            if \<not> verified then (Inl (Err InvalidSignatureError), s') else (Inr (), s'))))))"

definition validateMessageTimestamp :: "int \<Rightarrow> u64 \<Rightarrow> (aggregator_error, unit) res" where
  "validateMessageTimestamp unixNow messageTimestamp =
     (let now = (word_of_int unixNow :: u64); timeout = seconds MESSAGE_SUBMISSION_TIMEOUT
      in if now > timeout \<and> messageTimestamp < now - timeout then Inl (Err MessageTimeoutError) else Inr ())"

definition bls_failure :: "agg_error failure \<Rightarrow> aggregator_error failure" where
  "bls_failure e = (case e of Err x \<Rightarrow> Err (BlsAggError x) | Fault f \<Rightarrow> Fault f)"

definition ProcessSignedCheckpointTaskResponse ::
  "('db, 'log) world \<Rightarrow> SignedCheckpointTaskResponse \<Rightarrow> 'db Aggregator \<Rightarrow> aggregator_error failure option \<times> 'db Aggregator" where
  "ProcessSignedCheckpointTaskResponse w m s =
     (case Aggregator_verifySignature w (SignedTaskResponse m) s of
        (Inl e, s1) \<Rightarrow> (Some e, s1)
      | (Inr _, s1) \<Rightarrow>
          (let s2 = notify [ObserveLastCheckpointTaskReferenceReceived (ReferenceTaskIndex (sctr_TaskResponse m))] s1
           in case ProcessNewSignature (w_cd w) (w_bl w) (w_idx w) False (CheckpointMsg (sctr_TaskResponse m))
                     (sctr_BlsSignature m) (sctr_OperatorId m) (ag_taskService s2) of
                (e, service') \<Rightarrow> (map_option bls_failure e, s2\<lparr>ag_taskService := service'\<rparr>)))"

text \<open>The arguments with which both kinds of messages are initialized.\<close>

definition message_init_args :: "MessageKey \<Rightarrow> u64 \<Rightarrow> init_args" where
  "message_init_args key block =
     \<lparr>ia_key = key, ia_quorumNumbers = QUORUM_NUMBERS, ia_percentages = [MESSAGE_AGGREGATION_QUORUM_THRESHOLD],
      ia_block = block\<rparr>"

definition initialize_and_process ::
  "('db, 'log) world \<Rightarrow> init_args \<Rightarrow> ServiceMessage \<Rightarrow> Signature \<Rightarrow> OperatorId \<Rightarrow> MessageBlsAggregatorService \<Rightarrow>
   agg_error failure option \<times> MessageBlsAggregatorService" where
  "initialize_and_process w args msg sig operatorId service =
     (case InitializeMessageIfNotExists (w_bl w) (w_avs w) args service of
        (Some e, service') \<Rightarrow> (Some e, service')
      | (None, service') \<Rightarrow> ProcessNewSignature (w_cd w) (w_bl w) (w_idx w) False msg sig operatorId service')"

definition ProcessSignedStateRootUpdateMessage ::
  "('db, 'log) world \<Rightarrow> SignedStateRootUpdateMessage \<Rightarrow> 'db Aggregator \<Rightarrow> aggregator_error failure option \<times> 'db Aggregator" where
  "ProcessSignedStateRootUpdateMessage w m s =
     (case validateMessageTimestamp (w_now w) (sru_Timestamp (ssru_Message m)) of
        Inl e \<Rightarrow> (Some e, s)
      | Inr _ \<Rightarrow>
          (case Aggregator_verifySignature w (SignedStateRoot m) s of
             (Inl e, s1) \<Rightarrow> (Some e, s1)
           | (Inr _, s1) \<Rightarrow>
               (let s2 = notify [ObserveLastStateRootUpdateReceived (sru_RollupId (ssru_Message m))
                      (sru_BlockHeight (ssru_Message m))] s1
                in case initialize_and_process w (message_init_args (StateRootUpdateMessage_Key (ssru_Message m)) 0)
                          (StateRootMsg (ssru_Message m)) (ssru_BlsSignature m) (ssru_OperatorId m)
                          (ag_stateRootService s2) of
                     (e, service') \<Rightarrow> (map_option bls_failure e, s2\<lparr>ag_stateRootService := service'\<rparr>))))"

definition ProcessSignedOperatorSetUpdateMessage ::
  "('db, 'log) world \<Rightarrow> SignedOperatorSetUpdateMessage \<Rightarrow> 'db Aggregator \<Rightarrow> aggregator_error failure option \<times> 'db Aggregator" where
  "ProcessSignedOperatorSetUpdateMessage w m s =
     (case validateMessageTimestamp (w_now w) (osu_Timestamp (sosu_Message m)) of
        Inl e \<Rightarrow> (Some e, s)
      | Inr _ \<Rightarrow>
          (case Aggregator_verifySignature w (SignedOperatorSet m) s of
             (Inl e, s1) \<Rightarrow> (Some e, s1)
           | (Inr _, s1) \<Rightarrow>
               (case GetOperatorSetUpdateBlock (w_reg w) (osu_Id (sosu_Message m)) of
                  Inl err \<Rightarrow> (Some (Err GetOperatorSetUpdateBlockError), s1)
                | Inr blockNumber \<Rightarrow>
                    (let s2 = notify [ObserveLastOperatorSetUpdateReceived (osu_Id (sosu_Message m))] s1
                     in case initialize_and_process w
                               (message_init_args (OperatorSetUpdateMessage_Key (sosu_Message m)) (ucast blockNumber - 1))
                               (OperatorSetMsg (sosu_Message m)) (sosu_BlsSignature m) (sosu_OperatorId m)
                               (ag_operatorSetService s2) of
                          (e, service') \<Rightarrow> (map_option bls_failure e, s2\<lparr>ag_operatorSetService := service'\<rparr>)))))"

section \<open>Queries\<close>

definition Aggregator_GetAggregatedCheckpointMessages ::
  "('db, 'log) world \<Rightarrow> u64 \<Rightarrow> u64 \<Rightarrow> 'db Aggregator \<Rightarrow> (aggregator_error, CheckpointMessages) res \<times> 'db Aggregator" where
  "Aggregator_GetAggregatedCheckpointMessages w fromTimestamp toTimestamp s =
     (case FetchCheckpointMessages (w_gorm w) (w_dur w) fromTimestamp toTimestamp (ag_msgDb s) of
        (r, db') \<Rightarrow>
          ((case r of Inl (Err e) \<Rightarrow> Inl (Err (DatabaseError e)) | Inl (Fault f) \<Rightarrow> Inl (Fault f) | Inr cm \<Rightarrow> Inr cm),
           s\<lparr>ag_msgDb := db'\<rparr>))"

definition Aggregator_GetRegistryCoordinatorAddress :: "'db Aggregator \<Rightarrow> string" where
  "Aggregator_GetRegistryCoordinatorAddress s = ag_registryCoordinator s"

text \<open>Every error of the database becomes the same answer.\<close>

definition or_else :: "aggregator_error \<Rightarrow> (string, 'a) res \<Rightarrow> (aggregator_error, 'a) res" where
  "or_else e r = (case r of Inl (Err _) \<Rightarrow> Inl (Err e) | Inl (Fault f) \<Rightarrow> Inl (Fault f) | Inr x \<Rightarrow> Inr x)"

definition GetStateRootUpdateAggregation ::
  "('db, 'log) world \<Rightarrow> u32 \<Rightarrow> u64 \<Rightarrow> 'db Aggregator \<Rightarrow>
   (aggregator_error, StateRootUpdateMessage \<times> Aggregation) res \<times> 'db Aggregator" where
  "GetStateRootUpdateAggregation w rollupId blockHeight s =
     (case FetchStateRootUpdate (w_gorm w) (w_dur w) rollupId blockHeight (ag_msgDb s) of
        (r, db') \<Rightarrow>
          (case or_else StateRootUpdateNotFoundError r of
             Inl e \<Rightarrow> (Inl e, s\<lparr>ag_msgDb := db'\<rparr>)
           | Inr message \<Rightarrow>
               (case FetchStateRootUpdateAggregation (w_gorm w) (w_dur w) rollupId blockHeight db' of
                  (r', db'') \<Rightarrow>
                    (bind_err (or_else StateRootAggNotFoundError r') (\<lambda>aggregation. Inr (message, aggregation)),
                     s\<lparr>ag_msgDb := db''\<rparr>))))"

definition GetOperatorSetUpdateAggregation ::
  "('db, 'log) world \<Rightarrow> u64 \<Rightarrow> 'db Aggregator \<Rightarrow>
   (aggregator_error, OperatorSetUpdateMessage \<times> Aggregation) res \<times> 'db Aggregator" where
  "GetOperatorSetUpdateAggregation w updateId s =
     (case FetchOperatorSetUpdate (w_gorm w) (w_dur w) updateId (ag_msgDb s) of
        (r, db') \<Rightarrow>
          (case or_else OperatorSetNotFoundError r of
             Inl e \<Rightarrow> (Inl e, s\<lparr>ag_msgDb := db'\<rparr>)
           | Inr message \<Rightarrow>
               (case FetchOperatorSetUpdateAggregation (w_gorm w) (w_dur w) updateId db' of
                  (r', db'') \<Rightarrow>
                    (bind_err (or_else OperatorAggNotFoundError r') (\<lambda>aggregation. Inr (message, aggregation)),
                     s\<lparr>ag_msgDb := db''\<rparr>))))"

definition GetCheckpointMessages ::
  "('db, 'log) world \<Rightarrow> u64 \<Rightarrow> u64 \<Rightarrow> 'db Aggregator \<Rightarrow> (aggregator_error, CheckpointMessages) res \<times> 'db Aggregator" where
  "GetCheckpointMessages w fromTimestamp toTimestamp s =
     (case FetchCheckpointMessages (w_gorm w) (w_dur w) fromTimestamp toTimestamp (ag_msgDb s) of
        (r, db') \<Rightarrow> (or_else CheckpointNotFoundError r, s\<lparr>ag_msgDb := db'\<rparr>))"

section \<open>The loop\<close>

text \<open>
  \<^verbatim>\<open>Start\<close>, one case of its \<^verbatim>\<open>select\<close> at a time. The channel of a service has the responses that it has
  sent; the loop receives the next one. A finished task response and the ticker start goroutines.
\<close>

definition next_response :: "nat \<Rightarrow> MessageBlsAggregatorService \<Rightarrow> MessageBlsAggregationServiceResponse option" where
  "next_response n service =
     (if n < length (GetResponseChannel service) then Some (GetResponseChannel service ! n) else None)"

definition on_task_response :: "'db Aggregator \<Rightarrow> 'db Aggregator option" where
  "on_task_response s =
     (case ag_received s of (i, j, k) \<Rightarrow>
       (case next_response i (ag_taskService s) of
          None \<Rightarrow> None
        | Some resp \<Rightarrow>
            Some (s\<lparr>ag_received := (i + 1, j, k),
                    ag_goroutines := ag_goroutines s @
                      (if r_Finished resp then [SendAggregatedResponseToContract resp] else [])\<rparr>)))"

definition on_state_root_response ::
  "('db, 'log) world \<Rightarrow> objects \<Rightarrow> 'db Aggregator \<Rightarrow> (string, 'db Aggregator) res option" where
  "on_state_root_response w ob s =
     (case ag_received s of (i, j, k) \<Rightarrow>
       (case next_response j (ag_stateRootService s) of
          None \<Rightarrow> None
        | Some resp \<Rightarrow>
            Some (handleStateRootUpdateReachedQuorum w ob resp (s\<lparr>ag_received := (i, j + 1, k)\<rparr>))))"

definition on_operator_set_response ::
  "('db, 'log) world \<Rightarrow> objects \<Rightarrow> 'db Aggregator \<Rightarrow> (string, 'db Aggregator) res option" where
  "on_operator_set_response w ob s =
     (case ag_received s of (i, j, k) \<Rightarrow>
       (case next_response k (ag_operatorSetService s) of
          None \<Rightarrow> None
        | Some resp \<Rightarrow>
            Some (handleOperatorSetUpdateReachedQuorum w ob resp (s\<lparr>ag_received := (i, j, k + 1)\<rparr>))))"

definition on_ticker :: "'db Aggregator \<Rightarrow> 'db Aggregator" where
  "on_ticker s = s\<lparr>ag_goroutines := ag_goroutines s @ [SendNewCheckpointTaskToContract]\<rparr>"

definition on_ctx_done :: "'db gorm \<Rightarrow> 'db Aggregator \<Rightarrow> string option \<times> 'db Aggregator" where
  "on_ctx_done g s = (case Aggregator_Close g s of (err, s') \<Rightarrow> (err, s'\<lparr>ag_running := False\<rparr>))"

fun run_goroutine ::
  "('db, 'log) world \<Rightarrow> objects \<Rightarrow> agg_goroutine \<Rightarrow> 'db Aggregator \<Rightarrow> (string, 'db Aggregator) res" where
  "run_goroutine w ob (SendAggregatedResponseToContract resp) s = sendAggregatedResponseToContract w ob resp s"
| "run_goroutine w ob SendNewCheckpointTaskToContract s = sendNewCheckpointTask w s"

text \<open>
  The whole process: the loop, its goroutines, the calls of the servers, the timers of the services
  and the registrations. Calls run one after the other here; the interleavings inside a service are
  those of \<open>mbas_step\<close>. A fault ends the process or blocks the call, so it is not a step. Receipt logs,
  which only the bindings read, are numbered.
\<close>

inductive agg_step ::
  "codec \<Rightarrow> bls_lib \<Rightarrow> (G1Point option \<Rightarrow> OperatorId) \<Rightarrow> 'db Aggregator \<Rightarrow> 'db Aggregator \<Rightarrow> bool"
  for cd :: codec and bl :: bls_lib and idOf :: "G1Point option \<Rightarrow> OperatorId" where
  task_response: "ag_running s \<Longrightarrow> on_task_response s = Some t \<Longrightarrow> agg_step cd bl idOf s t"
| state_root_response: "ag_running s \<Longrightarrow> on_state_root_response (w :: ('db, nat) world) ob s = Some (Inr t) \<Longrightarrow> agg_step cd bl idOf s t"
| operator_set_response: "ag_running s \<Longrightarrow> on_operator_set_response (w :: ('db, nat) world) ob s = Some (Inr t) \<Longrightarrow> agg_step cd bl idOf s t"
| ticker: "ag_running s \<Longrightarrow> agg_step cd bl idOf s (on_ticker s)"
| ctx_done: "ag_running s \<Longrightarrow> agg_step cd bl idOf s (snd (on_ctx_done g s))"
| goroutine: "r \<in> set (ag_goroutines s) \<Longrightarrow> w_bl w = bl \<Longrightarrow> run_goroutine (w :: ('db, nat) world) ob r s = Inr t \<Longrightarrow>
    agg_step cd bl idOf s (t\<lparr>ag_goroutines := remove1 r (ag_goroutines s)\<rparr>)"
| signed_task: "w_cd w = cd \<Longrightarrow> w_bl w = bl \<Longrightarrow> ProcessSignedCheckpointTaskResponse (w :: ('db, nat) world) mt s = (e, t) \<Longrightarrow>
    \<forall>f. e \<noteq> Some (Fault f) \<Longrightarrow> agg_step cd bl idOf s t"
| signed_state_root: "w_cd w = cd \<Longrightarrow> w_bl w = bl \<Longrightarrow> ProcessSignedStateRootUpdateMessage (w :: ('db, nat) world) ms s = (e, t) \<Longrightarrow>
    \<forall>f. e \<noteq> Some (Fault f) \<Longrightarrow> agg_step cd bl idOf s t"
| signed_operator_set: "w_cd w = cd \<Longrightarrow> w_bl w = bl \<Longrightarrow> ProcessSignedOperatorSetUpdateMessage (w :: ('db, nat) world) mo s = (e, t) \<Longrightarrow>
    \<forall>f. e \<noteq> Some (Fault f) \<Longrightarrow> agg_step cd bl idOf s t"
| query_checkpoint: "agg_step cd bl idOf s (snd (GetCheckpointMessages (w :: ('db, nat) world) f u s))"
| query_aggregated: "agg_step cd bl idOf s (snd (Aggregator_GetAggregatedCheckpointMessages (w :: ('db, nat) world) f u s))"
| query_state_root: "agg_step cd bl idOf s (snd (GetStateRootUpdateAggregation (w :: ('db, nat) world) rollup height s))"
| query_operator_set: "agg_step cd bl idOf s (snd (GetOperatorSetUpdateAggregation (w :: ('db, nat) world) i s))"
| task_timer: "react cd bl c (Timer idx) (ag_taskService s) = Inr (reply, v) \<Longrightarrow>
    agg_step cd bl idOf s (s\<lparr>ag_taskService := v\<rparr>)"
| state_root_timer: "react cd bl c (Timer idx) (ag_stateRootService s) = Inr (reply, v) \<Longrightarrow>
    agg_step cd bl idOf s (s\<lparr>ag_stateRootService := v\<rparr>)"
| operator_set_timer: "react cd bl c (Timer idx) (ag_operatorSetService s) = Inr (reply, v) \<Longrightarrow>
    agg_step cd bl idOf s (s\<lparr>ag_operatorSetService := v\<rparr>)"
| registration: "ors_step bl idOf (ag_registrations s) r \<Longrightarrow> agg_step cd bl idOf s (s\<lparr>ag_registrations := r\<rparr>)"

end
