(* ===== verification/AggregatorSafety.thy ===== *)
theory AggregatorSafety
  imports Aggregator
begin

text \<open>
  Properties of the aggregator that span its components: its use of the aggregation services refines
  their step relation, only messages that are signed with a registered key reach a service, what
  reaches a quorum is what the queries serve, and the range of a checkpoint is closed when its task is
  created.
\<close>

section \<open>The services\<close>

text \<open>Between the aggregator's calls no call of a service is under way.\<close>

definition idle :: "MessageBlsAggregatorService \<Rightarrow> bool" where
  "idle v \<longleftrightarrow> senders v = [] \<and> pendingInits v = []"

lemma react_keeps:
  assumes "react cd bl c ev v = Inr (reply, v')"
  shows "senders v' = senders v" "pendingInits v' = pendingInits v"
  using assms by (cases rule: react_cases; auto simp: closeMessageGoroutine_def split: option.splits)+

lemma react_senders:
  assumes "react cd bl c ev v = Inr (reply, v')"
  shows "react cd bl c ev (v\<lparr>senders := q\<rparr>) = Inr (reply, v'\<lparr>senders := q\<rparr>)"
  using assms
  by (cases rule: react_cases) (simp add: react_def Let_def closeMessageGoroutine_def split: option.splits)

lemma timer_steps:
  "idle v \<Longrightarrow> react cd bl c (Timer idx) v = Inr (reply, v') \<Longrightarrow> (mbas_step cd bl)\<^sup>*\<^sup>* v v' \<and> idle v'"
  by (auto simp: idle_def react_keeps intro: mbas_step.timer)

lemma init_steps:
  assumes "idle v" "InitializeMessageIfNotExists bl avs a v = (e, v')" "\<forall>f. e \<noteq> Some (Fault f)"
  shows "(mbas_step cd bl)\<^sup>*\<^sup>* v v' \<and> idle v'"
proof (cases "validateQuorumThresholdPercentages (ia_percentages a)")
  case (Inl x)
  then show ?thesis
    using assms by (simp add: InitializeMessageIfNotExists_def)
next
  case (Inr u)
  then have valid: "validateQuorumThresholdPercentages (ia_percentages a) = Inr ()"
    by simp
  show ?thesis
  proof (cases "gget (signedMessageCs v) (ia_key a)")
    case (Some c)
    then show ?thesis
      using assms valid by (simp add: InitializeMessageIfNotExists_def initializeMessageChan_def)
  next
    case None
    define c where "c = nextChan v"
    define v1 where "v1 = v\<lparr>signedMessageCs := gput (ia_key a) c (signedMessageCs v), nextChan := c + 1\<rparr>"
    have chan: "initializeMessageChan (ia_key a) v = (Some c, v1)"
      using None by (simp add: initializeMessageChan_def c_def v1_def Let_def)
    define v2 where "v2 = v1\<lparr>pendingInits := gput c a (pendingInits v1)\<rparr>"
    have call: "mbas_step cd bl v v2"
      unfolding v2_def by (rule mbas_step.init_call [OF valid chan])
    have idle1: "idle v1" and undone: "v2\<lparr>pendingInits := gdel c (pendingInits v2)\<rparr> = v1"
      using assms(1) by (simp_all add: v2_def v1_def idle_def)
    have pending: "gget (pendingInits v2) c = Some a"
      by (simp add: v2_def)
    show ?thesis
    proof (cases "fetchValidationInfo bl avs (ia_quorumNumbers a) (ia_percentages a) (ia_block a)")
      case (Inl f)
      then obtain x where x: "f = Err x" "v' = v1"
        using assms(2,3) valid chan by (cases f) (auto simp: InitializeMessageIfNotExists_def)
      have "mbas_step cd bl v2 v1"
        using mbas_step.init_failed [OF pending, of bl avs x cd] Inl x(1) undone by simp
      then show ?thesis
        using call idle1 x(2) by (simp add: rtranclp.rtrancl_into_rtrancl)
    next
      case (Inr vi)
      then have v': "v' = start_routine (ia_key a) c vi v1"
        using assms(2) valid chan by (simp add: InitializeMessageIfNotExists_def)
      have "mbas_step cd bl v2 v'"
        using mbas_step.init_done [OF pending Inr, of cd] undone v' by simp
      then show ?thesis
        using call idle1 v' by (simp add: rtranclp.rtrancl_into_rtrancl idle_def start_routine_def)
    qed
  qed
qed

lemma signature_steps:
  assumes "idle v" "ProcessNewSignature cd bl idx ctx msg sig i v = (e, v')"
  shows "(mbas_step cd bl)\<^sup>*\<^sup>* v v' \<and> idle v'"
proof (cases "v' = v")
  case True
  then show ?thesis
    using assms(1) by simp
next
  case False
  obtain c sm reply where found: "find_channel cd msg sig i v = Inr (c, sm)"
    and react: "react cd bl c (Received sm idx) v = Inr (reply, v')"
    using assms(2) False unfolding ProcessNewSignature_def
    by (auto split: sum.splits option.splits prod.splits if_splits)
  let ?v1 = "v\<lparr>senders := [(c, sm)]\<rparr>"
  have "mbas_step cd bl v ?v1"
    using mbas_step.signature_call [OF found, of bl] assms(1) by (simp add: idle_def)
  moreover have "mbas_step cd bl ?v1 (v'\<lparr>senders := [(c, sm)]\<rparr>\<lparr>senders := remove1 (c, sm) (senders ?v1)\<rparr>)"
    by (rule mbas_step.delivery [OF _ react_senders [OF react]]) simp
  moreover have "v'\<lparr>senders := [(c, sm)]\<rparr>\<lparr>senders := remove1 (c, sm) (senders ?v1)\<rparr> = v'"
    using react_keeps(1) [OF react] assms(1) by (simp add: idle_def)
  ultimately have "(mbas_step cd bl)\<^sup>*\<^sup>* v v'"
    by (metis converse_rtranclp_into_rtranclp rtranclp.rtrancl_refl)
  then show ?thesis
    using react_keeps [OF react] assms(1) by (simp add: idle_def)
qed

lemma initialize_and_process_steps:
  assumes "idle v" "initialize_and_process w a msg sig i v = (e, v')" "\<forall>f. e \<noteq> Some (Fault f)"
  shows "(mbas_step (w_cd w) (w_bl w))\<^sup>*\<^sup>* v v' \<and> idle v'"
proof -
  obtain e1 v1 where init: "InitializeMessageIfNotExists (w_bl w) (w_avs w) a v = (e1, v1)"
    by fastforce
  show ?thesis
  proof (cases e1)
    case (Some x)
    then have "e = e1" "v' = v1"
      using assms(2) init by (simp_all add: initialize_and_process_def)
    then show ?thesis
      using init_steps [OF assms(1) init] assms(3) by blast
  next
    case None
    then have p: "ProcessNewSignature (w_cd w) (w_bl w) (w_idx w) False msg sig i v1 = (e, v')"
      using assms(2) init by (simp add: initialize_and_process_def)
    have "(mbas_step (w_cd w) (w_bl w))\<^sup>*\<^sup>* v v1 \<and> idle v1"
      using init_steps [OF assms(1) init] None by blast
    then show ?thesis
      using signature_steps [OF _ p] by (meson rtranclp_trans)
  qed
qed

section \<open>The aggregator's steps\<close>

text \<open>
  What holds in every reachable state: the services are in states that they reach by their own steps,
  and the registrations have every key under its id.
\<close>

definition services_ok :: "codec \<Rightarrow> bls_lib \<Rightarrow> (G1Point option \<Rightarrow> OperatorId) \<Rightarrow> 'db Aggregator \<Rightarrow> bool" where
  "services_ok cd bl idOf s \<longleftrightarrow>
     registrations_ok idOf (ag_registrations s) \<and>
     (\<forall>v \<in> {ag_taskService s, ag_stateRootService s, ag_operatorSetService s}.
        (mbas_step cd bl)\<^sup>*\<^sup>* NewMessageBlsAggregatorService v \<and> idle v)"

definition same_services :: "'db Aggregator \<Rightarrow> 'db Aggregator \<Rightarrow> bool" where
  "same_services s t \<longleftrightarrow> ag_taskService t = ag_taskService s \<and> ag_stateRootService t = ag_stateRootService s \<and>
     ag_operatorSetService t = ag_operatorSetService s \<and> ag_registrations t = ag_registrations s"

lemma services_ok_same: "services_ok cd bl idOf s \<Longrightarrow> same_services s t \<Longrightarrow> services_ok cd bl idOf t"
  by (simp add: services_ok_def same_services_def)

lemma ask_unchanged: "snd (ask False q r) = r"
  by (simp add: ask_def)

lemma operator_info_unchanged: "snd (Aggregator_GetOperatorInfoById False i s) = s"
  using ask_unchanged [of "onQueryById i" "ag_registrations s"]
  by (simp add: Aggregator_GetOperatorInfoById_def GetOperatorInfoById_def case_prod_beta)

lemma verify_unchanged: "snd (Aggregator_verifySignature w m s) = s"
proof -
  have "s' = s" if "Aggregator_GetOperatorInfoById False i s = (r, s')" for i r s'
    using operator_info_unchanged [of i s] that by simp
  then show ?thesis
    unfolding Aggregator_verifySignature_def
    by (auto split: sum.splits prod.splits failure.splits option.splits)
qed

lemma same_services_simps [simp]:
  "same_services s s"
  "same_services s (notify evs t) = same_services s t"
  "same_services s (errored_response err t) = same_services s t"
  "same_services s (t\<lparr>ag_msgDb := db\<rparr>) = same_services s t"
  "same_services s (t\<lparr>ag_tasks := ts\<rparr>) = same_services s t"
  "same_services s (t\<lparr>ag_avsTxs := txs\<rparr>) = same_services s t"
  "same_services s (t\<lparr>ag_received := rc\<rparr>) = same_services s t"
  "same_services s (t\<lparr>ag_goroutines := gs\<rparr>) = same_services s t"
  "same_services s (t\<lparr>ag_running := b\<rparr>) = same_services s t"
  "same_services s (t\<lparr>ag_clientsClosed := b\<rparr>) = same_services s t"
  "same_services s (t\<lparr>ag_rollupBroadcaster := rb\<rparr>) = same_services s t"
  "same_services s (t\<lparr>ag_broadcasts := bs\<rparr>) = same_services s t"
  "same_services (s\<lparr>ag_received := rc\<rparr>) t = same_services s t"
  by (simp_all add: same_services_def notify_def errored_response_def)

lemma send_response_same: "sendAggregatedResponseToContract w ob resp s = Inr t \<Longrightarrow> same_services s t"
  unfolding sendAggregatedResponseToContract_def
  by (auto simp: Let_def split: option.splits sum.splits prod.splits failure.splits ServiceMessage.splits)

lemma state_root_quorum_same: "handleStateRootUpdateReachedQuorum w ob resp s = Inr t \<Longrightarrow> same_services s t"
  unfolding handleStateRootUpdateReachedQuorum_def
  by (auto simp: Let_def split: option.splits prod.splits ServiceMessage.splits)

lemma broadcast_same: "broadcast_update w ob msg resp s = Inr t \<Longrightarrow> same_services s t"
  unfolding broadcast_update_def case_prod_beta by (auto split: if_splits)

lemma same_services_trans: "same_services s t \<Longrightarrow> same_services t u \<Longrightarrow> same_services s u"
  by (simp add: same_services_def)

lemma operator_set_quorum_same:
  assumes "handleOperatorSetUpdateReachedQuorum w ob resp s = Inr t"
  shows "same_services s t"
proof -
  have "same_services s t \<or> (\<exists>msg db. broadcast_update w ob msg resp
      ((notify [ObserveLastOperatorSetUpdateAggregated (osu_Id msg)] s)\<lparr>ag_msgDb := db\<rparr>) = Inr t)"
    using assms unfolding handleOperatorSetUpdateReachedQuorum_def
    by (auto simp: Let_def split: option.splits prod.splits ServiceMessage.splits)
  then show ?thesis
    by (elim disjE exE) (assumption, rule same_services_trans [OF _ broadcast_same], simp_all)
qed

lemma new_task_services:
  assumes "sendNewCheckpointTask w s = Inr t" "idle (ag_taskService s)"
  shows "ag_stateRootService t = ag_stateRootService s" "ag_operatorSetService t = ag_operatorSetService s"
    "ag_registrations t = ag_registrations s"
    "(mbas_step cd (w_bl w))\<^sup>*\<^sup>* (ag_taskService s) (ag_taskService t) \<and> idle (ag_taskService t)"
proof -
  have "same_services s t \<or> (\<exists>a e v'. InitializeMessageIfNotExists (w_bl w) (w_avs w) a (ag_taskService s) = (e, v') \<and>
      (\<forall>f. e \<noteq> Some (Fault f)) \<and> ag_taskService t = v' \<and>
      ag_stateRootService t = ag_stateRootService s \<and> ag_operatorSetService t = ag_operatorSetService s \<and>
      ag_registrations t = ag_registrations s)"
    using assms(1) unfolding sendNewCheckpointTask_def
    by (auto simp: Let_def notify_def same_services_def
        split: sum.splits prod.splits failure.splits option.splits)
      (metis failure.distinct(1) option.distinct(1) option.inject)+
  then show "ag_stateRootService t = ag_stateRootService s" "ag_operatorSetService t = ag_operatorSetService s"
    "ag_registrations t = ag_registrations s"
    "(mbas_step cd (w_bl w))\<^sup>*\<^sup>* (ag_taskService s) (ag_taskService t) \<and> idle (ag_taskService t)"
    using init_steps [OF assms(2)] assms(2) by (auto simp: same_services_def)
qed

text \<open>A signed message is rejected, and nothing changes, or it is verified and goes to its service.\<close>

abbreviation verified :: "('db, 'log) world \<Rightarrow> signed_message \<Rightarrow> 'db Aggregator \<Rightarrow> bool" where
  "verified w m s \<equiv> fst (Aggregator_verifySignature w m s) = Inr ()"

lemma verify_cases:
  obtains "Aggregator_verifySignature w m s = (Inr (), s)" | e where "Aggregator_verifySignature w m s = (Inl e, s)"
proof (cases "Aggregator_verifySignature w m s")
  case (Pair r s')
  moreover from this have "s' = s"
    using verify_unchanged [of w m s] by simp
  ultimately show thesis
    using that by (cases r) auto
qed

lemma signed_task_cases:
  assumes "ProcessSignedCheckpointTaskResponse w m s = (e, t)"
  shows "t = s \<and> e \<noteq> None \<or>
    (\<exists>e' v'. verified w (SignedTaskResponse m) s \<and>
       ProcessNewSignature (w_cd w) (w_bl w) (w_idx w) False (CheckpointMsg (sctr_TaskResponse m))
         (sctr_BlsSignature m) (sctr_OperatorId m) (ag_taskService s) = (e', v') \<and>
       e = map_option bls_failure e' \<and>
       t = (notify [ObserveLastCheckpointTaskReferenceReceived (ReferenceTaskIndex (sctr_TaskResponse m))] s)
         \<lparr>ag_taskService := v'\<rparr>)"
proof (cases rule: verify_cases [of w "SignedTaskResponse m" s])
  case 1
  then show ?thesis
    using assms by (auto simp: ProcessSignedCheckpointTaskResponse_def notify_def Let_def split: prod.splits)
next
  case (2 x)
  then show ?thesis
    using assms by (auto simp: ProcessSignedCheckpointTaskResponse_def)
qed

lemma signed_state_root_cases:
  assumes "ProcessSignedStateRootUpdateMessage w m s = (e, t)"
  shows "t = s \<and> e \<noteq> None \<or>
    (\<exists>e' v'. verified w (SignedStateRoot m) s \<and>
       validateMessageTimestamp (w_now w) (sru_Timestamp (ssru_Message m)) = Inr () \<and>
       initialize_and_process w (message_init_args (StateRootUpdateMessage_Key (ssru_Message m)) 0)
         (StateRootMsg (ssru_Message m)) (ssru_BlsSignature m) (ssru_OperatorId m) (ag_stateRootService s) = (e', v') \<and>
       e = map_option bls_failure e' \<and>
       t = (notify [ObserveLastStateRootUpdateReceived (sru_RollupId (ssru_Message m)) (sru_BlockHeight (ssru_Message m))] s)
         \<lparr>ag_stateRootService := v'\<rparr>)"
proof (cases rule: verify_cases [of w "SignedStateRoot m" s])
  case 1
  then show ?thesis
    using assms
    by (auto simp: ProcessSignedStateRootUpdateMessage_def notify_def Let_def split: prod.splits sum.splits)
next
  case (2 x)
  then show ?thesis
    using assms by (auto simp: ProcessSignedStateRootUpdateMessage_def split: sum.splits)
qed

lemma signed_operator_set_cases:
  assumes "ProcessSignedOperatorSetUpdateMessage w m s = (e, t)"
  shows "t = s \<and> e \<noteq> None \<or>
    (\<exists>b e' v'. verified w (SignedOperatorSet m) s \<and>
       validateMessageTimestamp (w_now w) (osu_Timestamp (sosu_Message m)) = Inr () \<and>
       GetOperatorSetUpdateBlock (w_reg w) (osu_Id (sosu_Message m)) = Inr b \<and>
       initialize_and_process w (message_init_args (OperatorSetUpdateMessage_Key (sosu_Message m)) (ucast b - 1))
         (OperatorSetMsg (sosu_Message m)) (sosu_BlsSignature m) (sosu_OperatorId m) (ag_operatorSetService s) = (e', v') \<and>
       e = map_option bls_failure e' \<and>
       t = (notify [ObserveLastOperatorSetUpdateReceived (osu_Id (sosu_Message m))] s)
         \<lparr>ag_operatorSetService := v'\<rparr>)"
proof (cases rule: verify_cases [of w "SignedOperatorSet m" s])
  case 1
  then show ?thesis
    using assms
    by (auto simp: ProcessSignedOperatorSetUpdateMessage_def notify_def Let_def split: prod.splits sum.splits)
next
  case (2 x)
  then show ?thesis
    using assms by (auto simp: ProcessSignedOperatorSetUpdateMessage_def split: sum.splits)
qed

lemma bls_failure_fault: "\<forall>f. map_option bls_failure e \<noteq> Some (Fault f) \<Longrightarrow> \<forall>f. e \<noteq> Some (Fault f)"
  by (auto simp: bls_failure_def)

lemma services_ok_put:
  assumes "services_ok cd bl idOf s" "same_services s t"
  shows "(idle (ag_taskService s) \<Longrightarrow> (mbas_step cd bl)\<^sup>*\<^sup>* (ag_taskService s) v \<and> idle v) \<Longrightarrow>
      services_ok cd bl idOf (t\<lparr>ag_taskService := v\<rparr>)"
    and "(idle (ag_stateRootService s) \<Longrightarrow> (mbas_step cd bl)\<^sup>*\<^sup>* (ag_stateRootService s) v \<and> idle v) \<Longrightarrow>
      services_ok cd bl idOf (t\<lparr>ag_stateRootService := v\<rparr>)"
    and "(idle (ag_operatorSetService s) \<Longrightarrow> (mbas_step cd bl)\<^sup>*\<^sup>* (ag_operatorSetService s) v \<and> idle v) \<Longrightarrow>
      services_ok cd bl idOf (t\<lparr>ag_operatorSetService := v\<rparr>)"
  using assms by (auto simp: services_ok_def same_services_def intro: rtranclp_trans)

lemma agg_step_ok:
  assumes "agg_step cd bl idOf s t" "services_ok cd bl idOf s"
  shows "services_ok cd bl idOf t"
  using assms(1)
proof (cases rule: agg_step.cases)
  case task_response
  then show ?thesis
    by (intro services_ok_same [OF assms(2)])
      (auto simp: on_task_response_def split: prod.splits option.splits)
next
  case (state_root_response w ob)
  then show ?thesis
    by (intro services_ok_same [OF assms(2)])
      (auto simp: on_state_root_response_def split: prod.splits option.splits dest!: state_root_quorum_same)
next
  case (operator_set_response w ob)
  then show ?thesis
    by (intro services_ok_same [OF assms(2)])
      (auto simp: on_operator_set_response_def split: prod.splits option.splits dest!: operator_set_quorum_same)
next
  case ticker
  then show ?thesis
    by (intro services_ok_same [OF assms(2)]) (simp add: on_ticker_def)
next
  case (ctx_done g)
  then show ?thesis
    by (intro services_ok_same [OF assms(2)])
      (auto simp: on_ctx_done_def Aggregator_Close_def split: prod.splits option.splits)
next
  case (goroutine r w ob u)
  show ?thesis
  proof (cases r)
    case (SendAggregatedResponseToContract resp)
    then have "same_services s u"
      using goroutine send_response_same by simp
    then show ?thesis
      using goroutine by (intro services_ok_same [OF assms(2)]) simp
  next
    case SendNewCheckpointTaskToContract
    then have u: "sendNewCheckpointTask w s = Inr u"
      using goroutine by simp
    have "idle (ag_taskService s)"
      using assms(2) by (simp add: services_ok_def)
    note new = new_task_services(1-3) [OF u this] new_task_services(4) [OF u this, of cd]
    have "services_ok cd bl idOf u"
      using new assms(2) goroutine(3) by (auto simp: services_ok_def intro: rtranclp_trans)
    then show ?thesis
      unfolding goroutine(1) by (rule services_ok_same) simp
  qed
next
  case (signed_task w mt e)
  show ?thesis
    using signed_task_cases [OF signed_task(3)] assms(2) signature_steps signed_task(1,2)
    by (fastforce intro: services_ok_put)
next
  case (signed_state_root w ms e)
  then show ?thesis
    using signed_state_root_cases [OF signed_state_root(3)] assms(2)
    by (auto intro!: services_ok_put dest!: bls_failure_fault elim!: initialize_and_process_steps)
next
  case (signed_operator_set w mo e)
  then show ?thesis
    using signed_operator_set_cases [OF signed_operator_set(3)] assms(2)
    by (auto intro!: services_ok_put dest!: bls_failure_fault elim!: initialize_and_process_steps)
next
  case (query_checkpoint w f u)
  then show ?thesis
    by (intro services_ok_same [OF assms(2)]) (simp add: GetCheckpointMessages_def split: prod.splits)
next
  case (query_aggregated w f u)
  then show ?thesis
    by (intro services_ok_same [OF assms(2)])
      (simp add: Aggregator_GetAggregatedCheckpointMessages_def split: prod.splits)
next
  case (query_state_root w rollup height)
  then show ?thesis
    by (intro services_ok_same [OF assms(2)])
      (simp add: GetStateRootUpdateAggregation_def split: prod.splits sum.splits)
next
  case (query_operator_set w i)
  then show ?thesis
    by (intro services_ok_same [OF assms(2)])
      (simp add: GetOperatorSetUpdateAggregation_def split: prod.splits sum.splits)
next
  case (task_timer c idx reply v)
  show ?thesis
    unfolding task_timer(1)
    by (rule services_ok_put(1) [OF assms(2)]) (simp_all add: timer_steps [OF _ task_timer(2)])
next
  case (state_root_timer c idx reply v)
  show ?thesis
    unfolding state_root_timer(1)
    by (rule services_ok_put(2) [OF assms(2)]) (simp_all add: timer_steps [OF _ state_root_timer(2)])
next
  case (operator_set_timer c idx reply v)
  show ?thesis
    unfolding operator_set_timer(1)
    by (rule services_ok_put(3) [OF assms(2)]) (simp_all add: timer_steps [OF _ operator_set_timer(2)])
next
  case (registration r)
  then show ?thesis
    using assms(2) ors_step_ok by (auto simp: services_ok_def)
qed

interpretation ags: step_system
  "\<lambda>s. ag_taskService s = NewMessageBlsAggregatorService \<and> ag_stateRootService s = NewMessageBlsAggregatorService \<and>
     ag_operatorSetService s = NewMessageBlsAggregatorService \<and> registrations_ok idOf (ag_registrations s)"
  "agg_step cd bl idOf" "services_ok cd bl idOf" for cd bl idOf
proof
  fix s :: "'a Aggregator"
  assume "ag_taskService s = NewMessageBlsAggregatorService \<and> ag_stateRootService s = NewMessageBlsAggregatorService \<and>
     ag_operatorSetService s = NewMessageBlsAggregatorService \<and> registrations_ok idOf (ag_registrations s)"
  then show "services_ok cd bl idOf s"
    by (simp add: services_ok_def idle_def NewMessageBlsAggregatorService_def)
qed (rule agg_step_ok)

lemma new_aggregator_start:
  assumes "NewAggregator env coordinator interval metrics register r = Inr s"
  shows "ag_taskService s = NewMessageBlsAggregatorService" "ag_stateRootService s = NewMessageBlsAggregatorService"
    "ag_operatorSetService s = NewMessageBlsAggregatorService" "ne_registrations env = Inr (ag_registrations s)"
  using assms unfolding NewAggregator_def Aggregator_EnableMetrics_def
  by (auto simp: Let_def notify_def split: if_splits prod.splits option.splits sum.splits)

lemma aggregator_reachable:
  assumes "NewAggregator env coordinator interval metrics register r = Inr s0"
    and "ne_registrations env = NewOperatorRegistrationsServiceInMemory idOf e1 e2 keys socks"
    and "(agg_step cd bl idOf)\<^sup>*\<^sup>* s0 s"
  shows "services_ok cd bl idOf s"
  using new_aggregator_start [OF assms(1)] registrations_ok_new assms(2)
  by (intro ags.reachable_good [OF _ assms(3)]) auto


section \<open>Who is heard\<close>

text \<open>The three calls of the RPC server.\<close>

fun process :: "('db, 'log) world \<Rightarrow> signed_message \<Rightarrow> 'db Aggregator \<Rightarrow> aggregator_error failure option \<times> 'db Aggregator" where
  "process w (SignedTaskResponse m) s = ProcessSignedCheckpointTaskResponse w m s"
| "process w (SignedStateRoot m) s = ProcessSignedStateRootUpdateMessage w m s"
| "process w (SignedOperatorSet m) s = ProcessSignedOperatorSetUpdateMessage w m s"
| "process w SignedOther s = (Some (Err UnsupportedMessageTypeError), s)"

lemma verifiedD:
  assumes "verified w m s"
  obtains i sig d info pk where "signed_parts (w_cd w) m = Inr (i, sig, d)"
    "fst (Aggregator_GetOperatorInfoById False i s) = Inr (info, True)"
    "op_G2Pubkey (oi_Pubkeys info) = Some pk" "SigVerify (w_bl w) sig pk d = Inr True"
  using assms unfolding Aggregator_verifySignature_def
  by (auto split: sum.splits prod.splits failure.splits option.splits if_splits)

lemma process_verified:
  assumes "process w m s = (e, t)" "t \<noteq> s \<or> e = None"
  shows "verified w m s"
proof (cases m)
  case (SignedTaskResponse x)
  then show ?thesis
    using assms signed_task_cases [of w x s e t] by auto
next
  case (SignedStateRoot x)
  then show ?thesis
    using assms signed_state_root_cases [of w x s e t] by auto
next
  case (SignedOperatorSet x)
  then show ?thesis
    using assms signed_operator_set_cases [of w x s e t] by auto
next
  case SignedOther
  then show ?thesis
    using assms by auto
qed

text \<open>
  C8. Only registered operators are heard: if a message that is sent to the aggregator, in any state
  that it reaches, is accepted or changes anything at all, then the operator that the message names is
  registered, the registered key has that operator's id, and the signature over the message's digest
  verifies with that operator's key.
\<close>

theorem only_registered_signers_are_heard:
  assumes "NewAggregator env coordinator interval metrics register r = Inr s0"
    and "ne_registrations env = NewOperatorRegistrationsServiceInMemory idOf e1 e2 keys socks"
    and "(agg_step cd bl idOf)\<^sup>*\<^sup>* s0 s"
    and "process w m s = (e, t)" "t \<noteq> s \<or> e = None"
  shows "\<exists>i sig d info pk. signed_parts (w_cd w) m = Inr (i, sig, d) \<and>
    fst (Aggregator_GetOperatorInfoById False i s) = Inr (info, True) \<and>
    idOf (op_G1Pubkey (oi_Pubkeys info)) = i \<and> op_G2Pubkey (oi_Pubkeys info) = Some pk \<and>
    SigVerify (w_bl w) sig pk d = Inr True"
proof -
  obtain i sig d info pk where v: "signed_parts (w_cd w) m = Inr (i, sig, d)"
    "fst (Aggregator_GetOperatorInfoById False i s) = Inr (info, True)"
    "op_G2Pubkey (oi_Pubkeys info) = Some pk" "SigVerify (w_bl w) sig pk d = Inr True"
    by (rule verifiedD [OF process_verified [OF assms(4,5)]])
  have "registrations_ok idOf (ag_registrations s)"
    using aggregator_reachable [OF assms(1-3)] by (simp add: services_ok_def)
  then have "idOf (op_G1Pubkey (oi_Pubkeys info)) = i"
    using v(2) by (auto simp: Aggregator_GetOperatorInfoById_def GetOperatorInfoById_def ask_def onQueryById_def
        registrations_ok_def gget_or_def split: if_splits)
  then show ?thesis
    using v by blast
qed

section \<open>What is served\<close>

lemma fetch_observe:
  "fst (FetchStateRootUpdateAggregation g dur r h (observe ev d)) = fst (FetchStateRootUpdateAggregation g dur r h d)"
  by (simp add: FetchStateRootUpdateAggregation_def observe_def)

lemma fetch_snd: "snd (FetchStateRootUpdate g dur r h d) = observe (OnFetch dur) d"
  by (simp add: FetchStateRootUpdate_def)

lemma state_root_query:
  assumes "fst (FetchStateRootUpdate (w_gorm w) (w_dur w) rollup height (ag_msgDb t)) = m"
    and "fst (FetchStateRootUpdateAggregation (w_gorm w) (w_dur w) rollup height (ag_msgDb t)) = Inr agg"
  shows "fst (GetStateRootUpdateAggregation w rollup height t) =
    bind_err (or_else StateRootUpdateNotFoundError m) (\<lambda>message. Inr (message, agg))"
proof -
  have f: "FetchStateRootUpdate (w_gorm w) (w_dur w) rollup height (ag_msgDb t) = (m, observe (OnFetch (w_dur w)) (ag_msgDb t))"
    using assms(1) fetch_snd by (metis prod.collapse)
  obtain db2 where a: "FetchStateRootUpdateAggregation (w_gorm w) (w_dur w) rollup height
      (observe (OnFetch (w_dur w)) (ag_msgDb t)) = (Inr agg, db2)"
    using assms(2) fetch_observe by (metis prod.collapse)
  show ?thesis
    by (cases "or_else StateRootUpdateNotFoundError m")
      (simp_all add: GetStateRootUpdateAggregation_def f a, simp add: or_else_def)
qed

text \<open>
  C11. What reaches the quorum is what is served: after the aggregator has handled a response without
  an error, and the store has accepted it, a query for the rollup block answers with exactly the
  response's aggregation, next to the response's message when it is the first for that block, and next
  to the message that was stored first otherwise.
\<close>

theorem quorum_is_served:
  assumes "gorm_laws srs oss (w_gorm w)" "table_ok state_root_schema (srs (d_db (ag_msgDb s)))"
    and "r_Err resp = None" "r_Message resp = Some (StateRootMsg msg)" "arrays_ok msg"
    and "is_bytes32 (mba_MessageDigest (r_MessageBlsAggregation resp))"
    and "StoreStateRootUpdate (w_gorm w) (w_dur w) msg (ag_msgDb s) = ((model, None), d1)"
    and "StoreStateRootUpdateAggregation (w_gorm w) (w_dur w) model (read_aggregation ob (r_MessageBlsAggregation resp)) d1 = (None, d2)"
    and "w_gorm w' = w_gorm w"
  shows "\<exists>t. handleStateRootUpdateReachedQuorum w ob resp s = Inr t \<and>
    fst (GetStateRootUpdateAggregation w' (sru_RollupId msg) (sru_BlockHeight msg) t) =
      bind_err (or_else StateRootUpdateNotFoundError
          (case lookup state_root_schema (sru_RollupId msg, sru_BlockHeight msg) (srs (d_db (ag_msgDb s))) of
             None \<Rightarrow> Inr msg
           | Some row \<Rightarrow> StateRootUpdateModel_ToMessage row))
        (\<lambda>message. Inr (message, read_aggregation ob (r_MessageBlsAggregation resp)))"
proof -
  let ?agg = "read_aggregation ob (r_MessageBlsAggregation resp)"
  have digest: "is_bytes32 (mba_MessageDigest ?agg)"
    using assms(6) by (simp add: read_aggregation_def)
  note stored = state_root_stored [OF assms(1,2,7,8,5) digest]
  define t where "t = (notify [ObserveLastStateRootUpdateAggregated (sru_RollupId msg) (sru_BlockHeight msg)] s)\<lparr>ag_msgDb := d2\<rparr>"
  have "handleStateRootUpdateReachedQuorum w ob resp s = Inr t"
    using assms(3,4,7,8) by (simp add: handleStateRootUpdateReachedQuorum_def notify_def t_def)
  moreover have "ag_msgDb t = d2"
    by (simp add: t_def)
  ultimately show ?thesis
    using state_root_query [of w' "sru_RollupId msg" "sru_BlockHeight msg" t, OF refl] stored(1,2) assms(9) by auto
qed

section \<open>Checkpoints\<close>

lemma timeout_seconds [simp]:
  "seconds MESSAGE_SUBMISSION_TIMEOUT = 60" "seconds MESSAGE_BLS_AGGREGATION_TIMEOUT = 30"
  by (simp_all add: seconds_def MESSAGE_SUBMISSION_TIMEOUT_def MESSAGE_BLS_AGGREGATION_TIMEOUT_def)

lemma accepted_timestamp:
  assumes "validateMessageTimestamp now ts = Inr ()" "60 < now" "now < 2 ^ 63"
  shows "nat now - 60 \<le> unat ts"
proof -
  let ?n = "word_of_int now :: u64"
  have n: "unat ?n = nat now"
    using assms(2,3) by (simp add: unsigned_of_int take_bit_int_eq_self)
  then have "60 < ?n"
    using assms(2) by (simp add: word_less_nat_alt)
  then have "?n - 60 \<le> ts"
    using assms(1) by (auto simp: validateMessageTimestamp_def Let_def not_less split: if_splits)
  moreover have "unat (?n - 60) = nat now - 60"
    using \<open>60 < ?n\<close> n by (subst unat_sub) (simp_all add: word_less_nat_alt word_le_nat_alt)
  ultimately show ?thesis
    by (simp add: word_le_nat_alt)
qed

lemma new_task_tx:
  assumes "sendNewCheckpointTask w s = Inr s'" "ag_avsTxs s' = ag_avsTxs s @ [TxCreateCheckpointTask f t q ns]"
    and "w_BlockNumber w = Inr b" "w_BlockTime w b = Inr blockTime"
  shows "t = blockTime - 90"
proof -
  obtain l where l: "GetLastCheckpointToTimestamp (w_tm w) = Inr l"
    using assms by (cases "GetLastCheckpointToTimestamp (w_tm w)") (auto simp: sendNewCheckpointTask_def)
  obtain f' t' where range: "checkpoint_range (ag_checkpointInterval s) blockTime l = (f', t')"
    by fastforce
  have t': "t' = blockTime - 90"
    using range by (auto simp: checkpoint_range_def Let_def)
  obtain r sent where send: "SendNewCheckpointTask (w_tx w) f' t' TASK_QUORUM_THRESHOLD QUORUM_NUMBERS = (r, sent)"
    by fastforce
  then have "sent \<in> {[], [TxCreateCheckpointTask f' t' (ucast TASK_QUORUM_THRESHOLD) QUORUM_NUMBERS]}"
    by (auto simp: SendNewCheckpointTask_def send_tx_def split: option.splits sum.splits prod.splits)
  moreover have "ag_avsTxs s' = ag_avsTxs s @ sent"
    using assms(1,3,4) l range send unfolding sendNewCheckpointTask_def
    by (auto simp: Let_def notify_def split: sum.splits prod.splits failure.splits option.splits)
  ultimately show ?thesis
    using assms(2) t' by auto
qed

text \<open>
  C10. The range of a checkpoint is closed when its task is created: a state root update or an operator
  set update that the aggregator accepts at any time from the creation of a checkpoint task on, by a
  clock that is not behind the block's, has a timestamp at least half a minute after the end of the
  task's range. So no message that is accepted later belongs to the checkpoint.
\<close>

theorem checkpoint_range_is_closed:
  assumes "sendNewCheckpointTask w s = Inr s'" "ag_avsTxs s' = ag_avsTxs s @ [TxCreateCheckpointTask f t q ns]"
    and "w_BlockNumber w = Inr b" "w_BlockTime w b = Inr blockTime" "90 \<le> unat blockTime"
    and "int (unat blockTime) \<le> w_now w'" "w_now w' < 2 ^ 63"
    and "fst (ProcessSignedStateRootUpdateMessage w' ms u) = None \<and> ts = sru_Timestamp (ssru_Message ms) \<or>
      fst (ProcessSignedOperatorSetUpdateMessage w' mo u) = None \<and> ts = osu_Timestamp (sosu_Message mo)"
  shows "unat t + 30 \<le> unat ts"
proof -
  have "validateMessageTimestamp (w_now w') ts = Inr ()"
    using assms(8) signed_state_root_cases [of w' ms u] signed_operator_set_cases [of w' mo u]
    by (metis prod.collapse)
  then have "nat (w_now w') - 60 \<le> unat ts"
    by (rule accepted_timestamp) (use assms(5-7) in linarith)+
  moreover have "unat t = unat blockTime - 90"
    unfolding new_task_tx [OF assms(1-4)]
    using assms(5) by (subst unat_sub) (simp_all add: word_le_nat_alt)
  ultimately show ?thesis
    using assms(5,6) by linarith
qed

section \<open>Witnesses\<close>

definition sample_keys :: OperatorPubkeys where
  "sample_keys = \<lparr>op_G1Pubkey = Some \<lparr>g1_X = 1, g1_Y = 2\<rparr>, op_G2Pubkey = Some (sample_pk 1)\<rparr>"

definition sample_tx_env :: "nat tx_env" where
  "sample_tx_env =
     \<lparr>txe_GetNoSendTxOpts = None, txe_assemble = \<lambda>_. None, txe_Send = \<lambda>_. Inr [0],
      txe_ParseCheckpointTaskCreated = \<lambda>_. Inr (\<lparr>ct_TaskCreatedBlock = 7, ct_FromTimestamp = 6, ct_ToTimestamp = 810,
        ct_QuorumThreshold = 66, ct_QuorumNumbers = [0]\<rparr>, 1)\<rparr>"

definition sample_world :: "(mem_db, nat) world" where
  "sample_world =
     \<lparr>w_cd = toy_codec, w_bl = toy_bls, w_avs = sample_registry, w_idx = sample_indices, w_now = 1000,
      w_reg = three_join, w_tm = \<lparr>tm_CheckSignatures = \<lambda>_ _ _ _. Inl '''', tm_LastCheckpointToTimestamp = Inr 5\<rparr>,
      w_gorm = mem_gorm, w_dur = 1, w_BlockNumber = Inr 7, w_BlockTime = \<lambda>_. Inr 900, w_tx = sample_tx_env,
      w_rollups = \<lambda>_ _. good_attempt, w_started = 1\<rparr>"

definition sample_new_env :: "(mem_db, nat) new_env" where
  "sample_new_env =
     \<lparr>ne_ethHttpClient = NewSafeEthClient (\<lambda>_. Inr 1) ''http'' [], ne_ethWsClient = NewSafeEthClient (\<lambda>_. Inr 2) ''ws'' [],
      ne_avsReader = None, ne_chainId = None, ne_signer = None, ne_wallet = None, ne_avsWriter = None,
      ne_avsSubscriber = None, ne_msgDb = NewDatabase mem_gorm '''', ne_broadcaster = NewRollupBroadcaster [] three_join,
      ne_registrations = NewOperatorRegistrationsServiceInMemory sample_id None None (Inr ([[7]], [sample_keys]))
        (Inr [(be_bytes 32 1, ''host:1'')])\<rparr>"

definition sample_aggregator :: "mem_db Aggregator" where
  "sample_aggregator = projr (NewAggregator sample_new_env ''0x0'' 7200000000000 False (\<lambda>_ r. (None, r)) ())"

lemma sample_aggregator_new:
  "NewAggregator sample_new_env ''0x0'' 7200000000000 False (\<lambda>_ r. (None, r)) () = Inr sample_aggregator"
  by (simp add: sample_aggregator_def NewAggregator_def sample_new_env_def NewSafeEthClient_def lift_err_def check_def
      createDefaultClient_def NewDatabase_def mem_gorm_def NewRollupBroadcaster_def GetNextOperatorSetUpdateId_def
      three_join_def NewOperatorRegistrationsServiceInMemory_def asyncInit_def startServiceInGoroutine_def
      queryPastRegisteredOperators_def Let_def)

definition sample_signed_update :: SignedStateRootUpdateMessage where
  "sample_signed_update = \<lparr>ssru_Message = sample_update 990, ssru_BlsSignature = Some \<lparr>g1_X = 1, g1_Y = 0\<rparr>,
     ssru_OperatorId = be_bytes 32 1\<rparr>"

lemma sample_aggregator_parts:
  "ag_stateRootService sample_aggregator = NewMessageBlsAggregatorService"
  "ag_taskService sample_aggregator = NewMessageBlsAggregatorService"
  "ag_msgDb sample_aggregator = mem_database\<lparr>d_dbPath := ''file::memory:?cache=shared''\<rparr>" "ag_avsTxs sample_aggregator = []"
  by (simp_all add: sample_aggregator_def NewAggregator_def sample_new_env_def NewSafeEthClient_def lift_err_def check_def
      createDefaultClient_def NewDatabase_def mem_gorm_def NewRollupBroadcaster_def GetNextOperatorSetUpdateId_def
      three_join_def NewOperatorRegistrationsServiceInMemory_def asyncInit_def startServiceInGoroutine_def
      queryPastRegisteredOperators_def Let_def notify_def mem_database_def)

lemma sample_update_digest: "StateRootUpdateMessage_Digest toy_codec m = Inr zero32"
  by (simp add: toy_codec_def StateRootUpdateMessage_Digest_def StateRootUpdateMessage_AbiEncode_def
      HashMessageWithPrefix_def Keccak256_def zero32_def)

lemma sample_registered:
  "Aggregator_GetOperatorInfoById False (be_bytes 32 1) sample_aggregator =
     (Inr (\<lparr>oi_Pubkeys = sample_keys, oi_Socket = ''host:1''\<rparr>, True), sample_aggregator)"
proof -
  have "ag_registrations sample_aggregator =
      \<lparr>idToAddr = [(be_bytes 32 1, [7])], addrToId = [([7], be_bytes 32 1)],
       pubkeysById = [(be_bytes 32 1, sample_keys)], socketById = [(be_bytes 32 1, ''host:1'')], ors_loop = Serving\<rparr>"
    using new_aggregator_start(4) [OF sample_aggregator_new]
    by (simp add: sample_new_env_def NewOperatorRegistrationsServiceInMemory_def asyncInit_def startServiceInGoroutine_def
        queryPastRegisteredOperators_def empty_registrations_def add_pubkeys_def sample_id_def sample_keys_def
        gget_or_def Let_def)
  then show ?thesis
    by (simp add: Aggregator_GetOperatorInfoById_def GetOperatorInfoById_def ask_def onQueryById_def gget_or_def)
qed

lemma sample_verified: "Aggregator_verifySignature sample_world (SignedStateRoot sample_signed_update) sample_aggregator =
    (Inr (), sample_aggregator)"
  by (simp add: Aggregator_verifySignature_def sample_signed_update_def sample_world_def sample_update_digest
      digest_or_def sample_registered [simplified] sample_keys_def toy_bls_def sample_pk_def)

lemma sample_processed:
  "fst (initialize_and_process sample_world (message_init_args (StateRootUpdateMessage_Key (sample_update 990)) 0)
     (StateRootMsg (sample_update 990)) (Some \<lparr>g1_X = 1, g1_Y = 0\<rparr>) (be_bytes 32 1) NewMessageBlsAggregatorService) = None"
  by (simp add: initialize_and_process_def InitializeMessageIfNotExists_def message_init_args_def
      MESSAGE_AGGREGATION_QUORUM_THRESHOLD_def QUORUM_NUMBERS_def initializeMessageChan_def
      NewMessageBlsAggregatorService_def fetchValidationInfo_def sample_world_def sample_registry_def no_objects_def
      start_routine_def ProcessNewSignature_def find_channel_def sample_update_digest react_def
      singleMessageAggregatorGoroutineFunc_def goroutine_iteration_def handleSignedMessagePreThreshold_def
      handleSignedMessageDigest_def verifySignature_def toy_bls_def sample_pk_def first_signer_def
      getMessageBlsAggregationResponse_def getMessageBlsAggregationStatus_def stakes_of_def sample_indices_def Let_def)

lemma sample_update_heard: "fst (process sample_world (SignedStateRoot sample_signed_update) sample_aggregator) = None"
proof -
  have "validateMessageTimestamp (w_now sample_world) (sru_Timestamp (sample_update 990)) = Inr ()"
    by (simp add: validateMessageTimestamp_def sample_world_def sample_update_def)
  then show ?thesis
    using sample_verified sample_processed
    by (simp add: ProcessSignedStateRootUpdateMessage_def sample_signed_update_def sample_aggregator_parts notify_def
        case_prod_beta)
qed

lemma sample_update_step:
  "(agg_step toy_codec toy_bls sample_id)\<^sup>*\<^sup>* sample_aggregator
     (snd (process sample_world (SignedStateRoot sample_signed_update) sample_aggregator))"
proof -
  have "ProcessSignedStateRootUpdateMessage sample_world sample_signed_update sample_aggregator =
      (None, snd (process sample_world (SignedStateRoot sample_signed_update) sample_aggregator))"
    using sample_update_heard by (simp add: prod_eq_iff)
  then show ?thesis
    by (intro r_into_rtranclp agg_step.signed_state_root [where w = sample_world and e = None])
      (simp_all add: sample_world_def)
qed

lemma sample_env_registrations:
  "ne_registrations sample_new_env =
     NewOperatorRegistrationsServiceInMemory sample_id None None (Inr ([[7]], [sample_keys])) (Inr [(be_bytes 32 1, ''host:1'')])"
  by (simp add: sample_new_env_def)


theorem only_registered_signers_are_heard_witness:
  "\<exists>i sig d info pk. signed_parts toy_codec (SignedStateRoot sample_signed_update) = Inr (i, sig, d) \<and>
     fst (Aggregator_GetOperatorInfoById False i sample_aggregator) = Inr (info, True) \<and>
     sample_id (op_G1Pubkey (oi_Pubkeys info)) = i \<and> op_G2Pubkey (oi_Pubkeys info) = Some pk \<and>
     SigVerify toy_bls sig pk d = Inr True"
proof -
  have w: "w_cd sample_world = toy_codec" "w_bl sample_world = toy_bls"
    by (simp_all add: sample_world_def)
  show ?thesis
    using only_registered_signers_are_heard [OF sample_aggregator_new sample_env_registrations
        rtranclp.rtrancl_refl [of "agg_step toy_codec toy_bls sample_id"],
        of sample_world "SignedStateRoot sample_signed_update" None
          "snd (process sample_world (SignedStateRoot sample_signed_update) sample_aggregator)"]
      sample_update_heard
    unfolding w by (simp only: prod_eq_iff fst_conv snd_conv simp_thms)
qed

definition sample_response :: MessageBlsAggregationServiceResponse where
  "sample_response = \<lparr>r_MessageBlsAggregation = emptyAggregation zero32 5, r_MessageKey = zero32,
     r_Message = Some (StateRootMsg (sample_update 100)), r_Status = StatusFullStakeThresholdMet, r_Finished = True,
     r_Err = None\<rparr>"

theorem quorum_is_served_witness:
  "\<exists>t. handleStateRootUpdateReachedQuorum sample_world (no_objects toy_bls) sample_response sample_aggregator = Inr t \<and>
     fst (GetStateRootUpdateAggregation sample_world 1 2 t) = Inr (sample_update 100, sample_aggregation)"
proof -
  let ?m = "(NewStateRootUpdateMessageModel (sample_update 100))\<lparr>srm_ID := 1\<rparr>"
  let ?d = "ag_msgDb sample_aggregator"
  let ?d1 = "observe (OnStore 1) (?d\<lparr>d_db := ([?m], [])\<rparr>)"
  have db: "d_db ?d = ([], [])" and w: "w_gorm sample_world = mem_gorm" "w_dur sample_world = 1"
    by (simp_all add: sample_aggregator_parts mem_database_def sample_world_def)
  have agg: "read_aggregation (no_objects toy_bls) (r_MessageBlsAggregation sample_response) = sample_aggregation"
    by (simp add: read_aggregation_def sample_response_def emptyAggregation_def sample_aggregation_def)
  have store: "StoreStateRootUpdate mem_gorm 1 (sample_update 100) ?d = ((?m, None), ?d1)"
    by (simp add: StoreStateRootUpdate_def mem_gorm_def mem_table_def lookup_def db Let_def)
  obtain d2 where store2: "StoreStateRootUpdateAggregation mem_gorm 1 ?m sample_aggregation ?d1 = (None, d2)"
    by (simp add: StoreStateRootUpdateAggregation_def mem_gorm_def mem_table_def)
  have "\<exists>t. handleStateRootUpdateReachedQuorum sample_world (no_objects toy_bls) sample_response sample_aggregator = Inr t \<and>
      fst (GetStateRootUpdateAggregation sample_world (sru_RollupId (sample_update 100)) (sru_BlockHeight (sample_update 100)) t) =
        bind_err (or_else StateRootUpdateNotFoundError
            (case lookup state_root_schema (sru_RollupId (sample_update 100), sru_BlockHeight (sample_update 100)) (fst (d_db ?d)) of
               None \<Rightarrow> Inr (sample_update 100)
             | Some row \<Rightarrow> StateRootUpdateModel_ToMessage row))
          (\<lambda>message. Inr (message, read_aggregation (no_objects toy_bls) (r_MessageBlsAggregation sample_response)))"
    by (rule quorum_is_served [where srs = fst and oss = snd and model = ?m and ?d1.0 = ?d1 and ?d2.0 = d2])
      (simp_all only: w agg store store2 mem_gorm_laws,
       simp_all add: db table_ok_def sample_response_def arrays_ok_def sample_update_def emptyAggregation_def)
  then show ?thesis
    unfolding agg db by (simp add: lookup_def or_else_def sample_update_def)
qed

lemma sample_new_task:
  "\<exists>s'. sendNewCheckpointTask sample_world sample_aggregator = Inr s' \<and>
     ag_avsTxs s' = ag_avsTxs sample_aggregator @ [TxCreateCheckpointTask 6 810 66 [0]]"
  by (simp add: sendNewCheckpointTask_def sample_world_def GetLastCheckpointToTimestamp_def checkpoint_range_def
      SendNewCheckpointTask_def send_tx_def sample_tx_env_def task_init_args_def TASK_QUORUM_THRESHOLD_def
      QUORUM_NUMBERS_def TASK_AGGREGATION_QUORUM_THRESHOLD_def ConvertBytesToQuorumNumbers_def notify_def
      InitializeMessageIfNotExists_def initializeMessageChan_def sample_aggregator_parts
      NewMessageBlsAggregatorService_def fetchValidationInfo_def sample_registry_def Let_def)

theorem checkpoint_range_is_closed_witness:
  "fst (process sample_world (SignedStateRoot sample_signed_update) sample_aggregator) = None \<and>
   unat (810 :: u64) + 30 \<le> unat (sru_Timestamp (ssru_Message sample_signed_update))"
proof -
  obtain s' where s': "sendNewCheckpointTask sample_world sample_aggregator = Inr s'"
    "ag_avsTxs s' = ag_avsTxs sample_aggregator @ [TxCreateCheckpointTask 6 810 66 [0]]"
    using sample_new_task by blast
  have "unat (810 :: u64) + 30 \<le> unat (sru_Timestamp (ssru_Message sample_signed_update))"
    by (rule checkpoint_range_is_closed [OF s', where b = 7 and blockTime = 900 and w' = sample_world
          and ms = sample_signed_update and u = sample_aggregator])
      (use sample_update_heard in \<open>simp_all add: sample_world_def\<close>)
  then show ?thesis
    using sample_update_heard by blast
qed

end
