(* ===== verification/Servers.thy ===== *)
theory Servers
  imports AggregatorSafety
begin

text \<open>
  The two servers in front of the aggregator: the RPC server that operators call,
  \<^verbatim>\<open>aggregator/rpc_server/server.go\<close>, and the REST server that everyone may read from,
  \<^verbatim>\<open>aggregator/rest_server/server.go\<close>.

  A handler takes the server, whose \<^verbatim>\<open>app\<close> is the aggregator of theory \<open>Aggregator\<close>, and returns it with the
  events it emitted. \<^verbatim>\<open>strconv.ParseUint\<close> is modelled on 64-bit words, and the response writer keeps what the
  client sees: the status and the headers at the first \<^verbatim>\<open>WriteHeader\<close>. The JSON text of an answer, which is
  composed by the marshallers of the curve library, is a parameter.
\<close>

section \<open>The RPC server\<close>

definition CheckpointTaskResponseLabel :: string where
  "CheckpointTaskResponseLabel = ''checkpoint_task_response''"

definition StateRootUpdateMessageLabel :: string where
  "StateRootUpdateMessageLabel = ''state_root_update_message''"

definition OperatorSetUpdateMessageLabel :: string where
  "OperatorSetUpdateMessageLabel = ''operator_set_update_message''"

fun aggregator_error_text :: "aggregator_error \<Rightarrow> string" where
  "aggregator_error_text MessageDigestError = ''Failed to get message digest''"
| "aggregator_error_text TaskResponseDigestError = ''Failed to get task response digest''"
| "aggregator_error_text GetOperatorSetUpdateBlockError = ''Failed to get operator set update block''"
| "aggregator_error_text OperatorNotFoundError = ''Operator not found''"
| "aggregator_error_text InvalidSignatureError = ''Invalid signature''"
| "aggregator_error_text UnsupportedMessageTypeError = ''Unsupported message type''"
| "aggregator_error_text MessageTimeoutError = ''Message timeout''"
| "aggregator_error_text StateRootUpdateNotFoundError = ''StateRootUpdate not found''"
| "aggregator_error_text StateRootAggNotFoundError = ''StateRootUpdate aggregation not found''"
| "aggregator_error_text OperatorSetNotFoundError = ''OperatorSetUpdate not found''"
| "aggregator_error_text OperatorAggNotFoundError = ''OperatorSetUpdate aggregation not found''"
| "aggregator_error_text CheckpointNotFoundError = ''CheckpointMessages not found''"
| "aggregator_error_text (BlsAggError e) = agg_error_text e"
| "aggregator_error_text (DatabaseError e) = e"

text \<open>The errors of the RPC server's own and the table that replaces errors of the aggregator by them.\<close>

datatype rpc_error =
    MessageDigestNotFoundError500
  | TaskResponseDigestNotFoundError500
  | OperatorSetUpdateBlockNotFoundError500
  | InvalidSignatureError400
  | OperatorNotFoundError400
  | MessageExpiredError500
  | RequestError string
  | AppError aggregator_error

fun errorsMap :: "aggregator_error \<Rightarrow> rpc_error option" where
  "errorsMap MessageDigestError = Some MessageDigestNotFoundError500"
| "errorsMap TaskResponseDigestError = Some TaskResponseDigestNotFoundError500"
| "errorsMap GetOperatorSetUpdateBlockError = Some OperatorSetUpdateBlockNotFoundError500"
| "errorsMap InvalidSignatureError = Some InvalidSignatureError400"
| "errorsMap OperatorNotFoundError = Some OperatorNotFoundError400"
| "errorsMap (BlsAggError MessageExpiredError) = Some MessageExpiredError500"
| "errorsMap _ = None"

definition mapErrors :: "aggregator_error \<Rightarrow> rpc_error" where
  "mapErrors err = (case errorsMap err of None \<Rightarrow> AppError err | Some mappedErr \<Rightarrow> mappedErr)"

record 'db RpcServer =
  rs_serverIpPortAddr :: string
  rs_app :: "'db Aggregator"
  rs_listener :: SelectiveRpcListener
  rs_events :: "RpcServerEvent list"

definition noRpcListener :: SelectiveRpcListener where
  "noRpcListener =
     \<lparr>IncOperatorInitializationsCb = None, IncSignedCheckpointTaskResponseCb = None,
      IncSignedStateRootUpdateMessageCb = None, IncSignedOperatorSetUpdateMessageCb = None,
      IncTotalSignedCheckpointTaskResponseCb = None, IncTotalSignedStateRootUpdateMessageCb = None,
      IncTotalSignedOperatorSetUpdateMessageCb = None, ObserveLastMessageReceivedTimeCb = None\<rparr>"

definition NewRpcServer :: "string \<Rightarrow> 'db Aggregator \<Rightarrow> 'db RpcServer" where
  "NewRpcServer serverIpPortAddr app =
     \<lparr>rs_serverIpPortAddr = serverIpPortAddr, rs_app = app, rs_listener = noRpcListener, rs_events = []\<rparr>"

definition RpcServer_EnableMetrics ::
  "(metric_id \<Rightarrow> 'r \<Rightarrow> string option \<times> 'r) \<Rightarrow> 'r \<Rightarrow> 'db RpcServer \<Rightarrow> string option \<times> 'db RpcServer \<times> 'r" where
  "RpcServer_EnableMetrics register registry s =
     (case MakeRpcServerMetrics register registry of
        (Inl err, registry') \<Rightarrow> (Some err, s, registry')
      | (Inr listener, registry') \<Rightarrow> (None, s\<lparr>rs_listener := listener\<rparr>, registry'))"

text \<open>
  \<^verbatim>\<open>Start\<close>: the service's name and the two routes of \<^verbatim>\<open>rpc.HandleHTTP\<close> are entered into global tables, a
  route that is there already panics, and the server then runs until it fails.
\<close>

definition RpcServer_Start ::
  "string option \<Rightarrow> string option \<Rightarrow> string list \<Rightarrow> (string, unit) res \<times> string list" where
  "RpcServer_Start registerErr serveErr routes =
     (case registerErr of
        Some err \<Rightarrow> (Inl (Fault (FatalExit (''Format of service TaskManager isn'' @ CHR 0x27 # ''t correct. ''))), routes)
      | None \<Rightarrow>
          (if ''/_goRPC_'' \<in> set routes \<or> ''/debug/rpc'' \<in> set routes
           then (Inl (Fault (PanicCall ''http: multiple registrations'')), routes)
           else
             (case serveErr of
                Some err \<Rightarrow> (Inl (Fault (FatalExit ''ListenAndServe'')), routes @ [''/_goRPC_'', ''/debug/rpc''])
              | None \<Rightarrow> (Inr (), routes @ [''/_goRPC_'', ''/debug/rpc'']))))"

definition rpc_emit :: "RpcServerEvent list \<Rightarrow> 'db RpcServer \<Rightarrow> 'db RpcServer" where
  "rpc_emit evs s = s\<lparr>rs_events := rs_events s @ evs\<rparr>"

type_synonym 'db rpc_result = "rpc_error failure option \<times> 'db RpcServer"

definition RpcServer_ProcessSignedCheckpointTaskResponse ::
  "('db, 'log) world \<Rightarrow> SignedCheckpointTaskResponse option \<Rightarrow> 'db RpcServer \<Rightarrow> 'db rpc_result" where
  "RpcServer_ProcessSignedCheckpointTaskResponse w request s =
     (case SignedCheckpointTaskResponse_IsValid request of
        Inl (Err err) \<Rightarrow> (Some (Err (RequestError err)), s)
      | Inl (Fault f) \<Rightarrow> (Some (Fault f), s)
      | Inr _ \<Rightarrow>
          (case request of
             None \<Rightarrow> (Some (Fault NilDereference), s)
           | Some m \<Rightarrow>
               (let s1 = rpc_emit [IncTotalSignedCheckpointTaskResponse,
                      ObserveLastMessageReceivedTime (sctr_OperatorId m) CheckpointTaskResponseLabel] s
                in case ProcessSignedCheckpointTaskResponse w m (rs_app s1) of
                     (None, app') \<Rightarrow>
                       (None, rpc_emit [IncSignedCheckpointTaskResponse (sctr_OperatorId m) False False] (s1\<lparr>rs_app := app'\<rparr>))
                   | (Some (Fault f), app') \<Rightarrow> (Some (Fault f), s1\<lparr>rs_app := app'\<rparr>)
                   | (Some (Err err), app') \<Rightarrow>
                       (Some (Err (AppError err)),
                        rpc_emit [IncSignedCheckpointTaskResponse (sctr_OperatorId m) True
                          (strings_Contains (aggregator_error_text err) ''not initialized'')] (s1\<lparr>rs_app := app'\<rparr>)))))"

definition RpcServer_ProcessSignedStateRootUpdateMessage ::
  "('db, 'log) world \<Rightarrow> SignedStateRootUpdateMessage option \<Rightarrow> 'db RpcServer \<Rightarrow> 'db rpc_result" where
  "RpcServer_ProcessSignedStateRootUpdateMessage w request s =
     (case SignedStateRootUpdateMessage_IsValid request of
        Inl (Err err) \<Rightarrow> (Some (Err (RequestError err)), s)
      | Inl (Fault f) \<Rightarrow> (Some (Fault f), s)
      | Inr _ \<Rightarrow>
          (case request of
             None \<Rightarrow> (Some (Fault NilDereference), s)
           | Some m \<Rightarrow>
               (let s1 = rpc_emit [IncTotalSignedCheckpointTaskResponse,
                      ObserveLastMessageReceivedTime (ssru_OperatorId m) StateRootUpdateMessageLabel] s;
                    hasNearDaCommitment = HasNearDaCommitment (ssru_Message m);
                    event = (\<lambda>errored. IncSignedStateRootUpdateMessage (ssru_OperatorId m)
                      (sru_RollupId (ssru_Message m)) errored hasNearDaCommitment)
                in case ProcessSignedStateRootUpdateMessage w m (rs_app s1) of
                     (None, app') \<Rightarrow> (None, rpc_emit [event False] (s1\<lparr>rs_app := app'\<rparr>))
                   | (Some (Fault f), app') \<Rightarrow> (Some (Fault f), s1\<lparr>rs_app := app'\<rparr>)
                   | (Some (Err err), app') \<Rightarrow>
                       (Some (Err (mapErrors err)), rpc_emit [event True] (s1\<lparr>rs_app := app'\<rparr>)))))"

definition RpcServer_ProcessSignedOperatorSetUpdateMessage ::
  "('db, 'log) world \<Rightarrow> SignedOperatorSetUpdateMessage option \<Rightarrow> 'db RpcServer \<Rightarrow> 'db rpc_result" where
  "RpcServer_ProcessSignedOperatorSetUpdateMessage w request s =
     (case SignedOperatorSetUpdateMessage_IsValid request of
        Inl (Err err) \<Rightarrow> (Some (Err (RequestError err)), s)
      | Inl (Fault f) \<Rightarrow> (Some (Fault f), s)
      | Inr _ \<Rightarrow>
          (case request of
             None \<Rightarrow> (Some (Fault NilDereference), s)
           | Some m \<Rightarrow>
               (let s1 = rpc_emit [ObserveLastMessageReceivedTime (sosu_OperatorId m) OperatorSetUpdateMessageLabel,
                      IncTotalSignedOperatorSetUpdateMessage] s;
                    event = IncSignedOperatorSetUpdateMessage (sosu_OperatorId m)
                in case ProcessSignedOperatorSetUpdateMessage w m (rs_app s1) of
                     (None, app') \<Rightarrow> (None, rpc_emit [event False] (s1\<lparr>rs_app := app'\<rparr>))
                   | (Some (Fault f), app') \<Rightarrow> (Some (Fault f), s1\<lparr>rs_app := app'\<rparr>)
                   | (Some (Err err), app') \<Rightarrow>
                       (Some (Err (mapErrors err)), rpc_emit [event True] (s1\<lparr>rs_app := app'\<rparr>)))))"

record GetAggregatedCheckpointMessagesArgs =
  FromTimestamp :: u64
  ToTimestamp :: u64

definition MaxCheckpointRange :: u64 where
  "MaxCheckpointRange = 60 * 60 * 2"

definition GetAggregatedCheckpointMessagesArgs_IsValid ::
  "GetAggregatedCheckpointMessagesArgs option \<Rightarrow> (string, unit) res" where
  "GetAggregatedCheckpointMessagesArgs_IsValid request =
     (case request of
        None \<Rightarrow> Inl (Err ''Args is nil'')
      | Some args \<Rightarrow>
          (if FromTimestamp args > ToTimestamp args then Inl (Err ''FromTimestamp is greater than ToTimestamp'')
           else if ToTimestamp args - FromTimestamp args > MaxCheckpointRange
           then Inl (Err ''Checkpoint range exceeds 2 hours'')
           else Inr ()))"

definition RpcServer_GetAggregatedCheckpointMessages ::
  "('db, 'log) world \<Rightarrow> GetAggregatedCheckpointMessagesArgs option \<Rightarrow> 'db RpcServer \<Rightarrow>
   (rpc_error, CheckpointMessages) res \<times> 'db RpcServer" where
  "RpcServer_GetAggregatedCheckpointMessages w request s =
     (case GetAggregatedCheckpointMessagesArgs_IsValid request of
        Inl (Err err) \<Rightarrow> (Inl (Err (RequestError err)), s)
      | Inl (Fault f) \<Rightarrow> (Inl (Fault f), s)
      | Inr _ \<Rightarrow>
          (case request of
             None \<Rightarrow> (Inl (Fault NilDereference), s)
           | Some args \<Rightarrow>
               (case Aggregator_GetAggregatedCheckpointMessages w (FromTimestamp args) (ToTimestamp args) (rs_app s) of
                  (Inr result, app') \<Rightarrow> (Inr result, s\<lparr>rs_app := app'\<rparr>)
                | (Inl (Fault f), app') \<Rightarrow> (Inl (Fault f), s\<lparr>rs_app := app'\<rparr>)
                | (Inl (Err err), app') \<Rightarrow> (Inl (Err (mapErrors err)), s\<lparr>rs_app := app'\<rparr>))))"

definition RpcServer_GetRegistryCoordinatorAddress :: "'db RpcServer \<Rightarrow> string" where
  "RpcServer_GetRegistryCoordinatorAddress s = Aggregator_GetRegistryCoordinatorAddress (rs_app s)"

definition NotifyOperatorInitialization :: "OperatorId \<Rightarrow> 'db RpcServer \<Rightarrow> 'db rpc_result" where
  "NotifyOperatorInitialization operatorId s = (None, rpc_emit [IncOperatorInitializations operatorId] s)"

section \<open>Parsing numbers\<close>

text \<open>
  \<^verbatim>\<open>strconv.ParseUint\<close> with base 10: every byte is a digit, or a letter, which is a digit of a larger base
  and an error here. Before the product the loop compares with the smallest number whose product with the
  base overflows, after the sum with the largest number of the given width.
\<close>

datatype num_error = ErrSyntax | ErrRange | ErrBitSize

definition digit_of :: "char \<Rightarrow> nat option" where
  "digit_of c =
     (let b = (of_char c :: nat); l = (if 65 \<le> b \<and> b \<le> 90 then b + 32 else b)
      in if 48 \<le> b \<and> b \<le> 57 then Some (b - 48)
         else if 97 \<le> l \<and> l \<le> 122 then Some (l - 97 + 10)
         else None)"

definition parse_cutoff :: u64 where
  "parse_cutoff = 18446744073709551615 div 10 + 1"

fun parse_digits :: "u64 \<Rightarrow> u64 \<Rightarrow> string \<Rightarrow> num_error + u64" where
  "parse_digits maxVal n [] = Inr n"
| "parse_digits maxVal n (c # s) =
     (case digit_of c of
        None \<Rightarrow> Inl ErrSyntax
      | Some d \<Rightarrow>
          (if d \<ge> 10 then Inl ErrSyntax
           else if n \<ge> parse_cutoff then Inl ErrRange
           else
             (let n' = n * 10; n1 = n' + word_of_nat d
              in if n1 < n' \<or> n1 > maxVal then Inl ErrRange else parse_digits maxVal n1 s)))"

definition ParseUint :: "string \<Rightarrow> nat \<Rightarrow> num_error + u64" where
  "ParseUint s bitSize =
     (if s = [] then Inl ErrSyntax
      else
        (let size = (if bitSize = 0 then 64 else bitSize)
         in if size > 64 then Inl ErrBitSize
            else parse_digits (push_bit size 1 - 1) 0 s))"

section \<open>The REST server\<close>

text \<open>
  What the client gets: the status and the headers as they were when the status was written, and the body.
\<close>

record response =
  resp_header :: "(string, string) gomap"
  resp_sent :: "(nat \<times> (string, string) gomap) option"
  resp_body :: string

definition fresh_response :: response where
  "fresh_response = \<lparr>resp_header = [], resp_sent = None, resp_body = []\<rparr>"

definition Header_Set :: "string \<Rightarrow> string \<Rightarrow> response \<Rightarrow> response" where
  "Header_Set k v w = w\<lparr>resp_header := gput k v (resp_header w)\<rparr>"

definition WriteHeader :: "nat \<Rightarrow> response \<Rightarrow> response" where
  "WriteHeader code w = (case resp_sent w of None \<Rightarrow> w\<lparr>resp_sent := Some (code, resp_header w)\<rparr> | Some _ \<Rightarrow> w)"

definition Write_body :: "string \<Rightarrow> response \<Rightarrow> response" where
  "Write_body text w = (let w1 = WriteHeader 200 w in w1\<lparr>resp_body := resp_body w1 @ text\<rparr>)"

definition http_Error :: "string \<Rightarrow> nat \<Rightarrow> response \<Rightarrow> response" where
  "http_Error text code w =
     Write_body (text @ [CHR 0x0A])
       (WriteHeader code
         (Header_Set ''X-Content-Type-Options'' ''nosniff''
           (Header_Set ''Content-Type'' ''text/plain; charset=utf-8'' w)))"

type_synonym query = "string \<Rightarrow> string list"

definition Query_Get :: "query \<Rightarrow> string \<Rightarrow> string" where
  "Query_Get params k = (case params k of [] \<Rightarrow> '''' | v # _ \<Rightarrow> v)"

record 'db RestServer =
  re_serverIpPortAddr :: string
  re_app :: "'db Aggregator"
  re_server_listener :: SelectiveRestListener
  re_events :: "RestEvent list"

definition noRestListener :: SelectiveRestListener where
  "noRestListener =
     \<lparr>IncStateRootUpdateRequestsCb = None, IncOperatorSetUpdateRequestsCb = None,
      IncCheckpointMessagesRequestsCb = None, APIErrorsCb = None\<rparr>"

definition NewRestServer :: "string \<Rightarrow> 'db Aggregator \<Rightarrow> 'db RestServer" where
  "NewRestServer serverIpPortAddr app =
     \<lparr>re_serverIpPortAddr = serverIpPortAddr, re_app = app, re_server_listener = noRestListener, re_events = []\<rparr>"

definition RestServer_EnableMetrics ::
  "(metric_id \<Rightarrow> 'r \<Rightarrow> string option \<times> 'r) \<Rightarrow> 'r \<Rightarrow> 'db RestServer \<Rightarrow> string option \<times> 'db RestServer \<times> 'r" where
  "RestServer_EnableMetrics register registry s =
     (case MakeServerMetrics register registry of
        (Inl err, registry') \<Rightarrow> (Some err, s, registry')
      | (Inr listener, registry') \<Rightarrow> (None, s\<lparr>re_server_listener := listener\<rparr>, registry'))"

fun errorToCode :: "aggregator_error \<Rightarrow> nat option" where
  "errorToCode StateRootUpdateNotFoundError = Some 404"
| "errorToCode StateRootAggNotFoundError = Some 404"
| "errorToCode OperatorSetNotFoundError = Some 404"
| "errorToCode OperatorAggNotFoundError = Some 404"
| "errorToCode _ = None"

definition mapErrorToCode :: "aggregator_error \<Rightarrow> nat" where
  "mapErrorToCode err = (case errorToCode err of None \<Rightarrow> 500 | Some status \<Rightarrow> status)"

datatype rest_error = NumError num_error | RestAppError aggregator_error | EncodeError string

text \<open>A handler returns its error, the response and the server.\<close>

type_synonym 'db rest_result = "rest_error failure option \<times> response \<times> 'db RestServer"

definition rest_emit :: "RestEvent list \<Rightarrow> 'db RestServer \<Rightarrow> 'db RestServer" where
  "rest_emit evs s = s\<lparr>re_events := re_events s @ evs\<rparr>"

text \<open>The end of the three handlers, which is the same code: the answer of the aggregator is sent.\<close>

definition rest_respond ::
  "('a \<Rightarrow> string + string) \<Rightarrow> (aggregator_error, 'a) res \<times> 'db Aggregator \<Rightarrow> response \<Rightarrow> 'db RestServer \<Rightarrow> 'db rest_result"
where
  "rest_respond json answer w s =
     (case answer of
        (Inl (Fault f), app') \<Rightarrow> (Some (Fault f), w, s\<lparr>re_app := app'\<rparr>)
      | (Inl (Err err), app') \<Rightarrow>
          (Some (Err (RestAppError err)), http_Error (aggregator_error_text err) (mapErrorToCode err) w, s\<lparr>re_app := app'\<rparr>)
      | (Inr reply, app') \<Rightarrow>
          (let w1 = Header_Set ''Content-Type'' ''application/json'' (WriteHeader 200 w)
           in case json reply of
                Inl err \<Rightarrow> (Some (Err (EncodeError err)), w1, s\<lparr>re_app := app'\<rparr>)
              | Inr text \<Rightarrow> (None, Write_body (text @ [CHR 0x0A]) w1, s\<lparr>re_app := app'\<rparr>)))"

definition handleGetStateRootUpdateAggregation ::
  "(StateRootUpdateMessage \<times> Aggregation \<Rightarrow> string + string) \<Rightarrow> ('db, 'log) world \<Rightarrow> query \<Rightarrow> response \<Rightarrow>
   'db RestServer \<Rightarrow> 'db rest_result" where
  "handleGetStateRootUpdateAggregation json wd params w s =
     (let s1 = rest_emit [IncStateRootUpdateRequests] s
      in case ParseUint (Query_Get params ''rollupId'') 32 of
           Inl err \<Rightarrow> (Some (Err (NumError err)), http_Error ''Invalid rollupId'' 400 w, s1)
         | Inr rollupId \<Rightarrow>
             (case ParseUint (Query_Get params ''blockHeight'') 64 of
                Inl err \<Rightarrow> (Some (Err (NumError err)), http_Error ''Invalid blockHeight'' 400 w, s1)
              | Inr blockHeight \<Rightarrow>
                  rest_respond json (GetStateRootUpdateAggregation wd (ucast rollupId) blockHeight (re_app s1)) w s1))"

definition handleGetOperatorSetUpdateAggregation ::
  "(OperatorSetUpdateMessage \<times> Aggregation \<Rightarrow> string + string) \<Rightarrow> ('db, 'log) world \<Rightarrow> query \<Rightarrow> response \<Rightarrow>
   'db RestServer \<Rightarrow> 'db rest_result" where
  "handleGetOperatorSetUpdateAggregation json wd params w s =
     (let s1 = rest_emit [IncOperatorSetUpdateRequests] s
      in case ParseUint (Query_Get params ''id'') 64 of
           Inl err \<Rightarrow> (Some (Err (NumError err)), http_Error ''Invalid id'' 400 w, s1)
         | Inr i \<Rightarrow> rest_respond json (GetOperatorSetUpdateAggregation wd i (re_app s1)) w s1)"

definition handleGetCheckpointMessages ::
  "(CheckpointMessages \<Rightarrow> string + string) \<Rightarrow> ('db, 'log) world \<Rightarrow> query \<Rightarrow> response \<Rightarrow> 'db RestServer \<Rightarrow> 'db rest_result"
where
  "handleGetCheckpointMessages json wd params w s =
     (let s1 = rest_emit [IncCheckpointMessagesRequests] s
      in case ParseUint (Query_Get params ''fromTimestamp'') 64 of
           Inl err \<Rightarrow> (Some (Err (NumError err)), http_Error ''Invalid fromTimestamp'' 400 w, s1)
         | Inr fromTimestamp \<Rightarrow>
             (case ParseUint (Query_Get params ''toTimestamp'') 64 of
                Inl err \<Rightarrow> (Some (Err (NumError err)), http_Error ''Invalid toTimestamp'' 400 w, s1)
              | Inr toTimestamp \<Rightarrow> rest_respond json (GetCheckpointMessages wd fromTimestamp toTimestamp (re_app s1)) w s1))"

text \<open>
  \<^verbatim>\<open>wrapRequest\<close>: the method value \<^verbatim>\<open>s.listener.APIErrors\<close> is never nil, so an error is an event. The routes are
  those that \<^verbatim>\<open>Start\<close> gives to the router.
\<close>

definition wrapRequest :: "RestEvent option \<Rightarrow> 'db rest_result \<Rightarrow> 'db rest_result" where
  "wrapRequest errorHandler r =
     (case errorHandler of
        None \<Rightarrow> r
      | Some event \<Rightarrow>
          (case r of
             (Some (Err err), w, s) \<Rightarrow> (Some (Err err), w, rest_emit [event] s)
           | _ \<Rightarrow> r))"

datatype rest_route = StateRootRoute | OperatorSetRoute | CheckpointRoute

definition rest_routes :: "(string \<times> string \<times> rest_route) list" where
  "rest_routes =
     [(''/aggregation/state-root-update'', ''GET'', StateRootRoute),
      (''/aggregation/operator-set-update'', ''GET'', OperatorSetRoute),
      (''/checkpoint/messages'', ''GET'', CheckpointRoute)]"

definition RestServer_Start :: "string option \<Rightarrow> (string, (string \<times> string \<times> rest_route) list) res" where
  "RestServer_Start serveErr =
     (case serveErr of Some err \<Rightarrow> Inl (Fault (FatalExit ''ListenAndServe'')) | None \<Rightarrow> Inr rest_routes)"

fun serve_route ::
  "(StateRootUpdateMessage \<times> Aggregation \<Rightarrow> string + string) \<Rightarrow>
   (OperatorSetUpdateMessage \<times> Aggregation \<Rightarrow> string + string) \<Rightarrow> (CheckpointMessages \<Rightarrow> string + string) \<Rightarrow>
   ('db, 'log) world \<Rightarrow> rest_route \<Rightarrow> query \<Rightarrow> 'db RestServer \<Rightarrow> 'db rest_result" where
  "serve_route js jo jc wd StateRootRoute params s =
     wrapRequest (Some APIErrors) (handleGetStateRootUpdateAggregation js wd params fresh_response s)"
| "serve_route js jo jc wd OperatorSetRoute params s =
     wrapRequest (Some APIErrors) (handleGetOperatorSetUpdateAggregation jo wd params fresh_response s)"
| "serve_route js jo jc wd CheckpointRoute params s =
     wrapRequest (Some APIErrors) (handleGetCheckpointMessages jc wd params fresh_response s)"

section \<open>Numbers\<close>

text \<open>The number that a string of decimal digits denotes, and the numbers below a bound.\<close>

fun dec_value :: "nat \<Rightarrow> string \<Rightarrow> nat option" where
  "dec_value a [] = Some a"
| "dec_value a (c # s) =
     (if 48 \<le> (of_char c :: nat) \<and> (of_char c :: nat) \<le> 57 then dec_value (10 * a + (of_char c - 48)) s else None)"

definition number_below :: "nat \<Rightarrow> string \<Rightarrow> nat option" where
  "number_below b s =
     (case dec_value 0 s of Some n \<Rightarrow> (if s \<noteq> [] \<and> n < b then Some n else None) | None \<Rightarrow> None)"

lemma dec_value_ge: "dec_value a s = Some b \<Longrightarrow> a \<le> b"
  by (induction s arbitrary: a) (fastforce split: if_splits)+

lemma digit_of_decimal:
  "digit_of c = Some d \<Longrightarrow> d < 10 \<Longrightarrow> 48 \<le> (of_char c :: nat) \<and> (of_char c :: nat) \<le> 57 \<and> d = of_char c - 48"
  by (auto simp: digit_of_def Let_def split: if_splits)

lemma digit_of_other:
  "(case digit_of c of None \<Rightarrow> True | Some d \<Rightarrow> d \<ge> 10) \<Longrightarrow> \<not> (48 \<le> (of_char c :: nat) \<and> (of_char c :: nat) \<le> 57)"
  by (auto simp: digit_of_def Let_def split: if_splits)

text \<open>One round of the loop: it stops exactly when the next number is too large.\<close>

lemma parse_round:
  fixes n m :: u64
  assumes "d < 10"
  defines "n1 \<equiv> n * 10 + word_of_nat d"
  shows "(n \<ge> parse_cutoff \<or> n1 < n * 10 \<or> n1 > m) \<longleftrightarrow> 10 * unat n + d > unat m"
    and "\<not> (n \<ge> parse_cutoff \<or> n1 < n * 10 \<or> n1 > m) \<Longrightarrow> unat n1 = 10 * unat n + d"
proof -
  have cut: "unat parse_cutoff = 1844674407370955162"
    by (simp add: parse_cutoff_def unat_div unat_word_ariths)
  have m: "unat m < 18446744073709551616"
    using unsigned_less [of m, where 'a = nat] by simp
  have d: "unat (word_of_nat d :: u64) = d"
    using assms(1) by (simp add: unat_of_nat)
  have small: "unat (n * 10) = 10 * unat n" if "n < parse_cutoff"
    using that by (simp add: word_less_nat_alt cut unat_word_ariths)
  have sum: "unat n1 = (10 * unat n + d) mod 18446744073709551616" if "n < parse_cutoff"
    using small [OF that] d by (simp add: n1_def unat_word_ariths)
  show *: "(n \<ge> parse_cutoff \<or> n1 < n * 10 \<or> n1 > m) \<longleftrightarrow> 10 * unat n + d > unat m"
  proof (cases "n < parse_cutoff")
    case False
    then show ?thesis using m by (simp add: word_less_nat_alt word_le_nat_alt cut)
  next
    case lt: True
    show ?thesis
    proof (cases "10 * unat n + d < 18446744073709551616")
      case True
      then show ?thesis using sum [OF lt] small [OF lt] lt by (auto simp: word_less_nat_alt word_le_nat_alt)
    next
      case False
      have "10 * unat n < 18446744073709551616"
        using lt by (simp add: word_less_nat_alt cut)
      then have "(10 * unat n + d) mod 18446744073709551616 = 10 * unat n + d - 18446744073709551616"
        using False assms(1) by (simp only: le_mod_geq not_less) (rule mod_less, linarith)
      then have "unat n1 < 10 * unat n"
        using sum [OF lt] assms(1) False by linarith
      then show ?thesis using small [OF lt] False m by (simp add: word_less_nat_alt)
    qed
  qed
  show "unat n1 = 10 * unat n + d" if "\<not> (n \<ge> parse_cutoff \<or> n1 < n * 10 \<or> n1 > m)"
    using that * m sum by (simp add: not_le)
qed

lemma parse_digits_value:
  "unat n \<le> unat m \<Longrightarrow>
   parse_digits m n s = Inr v \<longleftrightarrow> dec_value (unat n) s = Some (unat v) \<and> unat v \<le> unat m"
proof (induction s arbitrary: n)
  case Nil
  then show ?case by (auto simp: word_unat_eq_iff)
next
  case (Cons c s)
  show ?case
  proof (cases "case digit_of c of None \<Rightarrow> True | Some d \<Rightarrow> d \<ge> 10")
    case True
    then show ?thesis
      using digit_of_other [of c] by (auto split: option.splits)
  next
    case False
    then obtain d where d: "digit_of c = Some d" "d < 10"
      by (auto split: option.splits)
    note c = digit_of_decimal [OF this]
    let ?n1 = "n * 10 + word_of_nat d"
    show ?thesis
    proof (cases "n \<ge> parse_cutoff \<or> ?n1 < n * 10 \<or> ?n1 > m")
      case True
      then have "10 * unat n + d > unat m"
        using parse_round(1) [OF d(2), of n m] by simp
      then have "\<not> (dec_value (10 * unat n + d) s = Some (unat v) \<and> unat v \<le> unat m)"
        using dec_value_ge [of "10 * unat n + d" s "unat v"] by linarith
      moreover have "parse_digits m n (c # s) \<noteq> Inr v"
        using True d by (auto simp: Let_def)
      ultimately show ?thesis using c by simp
    next
      case False
      have u: "unat ?n1 = 10 * unat n + d" by (rule parse_round(2) [OF d(2) False])
      have "unat ?n1 \<le> unat m" using False by (simp add: word_le_nat_alt not_less)
      moreover have "parse_digits m n (c # s) = parse_digits m ?n1 s"
        using False d by (simp add: Let_def)
      ultimately show ?thesis using Cons.IH [of ?n1] u c by simp
    qed
  qed
qed

lemma parse_max: "unat (push_bit 32 1 - 1 :: u64) = 2 ^ 32 - 1" "unat (push_bit 64 1 - 1 :: u64) = 2 ^ 64 - 1"
  by (simp_all add: push_bit_eq_mult)

lemma ParseUint_number:
  assumes "k = 32 \<or> k = 64"
  shows "ParseUint s k = Inr v \<longleftrightarrow> number_below (2 ^ k) s = Some (unat v)"
proof -
  have "unat (push_bit k 1 - 1 :: u64) = 2 ^ k - 1"
    using assms parse_max by auto
  then show ?thesis
    using assms parse_digits_value [of 0 "push_bit k 1 - 1" s v]
    by (cases "dec_value 0 s") (auto simp: ParseUint_def number_below_def Let_def)
qed

text \<open>Printing and parsing.\<close>

lemma dec_value_snoc:
  "dec_value a (s @ [c]) =
     (case dec_value a s of
        Some b \<Rightarrow> (if 48 \<le> (of_char c :: nat) \<and> (of_char c :: nat) \<le> 57 then Some (10 * b + (of_char c - 48)) else None)
      | None \<Rightarrow> None)"
  by (induction s arbitrary: a) auto

lemma of_char_digit: "d < 10 \<Longrightarrow> (of_char (digit d) :: nat) = 48 + d"
proof -
  assume "d < 10"
  then have "d \<in> {0, 1, 2, 3, 4, 5, 6, 7, 8, 9}" by auto
  then show ?thesis by (auto simp: digit_def)
qed

lemma dec_value_sprint_d: "dec_value 0 (sprint_d n) = Some n"
proof (induction n rule: sprint_d.induct)
  case (1 n)
  then show ?case
    by (cases "n < 10") (simp_all add: sprint_d.simps [of n] of_char_digit dec_value_snoc)
qed

lemma number_below_sprint_d: "n < b \<Longrightarrow> number_below b (sprint_d n) = Some n"
  using dec_value_sprint_d [of n] by (simp add: number_below_def sprint_d_nonempty)

section \<open>Answers\<close>

definition rest_status :: "'db rest_result \<Rightarrow> nat option" where
  "rest_status r = map_option fst (resp_sent (fst (snd r)))"

definition rest_body :: "'db rest_result \<Rightarrow> string" where
  "rest_body r = resp_body (fst (snd r))"

definition rest_app :: "'db rest_result \<Rightarrow> 'db Aggregator" where
  "rest_app r = re_app (snd (snd r))"

lemmas rest_defs = rest_status_def rest_body_def rest_app_def fresh_response_def WriteHeader_def Header_Set_def
  Write_body_def http_Error_def rest_emit_def Let_def

lemma wrapRequest_keeps [simp]:
  "rest_status (wrapRequest h r) = rest_status r" "rest_body (wrapRequest h r) = rest_body r"
  "rest_app (wrapRequest h r) = rest_app r" "fst (wrapRequest h r) = fst r"
  by (auto simp: wrapRequest_def rest_status_def rest_body_def rest_app_def rest_emit_def
      split: option.splits prod.splits failure.splits)

text \<open>What a client must see for an answer of the aggregator.\<close>

definition answered ::
  "('a \<Rightarrow> string + string) \<Rightarrow> (aggregator_error, 'a) res \<times> 'db Aggregator \<Rightarrow> 'db rest_result \<Rightarrow> bool" where
  "answered json answer r \<longleftrightarrow>
     rest_app r = snd answer \<and>
     (case fst answer of
        Inr reply \<Rightarrow>
          rest_status r = Some 200 \<and> (case json reply of Inr text \<Rightarrow> rest_body r = text @ [CHR 0x0A] | Inl _ \<Rightarrow> rest_body r = [])
      | Inl (Err err) \<Rightarrow>
          rest_body r = aggregator_error_text err @ [CHR 0x0A] \<and>
          rest_status r =
            Some (if err \<in> {StateRootUpdateNotFoundError, StateRootAggNotFoundError, OperatorSetNotFoundError,
                            OperatorAggNotFoundError} then 404 else 500)
      | Inl (Fault f) \<Rightarrow> fst r = Some (Fault f) \<and> rest_status r = None)"

lemma mapErrorToCode_cases:
  "mapErrorToCode err =
     (if err \<in> {StateRootUpdateNotFoundError, StateRootAggNotFoundError, OperatorSetNotFoundError,
                OperatorAggNotFoundError} then 404 else 500)"
  by (cases err) (simp_all add: mapErrorToCode_def)

lemma rest_respond_answered: "answered json answer (rest_respond json answer fresh_response s)"
  by (cases answer; cases "fst answer")
    (auto simp: answered_def rest_respond_def rest_defs mapErrorToCode_cases split: failure.splits sum.splits)

lemma answered_wrapRequest [simp]: "answered json answer (wrapRequest h r) = answered json answer r"
  unfolding answered_def wrapRequest_keeps ..

definition rejected :: "'db RestServer \<Rightarrow> 'db rest_result \<Rightarrow> bool" where
  "rejected s r \<longleftrightarrow> rest_status r = Some 400 \<and> rest_app r = re_app s"

lemma rejected_wrapRequest [simp]: "rejected s (wrapRequest h r) = rejected s r"
  by (simp add: rejected_def)

lemma rejected_http_Error: "rejected s (e, http_Error text 400 fresh_response, rest_emit evs s)"
  by (simp add: rejected_def rest_defs)

lemma re_app_rest_emit [simp]: "re_app (rest_emit evs s) = re_app s"
  by (simp add: rest_emit_def)

text \<open>A parameter is read as the number that it denotes.\<close>

lemma ParseUint_cases:
  assumes "k = 32 \<or> k = 64"
  obtains (bad) e where "ParseUint s k = Inl e" "number_below (2 ^ k) s = None"
  | (good) v where "ParseUint s k = Inr v" "number_below (2 ^ k) s = Some (unat v)"
proof (cases "ParseUint s k")
  case (Inl e)
  have "number_below (2 ^ k) s = None"
  proof (rule ccontr)
    assume "number_below (2 ^ k) s \<noteq> None"
    then obtain n where n: "number_below (2 ^ k) s = Some n" by auto
    then have "n < 2 ^ k" by (auto simp: number_below_def split: option.splits if_splits)
    then have "n < 2 ^ 64" using assms by auto
    then have "unat (word_of_nat n :: u64) = n" by (simp add: unat_of_nat)
    then have "ParseUint s k = Inr (word_of_nat n)" using ParseUint_number [OF assms] n by simp
    then show False using Inl by simp
  qed
  then show ?thesis using Inl bad by blast
next
  case (Inr v)
  then show ?thesis using ParseUint_number [OF assms] good by blast
qed

lemmas parse32 = ParseUint_cases [of 32, OF disjI1 [OF refl]]

lemmas parse64 = ParseUint_cases [of 64, OF disjI2 [OF refl]]

text \<open>
  C22. The REST server answers exactly what was asked. A request for a state root update whose parameters are
  decimal numbers of 32 and of 64 bits is answered with the aggregator's answer for these two numbers: status
  200 and its JSON text, 404 if the message or its aggregation is missing, 500 for other errors. Every other
  request gets status 400 and does not reach the aggregator. The same holds for the other two routes, except
  that missing checkpoint messages give 500, and the decimal text of a number is read as that number.
\<close>

theorem rest_answers_what_was_asked:
  "(case (number_below (2 ^ 32) (Query_Get params ''rollupId''), number_below (2 ^ 64) (Query_Get params ''blockHeight'')) of
      (Some r, Some h) \<Rightarrow>
        answered js (GetStateRootUpdateAggregation wd (word_of_nat r) (word_of_nat h) (re_app s))
          (serve_route js jo jc wd StateRootRoute params s)
    | _ \<Rightarrow> rejected s (serve_route js jo jc wd StateRootRoute params s)) \<and>
   (case number_below (2 ^ 64) (Query_Get params ''id'') of
      Some i \<Rightarrow>
        answered jo (GetOperatorSetUpdateAggregation wd (word_of_nat i) (re_app s))
          (serve_route js jo jc wd OperatorSetRoute params s)
    | None \<Rightarrow> rejected s (serve_route js jo jc wd OperatorSetRoute params s)) \<and>
   (case (number_below (2 ^ 64) (Query_Get params ''fromTimestamp''), number_below (2 ^ 64) (Query_Get params ''toTimestamp'')) of
      (Some f, Some t) \<Rightarrow>
        answered jc (GetCheckpointMessages wd (word_of_nat f) (word_of_nat t) (re_app s))
          (serve_route js jo jc wd CheckpointRoute params s)
    | _ \<Rightarrow> rejected s (serve_route js jo jc wd CheckpointRoute params s)) \<and>
   number_below (2 ^ 32) (sprint_d (unat (rollupId :: u32))) = Some (unat rollupId) \<and>
   number_below (2 ^ 64) (sprint_d (unat (blockHeight :: u64))) = Some (unat blockHeight)"
  (is "?roots \<and> ?sets \<and> ?checkpoints \<and> ?numbers")
proof (intro conjI)
  show ?roots
    by (cases "Query_Get params ''rollupId''" rule: parse32;
        cases "Query_Get params ''blockHeight''" rule: parse64)
      (simp_all add: handleGetStateRootUpdateAggregation_def rejected_http_Error Let_def rest_respond_answered)
  show ?sets
    by (cases "Query_Get params ''id''" rule: parse64)
      (simp_all add: handleGetOperatorSetUpdateAggregation_def rejected_http_Error Let_def rest_respond_answered)
  show ?checkpoints
    by (cases "Query_Get params ''fromTimestamp''" rule: parse64;
        cases "Query_Get params ''toTimestamp''" rule: parse64)
      (simp_all add: handleGetCheckpointMessages_def rejected_http_Error Let_def rest_respond_answered)
  show "number_below (2 ^ 32) (sprint_d (unat rollupId)) = Some (unat rollupId)"
    using unsigned_less [of rollupId, where 'a = nat] by (intro number_below_sprint_d) simp
  show "number_below (2 ^ 64) (sprint_d (unat blockHeight)) = Some (unat blockHeight)"
    using unsigned_less [of blockHeight, where 'a = nat] by (intro number_below_sprint_d) simp
qed

section \<open>Requests\<close>

lemma mapErrors_not_request [simp]: "mapErrors err \<noteq> RequestError e"
  by (cases err rule: errorsMap.cases) (simp_all add: mapErrors_def)

text \<open>A result that says that the request is malformed, from a server that has not changed.\<close>

definition refused :: "'db RpcServer \<Rightarrow> 'db rpc_result \<Rightarrow> bool" where
  "refused s r \<longleftrightarrow> (\<exists>e. r = (Some (Err (RequestError e)), s))"

lemma task_request_refused:
  "refused s (RpcServer_ProcessSignedCheckpointTaskResponse w request s) \<longleftrightarrow>
   \<not> (\<exists>m. request = Some m \<and> sctr_BlsSignature m \<noteq> None)"
  by (cases request) (auto simp: refused_def RpcServer_ProcessSignedCheckpointTaskResponse_def Let_def
      split: prod.splits option.splits failure.splits)

lemma state_root_request_refused:
  "refused s (RpcServer_ProcessSignedStateRootUpdateMessage w request s) \<longleftrightarrow>
   \<not> (\<exists>m. request = Some m \<and> ssru_BlsSignature m \<noteq> None)"
  by (cases request) (auto simp: refused_def RpcServer_ProcessSignedStateRootUpdateMessage_def Let_def
      split: prod.splits option.splits failure.splits)

lemma check_operators_no_fault: "check_operators ops \<noteq> Inl (Fault f)"
  by (induction ops) auto

lemma operator_set_request_refused:
  "refused s (RpcServer_ProcessSignedOperatorSetUpdateMessage w request s) \<longleftrightarrow>
   \<not> (\<exists>m. request = Some m \<and> SignedOperatorSetUpdateMessage_IsValid (Some m) = Inr ())"
proof (cases "SignedOperatorSetUpdateMessage_IsValid request")
  case (Inr u)
  then obtain m where "request = Some m" by (cases request) auto
  then show ?thesis
    using Inr by (auto simp del: SignedOperatorSetUpdateMessage_IsValid.simps
        simp: refused_def RpcServer_ProcessSignedOperatorSetUpdateMessage_def Let_def
        split: prod.splits option.splits failure.splits)
next
  case (Inl e)
  have "e \<noteq> Fault f" for f
    using Inl check_operators_no_fault by (cases request) (auto split: if_splits)
  then obtain t where "e = Err t" by (cases e) auto
  then show ?thesis
    using Inl by (auto simp del: SignedOperatorSetUpdateMessage_IsValid.simps
        simp: refused_def RpcServer_ProcessSignedOperatorSetUpdateMessage_def)
qed


lemma toy_codec_no_fault: "codec_no_fault toy_codec"
  by (simp add: codec_no_fault_def toy_codec_def zero32_def)


end
