(* ===== verification/Consumer.thy ===== *)
theory Consumer
  imports Metrics
begin

text \<open>
  The consumer of the message queue, \<^verbatim>\<open>operator/consumer/consumer.go\<close> and
  \<^verbatim>\<open>operator/consumer/queues_listener.go\<close>: it declares a queue per rollup at the broker and turns the
  deliveries into blocks.

  The broker answers every call: \<open>broker\<close> is what it answers during one setup of a channel, and the loops
  that wait for the broker read their events from a list, in the order in which they happen; a loop that
  comes to the end of the list is still running. A closed notification channel gives a nil error. The Borsh
  and RLP decoders are parameters. Of a block only the header is used.
\<close>

section \<open>Blocks and their wrapping\<close>

record BlockHeader =
  h_Number :: int
  h_Root :: bytes32
  h_Time :: u64

record BlockData =
  bd_RollupId :: u32
  bd_Commitment :: bytes32
  bd_TransactionId :: bytes32
  bd_Block :: BlockHeader

record Namespace =
  ns_Version :: u8
  ns_Id :: u32

record Blob =
  bb_Namespace :: Namespace
  bb_ShareVersion :: u32
  bb_Commitment :: bytes32
  bb_Data :: bytes

record SubmitRequest =
  sr_Blobs :: "Blob list"

record PublishPayload =
  pp_TransactionId :: bytes32
  pp_Data :: bytes

record mq_decoders =
  decodePayload :: "bytes \<Rightarrow> string + PublishPayload"
  decodeSubmit :: "bytes \<Rightarrow> string + SubmitRequest"
  decodeBlocks :: "bytes \<Rightarrow> string + BlockHeader list"

section \<open>The listener of the queues\<close>

definition getQueueName :: "u32 \<Rightarrow> string \<Rightarrow> string" where
  "getQueueName rollupId i = ''rollup'' @ sprint_d (unat rollupId) @ ''-'' @ i"

definition getRotingKey :: "u32 \<Rightarrow> string" where
  "getRotingKey rollupId = ''rollup'' @ sprint_d (unat rollupId)"

definition getConsumerTag :: "u32 \<Rightarrow> string" where
  "getConsumerTag rollupId = ''operator'' @ sprint_d (unat rollupId)"

definition EXCHANGE_NAME :: string where
  "EXCHANGE_NAME = ''rollup_exchange''"

text \<open>\<open>ql_goroutines\<close> are the goroutines that \<^verbatim>\<open>Add\<close> started, with the deliveries channel of each.\<close>

record QueuesListener =
  ql_queueDeliveryCs :: "(u32, nat) gomap"
  ql_goroutines :: "(u32 \<times> nat) list"

definition NewQueuesListener :: QueuesListener where
  "NewQueuesListener = \<lparr>ql_queueDeliveryCs = [], ql_goroutines = []\<rparr>"

definition QueuesListener_Add :: "u32 \<Rightarrow> nat \<Rightarrow> QueuesListener \<Rightarrow> string option \<times> QueuesListener" where
  "QueuesListener_Add rollupId rollupDataC l =
     (case gget (ql_queueDeliveryCs l) rollupId of
        Some _ \<Rightarrow> (Some ''Queue already exists'', l)
      | None \<Rightarrow>
          (None, l\<lparr>ql_queueDeliveryCs := gput rollupId rollupDataC (ql_queueDeliveryCs l),
                   ql_goroutines := ql_goroutines l @ [(rollupId, rollupDataC)]\<rparr>))"

definition QueuesListener_Remove :: "u32 \<Rightarrow> QueuesListener \<Rightarrow> QueuesListener" where
  "QueuesListener_Remove rollupId l = l\<lparr>ql_queueDeliveryCs := gdel rollupId (ql_queueDeliveryCs l)\<rparr>"

datatype settlement = Acked | Rejected

text \<open>The blobs of a request: one that does not decode is skipped.\<close>

fun listen_blobs ::
  "mq_decoders \<Rightarrow> u32 \<Rightarrow> bytes32 \<Rightarrow> Blob list \<Rightarrow> BlockData list \<times> ConsumerEvent list" where
  "listen_blobs dec rollupId transactionId [] = ([], [])"
| "listen_blobs dec rollupId transactionId (blob # blobs) =
     (case listen_blobs dec rollupId transactionId blobs of
        (bds, evs) \<Rightarrow>
          (case decodeBlocks dec (bb_Data blob) of
             Inl err \<Rightarrow> (bds, OnFormatError # evs)
           | Inr blocks \<Rightarrow>
               (map (\<lambda>block. \<lparr>bd_RollupId = rollupId, bd_Commitment = bb_Commitment blob,
                      bd_TransactionId = transactionId, bd_Block = block\<rparr>) blocks @ bds, evs)))"

text \<open>One delivery: the blocks sent to the stream, the events, and what is told to the broker.\<close>

definition listen_delivery ::
  "mq_decoders \<Rightarrow> u32 \<Rightarrow> bytes \<Rightarrow> BlockData list \<times> ConsumerEvent list \<times> settlement" where
  "listen_delivery dec rollupId body =
     (case decodePayload dec body of
        Inl err \<Rightarrow> ([], [OnArrival, OnFormatError], Rejected)
      | Inr publishPayload \<Rightarrow>
          (case decodeSubmit dec (pp_Data publishPayload) of
             Inl err \<Rightarrow> ([], [OnArrival, OnFormatError], Rejected)
           | Inr submitRequest \<Rightarrow>
               (case listen_blobs dec rollupId (pp_TransactionId publishPayload) (sr_Blobs submitRequest) of
                  (bds, evs) \<Rightarrow> (bds, OnArrival # evs, Acked))))"

datatype listen_input = Delivery bytes | DeliveriesClosed | ListenContextDone

text \<open>
  The loop \<^verbatim>\<open>listen\<close>: the blocks it sends, what it settles, its events, and the listener it leaves with
  whether it has returned.
\<close>

fun listen_loop ::
  "mq_decoders \<Rightarrow> u32 \<Rightarrow> listen_input list \<Rightarrow> QueuesListener \<Rightarrow>
   BlockData list \<times> settlement list \<times> ConsumerEvent list \<times> QueuesListener \<times> bool" where
  "listen_loop dec rollupId [] l = ([], [], [], l, False)"
| "listen_loop dec rollupId (DeliveriesClosed # inputs) l = ([], [], [], QueuesListener_Remove rollupId l, True)"
| "listen_loop dec rollupId (ListenContextDone # inputs) l = ([], [], [], l, True)"
| "listen_loop dec rollupId (Delivery body # inputs) l =
     (case listen_delivery dec rollupId body of
        (bds, evs, settled) \<Rightarrow>
          (case listen_loop dec rollupId inputs l of
             (bds', settled', evs', l', returned) \<Rightarrow> (bds @ bds', settled # settled', evs @ evs', l', returned)))"

section \<open>The consumer\<close>

record ConsumerConfig =
  cc_RollupIds :: "u32 list"
  cc_Id :: string

text \<open>
  \<open>co_ctx\<close> is the context that \<^verbatim>\<open>Start\<close> made, with whether it was cancelled; \<open>co_goroutines\<close> are all the goroutines
  that were started, also by setups that failed.
\<close>

record Consumer =
  co_id :: string
  co_rollupIds :: "u32 list"
  co_isReady :: bool
  co_ctx :: "bool option"
  co_connection :: "nat option"
  co_channel :: "nat option"
  co_queuesListener :: "QueuesListener option"
  co_goroutines :: "(u32 \<times> nat) list"
  co_eventListener :: SelectiveConsumerListener

definition NewConsumer :: "ConsumerConfig \<Rightarrow> Consumer" where
  "NewConsumer config =
     \<lparr>co_id = cc_Id config, co_rollupIds = cc_RollupIds config, co_isReady = False, co_ctx = None,
      co_connection = None, co_channel = None, co_queuesListener = None, co_goroutines = [],
      co_eventListener = \<lparr>co_OnArrivalCb = None, co_OnFormatErrorCb = None\<rparr>\<rparr>"

definition Consumer_EnableMetrics ::
  "(metric_id \<Rightarrow> 'r \<Rightarrow> string option \<times> 'r) \<Rightarrow> 'r \<Rightarrow> Consumer \<Rightarrow> string option \<times> Consumer \<times> 'r" where
  "Consumer_EnableMetrics register registry c =
     (case MakeConsumerMetrics register registry of
        (Inl err, registry') \<Rightarrow> (Some err, c, registry')
      | (Inr listener, registry') \<Rightarrow> (None, c\<lparr>co_eventListener := listener\<rparr>, registry'))"

definition Consumer_Start :: "Consumer \<Rightarrow> Consumer" where
  "Consumer_Start c = c\<lparr>co_ctx := Some False\<rparr>"

record broker =
  br_Channel :: "string + nat"
  br_QueueDeclare :: "string \<Rightarrow> string + string"
  br_QueueBind :: "string \<Rightarrow> string \<Rightarrow> string \<Rightarrow> string option"
  br_Consume :: "string \<Rightarrow> string \<Rightarrow> string + nat"

fun setup_queues :: "broker \<Rightarrow> string \<Rightarrow> u32 list \<Rightarrow> QueuesListener \<Rightarrow> string option \<times> QueuesListener" where
  "setup_queues br i [] listener = (None, listener)"
| "setup_queues br i (rollupId # rollupIds) listener =
     (case br_QueueDeclare br (getQueueName rollupId i) of
        Inl err \<Rightarrow> (Some err, listener)
      | Inr queueName \<Rightarrow>
          (case br_QueueBind br queueName (getRotingKey rollupId) EXCHANGE_NAME of
             Some err \<Rightarrow> (Some err, listener)
           | None \<Rightarrow>
               (case br_Consume br queueName (getConsumerTag rollupId) of
                  Inl err \<Rightarrow> (Some err, listener)
                | Inr rollupDataC \<Rightarrow>
                    (case QueuesListener_Add rollupId rollupDataC listener of
                       (Some err, listener') \<Rightarrow> (Some err, listener')
                     | (None, listener') \<Rightarrow> setup_queues br i rollupIds listener'))))"

definition changeChannel :: "nat \<Rightarrow> Consumer \<Rightarrow> Consumer" where
  "changeChannel channel c = c\<lparr>co_channel := Some channel\<rparr>"

definition setupChannel :: "broker \<Rightarrow> Consumer \<Rightarrow> string option \<times> Consumer" where
  "setupChannel br c =
     (case br_Channel br of
        Inl err \<Rightarrow> (Some err, c)
      | Inr channel \<Rightarrow>
          (case setup_queues br (co_id c) (co_rollupIds c) NewQueuesListener of
             (err, listener) \<Rightarrow>
               (let c1 = c\<lparr>co_goroutines := co_goroutines c @ ql_goroutines listener\<rparr>
                in case err of
                     Some e \<Rightarrow> (Some e, c1)
                   | None \<Rightarrow> (None, (changeChannel channel (c1\<lparr>co_queuesListener := Some listener\<rparr>))\<lparr>co_isReady := True\<rparr>))))"

text \<open>
  A notification that the connection or the channel was closed: nil after a regular close, otherwise
  whether the broker says that it can recover.
\<close>

type_synonym close_notice = "bool option"

datatype 'a outcome = Returned 'a | Running | Crashed fault

datatype setup_pause = PauseContextDone | PauseConnClosed close_notice | PauseElapsed

fun ResetChannel :: "(broker \<times> setup_pause) list \<Rightarrow> Consumer \<Rightarrow> bool outcome \<times> Consumer" where
  "ResetChannel [] c = (Running, c\<lparr>co_isReady := False\<rparr>)"
| "ResetChannel ((br, pause) # attempts) c =
     (case setupChannel br (c\<lparr>co_isReady := False\<rparr>) of
        (None, c') \<Rightarrow> (Returned False, c')
      | (Some err, c') \<Rightarrow>
          (case pause of
             PauseContextDone \<Rightarrow> (Returned True, c')
           | PauseConnClosed None \<Rightarrow> (Crashed NilDereference, c')
           | PauseConnClosed (Some recover) \<Rightarrow> (Returned (\<not> recover), c')
           | PauseElapsed \<Rightarrow> ResetChannel attempts c'))"

definition changeConnection :: "nat \<Rightarrow> Consumer \<Rightarrow> Consumer" where
  "changeConnection conn c = c\<lparr>co_connection := Some conn\<rparr>"

definition Consumer_connect :: "string + nat \<Rightarrow> Consumer \<Rightarrow> (string + nat) \<times> Consumer" where
  "Consumer_connect dial c = (case dial of Inl err \<Rightarrow> (Inl err, c) | Inr conn \<Rightarrow> (Inr conn, changeConnection conn c))"

datatype wait_event = WaitContextDone | WaitConnClosed close_notice | WaitChanClosed close_notice

record reconnect_round =
  rr_Dial :: "string + nat"
  rr_dialPauseDone :: bool
  rr_attempts :: "(broker \<times> setup_pause) list"
  rr_event :: "wait_event option"

text \<open>
  The loop \<^verbatim>\<open>reconnect\<close>. In the two cases of a close notification the \<^verbatim>\<open>break\<close> leaves the \<^verbatim>\<open>select\<close> only, so the
  loop goes on whether or not the broker can recover. A round without an event is still waiting for one.
\<close>

fun reconnect :: "reconnect_round list \<Rightarrow> Consumer \<Rightarrow> unit outcome \<times> Consumer" where
  "reconnect [] c = (Running, c\<lparr>co_isReady := False\<rparr>)"
| "reconnect (round # rounds) c =
     (case Consumer_connect (rr_Dial round) (c\<lparr>co_isReady := False\<rparr>) of
        (Inl err, c1) \<Rightarrow> (if rr_dialPauseDone round then (Returned (), c1) else reconnect rounds c1)
      | (Inr conn, c1) \<Rightarrow>
          (case ResetChannel (rr_attempts round) c1 of
             (Running, c2) \<Rightarrow> (Running, c2)
           | (Crashed f, c2) \<Rightarrow> (Crashed f, c2)
           | (Returned finished, c2) \<Rightarrow>
               (if finished then (Returned (), c2)
                else
                  (case rr_event round of
                     None \<Rightarrow> (Running, c2)
                   | Some WaitContextDone \<Rightarrow> (Returned (), c2)
                   | Some (WaitConnClosed None) \<Rightarrow> (Crashed NilDereference, c2)
                   | Some (WaitConnClosed (Some recover)) \<Rightarrow> reconnect rounds c2
                   | Some (WaitChanClosed None) \<Rightarrow> (Crashed NilDereference, c2)
                   | Some (WaitChanClosed (Some recover)) \<Rightarrow> reconnect rounds c2))))"

definition Consumer_Close :: "string option \<Rightarrow> string option \<Rightarrow> Consumer \<Rightarrow> string failure option \<times> Consumer" where
  "Consumer_Close channelErr connectionErr c =
     (if \<not> co_isReady c then (Some (Err ''Consumer connection is already closed''), c)
      else
        (let c1 = c\<lparr>co_ctx := map_option (\<lambda>_. True) (co_ctx c)\<rparr>
         in case co_channel c1 of
              None \<Rightarrow> (Some (Fault NilDereference), c1)
            | Some _ \<Rightarrow>
                (case channelErr of
                   Some err \<Rightarrow> (Some (Err err), c1)
                 | None \<Rightarrow>
                     (case co_connection c1 of
                        None \<Rightarrow> (Some (Fault NilDereference), c1)
                      | Some _ \<Rightarrow>
                          (case connectionErr of
                             Some err \<Rightarrow> (Some (Err err), c1)
                           | None \<Rightarrow> (None, c1\<lparr>co_isReady := False\<rparr>))))))"

section \<open>Deliveries\<close>

text \<open>A block of the stream comes from a blob of the delivery, which decodes to it.\<close>

definition delivered_block :: "mq_decoders \<Rightarrow> u32 \<Rightarrow> bytes \<Rightarrow> BlockData \<Rightarrow> bool" where
  "delivered_block dec rollupId body b \<longleftrightarrow>
     bd_RollupId b = rollupId \<and>
     (\<exists>payload request blob blocks.
        decodePayload dec body = Inr payload \<and> decodeSubmit dec (pp_Data payload) = Inr request \<and>
        blob \<in> set (sr_Blobs request) \<and> decodeBlocks dec (bb_Data blob) = Inr blocks \<and>
        bd_Block b \<in> set blocks \<and> bd_Commitment b = bb_Commitment blob \<and>
        bd_TransactionId b = pp_TransactionId payload)"

lemma block_image:
  "b \<in> (\<lambda>block. \<lparr>bd_RollupId = r, bd_Commitment = cm, bd_TransactionId = tx, bd_Block = block\<rparr>) ` S \<longleftrightarrow>
   bd_RollupId b = r \<and> bd_Commitment b = cm \<and> bd_TransactionId b = tx \<and> bd_Block b \<in> S"
  by (cases b) auto

lemma listen_blobs_member:
  "b \<in> set (fst (listen_blobs dec rollupId tx blobs)) \<longleftrightarrow>
   bd_RollupId b = rollupId \<and> bd_TransactionId b = tx \<and>
   (\<exists>blob blocks. blob \<in> set blobs \<and> decodeBlocks dec (bb_Data blob) = Inr blocks \<and>
      bd_Block b \<in> set blocks \<and> bd_Commitment b = bb_Commitment blob)"
  by (induction blobs) (auto simp: case_prod_beta block_image split: sum.splits)

lemma listen_delivery_member:
  "b \<in> set (fst (listen_delivery dec rollupId body)) \<longleftrightarrow> delivered_block dec rollupId body b"
  by (auto simp: listen_delivery_def delivered_block_def case_prod_beta listen_blobs_member split: sum.splits)

section \<open>A ready consumer\<close>

definition answers_ok :: "broker \<Rightarrow> string \<Rightarrow> u32 \<Rightarrow> bool" where
  "answers_ok br i r \<longleftrightarrow>
     (\<exists>q d. br_QueueDeclare br (getQueueName r i) = Inr q \<and> br_QueueBind br q (getRotingKey r) EXCHANGE_NAME = None \<and>
        br_Consume br q (getConsumerTag r) = Inr d)"

lemma setup_queues_ok:
  "fst (setup_queues br i rs l) = None \<longleftrightarrow>
   list_all (answers_ok br i) rs \<and> distinct rs \<and> list_all (\<lambda>r. gget (ql_queueDeliveryCs l) r = None) rs"
proof (induction rs arbitrary: l)
  case Nil
  then show ?case by simp
next
  case (Cons r rs)
  show ?case
  proof (cases "answers_ok br i r \<and> gget (ql_queueDeliveryCs l) r = None")
    case True
    then obtain q d where "br_QueueDeclare br (getQueueName r i) = Inr q"
        "br_QueueBind br q (getRotingKey r) EXCHANGE_NAME = None" "br_Consume br q (getConsumerTag r) = Inr d"
      by (auto simp: answers_ok_def)
    then show ?thesis
      using True by (auto simp: Cons.IH QueuesListener_Add_def list_all_iff gget_gput split: if_splits)
  next
    case False
    then show ?thesis
      by (auto simp: answers_ok_def QueuesListener_Add_def split: sum.splits option.splits)
  qed
qed

lemma setup_queues_goroutines:
  "setup_queues br i rs l = (None, l') \<Longrightarrow> map fst (ql_goroutines l') = map fst (ql_goroutines l) @ rs"
  by (induction rs arbitrary: l)
    (fastforce simp: QueuesListener_Add_def split: sum.splits option.splits)+

text \<open>What holds of a consumer that says it is ready.\<close>

definition consumer_ok :: "Consumer \<Rightarrow> bool" where
  "consumer_ok c \<longleftrightarrow>
     (co_isReady c \<longrightarrow>
        distinct (co_rollupIds c) \<and> co_channel c \<noteq> None \<and> co_connection c \<noteq> None \<and>
        (\<exists>l. co_queuesListener c = Some l \<and> map fst (ql_goroutines l) = co_rollupIds c \<and>
           set (ql_goroutines l) \<subseteq> set (co_goroutines c)))"

lemma setupChannel_ok:
  assumes "setupChannel br c = (e, c')" "co_connection c \<noteq> None" "\<not> co_isReady c"
  shows "consumer_ok c' \<and> co_connection c' \<noteq> None \<and> co_rollupIds c' = co_rollupIds c"
proof -
  obtain se sl where q: "setup_queues br (co_id c) (co_rollupIds c) NewQueuesListener = (se, sl)"
    by fastforce
  show ?thesis
  proof (cases se)
    case None
    have "distinct (co_rollupIds c)"
      using setup_queues_ok [of br "co_id c" "co_rollupIds c" NewQueuesListener] q None by simp
    moreover have "map fst (ql_goroutines sl) = co_rollupIds c"
      using setup_queues_goroutines [of br "co_id c" "co_rollupIds c" NewQueuesListener sl] q None
      by (simp add: NewQueuesListener_def)
    ultimately show ?thesis
      using assms q None by (auto simp: setupChannel_def changeChannel_def consumer_ok_def split: sum.splits)
  next
    case (Some err)
    then show ?thesis
      using assms q by (auto simp: setupChannel_def consumer_ok_def split: sum.splits)
  qed
qed

lemma ResetChannel_ok:
  "ResetChannel attempts c = (r, c') \<Longrightarrow> co_connection c \<noteq> None \<Longrightarrow>
   consumer_ok c' \<and> co_connection c' \<noteq> None \<and> co_rollupIds c' = co_rollupIds c"
proof (induction attempts c arbitrary: r c' rule: ResetChannel.induct)
  case (1 c)
  then show ?case by (auto simp: consumer_ok_def)
next
  case (2 br pause attempts c)
  obtain e c1 where s: "setupChannel br (c\<lparr>co_isReady := False\<rparr>) = (e, c1)" by fastforce
  have c1: "consumer_ok c1 \<and> co_connection c1 \<noteq> None \<and> co_rollupIds c1 = co_rollupIds c"
    using setupChannel_ok [OF s] 2(3) by simp
  show ?case
  proof (cases "e = None \<or> pause \<noteq> PauseElapsed")
    case True
    then have "c' = c1"
      using 2(2) s by (auto split: option.splits setup_pause.splits)
    then show ?thesis using c1 by simp
  next
    case False
    then obtain err where "e = Some err" "pause = PauseElapsed" by auto
    then show ?thesis
      using 2(1) [OF s [symmetric]] 2(2) s c1 by simp
  qed
qed

lemma reconnect_ok:
  "reconnect rounds c = (r, c') \<Longrightarrow> consumer_ok c' \<and> co_rollupIds c' = co_rollupIds c"
proof (induction rounds arbitrary: c)
  case Nil
  then show ?case by (auto simp: consumer_ok_def)
next
  case (Cons round rounds)
  show ?case
  proof (cases "rr_Dial round")
    case (Inl err)
    then show ?thesis
      using Cons.prems Cons.IH [of "c\<lparr>co_isReady := False\<rparr>"]
      by (auto simp: Consumer_connect_def consumer_ok_def split: if_splits)
  next
    case (Inr conn)
    let ?c1 = "changeConnection conn (c\<lparr>co_isReady := False\<rparr>)"
    obtain o2 c2 where r: "ResetChannel (rr_attempts round) ?c1 = (o2, c2)" by fastforce
    have c2: "consumer_ok c2 \<and> co_rollupIds c2 = co_rollupIds c"
      using ResetChannel_ok [OF r] by (simp add: changeConnection_def)
    have "c' = c2 \<or> reconnect rounds c2 = (r, c')"
      using Cons.prems Inr \<open>ResetChannel (rr_attempts round) ?c1 = (o2, c2)\<close>
      by (auto simp: Consumer_connect_def split: outcome.splits option.splits wait_event.splits if_splits)
    then show ?thesis
      using c2 Cons.IH by auto
  qed
qed


definition sample_broker :: broker where
  "sample_broker =
     \<lparr>br_Channel = Inr 1, br_QueueDeclare = Inr, br_QueueBind = \<lambda>q k e. None, br_Consume = \<lambda>q t. Inr (length q)\<rparr>"

definition sample_config :: ConsumerConfig where
  "sample_config = \<lparr>cc_RollupIds = [1, 10], cc_Id = ''0a''\<rparr>"

definition sample_rounds :: "reconnect_round list" where
  "sample_rounds =
     [\<lparr>rr_Dial = Inl ''refused'', rr_dialPauseDone = False, rr_attempts = [], rr_event = None\<rparr>,
      \<lparr>rr_Dial = Inr 5, rr_dialPauseDone = False,
       rr_attempts = [(sample_broker\<lparr>br_Channel := Inl ''busy''\<rparr>, PauseElapsed), (sample_broker, PauseElapsed)],
       rr_event = None\<rparr>]"


end
