(* ===== verification/Attestor.thy ===== *)
theory Attestor
  imports Consumer Messages SafeClient
begin

text \<open>
  The attestor, \<^verbatim>\<open>operator/attestor/attestor.go\<close>, and the notifier through which blocks of the message
  queue reach it, \<^verbatim>\<open>operator/attestor/notifier.go\<close>.

  For every header that the node of a rollup announces, a goroutine waits for a block of the message
  queue with the same height and state root, at most for a fixed time, and then signs the state root. The
  goroutines, the notifier and the queues' listeners of theory \<open>Consumer\<close> are composed in the step relation
  \<open>att_step\<close>: a step is one case of a \<^verbatim>\<open>select\<close> with the code up to the next blocking operation, and
  timers are steps. A notification holds the notifier's lock, so it is one step; one that waits for room
  in a full channel has not happened yet. The consumer starts goroutines for queues as the broker answers, so
  a listener may appear at any time. The key pair's signing function is a parameter.
\<close>

section \<open>The notifier\<close>

record subscriberData =
  sd_predicate :: "BlockData \<Rightarrow> bool \<times> AttestorEvent list"
  sd_notifierC :: "BlockData list"

text \<open>The elements of the lists of subscribers are numbered in the order in which they are made.\<close>

record Notifier =
  rollupIdsToSubscribers :: "(u32, (nat \<times> subscriberData) list) gomap"
  nf_elements :: nat

definition NewNotifier :: Notifier where
  "NewNotifier = \<lparr>rollupIdsToSubscribers = [], nf_elements = 0\<rparr>"

definition subscribers_of :: "u32 \<Rightarrow> Notifier \<Rightarrow> (nat \<times> subscriberData) list" where
  "subscribers_of rollupId n = (case gget (rollupIdsToSubscribers n) rollupId of None \<Rightarrow> [] | Some l \<Rightarrow> l)"

definition Notifier_Subscribe ::
  "u32 \<Rightarrow> (BlockData \<Rightarrow> bool \<times> AttestorEvent list) \<Rightarrow> Notifier \<Rightarrow> nat \<times> Notifier" where
  "Notifier_Subscribe rollupId predicate n =
     (nf_elements n,
      n\<lparr>rollupIdsToSubscribers :=
          gput rollupId (subscribers_of rollupId n @ [(nf_elements n, \<lparr>sd_predicate = predicate, sd_notifierC = []\<rparr>)])
            (rollupIdsToSubscribers n),
        nf_elements := Suc (nf_elements n)\<rparr>)"

fun notify_loop ::
  "BlockData \<Rightarrow> (nat \<times> subscriberData) list \<Rightarrow> (string, (nat \<times> subscriberData) list \<times> AttestorEvent list) res" where
  "notify_loop block [] = Inr ([], [])"
| "notify_loop block ((el, subscriber) # rest) =
     (case sd_predicate subscriber block of
        (holds, evs) \<Rightarrow>
          (if holds \<and> length (sd_notifierC subscriber) \<ge> 100 then Inl (Fault BlockedForever)
           else
             (case notify_loop block rest of
                Inl e \<Rightarrow> Inl e
              | Inr (rest', evs') \<Rightarrow>
                  Inr ((el, if holds then subscriber\<lparr>sd_notifierC := sd_notifierC subscriber @ [block]\<rparr> else subscriber)
                        # rest', evs @ evs'))))"

definition Notifier_Notify :: "u32 \<Rightarrow> BlockData \<Rightarrow> Notifier \<Rightarrow> (string, Notifier \<times> AttestorEvent list) res" where
  "Notifier_Notify rollupId block n =
     (case gget (rollupIdsToSubscribers n) rollupId of
        None \<Rightarrow> Inl (Err ''notify: rollupId unknown'')
      | Some subscribers \<Rightarrow>
          (case notify_loop block subscribers of
             Inl e \<Rightarrow> Inl e
           | Inr (subscribers', evs) \<Rightarrow>
               Inr (n\<lparr>rollupIdsToSubscribers := gput rollupId subscribers' (rollupIdsToSubscribers n)\<rparr>, evs)))"

definition Notifier_Unsubscribe :: "u32 \<Rightarrow> nat \<Rightarrow> Notifier \<Rightarrow> (string, Notifier) res" where
  "Notifier_Unsubscribe rollupId el n =
     (case gget (rollupIdsToSubscribers n) rollupId of
        None \<Rightarrow> Inl (Fault NilDereference)
      | Some subscribers \<Rightarrow>
          Inr (n\<lparr>rollupIdsToSubscribers :=
                   gput rollupId (filter (\<lambda>(el', sd). el' \<noteq> el) subscribers) (rollupIdsToSubscribers n)\<rparr>))"

text \<open>A receive from the channel of a subscriber: the channel's first block.\<close>

definition receive_block :: "u32 \<Rightarrow> nat \<Rightarrow> Notifier \<Rightarrow> (BlockData \<times> Notifier) option" where
  "receive_block rollupId el n =
     (case map_of (subscribers_of rollupId n) el of
        None \<Rightarrow> None
      | Some sd \<Rightarrow>
          (case sd_notifierC sd of
             [] \<Rightarrow> None
           | b # bs \<Rightarrow>
               Some (b, n\<lparr>rollupIdsToSubscribers :=
                 gput rollupId (gput el (sd\<lparr>sd_notifierC := bs\<rparr>) (subscribers_of rollupId n))
                   (rollupIdsToSubscribers n)\<rparr>)))"

section \<open>The attestor\<close>

record NodeConfig =
  nc_Production :: bool
  nc_OperatorAddress :: string
  nc_OperatorStateRetrieverAddress :: string
  nc_AVSRegistryCoordinatorAddress :: string
  nc_TokenStrategyAddr :: string
  nc_EthRpcUrl :: string
  nc_EthWsUrl :: string
  nc_BlsPrivateKeyStorePath :: string
  nc_EcdsaPrivateKeyStorePath :: string
  nc_AggregatorServerIpPortAddress :: string
  nc_RegisterOperatorOnStartup :: bool
  nc_EigenMetricsIpPortAddress :: string
  nc_EnableMetrics :: bool
  nc_NodeApiIpPortAddress :: string
  nc_EnableNodeApi :: bool
  nc_NearDaIndexerRmqIpPortAddress :: string
  nc_NearDaIndexerRollupIds :: "u32 list"
  nc_RollupIdsToRpcUrls :: "(u32, string) gomap"
  nc_TaskResponseWaitMs :: u32

record ('cl, 'col) Attestor =
  at_rollupIdsToUrls :: "(u32, string) gomap"
  at_clients :: "(u32, 'cl SafeEthClient) gomap"
  at_rpcCallsCollectors :: "(u32, 'col option) gomap"
  at_notifier :: Notifier
  at_consumer :: Consumer
  at_operatorId :: OperatorId
  at_config :: NodeConfig
  at_listener :: SelectiveAttestorListener

definition noAttestorListener :: SelectiveAttestorListener where
  "noAttestorListener =
     \<lparr>at_OnMissedMQBlockCb = None, at_OnBlockMismatchCb = None, at_OnBlockReceivedCb = None,
      at_ObserveLastBlockReceivedCb = None, at_ObserveLastBlockReceivedTimestampCb = None,
      at_ObserveInitializationInitialBlockNumberCb = None\<rparr>"

definition add_client ::
  "(string \<Rightarrow> string + 'cl) \<Rightarrow> ('col \<Rightarrow> string \<Rightarrow> string + 'cl) \<Rightarrow> (string \<Rightarrow> 'col) \<Rightarrow> NodeConfig \<Rightarrow>
   u32 \<times> string \<Rightarrow> ('cl, 'col) Attestor \<Rightarrow> string + ('cl, 'col) Attestor" where
  "add_client newClient newInstrumentedClient newCollector config entry a =
     (case entry of
        (rollupId, url) \<Rightarrow>
          (let rpcCallsCollector =
                 (if nc_EnableMetrics config
                  then Some (newCollector (nc_OperatorAddress config @ ''attestor'' @ url)) else None);
               clientOpts =
                 (case rpcCallsCollector of
                    None \<Rightarrow> [] | Some collector \<Rightarrow> [WithInstrumentedCreateClient newInstrumentedClient collector])
           in bind_err (NewSafeEthClient newClient url clientOpts) (\<lambda>client.
                Inr (a\<lparr>at_rollupIdsToUrls := gput rollupId url (at_rollupIdsToUrls a),
                       at_clients := gput rollupId client (at_clients a),
                       at_rpcCallsCollectors := gput rollupId rpcCallsCollector (at_rpcCallsCollectors a)\<rparr>))))"

definition NewAttestor ::
  "(string \<Rightarrow> string + 'cl) \<Rightarrow> ('col \<Rightarrow> string \<Rightarrow> string + 'cl) \<Rightarrow> (string \<Rightarrow> 'col) \<Rightarrow> NodeConfig \<Rightarrow> OperatorId \<Rightarrow>
   string + ('cl, 'col) Attestor" where
  "NewAttestor newClient newInstrumentedClient newCollector config operatorId =
     fold_err (add_client newClient newInstrumentedClient newCollector config) (nc_RollupIdsToRpcUrls config)
       \<lparr>at_rollupIdsToUrls = [], at_clients = [], at_rpcCallsCollectors = [], at_notifier = NewNotifier,
        at_consumer = NewConsumer \<lparr>cc_RollupIds = nc_NearDaIndexerRollupIds config, cc_Id = sprint_x operatorId\<rparr>,
        at_operatorId = operatorId, at_config = config, at_listener = noAttestorListener\<rparr>"

definition Attestor_EnableMetrics ::
  "(metric_id \<Rightarrow> 'r \<Rightarrow> string option \<times> 'r) \<Rightarrow> 'r \<Rightarrow> ('cl, 'col) Attestor \<Rightarrow>
   string option \<times> ('cl, 'col) Attestor \<times> 'r" where
  "Attestor_EnableMetrics register registry a =
     (case MakeAttestorMetrics register registry of
        (Inl err, registry') \<Rightarrow> (Some err, a, registry')
      | (Inr listener, registry') \<Rightarrow>
          (case Consumer_EnableMetrics register registry' (at_consumer a) of
             (err, consumer, registry'') \<Rightarrow> (err, a\<lparr>at_listener := listener, at_consumer := consumer\<rparr>, registry'')))"

definition Attestor_Close ::
  "string option \<Rightarrow> string option \<Rightarrow> ('cl, 'col) Attestor \<Rightarrow> string failure option \<times> ('cl, 'col) Attestor" where
  "Attestor_Close channelErr connectionErr a =
     (case Consumer_Close channelErr connectionErr (at_consumer a) of
        (Some err, consumer) \<Rightarrow> (Some err, a\<lparr>at_consumer := consumer\<rparr>)
      | (None, consumer) \<Rightarrow>
          (None, a\<lparr>at_consumer := consumer, at_clients := map (\<lambda>(r, c). (r, SafeEthClient_Close c)) (at_clients a)\<rparr>))"

definition SignStateRootUpdateMessage ::
  "codec \<Rightarrow> (MessageDigest \<Rightarrow> G1Point) \<Rightarrow> StateRootUpdateMessage \<Rightarrow> (string, Signature) res" where
  "SignStateRootUpdateMessage cd sign m =
     bind_err (StateRootUpdateMessage_Digest cd m) (\<lambda>messageDigest. Inr (Some (sign messageDigest)))"

section \<open>The goroutines\<close>

datatype header_pc = WaitingForBlock | SendingRoot SignedStateRootUpdateMessage | HeaderDone

record header_proc =
  hp_rollupId :: u32
  hp_header :: BlockHeader
  hp_el :: nat
  hp_pc :: header_pc

record rollup_loop =
  lp_sub :: SafeSubscription
  lp_headersClosed :: bool
  lp_running :: bool

text \<open>
  \<open>as_listeners\<close> are the goroutines of the queues, each with the blocks of the delivery that it has not yet
  sent; \<open>as_rebroadcast\<close> the blocks that will be announced again; \<open>as_signed\<close> what was sent to the operator.
  \<open>as_deliveries\<close> and \<open>as_headers\<close> record the inputs.
\<close>

record att_state =
  as_notifier :: Notifier
  as_listeners :: "(u32 \<times> BlockData list) list"
  as_rebroadcast :: "BlockData list"
  as_loops :: "(u32, rollup_loop) gomap"
  as_procs :: "header_proc list"
  as_signed :: "SignedStateRootUpdateMessage list"
  as_ctxDone :: bool
  as_events :: "AttestorEvent list"
  as_deliveries :: "(u32 \<times> bytes) list"
  as_headers :: "(u32 \<times> BlockHeader) list"

text \<open>\<^verbatim>\<open>Start\<close>: a subscription and the block number for every client; a failure exits the process.\<close>

definition start_client ::
  "(u32 \<Rightarrow> string + nat) \<Rightarrow> (u32 \<Rightarrow> string + u64) \<Rightarrow> u32 \<Rightarrow> att_state \<Rightarrow> (string, att_state) res" where
  "start_client subscribe blockNumber rollupId s =
     (case subscribe rollupId of
        Inl err \<Rightarrow> Inl (Fault (FatalExit ''Failed to subscribe to new header''))
      | Inr sub \<Rightarrow>
          (case blockNumber rollupId of
             Inl err \<Rightarrow> Inl (Fault (FatalExit ''Failed to get block number''))
           | Inr n \<Rightarrow>
               Inr (s\<lparr>as_events := as_events s @ [ObserveInitializationInitialBlockNumber rollupId n],
                      as_loops := gput rollupId \<lparr>lp_sub = NewSafeSubscription sub, lp_headersClosed = False,
                        lp_running = True\<rparr> (as_loops s)\<rparr>)))"

definition Attestor_Start ::
  "(u32 \<Rightarrow> string + nat) \<Rightarrow> (u32 \<Rightarrow> string + u64) \<Rightarrow> ('cl, 'col) Attestor \<Rightarrow> (string, att_state) res" where
  "Attestor_Start subscribe blockNumber a =
     fold_err (start_client subscribe blockNumber) (gkeys (at_clients a))
       \<lparr>as_notifier = at_notifier a, as_listeners = [], as_rebroadcast = [], as_loops = [], as_procs = [],
        as_signed = [], as_ctxDone = False, as_events = [], as_deliveries = [], as_headers = []\<rparr>"

text \<open>\<^verbatim>\<open>processMQBlocks\<close>: a failed notification is logged, and the block is announced a second time later.\<close>

definition notify_block :: "BlockData \<Rightarrow> att_state \<Rightarrow> (string, att_state) res" where
  "notify_block b s =
     (case Notifier_Notify (bd_RollupId b) b (as_notifier s) of
        Inl (Fault f) \<Rightarrow> Inl (Fault f)
      | Inl (Err err) \<Rightarrow> Inr s
      | Inr (n, evs) \<Rightarrow> Inr (s\<lparr>as_notifier := n, as_events := as_events s @ evs\<rparr>))"

definition processMQBlock :: "BlockData \<Rightarrow> att_state \<Rightarrow> (string, att_state) res" where
  "processMQBlock b s =
     bind_err (notify_block b s) (\<lambda>s1. Inr (s1\<lparr>as_rebroadcast := as_rebroadcast s1 @ [b]\<rparr>))"

definition renotify :: "BlockData \<Rightarrow> att_state \<Rightarrow> (string, att_state) res" where
  "renotify b s = notify_block b (s\<lparr>as_rebroadcast := remove1 b (as_rebroadcast s)\<rparr>)"

text \<open>\<^verbatim>\<open>processRollupHeaders\<close>: a subscription error and the end of the context both end the loop.\<close>

definition end_rollup_loop :: "rollup_loop \<Rightarrow> (string, rollup_loop) res" where
  "end_rollup_loop lp =
     bind_err (Unsubscribe (lp_sub lp)) (\<lambda>sub.
       if lp_headersClosed lp then Inl (Fault (PanicCall ''close of closed channel''))
       else Inr (lp\<lparr>lp_sub := sub, lp_headersClosed := True, lp_running := False\<rparr>))"

text \<open>\<^verbatim>\<open>processHeader\<close>: the predicate, the part before the loop, and the parts after each of its cases.\<close>

definition header_predicate :: "u32 \<Rightarrow> BlockHeader \<Rightarrow> BlockData \<Rightarrow> bool \<times> AttestorEvent list" where
  "header_predicate rollupId rollupHeader mqBlock =
     (if bd_RollupId mqBlock \<noteq> rollupId then (False, [])
      else if h_Number rollupHeader \<noteq> h_Number (bd_Block mqBlock) then (False, [])
      else if h_Root (bd_Block mqBlock) \<noteq> h_Root rollupHeader then (False, [OnBlockMismatch rollupId])
      else (True, []))"

definition header_number :: "BlockHeader \<Rightarrow> u64" where
  "header_number h = word_of_int (h_Number h)"

definition processHeader :: "u32 \<Rightarrow> BlockHeader \<Rightarrow> att_state \<Rightarrow> att_state" where
  "processHeader rollupId rollupHeader s =
     (case Notifier_Subscribe rollupId (header_predicate rollupId rollupHeader) (as_notifier s) of
        (el, n) \<Rightarrow>
          s\<lparr>as_events := as_events s @
              [ObserveLastBlockReceived rollupId (header_number rollupHeader),
               ObserveLastBlockReceivedTimestamp rollupId (h_Time rollupHeader), AttestorOnBlockReceived rollupId],
            as_notifier := n,
            as_procs := as_procs s @ [\<lparr>hp_rollupId = rollupId, hp_header = rollupHeader, hp_el = el, hp_pc = WaitingForBlock\<rparr>],
            as_headers := as_headers s @ [(rollupId, rollupHeader)]\<rparr>)"

text \<open>Leaving the function runs the deferred \<^verbatim>\<open>Unsubscribe\<close>.\<close>

definition leave_header :: "nat \<Rightarrow> att_state \<Rightarrow> (string, att_state) res" where
  "leave_header k s =
     bind_err (Notifier_Unsubscribe (hp_rollupId (as_procs s ! k)) (hp_el (as_procs s ! k)) (as_notifier s)) (\<lambda>n.
       Inr (s\<lparr>as_notifier := n, as_procs := (as_procs s)[k := (as_procs s ! k)\<lparr>hp_pc := HeaderDone\<rparr>]\<rparr>))"

definition header_message :: "header_proc \<Rightarrow> bytes32 \<Rightarrow> bytes32 \<Rightarrow> StateRootUpdateMessage" where
  "header_message p transactionId daCommitment =
     \<lparr>sru_RollupId = hp_rollupId p, sru_BlockHeight = header_number (hp_header p), sru_Timestamp = h_Time (hp_header p),
      sru_NearDaTransactionId = transactionId, sru_NearDaCommitment = daCommitment, sru_StateRoot = h_Root (hp_header p)\<rparr>"

definition sign_header ::
  "codec \<Rightarrow> (MessageDigest \<Rightarrow> G1Point) \<Rightarrow> OperatorId \<Rightarrow> nat \<Rightarrow> bytes32 \<Rightarrow> bytes32 \<Rightarrow> att_state \<Rightarrow> (string, att_state) res"
where
  "sign_header cd sign operatorId k transactionId daCommitment s =
     (let message = header_message (as_procs s ! k) transactionId daCommitment
      in case SignStateRootUpdateMessage cd sign message of
           Inl (Fault f) \<Rightarrow> Inl (Fault f)
         | Inl (Err err) \<Rightarrow> leave_header k s
         | Inr signature \<Rightarrow>
             Inr (s\<lparr>as_procs := (as_procs s)[k := (as_procs s ! k)\<lparr>hp_pc :=
               SendingRoot \<lparr>ssru_Message = message, ssru_BlsSignature = signature, ssru_OperatorId = operatorId\<rparr>\<rparr>]\<rparr>))"

definition header_timeout ::
  "codec \<Rightarrow> (MessageDigest \<Rightarrow> G1Point) \<Rightarrow> OperatorId \<Rightarrow> nat \<Rightarrow> att_state \<Rightarrow> (string, att_state) res" where
  "header_timeout cd sign operatorId k s =
     sign_header cd sign operatorId k zero32 zero32
       (s\<lparr>as_events := as_events s @ [OnMissedMQBlock (hp_rollupId (as_procs s ! k))]\<rparr>)"

definition header_block ::
  "codec \<Rightarrow> (MessageDigest \<Rightarrow> G1Point) \<Rightarrow> OperatorId \<Rightarrow> nat \<Rightarrow> BlockData \<Rightarrow> Notifier \<Rightarrow> att_state \<Rightarrow> (string, att_state) res"
where
  "header_block cd sign operatorId k b n s =
     sign_header cd sign operatorId k (bd_TransactionId b) (bd_Commitment b) (s\<lparr>as_notifier := n\<rparr>)"

definition header_sent :: "nat \<Rightarrow> SignedStateRootUpdateMessage \<Rightarrow> att_state \<Rightarrow> (string, att_state) res" where
  "header_sent k m s = leave_header k (s\<lparr>as_signed := as_signed s @ [m]\<rparr>)"

inductive att_step ::
  "mq_decoders \<Rightarrow> codec \<Rightarrow> (MessageDigest \<Rightarrow> G1Point) \<Rightarrow> OperatorId \<Rightarrow> att_state \<Rightarrow> att_state \<Rightarrow> bool"
  for dec cd sign operatorId
where
  listener_starts:
    "att_step dec cd sign operatorId s (s\<lparr>as_listeners := as_listeners s @ [(rollupId, [])]\<rparr>)"
| delivery_arrives:
    "k < length (as_listeners s) \<Longrightarrow> as_listeners s ! k = (rollupId, []) \<Longrightarrow>
     att_step dec cd sign operatorId s
       (s\<lparr>as_listeners := (as_listeners s)[k := (rollupId, fst (listen_delivery dec rollupId body))],
          as_deliveries := as_deliveries s @ [(rollupId, body)]\<rparr>)"
| block_passed:
    "k < length (as_listeners s) \<Longrightarrow> as_listeners s ! k = (rollupId, b # bs) \<Longrightarrow>
     processMQBlock b (s\<lparr>as_listeners := (as_listeners s)[k := (rollupId, bs)]\<rparr>) = Inr t \<Longrightarrow>
     att_step dec cd sign operatorId s t"
| block_renotified:
    "b \<in> set (as_rebroadcast s) \<Longrightarrow> renotify b s = Inr t \<Longrightarrow> att_step dec cd sign operatorId s t"
| renotify_cancelled:
    "as_ctxDone s \<Longrightarrow>
     att_step dec cd sign operatorId s (s\<lparr>as_rebroadcast := remove1 b (as_rebroadcast s)\<rparr>)"
| rollup_loop_ends:
    "gget (as_loops s) rollupId = Some lp \<Longrightarrow> lp_running lp \<Longrightarrow> end_rollup_loop lp = Inr lp' \<Longrightarrow>
     att_step dec cd sign operatorId s (s\<lparr>as_loops := gput rollupId lp' (as_loops s)\<rparr>)"
| header_announced:
    "gget (as_loops s) rollupId = Some lp \<Longrightarrow> lp_running lp \<Longrightarrow>
     att_step dec cd sign operatorId s (processHeader rollupId rollupHeader s)"
| header_times_out:
    "k < length (as_procs s) \<Longrightarrow> hp_pc (as_procs s ! k) = WaitingForBlock \<Longrightarrow>
     header_timeout cd sign operatorId k s = Inr t \<Longrightarrow> att_step dec cd sign operatorId s t"
| header_gets_block:
    "k < length (as_procs s) \<Longrightarrow> hp_pc (as_procs s ! k) = WaitingForBlock \<Longrightarrow>
     receive_block (hp_rollupId (as_procs s ! k)) (hp_el (as_procs s ! k)) (as_notifier s) = Some (b, n) \<Longrightarrow>
     header_block cd sign operatorId k b n s = Inr t \<Longrightarrow> att_step dec cd sign operatorId s t"
| header_cancelled:
    "k < length (as_procs s) \<Longrightarrow> hp_pc (as_procs s ! k) = WaitingForBlock \<Longrightarrow> as_ctxDone s \<Longrightarrow>
     leave_header k s = Inr t \<Longrightarrow> att_step dec cd sign operatorId s t"
| root_received:
    "k < length (as_procs s) \<Longrightarrow> hp_pc (as_procs s ! k) = SendingRoot m \<Longrightarrow>
     header_sent k m s = Inr t \<Longrightarrow> att_step dec cd sign operatorId s t"
| context_cancelled:
    "att_step dec cd sign operatorId s (s\<lparr>as_ctxDone := True\<rparr>)"

section \<open>The notifier's contract\<close>

lemma subscribers_of_gput [simp]:
  "subscribers_of r' (n\<lparr>rollupIdsToSubscribers := gput r l (rollupIdsToSubscribers n)\<rparr>) =
     (if r' = r then l else subscribers_of r' n)"
  "subscribers_of r' (n\<lparr>rollupIdsToSubscribers := gput r l (rollupIdsToSubscribers n), nf_elements := k\<rparr>) =
     (if r' = r then l else subscribers_of r' n)"
  by (simp_all add: subscribers_of_def gget_gput)

lemma subscribers_of_NewNotifier [simp]: "subscribers_of r NewNotifier = []"
  by (simp add: subscribers_of_def NewNotifier_def)

text \<open>A subscriber's channel holds only blocks that satisfy its predicate, and a law of the announced blocks.\<close>

definition notifier_ok :: "(BlockData \<Rightarrow> bool) \<Rightarrow> Notifier \<Rightarrow> bool" where
  "notifier_ok Q n \<longleftrightarrow>
     (\<forall>r el sd. (el, sd) \<in> set (subscribers_of r n) \<longrightarrow>
        el < nf_elements n \<and> (\<forall>b \<in> set (sd_notifierC sd). fst (sd_predicate sd b) \<and> Q b))"

definition subscribed :: "Notifier \<Rightarrow> u32 \<Rightarrow> nat \<Rightarrow> (BlockData \<Rightarrow> bool \<times> AttestorEvent list) \<Rightarrow> bool" where
  "subscribed n r el P \<longleftrightarrow> (\<exists>sd. map_of (subscribers_of r n) el = Some sd \<and> sd_predicate sd = P)"

lemma notifier_ok_mono: "notifier_ok Q n \<Longrightarrow> (\<And>b. Q b \<Longrightarrow> Q' b) \<Longrightarrow> notifier_ok Q' n"
  unfolding notifier_ok_def by blast

lemma notifier_ok_new: "notifier_ok Q NewNotifier"
  by (simp add: notifier_ok_def)

lemma Subscribe_ok:
  assumes "notifier_ok Q n" "Notifier_Subscribe r P n = (el, n')"
  shows "notifier_ok Q n'" "el = nf_elements n" "nf_elements n' = Suc (nf_elements n)" "subscribed n' r el P"
    and "subscribed n r' el' P' \<Longrightarrow> subscribed n' r' el' P'"
proof -
  have fresh: "map_of (subscribers_of r n) (nf_elements n) = None"
    using assms(1) unfolding notifier_ok_def map_of_eq_None_iff by force
  show "notifier_ok Q n'"
    using assms by (auto simp: notifier_ok_def Notifier_Subscribe_def less_Suc_eq split: if_splits)
  show "el = nf_elements n" "nf_elements n' = Suc (nf_elements n)"
    using assms(2) by (auto simp: Notifier_Subscribe_def)
  show "subscribed n' r el P"
    using assms(2) fresh by (auto simp: Notifier_Subscribe_def subscribed_def map_add_def)
  show "subscribed n' r' el' P'" if "subscribed n r' el' P'"
    using that assms(2) fresh by (auto simp: Notifier_Subscribe_def subscribed_def map_add_def)
qed

lemma notify_loop_members:
  "notify_loop b l = Inr (l', evs) \<Longrightarrow> (el, sd) \<in> set l' \<Longrightarrow>
   \<exists>sd0. (el, sd0) \<in> set l \<and> sd_predicate sd = sd_predicate sd0 \<and>
     (\<forall>b' \<in> set (sd_notifierC sd). b' \<in> set (sd_notifierC sd0) \<or> b' = b \<and> fst (sd_predicate sd b'))"
proof (induction b l arbitrary: l' evs rule: notify_loop.induct)
  case (1 block)
  then show ?case by simp
next
  case (2 block e s rest)
  then show ?case
    by (fastforce split: sum.splits prod.splits if_splits)
qed

lemma notify_loop_map_of:
  "notify_loop b l = Inr (l', evs) \<Longrightarrow> map_of l el = Some sd \<Longrightarrow>
   \<exists>sd'. map_of l' el = Some sd' \<and> sd_predicate sd' = sd_predicate sd"
  by (induction b l arbitrary: l' evs rule: notify_loop.induct)
    (fastforce split: sum.splits prod.splits if_splits)+

lemma Notify_ok:
  assumes "notifier_ok Q n" "Notifier_Notify r b n = Inr (n', evs)" "Q b"
  shows "notifier_ok Q n'" "nf_elements n' = nf_elements n"
    and "subscribed n r' el P \<Longrightarrow> subscribed n' r' el P"
proof -
  obtain l l' where l: "gget (rollupIdsToSubscribers n) r = Some l" "notify_loop b l = Inr (l', evs)"
      "n' = n\<lparr>rollupIdsToSubscribers := gput r l' (rollupIdsToSubscribers n)\<rparr>"
    using assms(2) by (auto simp: Notifier_Notify_def split: option.splits sum.splits)
  then have subs: "subscribers_of r n = l" by (simp add: subscribers_of_def)
  show "nf_elements n' = nf_elements n" using l by simp
  have "el < nf_elements n \<and> (\<forall>b' \<in> set (sd_notifierC sd). fst (sd_predicate sd b') \<and> Q b')"
    if "(el, sd) \<in> set l'" for el sd
    using notify_loop_members [OF l(2) that] assms(1,3) subs by (fastforce simp: notifier_ok_def)
  then show "notifier_ok Q n'"
    using assms(1) l(3) by (auto simp: notifier_ok_def split: if_splits)
  show "subscribed n' r' el P" if "subscribed n r' el P"
    using that l(3) subs notify_loop_map_of [OF l(2)] by (auto simp: subscribed_def)
qed

lemma map_of_filter_key: "el' \<noteq> el \<Longrightarrow> map_of (filter (\<lambda>(k, v). k \<noteq> el) l) el' = map_of l el'"
  by (induction l) auto

lemma Unsubscribe_ok:
  assumes "notifier_ok Q n" "Notifier_Unsubscribe r el n = Inr n'"
  shows "notifier_ok Q n'" "nf_elements n' = nf_elements n"
    and "subscribed n r' el' P \<Longrightarrow> el' \<noteq> el \<Longrightarrow> subscribed n' r' el' P"
proof -
  obtain l where l: "gget (rollupIdsToSubscribers n) r = Some l"
      "n' = n\<lparr>rollupIdsToSubscribers := gput r (filter (\<lambda>(k, v). k \<noteq> el) l) (rollupIdsToSubscribers n)\<rparr>"
    using assms(2) by (auto simp: Notifier_Unsubscribe_def split: option.splits)
  then have subs: "subscribers_of r n = l" by (simp add: subscribers_of_def)
  show "nf_elements n' = nf_elements n" using l by simp
  show "notifier_ok Q n'" using assms(1) l(2) subs by (auto simp: notifier_ok_def split: if_splits)
  show "subscribed n' r' el' P" if "subscribed n r' el' P" "el' \<noteq> el"
    using that l(2) subs by (auto simp: subscribed_def map_of_filter_key)
qed

lemma Unsubscribe_total: "subscribed n r el P \<Longrightarrow> \<exists>n'. Notifier_Unsubscribe r el n = Inr n'"
  by (auto simp: subscribed_def subscribers_of_def Notifier_Unsubscribe_def split: option.splits)

lemma gput_member: "x \<in> set (gput k v l) \<Longrightarrow> x = (k, v) \<or> x \<in> set l"
  by (induction l) (auto split: if_splits)

lemma receive_block_ok:
  assumes "notifier_ok Q n" "subscribed n r el P" "receive_block r el n = Some (b, n')"
  shows "fst (P b) \<and> Q b" "notifier_ok Q n'" "nf_elements n' = nf_elements n"
    and "subscribed n r' el' P' \<Longrightarrow> subscribed n' r' el' P'"
proof -
  let ?l = "subscribers_of r n"
  obtain sd bs where sd: "map_of ?l el = Some sd" "sd_notifierC sd = b # bs" "sd_predicate sd = P"
      "n' = n\<lparr>rollupIdsToSubscribers := gput r (gput el (sd\<lparr>sd_notifierC := bs\<rparr>) ?l) (rollupIdsToSubscribers n)\<rparr>"
    using assms(2,3) by (auto simp: receive_block_def subscribed_def split: option.splits list.splits)
  have mem: "(el, sd) \<in> set ?l" using sd(1) by (rule map_of_SomeD)
  have all: "\<forall>b' \<in> set (b # bs). fst (P b') \<and> Q b'" and el: "el < nf_elements n"
    using assms(1) mem sd(2,3) unfolding notifier_ok_def by metis+
  then show "fst (P b) \<and> Q b" by simp
  show "nf_elements n' = nf_elements n" using sd(4) by simp
  show "subscribed n' r' el' P'" if "subscribed n r' el' P'"
    using that sd by (auto simp: subscribed_def gget_gput)
  show "notifier_ok Q n'"
    using assms(1) sd(3,4) all el
    by (auto simp: notifier_ok_def dest!: gput_member split: if_splits)
qed

section \<open>What is attested\<close>

definition from_delivery :: "mq_decoders \<Rightarrow> (u32 \<times> bytes) list \<Rightarrow> BlockData \<Rightarrow> bool" where
  "from_delivery dec ds b \<longleftrightarrow>
     (\<exists>body. (bd_RollupId b, body) \<in> set ds \<and> delivered_block dec (bd_RollupId b) body b)"

text \<open>
  What a signed message says is true: the header was announced, the signature is the operator's on the
  message's digest, and the data availability fields are zero or those of a delivery with the same block.
\<close>

definition attested ::
  "mq_decoders \<Rightarrow> codec \<Rightarrow> (MessageDigest \<Rightarrow> G1Point) \<Rightarrow> OperatorId \<Rightarrow> (u32 \<times> bytes) list \<Rightarrow> (u32 \<times> BlockHeader) list \<Rightarrow>
   SignedStateRootUpdateMessage \<Rightarrow> bool" where
  "attested dec cd sign operatorId ds hs sm \<longleftrightarrow>
     (let m = ssru_Message sm
      in \<exists>h d. (sru_RollupId m, h) \<in> set hs \<and> sru_BlockHeight m = header_number h \<and> sru_Timestamp m = h_Time h \<and>
           sru_StateRoot m = h_Root h \<and> StateRootUpdateMessage_Digest cd m = Inr d \<and>
           ssru_BlsSignature sm = Some (sign d) \<and> ssru_OperatorId sm = operatorId \<and>
           (sru_NearDaCommitment m = zero32 \<and> sru_NearDaTransactionId m = zero32 \<or>
            (\<exists>b. from_delivery dec ds b \<and> bd_RollupId b = sru_RollupId m \<and>
               h_Number (bd_Block b) = h_Number h \<and> h_Root (bd_Block b) = h_Root h \<and>
               bd_Commitment b = sru_NearDaCommitment m \<and> bd_TransactionId b = sru_NearDaTransactionId m)))"

definition procs_ok :: "Notifier \<Rightarrow> header_proc list \<Rightarrow> bool" where
  "procs_ok n ps \<longleftrightarrow>
     distinct (map hp_el ps) \<and>
     (\<forall>p \<in> set ps. hp_el p < nf_elements n \<and>
        (hp_pc p \<noteq> HeaderDone \<longrightarrow> subscribed n (hp_rollupId p) (hp_el p) (header_predicate (hp_rollupId p) (hp_header p))))"

definition roots_ok ::
  "mq_decoders \<Rightarrow> codec \<Rightarrow> (MessageDigest \<Rightarrow> G1Point) \<Rightarrow> OperatorId \<Rightarrow> att_state \<Rightarrow> bool" where
  "roots_ok dec cd sign operatorId s \<longleftrightarrow>
     (\<forall>p \<in> set (as_procs s). (hp_rollupId p, hp_header p) \<in> set (as_headers s) \<and>
        (\<forall>m. hp_pc p = SendingRoot m \<longrightarrow> attested dec cd sign operatorId (as_deliveries s) (as_headers s) m)) \<and>
     (\<forall>m \<in> set (as_signed s). attested dec cd sign operatorId (as_deliveries s) (as_headers s) m)"

definition blocks_ok :: "mq_decoders \<Rightarrow> att_state \<Rightarrow> bool" where
  "blocks_ok dec s \<longleftrightarrow>
     notifier_ok (from_delivery dec (as_deliveries s)) (as_notifier s) \<and>
     (\<forall>l \<in> set (as_listeners s). \<forall>b \<in> set (snd l). from_delivery dec (as_deliveries s) b) \<and>
     (\<forall>b \<in> set (as_rebroadcast s). from_delivery dec (as_deliveries s) b)"

definition att_ok ::
  "mq_decoders \<Rightarrow> codec \<Rightarrow> (MessageDigest \<Rightarrow> G1Point) \<Rightarrow> OperatorId \<Rightarrow> att_state \<Rightarrow> bool" where
  "att_ok dec cd sign operatorId s \<longleftrightarrow>
     blocks_ok dec s \<and> procs_ok (as_notifier s) (as_procs s) \<and> roots_ok dec cd sign operatorId s"

lemma from_delivery_mono: "from_delivery dec ds b \<Longrightarrow> set ds \<subseteq> set ds' \<Longrightarrow> from_delivery dec ds' b"
  unfolding from_delivery_def by blast

lemma attested_mono:
  "attested dec cd sign i ds hs m \<Longrightarrow> set ds \<subseteq> set ds' \<Longrightarrow> set hs \<subseteq> set hs' \<Longrightarrow> attested dec cd sign i ds' hs' m"
  unfolding attested_def Let_def using from_delivery_mono by blast

lemma att_ok_cong:
  assumes "att_ok dec cd sign i s" "as_notifier t = as_notifier s" "as_listeners t = as_listeners s"
    "set (as_rebroadcast t) \<subseteq> set (as_rebroadcast s)" "as_procs t = as_procs s" "as_signed t = as_signed s"
    "as_deliveries t = as_deliveries s" "as_headers t = as_headers s"
  shows "att_ok dec cd sign i t"
  using assms unfolding att_ok_def blocks_ok_def roots_ok_def by auto

text \<open>The notifier may change, as long as it keeps the subscriptions of the goroutines.\<close>

lemma procs_ok_keep:
  assumes "procs_ok n ps" "nf_elements n' = nf_elements n"
    "\<And>r el P. subscribed n r el P \<Longrightarrow> subscribed n' r el P"
  shows "procs_ok n' ps"
  using assms unfolding procs_ok_def by simp

lemma els_update: "k < length ps \<Longrightarrow> hp_el p = hp_el (ps ! k) \<Longrightarrow> map hp_el (ps[k := p]) = map hp_el ps"
  by (metis list_update_id map_update)

lemma procs_ok_update:
  assumes "procs_ok n ps" "k < length ps" "hp_pc (ps ! k) \<noteq> HeaderDone"
  shows "procs_ok n (ps[k := (ps ! k)\<lparr>hp_pc := pc\<rparr>])"
proof -
  have "map hp_el (ps[k := (ps ! k)\<lparr>hp_pc := pc\<rparr>]) = map hp_el ps"
    by (rule els_update) (simp_all add: assms(2))
  moreover have "ps ! k \<in> set ps"
    using assms(2) by simp
  ultimately show ?thesis
    using assms unfolding procs_ok_def by (auto dest!: set_update_subset_insert [THEN subsetD])
qed

lemma procs_ok_leave:
  assumes "procs_ok n ps" "k < length ps" "notifier_ok Q n"
    "Notifier_Unsubscribe (hp_rollupId (ps ! k)) (hp_el (ps ! k)) n = Inr n'"
  shows "procs_ok n' (ps[k := (ps ! k)\<lparr>hp_pc := HeaderDone\<rparr>])"
proof -
  note un = Unsubscribe_ok [OF assms(3,4)]
  have els: "map hp_el (ps[k := (ps ! k)\<lparr>hp_pc := HeaderDone\<rparr>]) = map hp_el ps"
    by (rule els_update) (simp_all add: assms(2))
  have other: "p = (ps ! k)\<lparr>hp_pc := HeaderDone\<rparr> \<or> p \<in> set ps \<and> hp_el p \<noteq> hp_el (ps ! k)"
    if p: "p \<in> set (ps[k := (ps ! k)\<lparr>hp_pc := HeaderDone\<rparr>])" for p
  proof -
    obtain j where j: "j < length ps" "p = ps[k := (ps ! k)\<lparr>hp_pc := HeaderDone\<rparr>] ! j"
      using p by (auto simp: in_set_conv_nth)
    show ?thesis
    proof (cases "j = k")
      case True
      then show ?thesis using j assms(2) by simp
    next
      case False
      have "distinct (map hp_el ps)" using assms(1) by (simp add: procs_ok_def)
      then have "hp_el (ps ! j) \<noteq> hp_el (ps ! k)"
        using False j(1) assms(2) nth_eq_iff_index_eq [of "map hp_el ps" j k] by simp
      then show ?thesis using False j by simp
    qed
  qed
  have mem: "ps ! k \<in> set ps" using assms(2) by simp
  have old: "hp_el p < nf_elements n \<and> (hp_pc p \<noteq> HeaderDone \<longrightarrow>
      subscribed n (hp_rollupId p) (hp_el p) (header_predicate (hp_rollupId p) (hp_header p)))" if "p \<in> set ps" for p
    using assms(1) that unfolding procs_ok_def by blast
  show ?thesis
    unfolding procs_ok_def els
  proof (intro conjI ballI)
    show "distinct (map hp_el ps)" using assms(1) by (simp add: procs_ok_def)
  next
    fix p assume "p \<in> set (ps[k := (ps ! k)\<lparr>hp_pc := HeaderDone\<rparr>])"
    from other [OF this] show "hp_el p < nf_elements n'"
      using old mem un(2) by auto
  next
    fix p assume "p \<in> set (ps[k := (ps ! k)\<lparr>hp_pc := HeaderDone\<rparr>])"
    from other [OF this] show "hp_pc p \<noteq> HeaderDone \<longrightarrow>
        subscribed n' (hp_rollupId p) (hp_el p) (header_predicate (hp_rollupId p) (hp_header p))"
    proof
      assume "p \<in> set ps \<and> hp_el p \<noteq> hp_el (ps ! k)"
      then show ?thesis using old [of p] un(3) by blast
    qed simp
  qed
qed

section \<open>Every step keeps it\<close>

lemma roots_ok_update:
  assumes "roots_ok dec cd sign i s" "k < length (as_procs s)" "as_headers t = as_headers s" "as_deliveries t = as_deliveries s"
    "as_procs t = (as_procs s)[k := (as_procs s ! k)\<lparr>hp_pc := pc\<rparr>]"
    "\<And>m. m \<in> set (as_signed t) \<Longrightarrow> m \<in> set (as_signed s) \<or> attested dec cd sign i (as_deliveries s) (as_headers s) m"
    "\<And>m. pc = SendingRoot m \<Longrightarrow> attested dec cd sign i (as_deliveries s) (as_headers s) m"
  shows "roots_ok dec cd sign i t"
proof -
  have "as_procs s ! k \<in> set (as_procs s)" using assms(2) by simp
  then have "\<forall>p \<in> set (as_procs t). (hp_rollupId p, hp_header p) \<in> set (as_headers s) \<and>
      (\<forall>m. hp_pc p = SendingRoot m \<longrightarrow> attested dec cd sign i (as_deliveries s) (as_headers s) m)"
    using assms(1,5,7) unfolding roots_ok_def by (auto dest!: set_update_subset_insert [THEN subsetD])
  moreover have "attested dec cd sign i (as_deliveries s) (as_headers s) m" if "m \<in> set (as_signed t)" for m
    using assms(1) assms(6) [OF that] unfolding roots_ok_def by blast
  ultimately show ?thesis
    using assms(3,4) unfolding roots_ok_def by simp
qed

lemma leave_header_ok:
  assumes "att_ok dec cd sign i s" "k < length (as_procs s)" "leave_header k s = Inr t"
  shows "att_ok dec cd sign i t"
proof -
  obtain n where n: "Notifier_Unsubscribe (hp_rollupId (as_procs s ! k)) (hp_el (as_procs s ! k)) (as_notifier s) = Inr n"
      "t = s\<lparr>as_notifier := n, as_procs := (as_procs s)[k := (as_procs s ! k)\<lparr>hp_pc := HeaderDone\<rparr>]\<rparr>"
    using assms(3) by (auto simp: leave_header_def bind_err_def split: sum.splits)
  have nok: "notifier_ok (from_delivery dec (as_deliveries s)) (as_notifier s)"
    using assms(1) by (simp add: att_ok_def blocks_ok_def)
  have "roots_ok dec cd sign i t"
    by (rule roots_ok_update [of _ _ _ _ s k _ HeaderDone]) (use assms n(2) in \<open>auto simp: att_ok_def\<close>)
  then show ?thesis
    using assms(1,2) n Unsubscribe_ok(1) [OF nok n(1)] procs_ok_leave [OF _ assms(2) nok n(1)]
    by (auto simp: att_ok_def blocks_ok_def)
qed

lemma leave_header_total:
  assumes "att_ok dec cd sign i s" "k < length (as_procs s)" "hp_pc (as_procs s ! k) \<noteq> HeaderDone"
  shows "\<exists>t. leave_header k s = Inr t"
proof -
  have "as_procs s ! k \<in> set (as_procs s)" using assms(2) by simp
  then have "subscribed (as_notifier s) (hp_rollupId (as_procs s ! k)) (hp_el (as_procs s ! k))
      (header_predicate (hp_rollupId (as_procs s ! k)) (hp_header (as_procs s ! k)))"
    using assms(1,3) by (simp add: att_ok_def procs_ok_def)
  then show ?thesis
    using Unsubscribe_total by (fastforce simp: leave_header_def bind_err_def)
qed

text \<open>Signing: the evidence for the data availability fields is what the case of the \<^verbatim>\<open>select\<close> has seen.\<close>

lemma sign_header_ok:
  assumes "att_ok dec cd sign i s" "k < length (as_procs s)" "hp_pc (as_procs s ! k) = WaitingForBlock"
    "sign_header cd sign i k tx cm s = Inr t"
    "tx = zero32 \<and> cm = zero32 \<or>
     (\<exists>b. from_delivery dec (as_deliveries s) b \<and> bd_Commitment b = cm \<and> bd_TransactionId b = tx \<and>
        fst (header_predicate (hp_rollupId (as_procs s ! k)) (hp_header (as_procs s ! k)) b))"
  shows "att_ok dec cd sign i t"
proof -
  let ?p = "as_procs s ! k"
  let ?m = "header_message ?p tx cm"
  show ?thesis
  proof (cases "SignStateRootUpdateMessage cd sign ?m")
    case (Inl e)
    then have "leave_header k s = Inr t"
      using assms(4) by (cases e) (simp_all add: sign_header_def)
    then show ?thesis by (rule leave_header_ok [OF assms(1,2)])
  next
    case (Inr sig)
    then obtain d where d: "StateRootUpdateMessage_Digest cd ?m = Inr d" "sig = Some (sign d)"
      by (auto simp: SignStateRootUpdateMessage_def bind_err_def split: sum.splits)
    let ?sm = "\<lparr>ssru_Message = ?m, ssru_BlsSignature = sig, ssru_OperatorId = i\<rparr>"
    have t: "t = s\<lparr>as_procs := (as_procs s)[k := ?p\<lparr>hp_pc := SendingRoot ?sm\<rparr>]\<rparr>"
      using assms(4) Inr by (simp add: sign_header_def)
    have "?p \<in> set (as_procs s)" using assms(2) by simp
    then have h: "(hp_rollupId ?p, hp_header ?p) \<in> set (as_headers s)"
      using assms(1) by (simp add: att_ok_def roots_ok_def)
    have at: "attested dec cd sign i (as_deliveries s) (as_headers s) ?sm"
      unfolding attested_def Let_def
      by (rule exI [of _ "hp_header ?p"], rule exI [of _ d])
        (use h d assms(5) in \<open>auto simp: header_message_def header_predicate_def split: if_splits\<close>)
    have "roots_ok dec cd sign i t"
      by (rule roots_ok_update [of _ _ _ _ s k _ "SendingRoot ?sm"]) (use assms(1,2) t at in \<open>auto simp: att_ok_def\<close>)
    then show ?thesis
      using assms(1) t procs_ok_update [of "as_notifier s" "as_procs s" k "SendingRoot ?sm"] assms(2,3)
      by (auto simp: att_ok_def blocks_ok_def)
  qed
qed

lemma att_ok_events: "att_ok dec cd sign i s \<Longrightarrow> att_ok dec cd sign i (s\<lparr>as_events := evs\<rparr>)"
  by (rule att_ok_cong) simp_all

lemma header_timeout_ok:
  assumes "att_ok dec cd sign i s" "k < length (as_procs s)" "hp_pc (as_procs s ! k) = WaitingForBlock"
    "header_timeout cd sign i k s = Inr t"
  shows "att_ok dec cd sign i t"
  by (rule sign_header_ok [OF att_ok_events [OF assms(1)], of k])
    (use assms in \<open>auto simp: header_timeout_def\<close>)

lemma header_block_ok:
  assumes "att_ok dec cd sign i s" "k < length (as_procs s)" "hp_pc (as_procs s ! k) = WaitingForBlock"
    "receive_block (hp_rollupId (as_procs s ! k)) (hp_el (as_procs s ! k)) (as_notifier s) = Some (b, n)"
    "header_block cd sign i k b n s = Inr t"
  shows "att_ok dec cd sign i t"
proof -
  let ?p = "as_procs s ! k"
  have "?p \<in> set (as_procs s)" using assms(2) by simp
  then have sub: "subscribed (as_notifier s) (hp_rollupId ?p) (hp_el ?p) (header_predicate (hp_rollupId ?p) (hp_header ?p))"
    using assms(1,3) by (simp add: att_ok_def procs_ok_def)
  have nok: "notifier_ok (from_delivery dec (as_deliveries s)) (as_notifier s)"
    using assms(1) by (simp add: att_ok_def blocks_ok_def)
  note rb = receive_block_ok [OF nok sub assms(4)]
  have "procs_ok n (as_procs s)"
    by (rule procs_ok_keep [of "as_notifier s"]) (use assms(1) rb in \<open>auto simp: att_ok_def\<close>)
  then have s1: "att_ok dec cd sign i (s\<lparr>as_notifier := n\<rparr>)"
    using assms(1) rb(2) by (simp add: att_ok_def blocks_ok_def roots_ok_def)
  show ?thesis
    by (rule sign_header_ok [OF s1, of k]) (use assms rb(1) in \<open>auto simp: header_block_def\<close>)
qed

lemma header_sent_ok:
  assumes "att_ok dec cd sign i s" "k < length (as_procs s)" "hp_pc (as_procs s ! k) = SendingRoot m"
    "header_sent k m s = Inr t"
  shows "att_ok dec cd sign i t"
proof -
  have "as_procs s ! k \<in> set (as_procs s)" using assms(2) by simp
  then have "attested dec cd sign i (as_deliveries s) (as_headers s) m"
    using assms(1,3) unfolding att_ok_def roots_ok_def by blast
  then have "att_ok dec cd sign i (s\<lparr>as_signed := as_signed s @ [m]\<rparr>)"
    using assms(1) by (auto simp: att_ok_def blocks_ok_def roots_ok_def)
  then show ?thesis
    by (rule leave_header_ok [of _ _ _ _ _ k]) (use assms(2,4) in \<open>auto simp: header_sent_def\<close>)
qed

lemma processHeader_ok:
  assumes "att_ok dec cd sign i s"
  shows "att_ok dec cd sign i (processHeader r h s)"
proof -
  obtain el n where sub: "Notifier_Subscribe r (header_predicate r h) (as_notifier s) = (el, n)" by fastforce
  have nok: "notifier_ok (from_delivery dec (as_deliveries s)) (as_notifier s)"
    using assms by (simp add: att_ok_def blocks_ok_def)
  note so = Subscribe_ok [OF nok sub]
  have ps: "procs_ok (as_notifier s) (as_procs s)" using assms by (simp add: att_ok_def)
  have "procs_ok n (as_procs s @ [\<lparr>hp_rollupId = r, hp_header = h, hp_el = el, hp_pc = WaitingForBlock\<rparr>])"
    using ps so unfolding procs_ok_def by (auto simp: less_Suc_eq)
  moreover have "attested dec cd sign i (as_deliveries s) (as_headers s @ [(r, h)]) m"
    if "attested dec cd sign i (as_deliveries s) (as_headers s) m" for m
    using that by (rule attested_mono) auto
  then have "roots_ok dec cd sign i (processHeader r h s)"
    using assms sub unfolding att_ok_def roots_ok_def by (auto simp: processHeader_def)
  ultimately show ?thesis
    using assms sub so(1) by (simp add: att_ok_def blocks_ok_def processHeader_def)
qed

lemma notify_block_ok:
  assumes "att_ok dec cd sign i s" "from_delivery dec (as_deliveries s) b" "notify_block b s = Inr t"
  shows "att_ok dec cd sign i t \<and> as_deliveries t = as_deliveries s"
proof (cases "Notifier_Notify (bd_RollupId b) b (as_notifier s)")
  case (Inl e)
  then have "t = s" using assms(3) by (cases e) (simp_all add: notify_block_def)
  then show ?thesis using assms(1) by simp
next
  case (Inr r)
  obtain n evs where r: "r = (n, evs)" by fastforce
  have nok: "notifier_ok (from_delivery dec (as_deliveries s)) (as_notifier s)"
    using assms by (simp add: att_ok_def blocks_ok_def)
  note no = Notify_ok [OF nok Inr [unfolded r] assms(2)]
  have "procs_ok n (as_procs s)"
    by (rule procs_ok_keep [of "as_notifier s"]) (use assms(1) no in \<open>auto simp: att_ok_def\<close>)
  then show ?thesis
    using assms(1,3) Inr r no(1) by (auto simp: notify_block_def att_ok_def blocks_ok_def roots_ok_def)
qed

lemma att_step_ok:
  assumes "att_ok dec cd sign i s" "att_step dec cd sign i s t"
  shows "att_ok dec cd sign i t"
  using assms(2)
proof cases
  case (listener_starts rollupId)
  then show ?thesis
    using assms(1) by (auto simp: att_ok_def blocks_ok_def roots_ok_def)
next
  case (delivery_arrives k rollupId body)
  let ?ds = "as_deliveries s @ [(rollupId, body)]"
  have mono: "from_delivery dec ?ds b" if "from_delivery dec (as_deliveries s) b" for b
    using that by (rule from_delivery_mono) auto
  have amono: "attested dec cd sign i ?ds (as_headers s) m"
    if "attested dec cd sign i (as_deliveries s) (as_headers s) m" for m
    using that by (rule attested_mono) auto
  have new: "from_delivery dec ?ds b" if "b \<in> set (fst (listen_delivery dec rollupId body))" for b
  proof -
    have "delivered_block dec rollupId body b" using that by (simp add: listen_delivery_member)
    moreover from this have "bd_RollupId b = rollupId" by (simp add: delivered_block_def)
    ultimately show ?thesis unfolding from_delivery_def by auto
  qed
  have blocks: "blocks_ok dec s" using assms(1) by (simp add: att_ok_def)
  have "notifier_ok (from_delivery dec (as_deliveries s)) (as_notifier s)"
    using blocks unfolding blocks_ok_def by blast
  then have "notifier_ok (from_delivery dec ?ds) (as_notifier s)"
    by (rule notifier_ok_mono) (rule mono)
  moreover have "from_delivery dec ?ds b"
    if "l \<in> set ((as_listeners s)[k := (rollupId, fst (listen_delivery dec rollupId body))])" "b \<in> set (snd l)" for l b
    using set_update_subset_insert [THEN subsetD, OF that(1)] that(2) blocks mono new
    unfolding blocks_ok_def by auto
  moreover have "from_delivery dec ?ds b" if "b \<in> set (as_rebroadcast s)" for b
    using that blocks mono unfolding blocks_ok_def by blast
  ultimately have "blocks_ok dec t"
    using delivery_arrives(1) by (simp add: blocks_ok_def)
  moreover have "roots_ok dec cd sign i t"
    using assms(1) delivery_arrives(1) amono unfolding att_ok_def roots_ok_def by auto
  ultimately show ?thesis
    using assms(1) delivery_arrives(1) by (simp add: att_ok_def)
next
  case (block_passed k rollupId b bs)
  let ?s1 = "s\<lparr>as_listeners := (as_listeners s)[k := (rollupId, bs)]\<rparr>"
  have mem: "(rollupId, b # bs) \<in> set (as_listeners s)"
    using block_passed(1,2) nth_mem [of k "as_listeners s"] by simp
  have blocks: "blocks_ok dec s" using assms(1) by (simp add: att_ok_def)
  have all: "from_delivery dec (as_deliveries s) b'" if "l \<in> set (as_listeners s)" "b' \<in> set (snd l)" for l b'
    using that blocks unfolding blocks_ok_def by blast
  have b: "from_delivery dec (as_deliveries s) b"
    using all [OF mem] by simp
  have "from_delivery dec (as_deliveries s) b'"
    if "l \<in> set ((as_listeners s)[k := (rollupId, bs)])" "b' \<in> set (snd l)" for l b'
  proof (cases "l = (rollupId, bs)")
    case True
    then show ?thesis using that(2) all [OF mem] by simp
  next
    case False
    then show ?thesis using set_update_subset_insert [THEN subsetD, OF that(1)] all that(2) by blast
  qed
  then have "att_ok dec cd sign i ?s1"
    using assms(1) unfolding att_ok_def by (simp add: blocks_ok_def roots_ok_def)
  moreover obtain t1 where t1: "notify_block b ?s1 = Inr t1" "t = t1\<lparr>as_rebroadcast := as_rebroadcast t1 @ [b]\<rparr>"
    using block_passed(3) by (auto simp: processMQBlock_def bind_err_def split: sum.splits)
  ultimately have "att_ok dec cd sign i t1 \<and> as_deliveries t1 = as_deliveries s"
    using notify_block_ok [of dec cd sign i ?s1 b t1] b by simp
  then show ?thesis
    using t1(2) b by (auto simp: att_ok_def blocks_ok_def roots_ok_def)
next
  case (block_renotified b)
  have "att_ok dec cd sign i (s\<lparr>as_rebroadcast := remove1 b (as_rebroadcast s)\<rparr>)"
    by (rule att_ok_cong [OF assms(1)]) (simp_all add: set_remove1_subset)
  moreover have "from_delivery dec (as_deliveries s) b"
    using assms(1) block_renotified(1) by (simp add: att_ok_def blocks_ok_def)
  ultimately show ?thesis
    using notify_block_ok [of dec cd sign i "s\<lparr>as_rebroadcast := remove1 b (as_rebroadcast s)\<rparr>" b t] block_renotified(2)
    by (simp add: renotify_def)
next
  case (renotify_cancelled b)
  then show ?thesis
    by (intro att_ok_cong [OF assms(1)]) (simp_all add: set_remove1_subset)
next
  case (rollup_loop_ends rollupId lp lp')
  then show ?thesis by (intro att_ok_cong [OF assms(1)]) simp_all
next
  case (header_announced rollupId lp rollupHeader)
  then show ?thesis using processHeader_ok [OF assms(1)] by simp
next
  case (header_times_out k)
  then show ?thesis by (intro header_timeout_ok [OF assms(1)])
next
  case (header_gets_block k b n)
  then show ?thesis by (intro header_block_ok [OF assms(1)])
next
  case (header_cancelled k)
  then show ?thesis by (intro leave_header_ok [OF assms(1)])
next
  case (root_received k m)
  then show ?thesis by (intro header_sent_ok [OF assms(1)])
next
  case context_cancelled
  then show ?thesis by (intro att_ok_cong [OF assms(1)]) simp_all
qed

definition att_start :: "att_state \<Rightarrow> bool" where
  "att_start s \<longleftrightarrow>
     as_notifier s = NewNotifier \<and> as_listeners s = [] \<and> as_rebroadcast s = [] \<and> as_procs s = [] \<and> as_signed s = []"

lemma att_start_ok: "att_start s \<Longrightarrow> att_ok dec cd sign i s"
  by (simp add: att_start_def att_ok_def blocks_ok_def procs_ok_def roots_ok_def notifier_ok_new)

interpretation att: step_system att_start "att_step dec cd sign operatorId" "att_ok dec cd sign operatorId"
  by unfold_locales (rule att_start_ok, assumption, rule att_step_ok)

lemma fold_err_keeps:
  assumes "fold_err f xs s = Inr t" "P s" "\<And>x s t. f x s = Inr t \<Longrightarrow> P s \<Longrightarrow> P t"
  shows "P t"
  using assms(1,2)
proof (induction xs arbitrary: s)
  case Nil
  then show ?case by simp
next
  case (Cons x xs)
  then show ?case using assms(3) by (cases "f x s") auto
qed

lemma new_attestor_notifier:
  assumes "NewAttestor newClient newInstrumentedClient newCollector config operatorId = Inr a"
  shows "at_notifier a = NewNotifier"
  by (rule fold_err_keeps [OF assms [unfolded NewAttestor_def]])
    (auto simp: add_client_def bind_err_def Let_def split: prod.splits sum.splits)

lemma fresh_attestor_starts:
  assumes "Attestor_Start subscribe blockNumber a = Inr s" "at_notifier a = NewNotifier"
  shows "att_start s"
  by (rule fold_err_keeps [OF assms(1) [unfolded Attestor_Start_def]])
    (auto simp: att_start_def assms(2) start_client_def split: sum.splits)

lemmas started_attestor = fresh_attestor_starts [OF _ new_attestor_notifier]

section \<open>Properties\<close>

text \<open>
  C14. The operator signs only what it has seen. Every state root update that the attestor hands to the
  operator, in every interleaving of its goroutines, is for a header that the rollup's node announced, with
  its height, time and state root; it carries the operator's id and signature on its digest; and its data
  availability commitment and transaction id are zero, or they are those of a delivery on the rollup's queue
  that contains a block with the height and the state root of the header.
\<close>

theorem signed_roots_are_attested:
  assumes "NewAttestor newClient newInstrumentedClient newCollector config operatorId = Inr a"
    "Attestor_Start subscribe blockNumber a = Inr s0"
    "(att_step dec cd sign operatorId)\<^sup>*\<^sup>* s0 s" "sm \<in> set (as_signed s)"
  shows "\<exists>h d. (sru_RollupId (ssru_Message sm), h) \<in> set (as_headers s) \<and>
    sru_BlockHeight (ssru_Message sm) = header_number h \<and> sru_Timestamp (ssru_Message sm) = h_Time h \<and>
    sru_StateRoot (ssru_Message sm) = h_Root h \<and>
    StateRootUpdateMessage_Digest cd (ssru_Message sm) = Inr d \<and> ssru_BlsSignature sm = Some (sign d) \<and>
    ssru_OperatorId sm = operatorId \<and>
    (sru_NearDaCommitment (ssru_Message sm) = zero32 \<and> sru_NearDaTransactionId (ssru_Message sm) = zero32 \<or>
     (\<exists>b. from_delivery dec (as_deliveries s) b \<and> bd_RollupId b = sru_RollupId (ssru_Message sm) \<and>
        h_Number (bd_Block b) = h_Number h \<and> h_Root (bd_Block b) = h_Root h \<and>
        bd_Commitment b = sru_NearDaCommitment (ssru_Message sm) \<and>
        bd_TransactionId b = sru_NearDaTransactionId (ssru_Message sm)))"
proof -
  have "att_ok dec cd sign operatorId s"
    using started_attestor [OF assms(2,1)] assms(3) by (rule att.reachable_good)
  then have "attested dec cd sign operatorId (as_deliveries s) (as_headers s) sm"
    using assms(4) unfolding att_ok_def roots_ok_def by blast
  then show ?thesis
    unfolding attested_def Let_def .
qed


section \<open>Witnesses\<close>

definition sample_node_config :: NodeConfig where
  "sample_node_config =
     \<lparr>nc_Production = False, nc_OperatorAddress = ''0x1'', nc_OperatorStateRetrieverAddress = ''0x2'',
      nc_AVSRegistryCoordinatorAddress = ''0x3'', nc_TokenStrategyAddr = ''0x4'', nc_EthRpcUrl = ''http'',
      nc_EthWsUrl = ''ws'', nc_BlsPrivateKeyStorePath = ''bls'', nc_EcdsaPrivateKeyStorePath = ''ecdsa'',
      nc_AggregatorServerIpPortAddress = ''localhost:8090'', nc_RegisterOperatorOnStartup = False,
      nc_EigenMetricsIpPortAddress = ''localhost:9090'', nc_EnableMetrics = True,
      nc_NodeApiIpPortAddress = ''localhost:9010'', nc_EnableNodeApi = True,
      nc_NearDaIndexerRmqIpPortAddress = ''amqp'', nc_NearDaIndexerRollupIds = [2],
      nc_RollupIdsToRpcUrls = [(2, ''ws://rollup'')], nc_TaskResponseWaitMs = 1000\<rparr>"

definition sample_header :: BlockHeader where
  "sample_header = \<lparr>h_Number = 17, h_Root = be_bytes 32 5, h_Time = 1000\<rparr>"

definition sample_decoders :: mq_decoders where
  "sample_decoders =
     \<lparr>decodePayload = \<lambda>body. Inr \<lparr>pp_TransactionId = be_bytes 32 8, pp_Data = body\<rparr>,
      decodeSubmit = \<lambda>d. Inr \<lparr>sr_Blobs = [\<lparr>bb_Namespace = \<lparr>ns_Version = 0, ns_Id = 1\<rparr>, bb_ShareVersion = 0,
        bb_Commitment = be_bytes 32 9, bb_Data = d\<rparr>]\<rparr>,
      decodeBlocks = \<lambda>d. Inr [sample_header]\<rparr>"

definition sample_attestor :: "(nat, string) Attestor" where
  "sample_attestor = projr (NewAttestor (\<lambda>url. Inr 1) (\<lambda>col url. Inr 2) (\<lambda>i. i) sample_node_config (be_bytes 32 1))"

definition sample_att_start :: att_state where
  "sample_att_start = projr (Attestor_Start (\<lambda>r. Inr 0) (\<lambda>r. Inr 16) sample_attestor)"

lemma sample_attestor_new:
  "NewAttestor (\<lambda>url. Inr 1) (\<lambda>col url. Inr 2) (\<lambda>i. i) sample_node_config (be_bytes 32 1) = Inr sample_attestor"
  by (simp add: sample_attestor_def NewAttestor_def sample_node_config_def add_client_def NewSafeEthClient_def
      WithInstrumentedCreateClient_def createInstrumentedClient_def Let_def)

lemma sample_attestor_fields: "gkeys (at_clients sample_attestor) = [2]" "at_notifier sample_attestor = NewNotifier"
  by (simp_all add: sample_attestor_def NewAttestor_def sample_node_config_def add_client_def NewSafeEthClient_def
      WithInstrumentedCreateClient_def createInstrumentedClient_def Let_def)

lemma sample_att_started: "Attestor_Start (\<lambda>r. Inr 0) (\<lambda>r. Inr 16) sample_attestor = Inr sample_att_start"
  by (simp add: sample_att_start_def Attestor_Start_def sample_attestor_fields start_client_def)

lemma sample_att_fields:
  "as_notifier sample_att_start = NewNotifier" "as_listeners sample_att_start = []" "as_rebroadcast sample_att_start = []"
  "as_procs sample_att_start = []" "as_signed sample_att_start = []" "as_deliveries sample_att_start = []"
  "gget (as_loops sample_att_start) 2 = Some \<lparr>lp_sub = NewSafeSubscription 0, lp_headersClosed = False, lp_running = True\<rparr>"
  by (simp_all add: sample_att_start_def Attestor_Start_def sample_attestor_fields start_client_def)

abbreviation sample_sign :: "MessageDigest \<Rightarrow> G1Point" where
  "sample_sign d \<equiv> \<lparr>g1_X = int (be_nat d), g1_Y = 1\<rparr>"

abbreviation sample_att_step :: "att_state \<Rightarrow> att_state \<Rightarrow> bool" where
  "sample_att_step \<equiv> att_step sample_decoders toy_codec sample_sign (be_bytes 32 1)"

lemma toy_root_digest: "StateRootUpdateMessage_Digest toy_codec m = Inr zero32"
  by (simp add: toy_codec_def StateRootUpdateMessage_Digest_def StateRootUpdateMessage_AbiEncode_def
      HashMessageWithPrefix_def Keccak256_def zero32_def)

text \<open>A header is announced and waits.\<close>

lemma sample_att_waiting: "sample_att_step sample_att_start (processHeader 2 sample_header sample_att_start)"
  by (rule header_announced [OF sample_att_fields(7)]) simp


text \<open>A block of the queue with the same height and state root arrives before the timer.\<close>

lemma sample_att_run:
  "\<exists>u. sample_att_step\<^sup>*\<^sup>* (processHeader 2 sample_header sample_att_start) u \<and>
     (\<exists>sm. as_signed u = [sm] \<and> sru_NearDaCommitment (ssru_Message sm) = be_bytes 32 9)"
proof -
  let ?b = "\<lparr>bd_RollupId = 2, bd_Commitment = be_bytes 32 9, bd_TransactionId = be_bytes 32 8, bd_Block = sample_header\<rparr>"
  let ?s1 = "processHeader 2 sample_header sample_att_start"
  let ?s2 = "?s1\<lparr>as_listeners := as_listeners ?s1 @ [(2, [])]\<rparr>"
  let ?s3 = "?s2\<lparr>as_listeners := (as_listeners ?s2)[0 := (2, fst (listen_delivery sample_decoders 2 [0]))],
      as_deliveries := as_deliveries ?s2 @ [(2, [0])]\<rparr>"
  note defs = processHeader_def Notifier_Subscribe_def sample_att_fields
  have d: "fst (listen_delivery sample_decoders 2 [0]) = [?b]"
    by (simp add: listen_delivery_def sample_decoders_def)
  have l2: "as_listeners ?s2 = [(2, [])]" by (simp add: defs)
  have l3: "as_listeners ?s3 = [(2, [?b])]" by (simp add: defs d)
  have st2: "sample_att_step ?s1 ?s2" by (rule listener_starts)
  have st3: "sample_att_step ?s2 ?s3"
    by (rule delivery_arrives [of 0]) (simp_all only: l2 length_Cons zero_less_Suc nth_Cons_0)
  obtain s4 where s4: "processMQBlock ?b (?s3\<lparr>as_listeners := (as_listeners ?s3)[0 := (2, [])]\<rparr>) = Inr s4"
      "as_procs s4 = [\<lparr>hp_rollupId = 2, hp_header = sample_header, hp_el = 0, hp_pc = WaitingForBlock\<rparr>]"
      "as_signed s4 = []" "map_of (subscribers_of 2 (as_notifier s4)) 0 =
        Some \<lparr>sd_predicate = header_predicate 2 sample_header, sd_notifierC = [?b]\<rparr>"
    by (simp add: processMQBlock_def notify_block_def Notifier_Notify_def defs header_predicate_def
        NewNotifier_def subscribers_of_def)
  have st4: "sample_att_step ?s3 s4"
    by (rule block_passed [of 0 _ 2 ?b "[]"]) (use l3 s4(1) in \<open>simp_all only: length_Cons zero_less_Suc nth_Cons_0\<close>)
  obtain n where n: "receive_block 2 0 (as_notifier s4) = Some (?b, n)"
      "Notifier_Unsubscribe 2 0 n \<noteq> Inl e" for e
    using s4(4) by (auto simp: receive_block_def Notifier_Unsubscribe_def gget_gput)
  define sm where "sm = \<lparr>ssru_Message = header_message (as_procs s4 ! 0) (be_bytes 32 8) (be_bytes 32 9),
      ssru_BlsSignature = Some (sample_sign zero32), ssru_OperatorId = be_bytes 32 1\<rparr>"
  let ?s5 = "s4\<lparr>as_notifier := n, as_procs := (as_procs s4)[0 := (as_procs s4 ! 0)\<lparr>hp_pc := SendingRoot sm\<rparr>]\<rparr>"
  have "header_block toy_codec sample_sign (be_bytes 32 1) 0 ?b n s4 = Inr ?s5"
    by (simp add: header_block_def sign_header_def SignStateRootUpdateMessage_def toy_root_digest sm_def s4(2))
  then have st5: "sample_att_step s4 ?s5"
    by (intro header_gets_block [of 0 s4 ?b n]) (simp_all add: s4(2) n(1))
  obtain n6 where n6: "Notifier_Unsubscribe 2 0 n = Inr n6"
    using n(2) by (cases "Notifier_Unsubscribe 2 0 n") auto
  then obtain u where u: "header_sent 0 sm ?s5 = Inr u" "as_signed u = [sm]"
    by (simp add: header_sent_def leave_header_def s4(2,3))
  have st6: "sample_att_step ?s5 u"
    by (rule root_received [of 0 _ sm]) (use u(1) in \<open>simp_all add: s4(2)\<close>)
  have "sample_att_step\<^sup>*\<^sup>* ?s1 u"
    using st2 st3 st4 st5 st6 by (meson converse_rtranclp_into_rtranclp rtranclp.rtrancl_refl)
  moreover have "sru_NearDaCommitment (ssru_Message sm) = be_bytes 32 9"
    by (simp add: sm_def header_message_def)
  ultimately show ?thesis using u(2) by blast
qed

theorem signed_roots_are_attested_witness:
  "\<exists>u sm b. sample_att_step\<^sup>*\<^sup>* sample_att_start u \<and> sm \<in> set (as_signed u) \<and>
     from_delivery sample_decoders (as_deliveries u) b \<and> bd_Commitment b = sru_NearDaCommitment (ssru_Message sm)"
proof -
  obtain u sm where u: "sample_att_step\<^sup>*\<^sup>* (processHeader 2 sample_header sample_att_start) u"
      "as_signed u = [sm]" "sru_NearDaCommitment (ssru_Message sm) = be_bytes 32 9"
    using sample_att_run by blast
  have run: "sample_att_step\<^sup>*\<^sup>* sample_att_start u"
    using sample_att_waiting u(1) by (rule converse_rtranclp_into_rtranclp)
  have mem: "sm \<in> set (as_signed u)" by (simp add: u(2))
  have "be_bytes 32 9 \<noteq> zero32"
    by code_simp
  then have "\<exists>b. from_delivery sample_decoders (as_deliveries u) b \<and> bd_Commitment b = sru_NearDaCommitment (ssru_Message sm)"
    using signed_roots_are_attested [OF sample_attestor_new sample_att_started run mem] u(3) by metis
  then show ?thesis
    using run mem by blast
qed

end
