(* ===== verification/Operator.thy ===== *)
theory Operator
  imports Attestor RpcClient Chainio Smt
begin

text \<open>
  The operator, \<^verbatim>\<open>operator/operator.go\<close>, and the manager of its registration and of the contract events,
  \<^verbatim>\<open>operator/avs_manager.go\<close>.

  The operator composes the attestor of theory \<open>Attestor\<close>, the RPC client of theory \<open>RpcClient\<close>, the chain reader
  of theory \<open>Chainio\<close> and the checkpoint trees of theory \<open>Smt\<close>. Setting up returns the first error of a sequence
  of calls whose answers are records; \<^verbatim>\<open>Start\<close> and the goroutines it starts are the step relation \<open>op_step\<close>,
  which runs the steps of the components. The key pair, the chain, the contracts and the metrics servers are
  parameters.
\<close>

section \<open>Keys and transactions\<close>

record key_pair =
  kp_SignMessage :: "MessageDigest \<Rightarrow> G1Point"
  kp_G1 :: G1Point
  kp_G2 :: G2Point

datatype operator_tx =
    TxMint bytes int
  | TxDeposit bytes int
  | TxRegisterAsOperator bytes
  | TxRegisterInQuorum bytes32 int bytes string
  | TxDeregister bytes G1Point

type_synonym tx_result = "(string, unit) res \<times> operator_tx list"

section \<open>The manager\<close>

text \<open>\<^verbatim>\<open>NewAvsManager\<close>: the first of the three constructors that fails.\<close>

definition NewAvsManager :: "string option \<Rightarrow> string option \<Rightarrow> string option \<Rightarrow> (string, unit) res" where
  "NewAvsManager avsWriterErr avsReaderErr avsSubscriberErr =
     (case avsWriterErr of Some err \<Rightarrow> Inl (Err err) | None \<Rightarrow>
     (case avsReaderErr of Some err \<Rightarrow> Inl (Err err) | None \<Rightarrow>
     (case avsSubscriberErr of Some err \<Rightarrow> Inl (Err err) | None \<Rightarrow> Inr ())))"

definition AvsManager_IsOperatorRegistered :: "(bytes \<Rightarrow> string + bool) \<Rightarrow> bytes \<Rightarrow> string + bool" where
  "AvsManager_IsOperatorRegistered isRegistered address = isRegistered address"

definition AvsManager_GetOperatorId :: "(bytes \<Rightarrow> string + OperatorId) \<Rightarrow> bytes \<Rightarrow> string + OperatorId" where
  "AvsManager_GetOperatorId getOperatorId address = getOperatorId address"

text \<open>The two subscriptions that \<^verbatim>\<open>Start\<close> opens.\<close>

definition AvsManager_Start ::
  "(bytes \<Rightarrow> string + bool) \<Rightarrow> (string + nat) \<Rightarrow> (string + nat) \<Rightarrow> bytes \<Rightarrow> (string, nat \<times> nat) res" where
  "AvsManager_Start isRegistered watchTasks watchUpdates operatorAddr =
     (case AvsManager_IsOperatorRegistered isRegistered operatorAddr of
        Inl err \<Rightarrow> Inl (Err err)
      | Inr operatorIsRegistered \<Rightarrow>
          (if \<not> operatorIsRegistered
           then Inl (Err ''operator is not registered. Registering operator using the operator-cli before starting operator'')
           else
             (case SubscribeToNewTasks watchTasks of
                Inl err \<Rightarrow> Inl (Err err)
              | Inr newTasksSub \<Rightarrow>
                  (case SubscribeToOperatorSetUpdates watchUpdates of
                     Inl err \<Rightarrow> Inl (Err err)
                   | Inr operatorSetUpdateSub \<Rightarrow> Inr (newTasksSub, operatorSetUpdateSub)))))"

record OperatorSetUpdatedAtBlock =
  osa_Id :: u64
  osa_Timestamp :: u64

text \<open>The map's iteration order and the sort of long slices are the arguments of \<^verbatim>\<open>GetOperatorSetUpdateDelta\<close>.\<close>

record delta_env =
  dl_pdq :: "(nat \<Rightarrow> nat \<Rightarrow> bool) \<Rightarrow> RollupOperatorsOperator list \<Rightarrow> RollupOperatorsOperator list"
  dl_rangeOrder :: "(string, operatorUpdate) gomap \<Rightarrow> (string \<times> operatorUpdate) list"
  dl_registry :: opset_registry

definition handleOperatorSetUpdate ::
  "codec \<Rightarrow> bls_lib \<Rightarrow> delta_env \<Rightarrow> OperatorSetUpdatedAtBlock \<Rightarrow> (string, OperatorSetUpdateMessage) res" where
  "handleOperatorSetUpdate cd bl env data =
     bind_err (GetOperatorSetUpdateDelta cd (dl_pdq env) (dl_rangeOrder env) (dl_registry env) (osa_Id data))
       (\<lambda>operatorSetDelta.
          Inr \<lparr>osu_Id = osa_Id data, osu_Timestamp = osa_Timestamp data,
               osu_Operators = map (operator_from_binding bl) operatorSetDelta\<rparr>)"

record deposit_env =
  de_GetStrategyAndUnderlyingToken :: "string + bytes"
  de_GetErc20Mock :: "string option"
  de_GetNoSendTxOpts :: "string option"
  de_Mint :: "string option"
  de_Send :: "string option"
  de_DepositERC20IntoStrategy :: "string option"

definition AvsManager_DepositIntoStrategy :: "deposit_env \<Rightarrow> bytes \<Rightarrow> bytes \<Rightarrow> int \<Rightarrow> tx_result" where
  "AvsManager_DepositIntoStrategy env operatorAddr strategyAddr amount =
     (case de_GetStrategyAndUnderlyingToken env of Inl err \<Rightarrow> (Inl (Err err), []) | Inr tokenAddr \<Rightarrow>
     (case de_GetErc20Mock env of Some err \<Rightarrow> (Inl (Err err), []) | None \<Rightarrow>
     (case de_GetNoSendTxOpts env of Some err \<Rightarrow> (Inl (Err err), []) | None \<Rightarrow>
     (case de_Mint env of Some err \<Rightarrow> (Inl (Err err), []) | None \<Rightarrow>
     (case de_Send env of Some err \<Rightarrow> (Inl (Err err), []) | None \<Rightarrow>
     (case de_DepositERC20IntoStrategy env of
        Some err \<Rightarrow> (Inl (Err err), [TxMint operatorAddr amount])
      | None \<Rightarrow> (Inr (), [TxMint operatorAddr amount, TxDeposit strategyAddr amount])))))))"

definition AvsManager_RegisterOperatorWithEigenlayer :: "string option \<Rightarrow> bytes \<Rightarrow> tx_result" where
  "AvsManager_RegisterOperatorWithEigenlayer registerErr operatorAddr =
     (case registerErr of
        Some err \<Rightarrow> (Inl (Err err), [])
      | None \<Rightarrow> (Inr (), [TxRegisterAsOperator operatorAddr]))"

text \<open>
  \<^verbatim>\<open>RegisterOperatorWithAvs\<close>: the expiry is computed in \<^verbatim>\<open>int64\<close>, the salt is the Keccak hash over the operator's
  id, the quorum and the time.
\<close>

record avs_registration_env =
  ar_BlockNumber :: "string + u64"
  ar_BlockByNumber :: "int \<Rightarrow> string + u64"
  ar_now :: string
  ar_keccak :: "bytes \<Rightarrow> bytes"
  ar_Register :: "string option"

definition AvsManager_RegisterOperatorWithAvs ::
  "avs_registration_env \<Rightarrow> bls_lib \<Rightarrow> key_pair \<Rightarrow> tx_result" where
  "AvsManager_RegisterOperatorWithAvs env bl blsKeyPair =
     (case ar_BlockNumber env of Inl err \<Rightarrow> (Inl (Err err), []) | Inr curBlockNum \<Rightarrow>
     (case ar_BlockByNumber env (sint curBlockNum) of Inl err \<Rightarrow> (Inl (Err err), []) | Inr curBlockTime \<Rightarrow>
        (let quorumNumbers = [0]; socket = ''Not Needed'';
             opId = OperatorIdFromG1Pubkey bl (kp_G1 blsKeyPair);
             sigExpiry = sint (curBlockTime + 1000000);
             sigSalt = take 32 (ar_keccak env (go_bytes ''sffl'' @ opId @ quorumNumbers @ go_bytes (ar_now env)) @ zero32)
         in case ar_Register env of
              Some err \<Rightarrow> (Inl (Err err), [])
            | None \<Rightarrow> (Inr (), [TxRegisterInQuorum sigSalt sigExpiry quorumNumbers socket]))))"

definition AvsManager_DeregisterOperator :: "string option \<Rightarrow> key_pair \<Rightarrow> tx_result" where
  "AvsManager_DeregisterOperator deregisterErr blsKeyPair =
     (case deregisterErr of
        Some err \<Rightarrow> (Inl (Err err), [])
      | None \<Rightarrow> (Inr (), [TxDeregister [0] (kp_G1 blsKeyPair)]))"

section \<open>The operator\<close>

record ('cl, 'col) Operator =
  o_config :: NodeConfig
  o_ethClient :: "'cl SafeEthClient"
  o_listener :: SelectiveOperatorListener
  o_blsKeypair :: key_pair
  o_operatorId :: OperatorId
  o_operatorAddr :: bytes
  o_taskResponseWait :: duration
  o_aggregatorServerIpPortAddr :: string
  o_aggregatorRpcClient :: AggregatorRpcClient
  o_registryCoordinatorAddr :: bytes
  o_attestor :: "('cl, 'col) Attestor option"

datatype LogLevel = Production | Development

definition createLogger :: "NodeConfig \<Rightarrow> LogLevel" where
  "createLogger config = (if nc_Production config then Production else Development)"

definition Operator_EnableMetrics ::
  "(metric_id \<Rightarrow> 'r \<Rightarrow> string option \<times> 'r) \<Rightarrow> 'r \<Rightarrow> ('cl, 'col) Operator \<Rightarrow>
   string failure option \<times> ('cl, 'col) Operator \<times> 'r" where
  "Operator_EnableMetrics register registry opr =
     (case MakeOperatorMetrics register registry of
        (Inl err, r1) \<Rightarrow> (Some (Err err), opr, r1)
      | (Inr listener, r1) \<Rightarrow>
          (let opr1 = opr\<lparr>o_listener := listener\<rparr>
           in case o_attestor opr1 of
                None \<Rightarrow> (Some (Fault NilDereference), opr1, r1)
              | Some a \<Rightarrow>
                  (case Attestor_EnableMetrics register r1 a of
                     (Some err, a', r2) \<Rightarrow> (Some (Err err), opr1\<lparr>o_attestor := Some a'\<rparr>, r2)
                   | (None, a', r2) \<Rightarrow>
                       (case RpcClient_EnableMetrics register r2 (o_aggregatorRpcClient opr1) of
                          (err, c', r3) \<Rightarrow>
                            (map_option Err err, opr1\<lparr>o_attestor := Some a', o_aggregatorRpcClient := c'\<rparr>, r3)))))"

definition Operator_RegisterOperatorWithAvs :: "avs_registration_env \<Rightarrow> bls_lib \<Rightarrow> ('cl, 'col) Operator \<Rightarrow> tx_result" where
  "Operator_RegisterOperatorWithAvs env bl opr = AvsManager_RegisterOperatorWithAvs env bl (o_blsKeypair opr)"

definition Operator_DepositIntoStrategy :: "deposit_env \<Rightarrow> bytes \<Rightarrow> int \<Rightarrow> ('cl, 'col) Operator \<Rightarrow> tx_result" where
  "Operator_DepositIntoStrategy env strategyAddr amount opr =
     AvsManager_DepositIntoStrategy env (o_operatorAddr opr) strategyAddr amount"

definition Operator_RegisterOperatorWithEigenlayer :: "string option \<Rightarrow> ('cl, 'col) Operator \<Rightarrow> tx_result" where
  "Operator_RegisterOperatorWithEigenlayer registerErr opr =
     AvsManager_RegisterOperatorWithEigenlayer registerErr (o_operatorAddr opr)"

record startup_env =
  su_RegisterAsOperator :: "string option"
  su_deposit :: deposit_env
  su_IsOperatorRegistered :: "bytes \<Rightarrow> string + bool"
  su_avs :: avs_registration_env

text \<open>
  \<^verbatim>\<open>registerOperatorOnStartup\<close>: a failure to register with EigenLayer is only logged, the other failures exit
  the process. The deposit is skipped for the zero address.
\<close>

definition registerOperatorOnStartup :: "startup_env \<Rightarrow> bls_lib \<Rightarrow> bytes \<Rightarrow> ('cl, 'col) Operator \<Rightarrow> tx_result" where
  "registerOperatorOnStartup env bl mockTokenStrategyAddr opr =
     (let tx1 = snd (Operator_RegisterOperatorWithEigenlayer (su_RegisterAsOperator env) opr);
          (deposited, tx2) =
            (if mockTokenStrategyAddr \<noteq> replicate 20 0
             then Operator_DepositIntoStrategy (su_deposit env) mockTokenStrategyAddr 1000 opr
             else (Inr (), []))
      in case deposited of
           Inl _ \<Rightarrow> (Inl (Fault (FatalExit ''Error depositing into strategy'')), tx1 @ tx2)
         | Inr _ \<Rightarrow>
             (case AvsManager_IsOperatorRegistered (su_IsOperatorRegistered env) (o_operatorAddr opr) of
                Inl _ \<Rightarrow> (Inl (Fault (FatalExit ''Error checking if operator is registered'')), tx1 @ tx2)
              | Inr isOperatorRegistered \<Rightarrow>
                  (if isOperatorRegistered then (Inr (), tx1 @ tx2)
                   else
                     (case Operator_RegisterOperatorWithAvs (su_avs env) bl opr of
                        (Inl _, tx3) \<Rightarrow> (Inl (Fault (FatalExit ''Error registering operator with avs'')), tx1 @ tx2 @ tx3)
                      | (Inr _, tx3) \<Rightarrow> (Inr (), tx1 @ tx2 @ tx3)))))"

definition BlsPubkeyG1 :: "('cl, 'col) Operator \<Rightarrow> G1Point" where
  "BlsPubkeyG1 opr = kp_G1 (o_blsKeypair opr)"

text \<open>What creating an operator asks of its surroundings, in the order of the calls.\<close>

record ('cl, 'col, 'r) operator_env =
  oe_NewZapLogger :: "LogLevel \<Rightarrow> string option"
  oe_ReadPrivateKeyFromFile :: "string \<Rightarrow> string + key_pair"
  oe_newClient :: "string \<Rightarrow> string + 'cl"
  oe_newInstrumentedClient :: "'col \<Rightarrow> string \<Rightarrow> string + 'cl"
  oe_newCollector :: "string \<Rightarrow> 'col"
  oe_ChainID :: "string option"
  oe_SignerFromConfig :: "string option"
  oe_NewPrivateKeyWallet :: "string option"
  oe_HexToAddress :: "string \<Rightarrow> bytes"
  oe_BuildAvsReader :: "string option"
  oe_BuildElReader :: "string option"
  oe_BuildElWriter :: "string option"
  oe_avsWriter :: "string option"
  oe_avsReader :: "string option"
  oe_avsSubscriber :: "string option"
  oe_MustRegister :: "string option"
  oe_ReadKey :: "string option"
  oe_startup :: startup_env
  oe_register :: "metric_id \<Rightarrow> 'r \<Rightarrow> string option \<times> 'r"

definition checked :: "string option \<Rightarrow> (string, unit) res" where
  "checked err = (case err of None \<Rightarrow> Inr () | Some e \<Rightarrow> Inl (Err e))"

definition noOperatorListener :: SelectiveOperatorListener where
  "noOperatorListener = \<lparr>OnTasksReceivedCb = None, IncInitializationCountCb = None, ObserveLastInitializedTimeCb = None\<rparr>"

text \<open>The first part: everything that can fail before the operator exists.\<close>

definition build_operator ::
  "('cl, 'col, 'r) operator_env \<Rightarrow> bls_lib \<Rightarrow> NodeConfig \<Rightarrow> (string, ('cl, 'col) Operator) res" where
  "build_operator env bl c =
     (let ident = nc_OperatorAddress c @ ''operator'';
          eth = (\<lambda>url. case CreateEthClientWithCollector (oe_newClient env) (oe_newInstrumentedClient env)
                        (oe_newCollector env) ident url (nc_EnableMetrics c) of
                      Inl err \<Rightarrow> Inl (Err err) | Inr client \<Rightarrow> Inr client);
          addr = oe_HexToAddress env
      in bind_err (checked (oe_NewZapLogger env (createLogger c))) (\<lambda>_.
         bind_err (case oe_ReadPrivateKeyFromFile env (nc_BlsPrivateKeyStorePath c) of
                     Inl err \<Rightarrow> Inl (Err err) | Inr k \<Rightarrow> Inr k) (\<lambda>blsKeyPair.
         bind_err (eth (nc_EthRpcUrl c)) (\<lambda>ethHttpClient.
         bind_err (eth (nc_EthWsUrl c)) (\<lambda>ethWsClient.
         bind_err (checked (oe_ChainID env)) (\<lambda>_.
         bind_err (case oe_SignerFromConfig env of Some err \<Rightarrow> Inl (Fault (PanicCall err)) | None \<Rightarrow> Inr ()) (\<lambda>_.
         bind_err (checked (oe_NewPrivateKeyWallet env)) (\<lambda>_.
         bind_err (checked (oe_BuildAvsReader env)) (\<lambda>_.
         bind_err (checked (oe_BuildElReader env)) (\<lambda>_.
         bind_err (checked (oe_BuildElWriter env)) (\<lambda>_.
         bind_err (NewAvsManager (oe_avsWriter env) (oe_avsReader env) (oe_avsSubscriber env)) (\<lambda>_.
         bind_err (case oe_MustRegister env of Some err \<Rightarrow> Inl (Fault (PanicCall err)) | None \<Rightarrow> Inr ()) (\<lambda>_.
           let opId = OperatorIdFromG1Pubkey bl (kp_G1 blsKeyPair)
           in Inr \<lparr>o_config = c, o_ethClient = ethHttpClient, o_listener = noOperatorListener, o_blsKeypair = blsKeyPair,
                   o_operatorId = opId, o_operatorAddr = addr (nc_OperatorAddress c),
                   o_taskResponseWait = uint (nc_TaskResponseWaitMs c) * 1000000,
                   o_aggregatorServerIpPortAddr = nc_AggregatorServerIpPortAddress c,
                   o_aggregatorRpcClient = NewAggregatorRpcClient (nc_AggregatorServerIpPortAddress c) opId
                     (addr (nc_AVSRegistryCoordinatorAddress c)),
                   o_registryCoordinatorAddr = addr (nc_AVSRegistryCoordinatorAddress c),
                   o_attestor = None\<rparr>)))))))))))))"

definition NewOperatorFromConfig ::
  "('cl, 'col, 'r) operator_env \<Rightarrow> bls_lib \<Rightarrow> NodeConfig \<Rightarrow> 'r \<Rightarrow>
   (string, ('cl, 'col) Operator) res \<times> operator_tx list" where
  "NewOperatorFromConfig env bl c reg =
     (case build_operator env bl c of
        Inl e \<Rightarrow> (Inl e, [])
      | Inr opr \<Rightarrow>
          (case (if nc_RegisterOperatorOnStartup c
                 then (case oe_ReadKey env of
                         Some err \<Rightarrow> (Inl (Err err), [])
                       | None \<Rightarrow>
                           registerOperatorOnStartup (oe_startup env) bl (oe_HexToAddress env (nc_TokenStrategyAddr c)) opr)
                 else (Inr (), [])) of
             (Inl e, txs) \<Rightarrow> (Inl e, txs)
           | (Inr _, txs) \<Rightarrow>
               (case NewAttestor (oe_newClient env) (oe_newInstrumentedClient env) (oe_newCollector env) c (o_operatorId opr) of
                  Inl err \<Rightarrow> (Inl (Err err), txs)
                | Inr attestor \<Rightarrow>
                    (let opr1 = opr\<lparr>o_attestor := Some attestor\<rparr>
                     in if nc_EnableMetrics c
                        then (case Operator_EnableMetrics (oe_register env) reg opr1 of
                                (Some e, opr2, reg') \<Rightarrow> (Inl e, txs)
                              | (None, opr2, reg') \<Rightarrow> (Inr opr2, txs))
                        else (Inr opr1, txs)))))"

definition Operator_Close ::
  "string option \<Rightarrow> string option \<Rightarrow> ('cl, 'col) Operator \<Rightarrow> string failure option \<times> ('cl, 'col) Operator" where
  "Operator_Close channelErr connectionErr opr =
     (case o_attestor opr of
        None \<Rightarrow> (Some (Fault NilDereference), opr)
      | Some a \<Rightarrow>
          (case Attestor_Close channelErr connectionErr a of
             (Some err, a') \<Rightarrow> (Some err, opr\<lparr>o_attestor := Some a'\<rparr>)
           | (None, a') \<Rightarrow>
               (None, opr\<lparr>o_attestor := Some a', o_ethClient := SafeEthClient_Close (o_ethClient opr)\<rparr>)))"

record OperatorStatus =
  ost_EcdsaAddress :: bytes
  ost_PubkeysRegistered :: bool
  ost_G1Pubkey :: G1Point
  ost_G2Pubkey :: G2Point
  ost_RegisteredWithAvs :: bool
  ost_OperatorId :: string

definition PrintOperatorStatus :: "(bytes \<Rightarrow> string + OperatorId) \<Rightarrow> ('cl, 'col) Operator \<Rightarrow> string + OperatorStatus" where
  "PrintOperatorStatus getOperatorId opr =
     (case AvsManager_GetOperatorId getOperatorId (o_operatorAddr opr) of
        Inl err \<Rightarrow> Inl err
      | Inr registeredId \<Rightarrow>
          Inr \<lparr>ost_EcdsaAddress = o_operatorAddr opr, ost_PubkeysRegistered = (registeredId \<noteq> zero32),
               ost_G1Pubkey = kp_G1 (o_blsKeypair opr), ost_G2Pubkey = kp_G2 (o_blsKeypair opr),
               ost_RegisteredWithAvs = (o_operatorId opr \<noteq> zero32), ost_OperatorId = sprint_x (o_operatorId opr)\<rparr>)"

section \<open>Signing\<close>

definition SignTaskResponse ::
  "codec \<Rightarrow> (MessageDigest \<Rightarrow> G1Point) \<Rightarrow> OperatorId \<Rightarrow> CheckpointTaskResponse \<Rightarrow> (string, SignedCheckpointTaskResponse) res"
where
  "SignTaskResponse cd sign opId taskResponse =
     bind_err (CheckpointTaskResponse_Digest cd taskResponse) (\<lambda>taskResponseHash.
       Inr \<lparr>sctr_TaskResponse = taskResponse, sctr_BlsSignature = Some (sign taskResponseHash), sctr_OperatorId = opId\<rparr>)"

definition SignOperatorSetUpdate ::
  "codec \<Rightarrow> (MessageDigest \<Rightarrow> G1Point) \<Rightarrow> OperatorId \<Rightarrow> OperatorSetUpdateMessage \<Rightarrow> (string, SignedOperatorSetUpdateMessage) res"
where
  "SignOperatorSetUpdate cd sign opId message =
     bind_err (OperatorSetUpdateMessage_Digest cd message) (\<lambda>messageHash.
       Inr \<lparr>sosu_Message = message, sosu_BlsSignature = Some (sign messageHash), sosu_OperatorId = opId\<rparr>)"

record CheckpointTaskCreated =
  ctc_TaskIndex :: u32
  ctc_Task :: CheckpointTask

text \<open>
  \<^verbatim>\<open>ProcessCheckpointTask\<close> after its wait: the messages of the task's range are requested from the aggregator,
  and the response is signed and given to a goroutine that sends it. Errors end it.
\<close>

definition ProcessCheckpointTask ::
  "codec \<Rightarrow> ('t, 'p) smt_lib \<Rightarrow> (MessageDigest \<Rightarrow> G1Point) \<Rightarrow> OperatorId \<Rightarrow> (u64 \<Rightarrow> u64 \<Rightarrow> call_error + CheckpointMessages) \<Rightarrow>
   CheckpointTaskCreated \<Rightarrow> AggregatorRpcClient \<Rightarrow>
   (string, SignedCheckpointTaskResponse option) res \<times> AggregatorRpcClient" where
  "ProcessCheckpointTask cd lib sign opId answer event c =
     (case GetAggregatedCheckpointMessages answer (ct_FromTimestamp (ctc_Task event)) (ct_ToTimestamp (ctc_Task event)) c of
        (Inl err, c') \<Rightarrow> (Inr None, c')
      | (Inr checkpointMessages, c') \<Rightarrow>
          (case NewCheckpointTaskResponseFromMessages cd lib (ctc_TaskIndex event) (Some checkpointMessages) of
             Inl (Fault f) \<Rightarrow> (Inl (Fault f), c')
           | Inl (Err err) \<Rightarrow> (Inr None, c')
           | Inr checkpointTaskResponse \<Rightarrow>
               (case SignTaskResponse cd sign opId checkpointTaskResponse of
                  Inl (Fault f) \<Rightarrow> (Inl (Fault f), c')
                | Inl (Err err) \<Rightarrow> (Inr None, c')
                | Inr signedResponse \<Rightarrow> (Inr (Some signedResponse), c'))))"

section \<open>The running operator\<close>

text \<open>
  \<open>sy_sending\<close> are the goroutines that were started to send a message and have not run yet, \<open>sy_tasks\<close> the
  goroutines of \<^verbatim>\<open>ProcessCheckpointTask\<close>, \<open>sy_updates\<close> those of \<^verbatim>\<open>handleOperatorSetUpdate\<close> that wait for the operator
  to receive their message. \<open>sy_answers\<close> and \<open>sy_seen\<close> record the checkpoint messages that the aggregator sent
  for a task, and the events of operator set updates with the registry that was read for them. The loop of
  \<^verbatim>\<open>Start\<close> may end at any time (\<open>operator_closes\<close>, whose effect on the clients is \<open>Operator_Close\<close>); the goroutines that
  are left then go on, but nothing is received any more. An error of the metrics server exits the process.
\<close>

record op_sys =
  sy_att :: att_state
  sy_rpc :: AggregatorRpcClient
  sy_tick :: bool
  sy_sending :: "rpc_message list"
  sy_tasks :: "CheckpointTaskCreated list"
  sy_updates :: "OperatorSetUpdateMessage list"
  sy_running :: bool
  sy_events :: "OperatorEvent list"
  sy_answers :: "(CheckpointTaskCreated \<times> CheckpointMessages) list"
  sy_seen :: "(OperatorSetUpdatedAtBlock \<times> delta_env) list"

text \<open>\<^verbatim>\<open>Start\<close> up to its loop.\<close>

definition Operator_Start ::
  "(bytes \<Rightarrow> string + bool) \<Rightarrow> (string + nat) \<Rightarrow> (string + nat) \<Rightarrow> (u32 \<Rightarrow> string + nat) \<Rightarrow> (u32 \<Rightarrow> string + u64) \<Rightarrow>
   ('cl, 'col) Operator \<Rightarrow> (string, op_sys) res" where
  "Operator_Start isRegistered watchTasks watchUpdates subscribe blockNumber opr =
     bind_err (AvsManager_Start isRegistered watchTasks watchUpdates (o_operatorAddr opr)) (\<lambda>_.
       case o_attestor opr of
         None \<Rightarrow> Inl (Fault NilDereference)
       | Some a \<Rightarrow>
           bind_err (Attestor_Start subscribe blockNumber a) (\<lambda>att.
             Inr \<lparr>sy_att = att, sy_rpc = o_aggregatorRpcClient opr, sy_tick = False, sy_sending = [], sy_tasks = [],
                  sy_updates = [], sy_running = True,
                  sy_events = [IncInitializationCount, ObserveLastInitializedTime], sy_answers = [], sy_seen = []\<rparr>))"

text \<open>A signed state root was received: the messages that the attestor's step handed over.\<close>

definition roots_handed :: "att_state \<Rightarrow> att_state \<Rightarrow> rpc_message list" where
  "roots_handed a a' = map RpcStateRoot (drop (length (as_signed a)) (as_signed a'))"

definition run_task ::
  "codec \<Rightarrow> ('t, 'p) smt_lib \<Rightarrow> (MessageDigest \<Rightarrow> G1Point) \<Rightarrow> OperatorId \<Rightarrow> (u64 \<Rightarrow> u64 \<Rightarrow> call_error + CheckpointMessages) \<Rightarrow>
   CheckpointTaskCreated \<Rightarrow> op_sys \<Rightarrow> (string, op_sys) res" where
  "run_task cd lib sign opId answer event s =
     (case ProcessCheckpointTask cd lib sign opId answer event (sy_rpc s) of
        (Inl e, c') \<Rightarrow> Inl e
      | (Inr response, c') \<Rightarrow>
          Inr (s\<lparr>sy_rpc := c', sy_tasks := remove1 event (sy_tasks s), sy_events := sy_events s @ [OnTasksReceived],
                 sy_answers := sy_answers s @
                   (case answer (ct_FromTimestamp (ctc_Task event)) (ct_ToTimestamp (ctc_Task event)) of
                      Inr cm \<Rightarrow> [(event, cm)] | Inl _ \<Rightarrow> []),
                 sy_sending := sy_sending s @ (case response of None \<Rightarrow> [] | Some m \<Rightarrow> [RpcCheckpoint m])\<rparr>))"

definition receive_update ::
  "codec \<Rightarrow> (MessageDigest \<Rightarrow> G1Point) \<Rightarrow> OperatorId \<Rightarrow> OperatorSetUpdateMessage \<Rightarrow> op_sys \<Rightarrow> (string, op_sys) res" where
  "receive_update cd sign opId message s =
     (case SignOperatorSetUpdate cd sign opId message of
        Inl (Fault f) \<Rightarrow> Inl (Fault f)
      | Inl (Err err) \<Rightarrow> Inr (s\<lparr>sy_updates := remove1 message (sy_updates s)\<rparr>)
      | Inr signedOperatorSetUpdate \<Rightarrow>
          Inr (s\<lparr>sy_updates := remove1 message (sy_updates s),
                 sy_sending := sy_sending s @ [RpcOperatorSet signedOperatorSetUpdate]\<rparr>))"

inductive op_step ::
  "mq_decoders \<Rightarrow> codec \<Rightarrow> ('t, 'p) smt_lib \<Rightarrow> bls_lib \<Rightarrow> (MessageDigest \<Rightarrow> G1Point) \<Rightarrow> OperatorId \<Rightarrow> op_sys \<Rightarrow> op_sys \<Rightarrow> bool"
  for dec cd and lib :: "('t, 'p) smt_lib" and bl sign opId
where
  attestor_runs:
    "att_step dec cd sign opId (sy_att s) a' \<Longrightarrow> sy_running s \<or> as_signed a' = as_signed (sy_att s) \<Longrightarrow>
     op_step dec cd lib bl sign opId s
       (s\<lparr>sy_att := a', sy_sending := sy_sending s @ roots_handed (sy_att s) a'\<rparr>)"
| message_goes_out:
    "m \<in> set (sy_sending s) \<Longrightarrow>
     op_step dec cd lib bl sign opId s
       (s\<lparr>sy_rpc := sendOperatorMessage answer m (sy_rpc s), sy_sending := remove1 m (sy_sending s)\<rparr>)"
| connection_shut_down:
    "0 < pendingShutdowns (sy_rpc s) \<Longrightarrow> op_step dec cd lib bl sign opId s (s\<lparr>sy_rpc := handleRpcShutdown (sy_rpc s)\<rparr>)"
| tick_starts:
    "\<not> sy_tick s \<Longrightarrow> InitializeClientIfNotExist a (sy_rpc s) = Inr (err, c') \<Longrightarrow>
     op_step dec cd lib bl sign opId s (s\<lparr>sy_rpc := c', sy_tick := (err = None)\<rparr>)"
| tick_has_nothing:
    "sy_tick s \<Longrightarrow> unsentMessages (sy_rpc s) = [] \<Longrightarrow> op_step dec cd lib bl sign opId s (s\<lparr>sy_tick := False\<rparr>)"
| tick_resends:
    "sy_tick s \<Longrightarrow> unsentMessages (sy_rpc s) \<noteq> [] \<Longrightarrow> tryResendFromDeque call (sy_rpc s) = Inr c' \<Longrightarrow>
     op_step dec cd lib bl sign opId s (s\<lparr>sy_rpc := c', sy_tick := False\<rparr>)"
| task_created:
    "sy_running s \<Longrightarrow> op_step dec cd lib bl sign opId s (s\<lparr>sy_tasks := sy_tasks s @ [event]\<rparr>)"
| task_processed:
    "event \<in> set (sy_tasks s) \<Longrightarrow> run_task cd lib sign opId answer event s = Inr t \<Longrightarrow> op_step dec cd lib bl sign opId s t"
| update_seen:
    "handleOperatorSetUpdate cd bl env data = Inr message \<Longrightarrow>
     op_step dec cd lib bl sign opId s
       (s\<lparr>sy_updates := sy_updates s @ [message], sy_seen := sy_seen s @ [(data, env)]\<rparr>)"
| update_received:
    "sy_running s \<Longrightarrow> message \<in> set (sy_updates s) \<Longrightarrow> receive_update cd sign opId message s = Inr t \<Longrightarrow>
     op_step dec cd lib bl sign opId s t"
| operator_closes: "op_step dec cd lib bl sign opId s (s\<lparr>sy_running := False\<rparr>)"

section \<open>The operator's messages\<close>

text \<open>A message that the operator has reason to sign, and has signed.\<close>

fun own_message ::
  "mq_decoders \<Rightarrow> codec \<Rightarrow> ('t, 'p) smt_lib \<Rightarrow> bls_lib \<Rightarrow> (MessageDigest \<Rightarrow> G1Point) \<Rightarrow> OperatorId \<Rightarrow> op_sys \<Rightarrow> rpc_message \<Rightarrow> bool"
where
  "own_message dec cd lib bl sign opId s (RpcStateRoot m) =
     attested dec cd sign opId (as_deliveries (sy_att s)) (as_headers (sy_att s)) m"
| "own_message dec cd lib bl sign opId s (RpcCheckpoint m) =
     (\<exists>event cm d. (event, cm) \<in> set (sy_answers s) \<and>
        NewCheckpointTaskResponseFromMessages cd lib (ctc_TaskIndex event) (Some cm) = Inr (sctr_TaskResponse m) \<and>
        CheckpointTaskResponse_Digest cd (sctr_TaskResponse m) = Inr d \<and>
        sctr_BlsSignature m = Some (sign d) \<and> sctr_OperatorId m = opId)"
| "own_message dec cd lib bl sign opId s (RpcOperatorSet m) =
     (\<exists>data env d. (data, env) \<in> set (sy_seen s) \<and> handleOperatorSetUpdate cd bl env data = Inr (sosu_Message m) \<and>
        OperatorSetUpdateMessage_Digest cd (sosu_Message m) = Inr d \<and>
        sosu_BlsSignature m = Some (sign d) \<and> sosu_OperatorId m = opId)"

definition op_ok ::
  "mq_decoders \<Rightarrow> codec \<Rightarrow> ('t, 'p) smt_lib \<Rightarrow> bls_lib \<Rightarrow> (MessageDigest \<Rightarrow> G1Point) \<Rightarrow> OperatorId \<Rightarrow> op_sys \<Rightarrow> bool" where
  "op_ok dec cd lib bl sign opId s \<longleftrightarrow>
     att_ok dec cd sign opId (sy_att s) \<and>
     (\<forall>m \<in> set (sy_sending s). own_message dec cd lib bl sign opId s m) \<and>
     (\<forall>m \<in># held (sy_rpc s). own_message dec cd lib bl sign opId s m) \<and>
     (\<forall>u \<in> set (sy_updates s). \<exists>data env. (data, env) \<in> set (sy_seen s) \<and> handleOperatorSetUpdate cd bl env data = Inr u)"

text \<open>The state roots that the operator holds are those that the attestor handed over.\<close>

fun is_root :: "rpc_message \<Rightarrow> bool" where
  "is_root (RpcStateRoot m) = True"
| "is_root _ = False"

definition roots_kept :: "op_sys \<Rightarrow> bool" where
  "roots_kept s \<longleftrightarrow>
     filter_mset is_root (mset (sy_sending s) + held (sy_rpc s)) = mset (map RpcStateRoot (as_signed (sy_att s)))"

lemma att_step_grows:
  assumes "att_step dec cd sign i s t"
  shows "\<exists>xs. as_signed t = as_signed s @ xs" "set (as_deliveries s) \<subseteq> set (as_deliveries t)"
    "set (as_headers s) \<subseteq> set (as_headers t)"
  using assms
  by (cases; auto simp: processMQBlock_def renotify_def notify_block_def processHeader_def header_timeout_def
      header_block_def header_sent_def sign_header_def leave_header_def bind_err_def Let_def case_prod_beta
      split: sum.splits failure.splits)+

lemma held_shutdown [simp]: "held (handleRpcShutdown c) = held c"
  by (simp add: held_def handleRpcShutdown_def)

lemma held_dial: "InitializeClientIfNotExist a c = Inr (err, c') \<Longrightarrow> held c' = held c"
  using dial_keeps by (simp add: held_def)

lemma held_request: "sendRequest answer c = (r, c') \<Longrightarrow> held c' = held c"
  using request_keeps by (fastforce simp: held_def)

lemma held_resend: "tryResendFromDeque call c = Inr c' \<Longrightarrow> held c' = held c"
  by (erule tryResend_spec) (use resend_spec_conserves in \<open>fastforce simp: held_def\<close>)

lemma own_message_mono:
  assumes "own_message dec cd lib bl sign i s m"
    "set (as_deliveries (sy_att s)) \<subseteq> set (as_deliveries (sy_att t))"
    "set (as_headers (sy_att s)) \<subseteq> set (as_headers (sy_att t))"
    "set (sy_answers s) \<subseteq> set (sy_answers t)" "set (sy_seen s) \<subseteq> set (sy_seen t)"
  shows "own_message dec cd lib bl sign i t m"
proof (cases m)
  case (RpcStateRoot x)
  then show ?thesis using assms(1-3) attested_mono by simp
next
  case (RpcCheckpoint x)
  then show ?thesis using assms(1,4) by auto
next
  case (RpcOperatorSet x)
  then show ?thesis using assms(1,5) by auto
qed

text \<open>A step that adds inputs and messages of the operator's own keeps the invariant.\<close>

lemma op_ok_extend:
  assumes "op_ok dec cd lib bl sign i s" "att_ok dec cd sign i (sy_att t)"
    "set (as_deliveries (sy_att s)) \<subseteq> set (as_deliveries (sy_att t))"
    "set (as_headers (sy_att s)) \<subseteq> set (as_headers (sy_att t))"
    "set (sy_answers s) \<subseteq> set (sy_answers t)" "set (sy_seen s) \<subseteq> set (sy_seen t)"
    "\<And>m. m \<in> set (sy_sending t) \<Longrightarrow> m \<in> set (sy_sending s) \<or> own_message dec cd lib bl sign i t m"
    "\<And>m. m \<in># held (sy_rpc t) \<Longrightarrow> m \<in># held (sy_rpc s) \<or> m \<in> set (sy_sending s)"
    "\<And>u. u \<in> set (sy_updates t) \<Longrightarrow> u \<in> set (sy_updates s) \<or>
       (\<exists>data env. (data, env) \<in> set (sy_seen t) \<and> handleOperatorSetUpdate cd bl env data = Inr u)"
  shows "op_ok dec cd lib bl sign i t"
proof -
  have mono: "own_message dec cd lib bl sign i t m" if "own_message dec cd lib bl sign i s m" for m
    using that assms(3-6) by (rule own_message_mono)
  have s: "\<And>m. m \<in> set (sy_sending s) \<Longrightarrow> own_message dec cd lib bl sign i s m"
      "\<And>m. m \<in># held (sy_rpc s) \<Longrightarrow> own_message dec cd lib bl sign i s m"
      "\<And>u. u \<in> set (sy_updates s) \<Longrightarrow>
         \<exists>data env. (data, env) \<in> set (sy_seen s) \<and> handleOperatorSetUpdate cd bl env data = Inr u"
    using assms(1) unfolding op_ok_def by blast+
  show ?thesis
    unfolding op_ok_def using assms(2,6-9) mono s by blast
qed

lemma roots_handed_own:
  assumes "att_ok dec cd sign i a'" "m \<in> set (roots_handed a a')" "a' = sy_att t"
  shows "own_message dec cd lib bl sign i t m"
proof -
  obtain x where x: "m = RpcStateRoot x" "x \<in> set (as_signed a')"
    using assms(2) by (auto simp: roots_handed_def dest: in_set_dropD)
  then show ?thesis
    using assms(1,3) by (simp add: att_ok_def roots_ok_def)
qed

lemma run_task_own:
  assumes "run_task cd lib sign i answer event s = Inr t"
  shows "sy_att t = sy_att s" "held (sy_rpc t) = held (sy_rpc s)" "sy_updates t = sy_updates s" "sy_seen t = sy_seen s"
    "set (sy_answers s) \<subseteq> set (sy_answers t)"
    "\<exists>ms. sy_sending t = sy_sending s @ ms \<and> (\<forall>m \<in> set ms. \<not> is_root m \<and> own_message dec cd lib bl sign i t m)"
proof -
  obtain r c' where p: "ProcessCheckpointTask cd lib sign i answer event (sy_rpc s) = (Inr r, c')"
    using assms by (auto simp: run_task_def split: prod.splits sum.splits)
  let ?ans = "answer (ct_FromTimestamp (ctc_Task event)) (ct_ToTimestamp (ctc_Task event))"
  let ?new = "case ?ans of Inr cm \<Rightarrow> [(event, cm)] | Inl _ \<Rightarrow> []"
  have t: "t = s\<lparr>sy_rpc := c', sy_tasks := remove1 event (sy_tasks s), sy_events := sy_events s @ [OnTasksReceived],
      sy_answers := sy_answers s @ ?new,
      sy_sending := sy_sending s @ (case r of None \<Rightarrow> [] | Some m \<Rightarrow> [RpcCheckpoint m])\<rparr>"
    using assms p by (simp add: run_task_def)
  obtain q where q: "sendRequest ?ans (sy_rpc s) = (q, c')"
    using p by (auto simp: ProcessCheckpointTask_def GetAggregatedCheckpointMessages_def
        split: prod.splits sum.splits failure.splits)
  show "sy_att t = sy_att s" "sy_updates t = sy_updates s" "sy_seen t = sy_seen s" "set (sy_answers s) \<subseteq> set (sy_answers t)"
    using t by auto
  show "held (sy_rpc t) = held (sy_rpc s)"
    using t held_request [OF q] by simp
  show "\<exists>ms. sy_sending t = sy_sending s @ ms \<and> (\<forall>m \<in> set ms. \<not> is_root m \<and> own_message dec cd lib bl sign i t m)"
  proof (cases r)
    case None
    then show ?thesis using t by simp
  next
    case (Some m)
    then obtain cm resp where m: "q = Inr cm" "NewCheckpointTaskResponseFromMessages cd lib (ctc_TaskIndex event) (Some cm) = Inr resp"
        "SignTaskResponse cd sign i resp = Inr m"
      using p q by (auto simp: ProcessCheckpointTask_def GetAggregatedCheckpointMessages_def
          split: sum.splits failure.splits)
    obtain d where d: "sctr_TaskResponse m = resp" "CheckpointTaskResponse_Digest cd resp = Inr d"
        "sctr_BlsSignature m = Some (sign d)" "sctr_OperatorId m = i"
      using m(3) by (auto simp: SignTaskResponse_def)
    moreover have "(event, cm) \<in> set (sy_answers t)"
      using t q m(1) by (auto simp: sendRequest_def split: if_splits sum.splits)
    ultimately have "own_message dec cd lib bl sign i t (RpcCheckpoint m)"
      using m(2) by auto
    then show ?thesis using t Some by auto
  qed
qed

lemma receive_update_own:
  assumes "receive_update cd sign i u s = Inr t" "(data, env) \<in> set (sy_seen s)" "handleOperatorSetUpdate cd bl env data = Inr u"
  shows "sy_att t = sy_att s" "sy_rpc t = sy_rpc s" "sy_seen t = sy_seen s" "sy_answers t = sy_answers s"
    "set (sy_updates t) \<subseteq> set (sy_updates s)"
    "\<exists>ms. sy_sending t = sy_sending s @ ms \<and> (\<forall>m \<in> set ms. \<not> is_root m \<and> own_message dec cd lib bl sign i t m)"
proof -
  show "sy_att t = sy_att s" "sy_rpc t = sy_rpc s" "sy_seen t = sy_seen s" "sy_answers t = sy_answers s"
      "set (sy_updates t) \<subseteq> set (sy_updates s)"
    using assms(1) set_remove1_subset [of u "sy_updates s"]
    by (auto simp: receive_update_def split: sum.splits failure.splits)
  show "\<exists>ms. sy_sending t = sy_sending s @ ms \<and> (\<forall>m \<in> set ms. \<not> is_root m \<and> own_message dec cd lib bl sign i t m)"
  proof (cases "SignOperatorSetUpdate cd sign i u")
    case (Inl e)
    then show ?thesis using assms(1) by (cases e) (auto simp: receive_update_def)
  next
    case (Inr m)
    then have t: "t = s\<lparr>sy_updates := remove1 u (sy_updates s), sy_sending := sy_sending s @ [RpcOperatorSet m]\<rparr>"
      using assms(1) by (simp add: receive_update_def)
    obtain d where "sosu_Message m = u" "OperatorSetUpdateMessage_Digest cd u = Inr d"
        "sosu_BlsSignature m = Some (sign d)" "sosu_OperatorId m = i"
      using Inr by (auto simp: SignOperatorSetUpdate_def)
    then have "own_message dec cd lib bl sign i t (RpcOperatorSet m)"
      using t assms(2,3) by auto
    then show ?thesis using t by auto
  qed
qed

section \<open>Every step keeps them\<close>

definition op_good ::
  "mq_decoders \<Rightarrow> codec \<Rightarrow> ('t, 'p) smt_lib \<Rightarrow> bls_lib \<Rightarrow> (MessageDigest \<Rightarrow> G1Point) \<Rightarrow> OperatorId \<Rightarrow> op_sys \<Rightarrow> bool" where
  "op_good dec cd lib bl sign opId s \<longleftrightarrow> op_ok dec cd lib bl sign opId s \<and> roots_kept s"

lemma op_good_same:
  assumes "op_good dec cd lib bl sign i s" "sy_att t = sy_att s" "held (sy_rpc t) = held (sy_rpc s)"
    "sy_sending t = sy_sending s" "sy_answers t = sy_answers s" "sy_seen t = sy_seen s" "sy_updates t = sy_updates s"
  shows "op_good dec cd lib bl sign i t"
proof -
  have "op_ok dec cd lib bl sign i t"
    by (rule op_ok_extend [of _ _ _ _ _ _ s]) (use assms in \<open>auto simp: op_good_def op_ok_def\<close>)
  then show ?thesis
    using assms by (simp add: op_good_def roots_kept_def)
qed

lemma op_good_sends:
  assumes "op_good dec cd lib bl sign i s" "sy_att t = sy_att s" "held (sy_rpc t) = held (sy_rpc s)"
    "sy_sending t = sy_sending s @ ms" "\<forall>m \<in> set ms. \<not> is_root m \<and> own_message dec cd lib bl sign i t m"
    "set (sy_answers s) \<subseteq> set (sy_answers t)" "sy_seen t = sy_seen s" "set (sy_updates t) \<subseteq> set (sy_updates s)"
  shows "op_good dec cd lib bl sign i t"
proof -
  have "op_ok dec cd lib bl sign i t"
    by (rule op_ok_extend [of _ _ _ _ _ _ s]) (use assms in \<open>auto simp: op_good_def op_ok_def\<close>)
  moreover have "filter is_root ms = []"
    using assms(5) by (simp add: filter_empty_conv)
  then have none: "filter_mset is_root (mset ms) = {#}"
    by (metis mset_filter mset.simps(1))
  ultimately show ?thesis
    using assms(1-4) by (simp add: op_good_def roots_kept_def none)
qed

lemma attestor_step_good:
  assumes "op_good dec cd lib bl sign i s" "att_step dec cd sign i (sy_att s) a'"
    "t = s\<lparr>sy_att := a', sy_sending := sy_sending s @ roots_handed (sy_att s) a'\<rparr>"
  shows "op_good dec cd lib bl sign i t"
proof -
  have a: "att_ok dec cd sign i a'"
    using assms(1,2) att_step_ok by (auto simp: op_good_def op_ok_def)
  obtain xs where xs: "as_signed a' = as_signed (sy_att s) @ xs"
    using att_step_grows(1) [OF assms(2)] by blast
  have own: "own_message dec cd lib bl sign i t m" if "m \<in> set (roots_handed (sy_att s) a')" for m
    by (rule roots_handed_own [OF a that]) (simp add: assms(3))
  have "op_ok dec cd lib bl sign i t"
    by (rule op_ok_extend [of _ _ _ _ _ _ s])
      (use assms(1) a att_step_grows(2,3) [OF assms(2)] own in \<open>auto simp: op_good_def op_ok_def assms(3)\<close>)
  moreover have "filter is_root (roots_handed (sy_att s) a') = map RpcStateRoot xs"
    by (simp add: roots_handed_def xs filter_map comp_def)
  then have "filter_mset is_root (mset (roots_handed (sy_att s) a')) = mset (map RpcStateRoot xs)"
    by (metis mset_filter)
  ultimately show ?thesis
    using assms(1,3) xs by (simp add: op_good_def roots_kept_def)
qed

lemma message_step_good:
  assumes "op_good dec cd lib bl sign i s" "m \<in> set (sy_sending s)"
    "t = s\<lparr>sy_rpc := sendOperatorMessage answer m (sy_rpc s), sy_sending := remove1 m (sy_sending s)\<rparr>"
  shows "op_good dec cd lib bl sign i t"
proof -
  have "op_ok dec cd lib bl sign i t"
    by (rule op_ok_extend [of _ _ _ _ _ _ s])
      (use assms set_remove1_subset [of m "sy_sending s"] in \<open>auto simp: op_good_def op_ok_def held_send\<close>)
  moreover have "mset (sy_sending t) + held (sy_rpc t) = mset (sy_sending s) + held (sy_rpc s)"
    using assms(2,3) by (simp add: held_send)
  ultimately show ?thesis
    using assms(1,3) unfolding op_good_def roots_kept_def by simp
qed

lemma op_step_good:
  assumes "op_good dec cd lib bl sign i s" "op_step dec cd lib bl sign i s t"
  shows "op_good dec cd lib bl sign i t"
  using assms(2)
proof cases
  case (attestor_runs a')
  then show ?thesis using attestor_step_good [OF assms(1)] by blast
next
  case (message_goes_out m answer)
  then show ?thesis using message_step_good [OF assms(1)] by blast
next
  case connection_shut_down
  then show ?thesis by (intro op_good_same [OF assms(1)]) simp_all
next
  case (tick_starts a err c')
  then show ?thesis by (intro op_good_same [OF assms(1)]) (simp_all add: held_dial)
next
  case tick_has_nothing
  then show ?thesis by (intro op_good_same [OF assms(1)]) simp_all
next
  case (tick_resends call c')
  then show ?thesis by (intro op_good_same [OF assms(1)]) (simp_all add: held_resend)
next
  case (task_created event)
  then show ?thesis by (intro op_good_same [OF assms(1)]) simp_all
next
  case (task_processed event answer)
  note r = run_task_own [OF task_processed(2)]
  from r(6) [where dec = dec and bl = bl] obtain ms where "sy_sending t = sy_sending s @ ms"
      "\<forall>m \<in> set ms. \<not> is_root m \<and> own_message dec cd lib bl sign i t m" by blast
  then show ?thesis
    by (rule op_good_sends [OF assms(1) r(1,2)]) (use r in simp_all)
next
  case (update_seen env data message)
  have "op_ok dec cd lib bl sign i t"
    by (rule op_ok_extend [of _ _ _ _ _ _ s]) (use assms(1) update_seen in \<open>auto simp: op_good_def op_ok_def\<close>)
  then show ?thesis
    using assms(1) update_seen(1) by (simp add: op_good_def roots_kept_def)
next
  case (update_received message)
  then obtain data env where d: "(data, env) \<in> set (sy_seen s)" "handleOperatorSetUpdate cd bl env data = Inr message"
    using assms(1) unfolding op_good_def op_ok_def by blast
  note r = receive_update_own [OF update_received(3) d]
  from r(6) [where dec = dec and lib = lib] obtain ms where "sy_sending t = sy_sending s @ ms"
      "\<forall>m \<in> set ms. \<not> is_root m \<and> own_message dec cd lib bl sign i t m" by blast
  then show ?thesis
    by (intro op_good_sends [OF assms(1) r(1)]) (use r in simp_all)
next
  case operator_closes
  then show ?thesis by (intro op_good_same [OF assms(1)]) simp_all
qed

definition op_start :: "op_sys \<Rightarrow> bool" where
  "op_start s \<longleftrightarrow>
     att_start (sy_att s) \<and> held (sy_rpc s) = {#} \<and> sy_sending s = [] \<and> sy_updates s = []"

lemma op_start_good: "op_start s \<Longrightarrow> op_good dec cd lib bl sign i s"
  using att_start_ok by (auto simp: op_start_def op_good_def op_ok_def roots_kept_def att_start_def)

interpretation ops: step_system op_start "op_step dec cd lib bl sign opId" "op_good dec cd lib bl sign opId"
  by unfold_locales (rule op_start_good, assumption, rule op_step_good)

text \<open>An operator made from a configuration starts with an empty client and a fresh attestor.\<close>

lemma build_operator_client:
  assumes "build_operator env bl c = Inr opr"
  shows "held (o_aggregatorRpcClient opr) = {#}"
  using assms
  by (auto simp: build_operator_def Let_def bind_err_eq_Inr held_def NewAggregatorRpcClient_def)

lemma EnableMetrics_keeps:
  assumes "Operator_EnableMetrics register reg opr = (None, opr', reg')" "o_attestor opr = Some a"
  shows "held (o_aggregatorRpcClient opr') = held (o_aggregatorRpcClient opr)"
    "\<exists>a'. o_attestor opr' = Some a' \<and> at_notifier a' = at_notifier a"
  using assms
  by (auto simp: Operator_EnableMetrics_def Attestor_EnableMetrics_def RpcClient_EnableMetrics_def Let_def held_def
      split: prod.splits sum.splits option.splits)

lemma new_operator_fresh:
  assumes "NewOperatorFromConfig env bl c reg = (Inr opr, txs)"
  shows "held (o_aggregatorRpcClient opr) = {#}" "\<exists>a. o_attestor opr = Some a \<and> at_notifier a = NewNotifier"
proof -
  obtain opr0 where b: "build_operator env bl c = Inr opr0"
    using assms by (auto simp: NewOperatorFromConfig_def split: sum.splits)
  obtain a where a: "NewAttestor (oe_newClient env) (oe_newInstrumentedClient env) (oe_newCollector env) c (o_operatorId opr0) = Inr a"
    using assms b by (auto simp: NewOperatorFromConfig_def Let_def split: sum.splits prod.splits if_splits option.splits)
  have "held (o_aggregatorRpcClient opr) = {#} \<and> (\<exists>a. o_attestor opr = Some a \<and> at_notifier a = NewNotifier)"
  proof (cases "nc_EnableMetrics c")
    case True
    then obtain reg' where "Operator_EnableMetrics (oe_register env) reg (opr0\<lparr>o_attestor := Some a\<rparr>) = (None, opr, reg')"
      using assms b a by (auto simp: NewOperatorFromConfig_def Let_def split: sum.splits prod.splits if_splits option.splits)
    then show ?thesis
      using EnableMetrics_keeps [of "oe_register env" reg "opr0\<lparr>o_attestor := Some a\<rparr>" opr reg' a]
        build_operator_client [OF b] new_attestor_notifier [OF a] by auto
  next
    case False
    then have "opr = opr0\<lparr>o_attestor := Some a\<rparr>"
      using assms b a by (auto simp: NewOperatorFromConfig_def Let_def split: sum.splits prod.splits if_splits option.splits)
    then show ?thesis
      using build_operator_client [OF b] new_attestor_notifier [OF a] by auto
  qed
  then show "held (o_aggregatorRpcClient opr) = {#}" "\<exists>a. o_attestor opr = Some a \<and> at_notifier a = NewNotifier"
    by blast+
qed

lemma started_operator:
  assumes "NewOperatorFromConfig env bl c reg = (Inr opr, txs)"
    "Operator_Start isRegistered watchTasks watchUpdates subscribe blockNumber opr = Inr s"
  shows "op_start s"
proof -
  obtain a where a: "o_attestor opr = Some a" "at_notifier a = NewNotifier"
    using new_operator_fresh(2) [OF assms(1)] by blast
  obtain subs where "AvsManager_Start isRegistered watchTasks watchUpdates (o_operatorAddr opr) = Inr subs"
    using assms(2) unfolding Operator_Start_def bind_err_eq_Inr by blast
  then have "bind_err (Attestor_Start subscribe blockNumber a) (\<lambda>att.
      Inr \<lparr>sy_att = att, sy_rpc = o_aggregatorRpcClient opr, sy_tick = False, sy_sending = [], sy_tasks = [],
        sy_updates = [], sy_running = True, sy_events = [IncInitializationCount, ObserveLastInitializedTime],
        sy_answers = [], sy_seen = []\<rparr>) = Inr s"
    using assms(2) a(1) by (simp add: Operator_Start_def bind_err_def)
  then obtain att where att: "Attestor_Start subscribe blockNumber a = Inr att" and
      s: "s = \<lparr>sy_att = att, sy_rpc = o_aggregatorRpcClient opr, sy_tick = False, sy_sending = [], sy_tasks = [],
        sy_updates = [], sy_running = True, sy_events = [IncInitializationCount, ObserveLastInitializedTime],
        sy_answers = [], sy_seen = []\<rparr>"
    unfolding bind_err_eq_Inr by auto
  show ?thesis
    unfolding op_start_def s
    using new_operator_fresh(1) [OF assms(1)] fresh_attestor_starts [OF att a(2)] by simp
qed

text \<open>
  C13. An operator sends only what it has seen and signed, and every signed state root once. In every
  interleaving of the attestor, the contract events, the sending goroutines and the ticks of the client, a
  message that the operator is about to send, has delivered, keeps for a resend or has dropped is an attested
  state root, the response computed from the messages that the aggregator sent for a task, or the delta of an
  announced operator set update, each signed with the operator's key and id; and the state roots among these
  messages are exactly those that the attestor handed over.
\<close>

theorem operator_sends_its_own:
  assumes "NewOperatorFromConfig env bl c reg = (Inr opr, txs)"
    "Operator_Start isRegistered watchTasks watchUpdates subscribe blockNumber opr = Inr s0"
    "(op_step dec cd lib bl (kp_SignMessage (o_blsKeypair opr)) (o_operatorId opr))\<^sup>*\<^sup>* s0 s"
    "m \<in># mset (sy_sending s) + held (sy_rpc s)"
  shows "own_message dec cd lib bl (kp_SignMessage (o_blsKeypair opr)) (o_operatorId opr) s m \<and>
    filter_mset is_root (mset (sy_sending s) + held (sy_rpc s)) = mset (map RpcStateRoot (as_signed (sy_att s)))"
proof -
  have "op_good dec cd lib bl (kp_SignMessage (o_blsKeypair opr)) (o_operatorId opr) s"
    using started_operator [OF assms(1,2)] assms(3) by (rule ops.reachable_good)
  then show ?thesis
    using assms(4) unfolding op_good_def op_ok_def roots_kept_def by auto
qed

section \<open>Witness\<close>

definition sample_key :: key_pair where
  "sample_key = \<lparr>kp_SignMessage = (\<lambda>d. sample_sign d), kp_G1 = \<lparr>g1_X = 1, g1_Y = 2\<rparr>,
     kp_G2 = \<lparr>g2_X_A0 = 0, g2_X_A1 = 0, g2_Y_A0 = 0, g2_Y_A1 = 0\<rparr>\<rparr>"

definition sample_bls :: bls_lib where
  "sample_bls = toy_bls\<lparr>OperatorIdFromG1Pubkey := \<lambda>_. be_bytes 32 1\<rparr>"

definition sample_deposit :: deposit_env where
  "sample_deposit = \<lparr>de_GetStrategyAndUnderlyingToken = Inr [], de_GetErc20Mock = None, de_GetNoSendTxOpts = None,
     de_Mint = None, de_Send = None, de_DepositERC20IntoStrategy = None\<rparr>"

definition sample_operator_env :: "(nat, string, unit) operator_env" where
  "sample_operator_env =
     \<lparr>oe_NewZapLogger = \<lambda>_. None, oe_ReadPrivateKeyFromFile = \<lambda>_. Inr sample_key, oe_newClient = \<lambda>url. Inr 1,
      oe_newInstrumentedClient = \<lambda>col url. Inr 2, oe_newCollector = \<lambda>i. i, oe_ChainID = None, oe_SignerFromConfig = None,
      oe_NewPrivateKeyWallet = None, oe_HexToAddress = \<lambda>_. replicate 20 0, oe_BuildAvsReader = None, oe_BuildElReader = None,
      oe_BuildElWriter = None, oe_avsWriter = None, oe_avsReader = None, oe_avsSubscriber = None, oe_MustRegister = None,
      oe_ReadKey = None,
      oe_startup = \<lparr>su_RegisterAsOperator = None, su_deposit = sample_deposit, su_IsOperatorRegistered = \<lambda>_. Inr True,
        su_avs = \<lparr>ar_BlockNumber = Inr 1, ar_BlockByNumber = \<lambda>_. Inr 1000, ar_now = ''now'', ar_keccak = \<lambda>_. zero32,
          ar_Register = None\<rparr>\<rparr>,
      oe_register = \<lambda>_ r. (None, r)\<rparr>"

definition quiet_config :: NodeConfig where
  "quiet_config = sample_node_config\<lparr>nc_EnableMetrics := False\<rparr>"

definition sample_operator_node :: "(nat, string) Operator" where
  "sample_operator_node = projr (fst (NewOperatorFromConfig sample_operator_env sample_bls quiet_config ()))"

definition sample_op_start :: op_sys where
  "sample_op_start =
     projr (Operator_Start (\<lambda>_. Inr True) (Inr 1) (Inr 2) (\<lambda>r. Inr 0) (\<lambda>r. Inr 16) sample_operator_node)"

lemmas sample_operator_defs = NewOperatorFromConfig_def build_operator_def sample_operator_env_def quiet_config_def
  sample_node_config_def checked_def CreateEthClientWithCollector_def NewSafeEthClient_def createDefaultClient_def
  NewAvsManager_def NewAttestor_def add_client_def sample_bls_def Let_def

lemma sample_operator_new:
  "NewOperatorFromConfig sample_operator_env sample_bls quiet_config () = (Inr sample_operator_node, [])"
  by (simp add: sample_operator_node_def sample_operator_defs)

lemma sample_operator_fields:
  "kp_SignMessage (o_blsKeypair sample_operator_node) = (\<lambda>d. sample_sign d)"
  "o_operatorId sample_operator_node = be_bytes 32 1"
  "\<exists>a. o_attestor sample_operator_node = Some a \<and> gkeys (at_clients a) = [2] \<and> at_notifier a = NewNotifier"
  by (simp_all add: sample_operator_node_def sample_operator_defs sample_key_def)

lemma sample_op_started:
  "Operator_Start (\<lambda>_. Inr True) (Inr 1) (Inr 2) (\<lambda>r. Inr 0) (\<lambda>r. Inr 16) sample_operator_node = Inr sample_op_start"
  "sy_att sample_op_start = sample_att_start" "sy_running sample_op_start"
proof -
  from sample_operator_fields(3) obtain a where
    "o_attestor sample_operator_node = Some a \<and> gkeys (at_clients a) = [2] \<and> at_notifier a = NewNotifier" ..
  then have a: "o_attestor sample_operator_node = Some a" "gkeys (at_clients a) = [2]" "at_notifier a = NewNotifier"
    by (rule conjunct1, rule conjunct1 [OF conjunct2], rule conjunct2 [OF conjunct2])
  have "Attestor_Start (\<lambda>r. Inr 0) (\<lambda>r. Inr 16) a = Attestor_Start (\<lambda>r. Inr 0) (\<lambda>r. Inr 16) sample_attestor"
    unfolding Attestor_Start_def a(2,3) sample_attestor_fields ..
  then have att: "Attestor_Start (\<lambda>r. Inr 0) (\<lambda>r. Inr 16) a = Inr sample_att_start"
    unfolding sample_att_started .
  have "AvsManager_Start (\<lambda>_. Inr True) (Inr 1) (Inr 2) (o_operatorAddr sample_operator_node) = Inr (1, 2)"
    by (simp add: AvsManager_Start_def AvsManager_IsOperatorRegistered_def SubscribeToNewTasks_def
        SubscribeToOperatorSetUpdates_def)
  then have start: "Operator_Start (\<lambda>_. Inr True) (Inr 1) (Inr 2) (\<lambda>r. Inr 0) (\<lambda>r. Inr 16) sample_operator_node =
      Inr \<lparr>sy_att = sample_att_start, sy_rpc = o_aggregatorRpcClient sample_operator_node, sy_tick = False, sy_sending = [],
        sy_tasks = [], sy_updates = [], sy_running = True, sy_events = [IncInitializationCount, ObserveLastInitializedTime],
        sy_answers = [], sy_seen = []\<rparr>"
    by (simp only: Operator_Start_def a(1) att bind_err_simps option.case)
  then show "Operator_Start (\<lambda>_. Inr True) (Inr 1) (Inr 2) (\<lambda>r. Inr 0) (\<lambda>r. Inr 16) sample_operator_node = Inr sample_op_start"
      "sy_att sample_op_start = sample_att_start" "sy_running sample_op_start"
    unfolding sample_op_start_def start by simp_all
qed

text \<open>The attestor's runs are runs of the operator.\<close>

lemma attestor_run_lifts:
  assumes "(att_step dec cd sign i)\<^sup>*\<^sup>* (sy_att s) b" "sy_running s"
  shows "\<exists>t. (op_step dec cd lib bl sign i)\<^sup>*\<^sup>* s t \<and> sy_att t = b \<and> sy_running t"
  using assms(1)
proof (induction rule: rtranclp_induct)
  case base
  then show ?case using assms(2) by blast
next
  case (step b b')
  then obtain t where t: "(op_step dec cd lib bl sign i)\<^sup>*\<^sup>* s t" "sy_att t = b" "sy_running t" by blast
  let ?u = "t\<lparr>sy_att := b', sy_sending := sy_sending t @ roots_handed (sy_att t) b'\<rparr>"
  have "op_step dec cd lib bl sign i t ?u"
    by (rule attestor_runs) (use step(2) t in simp_all)
  then have "(op_step dec cd lib bl sign i)\<^sup>*\<^sup>* s ?u"
    using t(1) by (rule rtranclp.rtrancl_into_rtrancl [rotated])
  then show ?case using t(3) by (intro exI [of _ ?u]) simp
qed

theorem operator_sends_its_own_witness:
  "\<exists>s m. (op_step sample_decoders toy_codec map_trie sample_bls (\<lambda>d. sample_sign d) (be_bytes 32 1))\<^sup>*\<^sup>* sample_op_start s \<and>
     m \<in># mset (sy_sending s) + held (sy_rpc s) \<and>
     own_message sample_decoders toy_codec map_trie sample_bls (\<lambda>d. sample_sign d) (be_bytes 32 1) s m"
proof -
  let ?step = "op_step sample_decoders toy_codec map_trie sample_bls (\<lambda>d. sample_sign d) (be_bytes 32 1)"
  obtain u sm where u: "sample_att_step\<^sup>*\<^sup>* (processHeader 2 sample_header sample_att_start) u" "as_signed u = [sm]"
    using sample_att_run by blast
  have "sample_att_step\<^sup>*\<^sup>* (sy_att sample_op_start) u"
    unfolding sample_op_started(2) using sample_att_waiting u(1) by (rule converse_rtranclp_into_rtranclp)
  then obtain s where s: "?step\<^sup>*\<^sup>* sample_op_start s" "sy_att s = u"
    using attestor_run_lifts [of sample_decoders toy_codec "\<lambda>d. sample_sign d" "be_bytes 32 1" sample_op_start u]
      sample_op_started(3) by blast
  have good: "op_good sample_decoders toy_codec map_trie sample_bls (\<lambda>d. sample_sign d) (be_bytes 32 1) s"
    by (rule ops.reachable_good [OF started_operator [OF sample_operator_new sample_op_started(1)] s(1)])
  then have "filter_mset is_root (mset (sy_sending s) + held (sy_rpc s)) = {#RpcStateRoot sm#}"
    unfolding op_good_def roots_kept_def s(2) u(2) by simp
  then have "RpcStateRoot sm \<in># filter_mset is_root (mset (sy_sending s) + held (sy_rpc s))"
    by (simp only: union_single_eq_member)
  then have mem: "RpcStateRoot sm \<in># mset (sy_sending s) + held (sy_rpc s)"
    unfolding mem_Collect_eq set_mset_filter by (rule conjunct1)
  show ?thesis
    using operator_sends_its_own [OF sample_operator_new sample_op_started(1), unfolded sample_operator_fields, OF s(1) mem]
      s(1) mem by blast
qed

end
