(* ===== verification/Relayer.thy ===== *)
theory Relayer
  imports Metrics SafeClient
begin

text \<open>
  The relayer, \<^verbatim>\<open>relayer/relayer.go\<close>: it collects the headers of a rollup and submits them in
  batches to the data availability layer.

  Two goroutines share a ticker and an unbuffered channel: \<^verbatim>\<open>listenToBlocks\<close> collects blocks and sends
  the batch at a tick, \<^verbatim>\<open>Start\<close> receives a batch and submits it. Their interleavings are the step
  relation \<open>relay_step\<close>; every step is one case of a \<^verbatim>\<open>select\<close> or the code up to the next blocking
  operation. The ticker's channel holds one tick, which \<^verbatim>\<open>Stop\<close> does not take out. The NEAR client, RLP and
  \<^verbatim>\<open>NewBlockWithHeader\<close> are parameters. \<open>received\<close> and \<open>handled\<close> record what came in and what was given to
  \<^verbatim>\<open>handleBlocks\<close>.
\<close>

section \<open>The relayer\<close>

definition NAMESPACE_ID :: nat where
  "NAMESPACE_ID = 1"

definition SUBMIT_BLOCK_RETRIES :: nat where
  "SUBMIT_BLOCK_RETRIES = 3"

record RelayerConfig =
  rc_Production :: bool
  rc_RpcUrl :: string
  rc_DaAccountId :: string
  rc_KeyPath :: string
  rc_Network :: string
  rc_MetricsIpPortAddr :: string

definition RelayerConfig_CompileCMD :: "RelayerConfig \<Rightarrow> string list" where
  "RelayerConfig_CompileCMD c =
     [''run-args''] @ (if rc_Production c then [''--production''] else []) @
     [''--key-path'', rc_KeyPath c] @ [''--rpc-url'', rc_RpcUrl c] @
     [''--da-account-id'', rc_DaAccountId c] @ [''--network'', rc_Network c] @
     (if rc_MetricsIpPortAddr c \<noteq> '''' then [''--metrics-ip-port-address'', rc_MetricsIpPortAddr c] else [])"

record ('cl, 'near) Relayer =
  re_rpcClient :: "'cl SafeEthClient"
  re_rpcUrl :: string
  re_daAccountId :: string
  re_nearClient :: 'near
  re_listener :: SelectiveRelayerListener

definition no_relayer_callbacks :: SelectiveRelayerListener where
  "no_relayer_callbacks =
     \<lparr>rl_OnBlockReceivedCb = None, rl_OnDaSubmissionFailedCb = None, rl_OnDaSubmittedCb = None,
      rl_OnRetriesRequiredCb = None, rl_OnInvalidNonceCb = None, rl_OnExpiredTxCb = None, rl_OnTimeoutTxCb = None\<rparr>"

definition NewRelayerFromConfig ::
  "(string \<Rightarrow> string + 'cl) \<Rightarrow> (string \<Rightarrow> string \<Rightarrow> string \<Rightarrow> nat \<Rightarrow> string + 'near) \<Rightarrow> RelayerConfig \<Rightarrow>
   string + ('cl, 'near) Relayer" where
  "NewRelayerFromConfig newClient newConfigFile config =
     (case NewSafeEthClient newClient (rc_RpcUrl config) [] of
        Inl err \<Rightarrow> Inl err
      | Inr rpcClient \<Rightarrow>
          (case newConfigFile (rc_KeyPath config) (rc_DaAccountId config) (rc_Network config) NAMESPACE_ID of
             Inl err \<Rightarrow> Inl err
           | Inr nearClient \<Rightarrow>
               Inr \<lparr>re_rpcClient = rpcClient, re_rpcUrl = rc_RpcUrl config, re_daAccountId = rc_DaAccountId config,
                    re_nearClient = nearClient, re_listener = no_relayer_callbacks\<rparr>))"

definition Relayer_EnableMetrics ::
  "(metric_id \<Rightarrow> 'r \<Rightarrow> string option \<times> 'r) \<Rightarrow> 'r \<Rightarrow> ('cl, 'near) Relayer \<Rightarrow>
   string option \<times> ('cl, 'near) Relayer \<times> 'r" where
  "Relayer_EnableMetrics register registry r =
     (case MakeRelayerMetrics register registry of
        (Inl err, registry') \<Rightarrow> (Some err, r, registry')
      | (Inr listener, registry') \<Rightarrow> (None, r\<lparr>re_listener := listener\<rparr>, registry'))"

section \<open>Submitting a batch\<close>

text \<open>
  \<open>forceSubmit i\<close> is what the i-th call of \<^verbatim>\<open>ForceSubmit\<close> in one submission returns, \<open>since\<close> the time since
  its start. \<open>retry_event\<close> is the event of an error after which the loop goes on.
\<close>

definition retry_event :: "string \<Rightarrow> RelayerEvent option" where
  "retry_event err =
     (if strings_Contains err ''InvalidNonce'' then Some OnInvalidNonce
      else if strings_Contains err ''Expired'' then Some OnExpiredTx
      else if strings_Contains err ''Timeout'' then Some OnTimeoutTx
      else None)"

function submit_loop ::
  "(nat \<Rightarrow> string + bytes) \<Rightarrow> (nat \<Rightarrow> duration) \<Rightarrow> nat \<Rightarrow> (string + bytes) \<times> RelayerEvent list" where
  "submit_loop forceSubmit since i =
     (if i < SUBMIT_BLOCK_RETRIES
      then (case forceSubmit i of
              Inr out \<Rightarrow> (Inr out, [OnDaSubmitted (since i), OnRetriesRequired i])
            | Inl err \<Rightarrow>
                (case retry_event err of
                   None \<Rightarrow> (Inl ''unknown error while submitting block to NEAR'', [])
                 | Some ev \<Rightarrow> (case submit_loop forceSubmit since (Suc i) of (r, evs) \<Rightarrow> (r, ev # evs))))
      else (Inl ''failed to submit blocks to NEAR after retries'', []))"
  by pat_completeness auto
termination
  by (relation "measure (\<lambda>(f, g, i). SUBMIT_BLOCK_RETRIES - i)") auto

declare submit_loop.simps [simp del]

definition submitEncodedBlocks ::
  "(nat \<Rightarrow> string + bytes) \<Rightarrow> (nat \<Rightarrow> duration) \<Rightarrow> (string + bytes) \<times> RelayerEvent list" where
  "submitEncodedBlocks forceSubmit since = submit_loop forceSubmit since 0"

text \<open>
  The result of \<^verbatim>\<open>handleBlocks\<close> and its events; the deferred \<^verbatim>\<open>ticker.Reset\<close> is part of the step of
  \<^verbatim>\<open>Start\<close> below.
\<close>

definition handleBlocks ::
  "('b list \<Rightarrow> string + bytes) \<Rightarrow> (bytes \<Rightarrow> nat \<Rightarrow> string + bytes) \<Rightarrow> (nat \<Rightarrow> duration) \<Rightarrow> 'b list \<Rightarrow>
   string option \<times> RelayerEvent list" where
  "handleBlocks encode forceSubmit since blocks =
     (case encode blocks of
        Inl err \<Rightarrow> (Some err, [])
      | Inr encodedBlocks \<Rightarrow>
          (case submitEncodedBlocks (forceSubmit encodedBlocks) since of
             (Inl err, evs) \<Rightarrow> (Some err, evs @ [OnDaSubmissionFailed])
           | (Inr out, evs) \<Rightarrow> (None, evs)))"

section \<open>The two goroutines\<close>

datatype listener_pc = Listening | SendingBatch | BatchSent | ListenerEnded

datatype 'b main_pc = Selecting | Handling "'b list" | MainReturned

record ('cl, 'near, 'b) relay =
  relayer :: "('cl, 'near) Relayer"
  ticker_running :: bool
  ticker_tick :: bool
  ctx_done :: bool
  l_pc :: listener_pc
  l_blocks :: "'b list"
  l_sub :: SafeSubscription
  l_headers_closed :: bool
  m_pc :: "'b main_pc"
  relay_events :: "RelayerEvent list"
  received :: "'b list"
  handled :: "('b list \<times> string option) list"

text \<open>
  \<^verbatim>\<open>Start\<close> up to its loop, with the beginning of the goroutine that it starts. A failed subscription exits
  the process.
\<close>

definition Relayer_Start :: "('cl, 'near) Relayer \<Rightarrow> string + nat \<Rightarrow> (string, ('cl, 'near, 'b) relay) res" where
  "Relayer_Start r subscribed =
     (case subscribed of
        Inl err \<Rightarrow> Inl (Fault (FatalExit ''Error subscribing to new rollup block headers''))
      | Inr sub \<Rightarrow>
          Inr \<lparr>relayer = r, ticker_running = True, ticker_tick = False, ctx_done = False,
               l_pc = Listening, l_blocks = [], l_sub = NewSafeSubscription sub, l_headers_closed = False,
               m_pc = Selecting, relay_events = [], received = [], handled = []\<rparr>)"

definition listen_header :: "('h \<Rightarrow> 'b) \<Rightarrow> 'h \<Rightarrow> ('cl, 'near, 'b) relay \<Rightarrow> ('cl, 'near, 'b) relay" where
  "listen_header newBlockWithHeader header s =
     s\<lparr>relay_events := relay_events s @ [OnBlockReceived],
       l_blocks := l_blocks s @ [newBlockWithHeader header],
       received := received s @ [newBlockWithHeader header]\<rparr>"

definition listen_tick :: "('cl, 'near, 'b) relay \<Rightarrow> ('cl, 'near, 'b) relay" where
  "listen_tick s =
     s\<lparr>ticker_tick := False, l_pc := (if length (l_blocks s) > 0 then SendingBatch else Listening)\<rparr>"

definition batch_received :: "('cl, 'near, 'b) relay \<Rightarrow> ('cl, 'near, 'b) relay" where
  "batch_received s = s\<lparr>l_pc := BatchSent, m_pc := Handling (l_blocks s)\<rparr>"

definition listen_sent :: "('cl, 'near, 'b) relay \<Rightarrow> ('cl, 'near, 'b) relay" where
  "listen_sent s = s\<lparr>l_blocks := [], ticker_running := False, l_pc := Listening\<rparr>"

definition listen_sub_error :: "('cl, 'near, 'b) relay \<Rightarrow> (string, ('cl, 'near, 'b) relay) res" where
  "listen_sub_error s =
     bind_err (Unsubscribe (l_sub s)) (\<lambda>sub.
     bind_err (if l_headers_closed s then Inl (Fault (PanicCall ''close of closed channel'')) else Inr True) (\<lambda>closed.
     bind_err (Unsubscribe sub) (\<lambda>sub'.
       Inr (s\<lparr>l_sub := sub', l_headers_closed := closed, l_pc := ListenerEnded\<rparr>))))"

definition listen_done :: "('cl, 'near, 'b) relay \<Rightarrow> (string, ('cl, 'near, 'b) relay) res" where
  "listen_done s = bind_err (Unsubscribe (l_sub s)) (\<lambda>sub. Inr (s\<lparr>l_sub := sub, l_pc := ListenerEnded\<rparr>))"

definition main_handled ::
  "('b list \<Rightarrow> string + bytes) \<Rightarrow> (bytes \<Rightarrow> nat \<Rightarrow> string + bytes) \<Rightarrow> (nat \<Rightarrow> duration) \<Rightarrow> 'b list \<Rightarrow>
   ('cl, 'near, 'b) relay \<Rightarrow> ('cl, 'near, 'b) relay" where
  "main_handled encode forceSubmit since blocks s =
     (case handleBlocks encode forceSubmit since blocks of
        (err, evs) \<Rightarrow>
          s\<lparr>relay_events := relay_events s @ evs, handled := handled s @ [(blocks, err)],
            ticker_running := True, m_pc := Selecting\<rparr>)"

definition main_done :: "('cl, 'near, 'b) relay \<Rightarrow> ('cl, 'near, 'b) relay" where
  "main_done s =
     s\<lparr>relayer := (relayer s)\<lparr>re_rpcClient := SafeEthClient_Close (re_rpcClient (relayer s))\<rparr>,
       ticker_running := False, m_pc := MainReturned\<rparr>"

text \<open>
  The events: the clock ticks, the context ends, a header or a subscription error arrives, and the cases
  of the two \<^verbatim>\<open>select\<close> statements.
\<close>

inductive relay_step ::
  "('h \<Rightarrow> 'b) \<Rightarrow> ('b list \<Rightarrow> string + bytes) \<Rightarrow> ('cl, 'near, 'b) relay \<Rightarrow> ('cl, 'near, 'b) relay \<Rightarrow> bool"
  for newBlock :: "'h \<Rightarrow> 'b" and encode :: "'b list \<Rightarrow> string + bytes"
where
  clock_ticks: "ticker_running s \<Longrightarrow> relay_step newBlock encode s (s\<lparr>ticker_tick := True\<rparr>)"
| context_ends: "relay_step newBlock encode s (s\<lparr>ctx_done := True\<rparr>)"
| header_arrives: "l_pc s = Listening \<Longrightarrow> relay_step newBlock encode s (listen_header newBlock header s)"
| tick_taken: "l_pc s = Listening \<Longrightarrow> ticker_tick s \<Longrightarrow> relay_step newBlock encode s (listen_tick s)"
| batch_passed: "l_pc s = SendingBatch \<Longrightarrow> m_pc s = Selecting \<Longrightarrow> relay_step newBlock encode s (batch_received s)"
| batch_cleared: "l_pc s = BatchSent \<Longrightarrow> relay_step newBlock encode s (listen_sent s)"
| subscription_fails:
    "l_pc s = Listening \<Longrightarrow> listen_sub_error s = Inr t \<Longrightarrow> relay_step newBlock encode s t"
| listener_done:
    "l_pc s = Listening \<Longrightarrow> ctx_done s \<Longrightarrow> listen_done s = Inr t \<Longrightarrow> relay_step newBlock encode s t"
| batch_handled:
    "m_pc s = Handling blocks \<Longrightarrow>
     relay_step newBlock encode s (main_handled encode forceSubmit since blocks s)"
| relayer_done: "m_pc s = Selecting \<Longrightarrow> ctx_done s \<Longrightarrow> relay_step newBlock encode s (main_done s)"

section \<open>Submissions\<close>

text \<open>\<open>retryable\<close> is an answer after which another attempt is made.\<close>

definition retryable :: "string + bytes \<Rightarrow> bool" where
  "retryable a \<longleftrightarrow> (case a of Inl err \<Rightarrow> retry_event err \<noteq> None | Inr out \<Rightarrow> False)"

lemma submit_loop_success:
  "fst (submit_loop f g i) = Inr out \<longleftrightarrow>
   (\<exists>k. i \<le> k \<and> k < SUBMIT_BLOCK_RETRIES \<and> f k = Inr out \<and> (\<forall>j. i \<le> j \<longrightarrow> j < k \<longrightarrow> retryable (f j)))"
  (is "_ \<longleftrightarrow> ?rhs f i")
proof (induction f g i rule: submit_loop.induct)
  case (1 f g i)
  show ?case
  proof (cases "i < SUBMIT_BLOCK_RETRIES")
    case False
    then show ?thesis by (simp add: submit_loop.simps)
  next
    case lt: True
    show ?thesis
    proof (cases "f i")
      case (Inr out')
      have "\<not> retryable (f i)" using Inr by (simp add: retryable_def)
      then have eq: "k = i" if "i \<le> k" "\<forall>j. i \<le> j \<longrightarrow> j < k \<longrightarrow> retryable (f j)" for k
        using that le_neq_implies_less by blast
      show ?thesis
        using lt Inr by (auto simp: submit_loop.simps [of f g i] dest: eq)
    next
      case (Inl err)
      show ?thesis
      proof (cases "retry_event err")
        case None
        then have "\<not> retryable (f i)" using Inl by (simp add: retryable_def)
        then have "\<not> (\<exists>k. i \<le> k \<and> f k = Inr out \<and> (\<forall>j. i \<le> j \<longrightarrow> j < k \<longrightarrow> retryable (f j)))"
          using Inl by (metis le_neq_implies_less le_refl sum.distinct(1))
        then show ?thesis
          using lt Inl None by (auto simp: submit_loop.simps [of f g i])
      next
        case (Some ev)
        then have r: "retryable (f i)" using Inl by (simp add: retryable_def)
        have "fst (submit_loop f g i) = fst (submit_loop f g (Suc i))"
          using lt Inl Some by (simp add: submit_loop.simps [of f g i] case_prod_beta)
        also have "\<dots> = Inr out \<longleftrightarrow>
            (\<exists>k. Suc i \<le> k \<and> k < SUBMIT_BLOCK_RETRIES \<and> f k = Inr out \<and>
              (\<forall>j. Suc i \<le> j \<longrightarrow> j < k \<longrightarrow> retryable (f j)))"
          by (rule 1 [OF lt Inl Some])
        also have "\<dots> \<longleftrightarrow> ?rhs f i"
        proof (rule iff_exI)
          fix k
          have "f k \<noteq> Inr out" if "k = i" using that Inl by simp
          then show "(Suc i \<le> k \<and> k < SUBMIT_BLOCK_RETRIES \<and> f k = Inr out \<and>
              (\<forall>j. Suc i \<le> j \<longrightarrow> j < k \<longrightarrow> retryable (f j))) \<longleftrightarrow>
            (i \<le> k \<and> k < SUBMIT_BLOCK_RETRIES \<and> f k = Inr out \<and> (\<forall>j. i \<le> j \<longrightarrow> j < k \<longrightarrow> retryable (f j)))"
            using r by (metis Suc_le_eq le_neq_implies_less less_imp_le_nat)
        qed
        finally show ?thesis .
      qed
    qed
  qed
qed

section \<open>Blocks are handled once and in order\<close>

definition being_handled :: "('cl, 'near, 'b) relay \<Rightarrow> 'b list" where
  "being_handled s = (case m_pc s of Handling blocks \<Rightarrow> blocks | _ \<Rightarrow> [])"

definition not_sent :: "('cl, 'near, 'b) relay \<Rightarrow> 'b list" where
  "not_sent s = (if l_pc s = BatchSent then [] else l_blocks s)"

definition relay_ok :: "('cl, 'near, 'b) relay \<Rightarrow> bool" where
  "relay_ok s \<longleftrightarrow>
     received s = concat (map fst (handled s)) @ being_handled s @ not_sent s \<and>
     (l_pc s = SendingBatch \<longrightarrow> l_blocks s \<noteq> []) \<and>
     (\<forall>bs. m_pc s = Handling bs \<longrightarrow> bs \<noteq> []) \<and>
     [] \<notin> set (map fst (handled s)) \<and>
     (l_pc s \<noteq> ListenerEnded \<longrightarrow> \<not> unsubscribed (l_sub s) \<and> \<not> errC_closed (l_sub s) \<and> \<not> l_headers_closed s)"

lemmas relay_defs = listen_header_def listen_tick_def batch_received_def listen_sent_def listen_sub_error_def
  listen_done_def main_handled_def main_done_def

definition relay_start :: "('cl, 'near, 'b) relay \<Rightarrow> bool" where
  "relay_start s \<longleftrightarrow> (\<exists>r sub. Relayer_Start r (Inr sub) = Inr s)"

lemma relay_start_fields:
  assumes "relay_start s"
  shows "l_pc s = Listening" "ticker_running s" "m_pc s = Selecting" "handled s = []" "received s = []" "l_blocks s = []"
  using assms by (auto simp: relay_start_def Relayer_Start_def)

lemma relay_start_ok: "relay_start s \<Longrightarrow> relay_ok s"
  by (auto simp: relay_start_def Relayer_Start_def relay_ok_def being_handled_def not_sent_def NewSafeSubscription_def)

lemma relay_step_ok:
  assumes "relay_ok s" "relay_step newBlock encode s t"
  shows "relay_ok t"
  using assms(2,1)
proof cases
  case (subscription_fails)
  then show ?thesis
    using assms(1)
    by (auto simp: relay_ok_def relay_defs being_handled_def not_sent_def Unsubscribe_def bind_err_def Let_def)
next
  case (listener_done)
  then show ?thesis
    using assms(1)
    by (auto simp: relay_ok_def relay_defs being_handled_def not_sent_def Unsubscribe_def bind_err_def Let_def)
qed (auto simp: relay_ok_def relay_defs being_handled_def not_sent_def case_prod_beta split: if_splits)

interpretation rly: step_system relay_start "relay_step newBlock encode" relay_ok
  by unfold_locales (rule relay_start_ok, assumption, rule relay_step_ok)

text \<open>The goroutine of the listener never panics on its way out.\<close>

lemma listener_ends:
  assumes "relay_ok s" "l_pc s = Listening"
  shows "\<exists>t. listen_sub_error s = Inr t" "\<exists>t. listen_done s = Inr t"
  using assms by (auto simp: relay_ok_def relay_defs Unsubscribe_def bind_err_def Let_def)

text \<open>
  C26. In every interleaving of the two goroutines, with every answer of the data availability layer, the
  received blocks are, in the order in which they arrived and each exactly once, those of the batches that
  were handled, of the batch that is being handled and of the batch that is being collected. No batch is
  empty, and a submission succeeds exactly when one of its first three attempts does, all the earlier ones
  having failed with an error that is retried.
\<close>

theorem blocks_handled_in_order:
  assumes "relay_start s" "(relay_step newBlock encode)\<^sup>*\<^sup>* s t"
  shows "received t = concat (map fst (handled t)) @ being_handled t @ not_sent t \<and>
    [] \<notin> set (map fst (handled t)) \<and>
    (fst (submitEncodedBlocks answers since) = Inr out \<longleftrightarrow>
      (\<exists>k<3. answers k = Inr out \<and> (\<forall>j<k. retryable (answers j))))"
proof -
  have "relay_ok t"
    by (rule rly.reachable_good [OF assms])
  moreover have "fst (submitEncodedBlocks answers since) = Inr out \<longleftrightarrow>
      (\<exists>k<3. answers k = Inr out \<and> (\<forall>j<k. retryable (answers j)))"
    unfolding submitEncodedBlocks_def submit_loop_success by (simp add: SUBMIT_BLOCK_RETRIES_def)
  ultimately show ?thesis
    by (simp add: relay_ok_def)
qed

section \<open>A stalled relayer\<close>

text \<open>
  The ticker is stopped, its channel is empty and nobody is going to reset it: that happens only after a batch.
\<close>

definition stalled_with :: "('b list \<times> string option) list \<Rightarrow> ('cl, 'near, 'b) relay \<Rightarrow> bool" where
  "stalled_with hs s \<longleftrightarrow>
     \<not> ticker_running s \<and> \<not> ticker_tick s \<and> (\<forall>bs. m_pc s \<noteq> Handling bs) \<and>
     (l_pc s = Listening \<or> l_pc s = ListenerEnded) \<and> handled s = hs"

lemma stalled_step:
  assumes "stalled_with hs s" "relay_step newBlock encode s t"
  shows "stalled_with hs t"
  using assms(2,1)
proof cases
  case (subscription_fails)
  then show ?thesis
    using assms(1)
    by (auto simp: stalled_with_def relay_defs bind_err_def split: sum.splits if_splits)
next
  case (listener_done)
  then show ?thesis
    using assms(1)
    by (auto simp: stalled_with_def relay_defs bind_err_def split: sum.splits)
qed (auto simp: stalled_with_def relay_defs)

interpretation stl: step_system "stalled_with hs" "relay_step newBlock encode" "stalled_with hs"
  by unfold_locales (assumption, rule stalled_step)

text \<open>The race: the batch is handled before the listener that sent it stops the ticker.\<close>

lemma reset_before_stop:
  assumes "relay_start s"
  shows "\<exists>t hs. (relay_step newBlock encode)\<^sup>*\<^sup>* s t \<and> stalled_with hs t"
proof -
  let ?R = "relay_step newBlock encode"
  fix header forceSubmit since
  let ?s1 = "listen_header newBlock header s"
  let ?s2 = "?s1\<lparr>ticker_tick := True\<rparr>"
  let ?s3 = "listen_tick ?s2"
  let ?s4 = "batch_received ?s3"
  let ?s5 = "main_handled encode forceSubmit since (l_blocks ?s3) ?s4"
  let ?s6 = "listen_sent ?s5"
  note start = relay_start_fields [OF assms]
  note defs = listen_header_def listen_tick_def batch_received_def main_handled_def case_prod_beta
  have "?R s ?s1" by (rule header_arrives) (rule start)
  moreover have "?R ?s1 ?s2" by (rule clock_ticks) (simp add: start defs)
  moreover have "?R ?s2 ?s3" by (rule tick_taken) (simp_all add: start defs)
  moreover have "?R ?s3 ?s4" by (rule batch_passed) (simp_all add: start defs)
  moreover have "?R ?s4 ?s5" by (rule batch_handled) (simp add: defs)
  moreover have "?R ?s5 ?s6" by (rule batch_cleared) (simp add: defs)
  ultimately have "?R\<^sup>*\<^sup>* s ?s6"
    by (meson converse_rtranclp_into_rtranclp rtranclp.rtrancl_refl)
  moreover have "stalled_with (handled ?s6) ?s6"
    by (simp add: stalled_with_def defs listen_sent_def)
  ultimately show ?thesis by blast
qed


section \<open>Witnesses\<close>

definition sample_relay :: "(unit, unit, nat) relay" where
  "sample_relay =
     (case NewRelayerFromConfig (\<lambda>url. Inr ()) (\<lambda>key account network namespace. Inr ())
             \<lparr>rc_Production = False, rc_RpcUrl = ''ws://rollup'', rc_DaAccountId = ''da'', rc_KeyPath = ''key'',
              rc_Network = ''testnet'', rc_MetricsIpPortAddr = ''''\<rparr> of
        Inr r \<Rightarrow> (case Relayer_Start r (Inr 0) of Inr s \<Rightarrow> s))"

lemma sample_relay_start: "relay_start sample_relay"
  by (auto simp: relay_start_def sample_relay_def NewRelayerFromConfig_def NewSafeEthClient_def
      createDefaultClient_def Relayer_Start_def Let_def)

theorem blocks_handled_in_order_witness:
  "received (listen_header (\<lambda>h :: nat. h) 7 sample_relay) = [7] \<and>
   handled (listen_header (\<lambda>h :: nat. h) 7 sample_relay) = [] \<and>
   not_sent (listen_header (\<lambda>h :: nat. h) 7 sample_relay) = [7] \<and>
   (\<exists>k<3. (if k = (1 :: nat) then Inr [1] else Inl ''Timeout'') = (Inr [1] :: string + bytes))"
proof -
  let ?s = "listen_header (\<lambda>h :: nat. h) 7 sample_relay"
  note s = relay_start_fields [OF sample_relay_start]
  have "relay_step (\<lambda>h :: nat. h) (\<lambda>bs. Inr []) sample_relay ?s"
    by (rule header_arrives) (rule s)
  then have "(relay_step (\<lambda>h :: nat. h) (\<lambda>bs. Inr []))\<^sup>*\<^sup>* sample_relay ?s" ..
  note * = blocks_handled_in_order [OF sample_relay_start this,
      where answers = "\<lambda>k. if k = 1 then Inr [1] else Inl ''Timeout''" and since = "\<lambda>i. 0" and out = "[1]"]
  have "fst (submitEncodedBlocks (\<lambda>k. if k = 1 then Inr [1] else Inl ''Timeout'') (\<lambda>i. 0)) = Inr [1]"
    by (simp add: submitEncodedBlocks_def submit_loop.simps SUBMIT_BLOCK_RETRIES_def retry_event_def)
  then show ?thesis
    using * s by (auto simp: listen_header_def being_handled_def not_sent_def)
qed


end
