(* ===== verification/Spec2Isabelle.thy ===== *)
theory Spec2Isabelle
  imports Prelude Messages Smt BlsAgg BlsAggService BlsAggStore BlsAggStake BlsAggQuorum Metrics RpcClient
    Database Registrations Chainio SafeClient Rollups Aggregator AggregatorSafety Servers
    Consumer Attestor Operator Relayer
begin

text \<open>
  A verification development for the NEAR Super Fast Finality Layer: the aggregator, the operators
  and the relayer of an EigenLayer service that attests rollup state roots.

  \<^bold>\<open>The program.\<close> A relayer (\<^verbatim>\<open>relayer\<close>) submits the headers of a rollup to the NEAR data availability layer. An
  indexer publishes them on a message queue. Every operator (\<^verbatim>\<open>operator\<close>) follows the rollups' nodes and the
  queue, and signs a state root update for every header; it also signs the deltas of operator set updates and
  the responses to checkpoint tasks, and sends all of these to the aggregator. The aggregator
  (\<^verbatim>\<open>aggregator\<close>) checks and aggregates the BLS signatures until a quorum of the stake has signed, stores and
  serves the results, sends operator set updates to the rollups and checkpoint responses to the task manager
  contract. The messages, the readers and writers of the chain, a client that survives lost
  connections and the sparse Merkle tree of the checkpoints are shared (\<^verbatim>\<open>core\<close>).

  \<^bold>\<open>The theories\<close>, in the order of their dependencies.

  \<^item> \<open>Prelude\<close>: Go's integers, byte strings, maps, errors and faults, and the locale \<open>step_system\<close>, which carries
    the induction over the runs of every state machine below.
  \<^item> \<open>Messages\<close>: \<^verbatim>\<open>core/utils.go\<close> and \<^verbatim>\<open>core/types\<close>, the three kinds of messages with keys, ABI encodings, digests and
    validity, and the aggregations. Digests of different messages give a hash collision.
  \<^item> \<open>Smt\<close>: \<^verbatim>\<open>core/smt\<close> and the checkpoint response, which does not depend on the order of its messages; the bit mask
    of a compact proof has the contract's order.
  \<^item> \<open>BlsAgg\<close>: \<^verbatim>\<open>aggregator/blsagg\<close>, one function per step of a message's goroutine, over an explicit store of the
    big integers that the code updates in place. \<open>BlsAggService\<close> has the interleavings of the service: one
    goroutine per key, exactly one final response, timers that end a goroutine. \<open>BlsAggStore\<close>, \<open>BlsAggStake\<close> and
    \<open>BlsAggQuorum\<close> show that the counts refine the sums of registered stakes, that a threshold is backed by
    stake, that two digests of one message cannot both reach it, and what a repeated signature does.
  \<^item> \<open>Metrics\<close>: the event listeners and collectors of all the programs and the relayer's metrics server.
  \<^item> \<open>Database\<close>, \<open>Registrations\<close>, \<open>Chainio\<close>, \<open>SafeClient\<close>, \<open>Rollups\<close>: \<^verbatim>\<open>aggregator/database\<close>,
    \<^verbatim>\<open>aggregator/operator_registrations_inmemory.go\<close>, \<^verbatim>\<open>core/chainio\<close>, \<^verbatim>\<open>core/safeclient\<close> and the rollup writer and
    broadcaster. They show what a query returns after a store, that a registered operator stays found, that
    the delta of an update is the difference of the operator sets, that a resubscription delivers the missed
    logs, and that an update is sent at most once.
  \<^item> \<open>Aggregator\<close>: \<^verbatim>\<open>aggregator/aggregator.go\<close>, whose handlers call the components above, with the step relation
    \<open>agg_step\<close>. \<open>AggregatorSafety\<close>: only registered operators are heard, every service of the aggregator is in a
    state that it reaches alone, a checkpoint's range is closed when its task is created, and what reached the
    quorum is served.
  \<^item> \<open>Servers\<close>: the RPC and REST servers in front of the aggregator, with \<^verbatim>\<open>strconv.ParseUint\<close> on 64-bit words: nil
    pointers stop at the server, and a REST request is answered for exactly the numbers it names.
  \<^item> \<open>RpcClient\<close>: \<^verbatim>\<open>operator/rpc_client.go\<close>, the in-place compaction of the resend queue against a functional
    specification; no message is lost in any interleaving.
  \<^item> \<open>Consumer\<close>, \<open>Attestor\<close>, \<open>Operator\<close>: \<^verbatim>\<open>operator/consumer\<close>, \<^verbatim>\<open>operator/attestor\<close>, \<^verbatim>\<open>operator/operator.go\<close> and
    \<^verbatim>\<open>operator/avs_manager.go\<close>. A ready consumer listens to every queue, the attestor signs only headers it has
    seen and with the commitment of a matching block, and the operator composes the attestor's steps, the
    client's steps and the contract events: every message it sends is its own.
  \<^item> \<open>Relayer\<close>: \<^verbatim>\<open>relayer/relayer.go\<close>. Blocks are handled once and in order, and a race between its two goroutines can
    stop it for good.

  \<^bold>\<open>How the code is translated.\<close> A struct is a record, with the environment's part of the state next to it (the
  goroutines that run, the messages in flight, what was sent), an enumeration or interface with known
  implementations a datatype, a method a function that returns its result with the new state. An error is
  \<open>Inl (Err e)\<close>, a panic, a nil dereference, \<^verbatim>\<open>logger.Fatal\<close> or an operation that blocks forever \<open>Inl (Fault f)\<close>.
  Fixed-width integers are words wherever they can wrap around. Concurrency is a step relation: a step is the
  code between two blocking operations, and mutexes make their critical sections one step. Third-party code
  (eigensdk, go-ethereum, GORM, the trie, the curve, RabbitMQ, the NEAR client, Prometheus) is an argument or a
  record of answers; what is needed of it is a named predicate such as \<open>pack_law\<close> or \<open>gorm_laws\<close>, and every
  property that assumes one has a witness with a concrete instance. Logging is left out.

  \<^bold>\<open>Loops and bounds.\<close> Loops over data are structural recursions. Retries are functions with a measure or bounded by
  the source's constants (5 for the rollup writer, 10 for the RPC client, 3 for the relayer). The loop over missed
  blocks, which can run forever, is a \<^verbatim>\<open>partial_function (option)\<close>, and that it returns for a positive chunk size
  is proved. Loops that wait for events read a list of events or are step relations; no fuel is used.

  \<^bold>\<open>Not modelled.\<close> The configuration files, flags and \<^verbatim>\<open>main\<close> functions, the CLI and the plugin (input and output
  around the modelled operations); \<^verbatim>\<open>core/chainio/bindings.go\<close>, \<^verbatim>\<open>el_reader.go\<close>, \<^verbatim>\<open>el_writer.go\<close> and the Build
  functions, which only call constructors of generated code; the generated contract bindings and mocks; the
  Solidity contracts, which rest on EigenLayer's contracts in a submodule; the Rust indexer, a separate program
  of which the Go code sees the queue's deliveries only; the node API and the metrics servers of the operator and
  the aggregator, which are library code.
\<close>

end
